(* ===== verification/Prelude.thy ===== *)
theory Prelude
  imports Main "HOL-Library.Monad_Syntax"
begin

text \<open>
  Shared vocabulary of the development: the named collections the component theories feed,
  the three-valued optional (\<open>T | null | undefined\<close>) of TypeScript, the marker for an in-place
  update that may leave the object untouched, and lemmas on lists, options, maps and sums
  that several components use.
\<close>

named_theorems model_defs
  "definitions a component proof unfolds as a group"
named_theorems wire_simps
  "selector equations of the wire adapters and encoders"

section \<open>TypeScript optionals\<close>

text \<open>
  A field declared \<open>x?: T | null\<close> has three kinds of values. Where the code distinguishes
  them the model does too; a field that is only nullable, or only optional, is an
  \<^typ>\<open>'a option\<close>.
\<close>

datatype 'a js_opt = Undefined | Null | Given 'a

fun nullish :: "'a js_opt \<Rightarrow> 'a option" where
  "nullish Undefined = None"
| "nullish Null = None"
| "nullish (Given x) = Some x"

text \<open>\<open>x ?? null\<close>\<close>

fun or_null :: "'a js_opt \<Rightarrow> 'a js_opt" where
  "or_null Undefined = Null"
| "or_null Null = Null"
| "or_null (Given x) = Given x"

lemma nullish_or_null [simp]: "nullish (or_null x) = nullish x"
  by (cases x) auto

section \<open>Updates that preserve object identity\<close>

text \<open>
  The live-patch transforms return the \<^emph>\<open>same\<close> object when nothing changes and a fresh one
  otherwise, and their callers compare references. HOL values have no identity, so such a
  function returns \<open>Same\<close> or \<open>Fresh x\<close>.
\<close>

datatype 'a patched = Same | Fresh 'a

fun patched_value :: "'a \<Rightarrow> 'a patched \<Rightarrow> 'a" where
  "patched_value x Same = x"
| "patched_value x (Fresh y) = y"

fun is_fresh :: "'a patched \<Rightarrow> bool" where
  "is_fresh Same = False"
| "is_fresh (Fresh y) = True"

lemma patched_value_if [simp]:
  "patched_value x (if b then p else q) = (if b then patched_value x p else patched_value x q)"
  by simp

section \<open>Results\<close>

text \<open>Errors are the left summand; \<open>ok\<close> recognises a successful result.\<close>

fun is_ok :: "'e + 'a \<Rightarrow> bool" where
  "is_ok (Inl e) = False"
| "is_ok (Inr x) = True"

lemma is_ok_iff: "is_ok r \<longleftrightarrow> (\<exists>x. r = Inr x)"
  by (cases r) auto

lemma not_is_ok_iff: "\<not> is_ok r \<longleftrightarrow> (\<exists>e. r = Inl e)"
  by (cases r) auto

section \<open>Lists\<close>

text \<open>\<open>Array.prototype.find\<close> is \<^const>\<open>find\<close> of the library; \<open>xs.findIndex\<close> likewise.\<close>

lemma find_eq_None_iff: "find P xs = None \<longleftrightarrow> (\<forall>x\<in>set xs. \<not> P x)"
  by (induction xs) auto

lemma find_SomeD: "find P xs = Some x \<Longrightarrow> x \<in> set xs \<and> P x"
  by (induction xs) (auto split: if_splits)

lemma map_idI: "(\<And>x. x \<in> set xs \<Longrightarrow> f x = x) \<Longrightarrow> map f xs = xs"
  by (induction xs) auto

lemma map_of_mapped_key:
  "inj_on f (insert k (fst ` set ps)) \<Longrightarrow> map_of (map (\<lambda>(a, b). (f a, b)) ps) (f k) = map_of ps k"
  by (induction ps) (auto simp: inj_on_def split: if_splits)

text \<open>Sequencing a list of partial results: the first failure fails the whole list.\<close>

fun option_list :: "'a option list \<Rightarrow> 'a list option" where
  "option_list [] = Some []"
| "option_list (None # xs) = None"
| "option_list (Some x # xs) = map_option ((#) x) (option_list xs)"

lemma option_list_map_Some [simp]: "option_list (map (\<lambda>x. Some (f x)) xs) = Some (map f xs)"
  by (induction xs) auto

lemma option_list_eq_Some_iff:
  "option_list xs = Some ys \<longleftrightarrow> xs = map Some ys"
proof (induction xs arbitrary: ys)
  case Nil
  then show ?case by auto
next
  case (Cons x xs)
  then show ?case by (cases x; cases ys) auto
qed

lemma option_list_total:
  "(\<And>x. x \<in> set xs \<Longrightarrow> \<exists>y. f x = Some y) \<Longrightarrow> \<exists>ys. option_list (map f xs) = Some ys"
proof (induction xs)
  case Nil
  then show ?case by simp
next
  case (Cons x xs)
  then obtain y ys where "f x = Some y" "option_list (map f xs) = Some ys"
    by (metis list.set_intros(1) list.set_intros(2))
  then show ?case by simp
qed

end
