(* ===== verification/Js_Number.thy ===== *)
theory Js_Number
  imports Prelude "HOL-Library.Log_Nat"
begin

text \<open>
  The numbers of the program: IEEE-754 binary64 values with rounding to nearest, ties to
  even. A finite double is carried as the rational it denotes; the two zeros are one value
  (no operation modelled here can tell them apart, since nothing divides by a zero or uses
  \<open>Object.is\<close>). Every arithmetic operation computes the exact rational result and rounds
  it with \<open>fl\<close>, as the standard demands, so rounding errors are part of the model; the
  comparison operators and \<open>Math.min\<close>/\<open>Math.max\<close> treat NaN as JavaScript does.
\<close>

datatype js_num = Fin rat | PosInf | NegInf | NaN

section \<open>Rounding a rational to binary64\<close>

definition round_half_even :: "rat \<Rightarrow> int" where
  "round_half_even q =
     (let f = \<lfloor>q\<rfloor>; r = q - of_int f in
      if r < 1/2 then f else if 1/2 < r then f + 1 else if even f then f else f + 1)"

text \<open>The exponent of the leading bit of a positive rational.\<close>

definition ilog2 :: "rat \<Rightarrow> int" where
  "ilog2 q =
     (let (n, d) = quotient_of q; k = bitlen n - bitlen d in
      if 2 powi k \<le> q then k else k - 1)"

text \<open>The weight of the last significand bit: 53 bits, or the subnormal exponent.\<close>

definition ulp_exp :: "rat \<Rightarrow> int" where
  "ulp_exp q = max (ilog2 \<bar>q\<bar> - 52) (- 1074)"

definition round53 :: "rat \<Rightarrow> rat" where
  "round53 q =
     (if q = 0 then 0
      else of_int (round_half_even (q / 2 powi (ulp_exp q))) * 2 powi (ulp_exp q))"

definition fl :: "rat \<Rightarrow> js_num" where
  "fl q =
     (let r = round53 q in
      if 2 ^ 1024 \<le> r then PosInf else if r \<le> - (2 ^ 1024) then NegInf else Fin r)"

text \<open>A rational that is itself a finite double.\<close>

definition is_double :: "rat \<Rightarrow> bool" where
  "is_double q \<longleftrightarrow> fl q = Fin q"

section \<open>Rounding is monotone and exact on doubles\<close>

lemma round_half_even_int [simp]: "round_half_even (of_int n) = n"
  by (simp add: round_half_even_def)

lemma round_half_even_near: "\<bar>of_int (round_half_even q) - q\<bar> \<le> 1/2"
  unfolding round_half_even_def Let_def
  by (auto simp: abs_if) linarith+

lemma round_half_even_mono:
  assumes "p \<le> q" shows "round_half_even p \<le> round_half_even q"
proof (cases "\<lfloor>p\<rfloor> = \<lfloor>q\<rfloor>")
  case True
  with assms show ?thesis by (auto simp: round_half_even_def Let_def)
next
  case False
  with assms have "\<lfloor>p\<rfloor> + 1 \<le> \<lfloor>q\<rfloor>" using floor_mono [OF assms] by linarith
  moreover have "round_half_even p \<le> \<lfloor>p\<rfloor> + 1" "\<lfloor>q\<rfloor> \<le> round_half_even q"
    by (auto simp: round_half_even_def Let_def)
  ultimately show ?thesis by linarith
qed

lemma ilog2_bounds:
  assumes "0 < q"
  shows "2 powi ilog2 q \<le> q" "q < 2 powi (ilog2 q + 1)"
proof -
  obtain n d where nd: "quotient_of q = (n, d)" by (cases "quotient_of q")
  have d: "0 < d" using quotient_of_denom_pos [OF nd] .
  have q: "q = of_int n / of_int d" using quotient_of_div [OF nd] .
  have n: "0 < n" using assms d by (simp add: q zero_less_divide_iff)
  define a b where "a = bitlen n" and "b = bitlen d"
  have ab: "1 \<le> a" "1 \<le> b"
    using n d unfolding a_def b_def by (simp_all add: compute_bitlen [of n] compute_bitlen [of d] bitlen_nonneg)
  have pw: "(of_int (2 ^ nat k) :: rat) = 2 powi k" if "0 \<le> k" for k
    using that by (simp add: power_int_def)
  have "(of_int (2 ^ nat (a - 1)) :: rat) \<le> of_int n" "(of_int n :: rat) < of_int (2 ^ nat a)"
    using bitlen_bounds [OF n] by (simp_all only: a_def of_int_le_iff of_int_less_iff)
  then have n1: "2 powi (a - 1) \<le> (of_int n :: rat)" and n2: "(of_int n :: rat) < 2 powi a"
    using ab by (simp_all only: pw)
  have "(of_int (2 ^ nat (b - 1)) :: rat) \<le> of_int d" "(of_int d :: rat) < of_int (2 ^ nat b)"
    using bitlen_bounds [OF d] by (simp_all only: b_def of_int_le_iff of_int_less_iff)
  then have d1: "2 powi (b - 1) \<le> (of_int d :: rat)" and d2: "(of_int d :: rat) < 2 powi b"
    using ab by (simp_all only: pw)
  have dp: "(0::rat) < of_int d" using d by simp
  have "2 powi (a - b - 1) * of_int d \<le> 2 powi (a - b - 1) * (2 powi b :: rat)"
    using d2 by (intro mult_left_mono) auto
  also have "\<dots> = 2 powi (a - 1)" by (simp add: power_int_add [symmetric])
  finally have lo: "2 powi (a - b - 1) \<le> q"
    using n1 dp by (simp add: q pos_le_divide_eq)
  have "(2 powi a :: rat) = 2 powi (a - b + 1) * 2 powi (b - 1)"
    by (simp add: power_int_add [symmetric])
  also have "\<dots> \<le> 2 powi (a - b + 1) * of_int d"
    using d1 by (intro mult_left_mono) auto
  finally have hi: "q < 2 powi (a - b + 1)"
    using n2 dp by (simp add: q pos_divide_less_eq)
  show "2 powi ilog2 q \<le> q" "q < 2 powi (ilog2 q + 1)"
    using lo hi by (auto simp: ilog2_def nd a_def b_def Let_def)
qed

lemma powi_mono_rat: "a \<le> b \<Longrightarrow> (2 powi a :: rat) \<le> 2 powi b"
  by (simp add: power_int_increasing)

lemma powi_less_rat: "(2 powi a :: rat) < 2 powi b \<Longrightarrow> a < b"
  using powi_mono_rat [of b a] by (metis linorder_not_le)

lemma ilog2_mono: "0 < p \<Longrightarrow> p \<le> q \<Longrightarrow> ilog2 p \<le> ilog2 q"
  using ilog2_bounds [of p] ilog2_bounds [of q] powi_less_rat [of "ilog2 p" "ilog2 q + 1"]
  by linarith

lemma ilog2_less: "0 < p \<Longrightarrow> p < 2 powi k \<Longrightarrow> ilog2 p < k"
  using ilog2_bounds [of p] powi_less_rat [of "ilog2 p" k] by linarith

lemma on_grid:
  fixes m e u :: int
  assumes "u \<le> e"
  shows "of_int m * 2 powi e / 2 powi u = (of_int (m * 2 ^ nat (e - u)) :: rat)"
proof -
  have "(2 powi e :: rat) = 2 powi (e - u) * 2 powi u"
    by (simp add: power_int_add [symmetric])
  moreover have "(2 powi (e - u) :: rat) = 2 ^ nat (e - u)"
    using assms by (simp add: power_int_def)
  ultimately show ?thesis by simp
qed

lemma round53_grid:
  assumes "q = of_int m * 2 powi e" "ulp_exp q \<le> e"
  shows "round53 q = q"
proof (cases "q = 0")
  case False
  have "q / 2 powi ulp_exp q = of_int (m * 2 ^ nat (e - ulp_exp q))"
    using on_grid [OF assms(2)] assms(1) by simp
  then have "of_int (round_half_even (q / 2 powi ulp_exp q)) = q / 2 powi ulp_exp q"
    by (simp only: round_half_even_int)
  with False show ?thesis by (simp add: round53_def)
qed (simp add: round53_def)

lemma round53_below_pow:
  assumes "0 < p" "p \<le> 2 powi k" "ulp_exp p \<le> k"
  shows "round53 p \<le> 2 powi k"
proof -
  let ?u = "2 powi ulp_exp p :: rat"
  have "p / ?u \<le> 2 powi k / ?u" using assms(2) by (simp add: divide_right_mono)
  also have "\<dots> = of_int (2 ^ nat (k - ulp_exp p))"
    using on_grid [OF assms(3), of 1] by simp
  finally have "round_half_even (p / ?u) \<le> 2 ^ nat (k - ulp_exp p)"
    using round_half_even_mono round_half_even_int by metis
  then have "of_int (round_half_even (p / ?u)) \<le> (2 powi k / ?u :: rat)"
    using on_grid [OF assms(3), of 1] by (metis mult_1 of_int_1 of_int_le_iff)
  then show ?thesis using assms(1) by (simp add: round53_def pos_le_divide_eq)
qed

lemma round53_above_pow:
  assumes "2 powi k \<le> q" "ulp_exp q \<le> k"
  shows "2 powi k \<le> round53 q"
proof -
  let ?u = "2 powi ulp_exp q :: rat"
  have q: "0 < q" using assms(1) by (metis order_less_le_trans zero_less_numeral zero_less_power_int)
  have "of_int (2 ^ nat (k - ulp_exp q)) = 2 powi k / ?u"
    using on_grid [OF assms(2), of 1] by simp
  also have "\<dots> \<le> q / ?u" using assms(1) by (simp add: divide_right_mono)
  finally have "2 ^ nat (k - ulp_exp q) \<le> round_half_even (q / ?u)"
    using round_half_even_mono round_half_even_int by metis
  then have "(2 powi k / ?u :: rat) \<le> of_int (round_half_even (q / ?u))"
    using on_grid [OF assms(2), of 1] by (metis mult_1 of_int_1 of_int_le_iff)
  then show ?thesis using q by (simp add: round53_def pos_divide_le_eq)
qed

lemma round53_mono_pos:
  assumes "0 < p" "p \<le> q"
  shows "round53 p \<le> round53 q"
proof (cases "ulp_exp p = ulp_exp q")
  case True
  let ?u = "2 powi ulp_exp q :: rat"
  have "round_half_even (p / ?u) \<le> round_half_even (q / ?u)"
    by (rule round_half_even_mono) (use assms(2) in \<open>simp add: divide_right_mono\<close>)
  with True assms show ?thesis by (simp add: round53_def mult_right_mono)
next
  case False
  have il: "ilog2 p \<le> ilog2 q" using ilog2_mono assms .
  with False assms have u: "ulp_exp q = ilog2 q - 52" and lt: "ilog2 p < ilog2 q"
    and up: "ulp_exp p \<le> ilog2 q"
    by (auto simp: ulp_exp_def max_def split: if_splits)
  have "p \<le> 2 powi ilog2 q"
    using ilog2_bounds(2) [OF assms(1)] powi_mono_rat [of "ilog2 p + 1" "ilog2 q"] lt by simp
  then have "round53 p \<le> 2 powi ilog2 q" using round53_below_pow assms(1) up by blast
  also have "\<dots> \<le> round53 q"
    by (rule round53_above_pow) (use ilog2_bounds(1) [of q] assms u in auto)
  finally show ?thesis .
qed

lemma round_half_even_minus: "round_half_even (- q) = - round_half_even q"
proof (cases "q = of_int \<lfloor>q\<rfloor>")
  case True
  then show ?thesis by (metis of_int_minus round_half_even_int)
next
  case False
  then have "\<lfloor>- q\<rfloor> = - \<lfloor>q\<rfloor> - 1"
    by (intro floor_unique) (use floor_correct [of q] in \<open>auto simp: le_less\<close>)
  then show ?thesis by (auto simp: round_half_even_def Let_def)
qed

lemma round53_minus: "round53 (- q) = - round53 q"
  by (simp add: round53_def ulp_exp_def round_half_even_minus)

lemma round53_nonneg: "0 \<le> q \<Longrightarrow> 0 \<le> round53 q"
  using round_half_even_mono [of 0 "q / 2 powi ulp_exp q"] round_half_even_int [of 0]
  by (simp add: round53_def)

lemma round53_zero [simp]: "round53 0 = 0"
  by (simp add: round53_def)

lemma round53_mono: "p \<le> q \<Longrightarrow> round53 p \<le> round53 q"
proof -
  assume le: "p \<le> q"
  consider "0 < p" | "p \<le> 0" "0 \<le> q" | "q < 0" by linarith
  then show ?thesis
  proof cases
    case 1 then show ?thesis using round53_mono_pos le by blast
  next
    case 2
    then show ?thesis
      using round53_nonneg [of q] round53_nonneg [of "- p"] by (simp add: round53_minus)
  next
    case 3
    then show ?thesis
      using round53_mono_pos [of "- q" "- p"] le by (simp add: round53_minus)
  qed
qed

section \<open>Doubles\<close>

lemma round53_representable:
  assumes "q = of_int m * 2 powi e" "\<bar>m\<bar> \<le> 2 ^ 53" "- 1074 \<le> e"
  shows "round53 q = q"
proof (cases "m = 0")
  case True
  with assms show ?thesis by simp
next
  case m: False
  have pos: "0 < \<bar>q\<bar>" using m assms(1) by simp
  have abs_q: "\<bar>q\<bar> = of_int \<bar>m\<bar> * 2 powi e" by (simp add: assms(1) abs_mult)
  have pw: "(2 powi (53 + e) :: rat) = 2 ^ 53 * 2 powi e" by (simp add: power_int_add)
  show ?thesis
  proof (cases "\<bar>m\<bar> = 2 ^ 53")
    case False
    with assms(2) have "\<bar>m\<bar> < 2 ^ 53" by linarith
    then have "(of_int \<bar>m\<bar> :: rat) < of_int (2 ^ 53)" by (simp only: of_int_less_iff)
    then have "\<bar>q\<bar> < 2 powi (53 + e)" by (simp add: abs_q pw)
    then have "ulp_exp q \<le> e" using ilog2_less [OF pos, of "53 + e"] assms(3) by (auto simp: ulp_exp_def)
    then show ?thesis using round53_grid assms(1) by blast
  next
    case True
    then have "\<bar>q\<bar> = 2 powi (53 + e)" unfolding abs_q pw by simp
    then have "\<bar>q\<bar> < 2 powi (54 + e)" by (simp add: power_int_strict_increasing)
    then have u: "ulp_exp q \<le> e + 1"
      using ilog2_less [OF pos, of "54 + e"] assms(3) by (auto simp: ulp_exp_def)
    have "q = of_int (m div 2) * 2 powi (e + 1)"
    proof -
      have "m = 2 ^ 53 \<or> m = - (2 ^ 53)" using True by linarith
      then have "even m" by auto
      then have "m = 2 * (m div 2)" by simp
      then have "(of_int m :: rat) = 2 * of_int (m div 2)" by (metis of_int_mult of_int_numeral)
      then show ?thesis by (simp add: assms(1) power_int_add)
    qed
    then show ?thesis using round53_grid u by blast
  qed
qed

lemma round53_form: "\<exists>m e. round53 q = of_int m * 2 powi e \<and> \<bar>m\<bar> \<le> 2 ^ 53 \<and> - 1074 \<le> e"
proof (cases "q = 0")
  case True
  then show ?thesis by (intro exI [of _ 0]) auto
next
  case False
  let ?u = "ulp_exp q"
  have "\<bar>q\<bar> < 2 powi (ilog2 \<bar>q\<bar> + 1)" using ilog2_bounds [of "\<bar>q\<bar>"] False by simp
  also have "\<dots> \<le> 2 powi (53 + ?u)" by (intro powi_mono_rat) (simp add: ulp_exp_def)
  finally have "\<bar>q\<bar> / 2 powi ?u \<le> 2 ^ 53"
    by (simp add: power_int_add pos_divide_le_eq)
  then have "q / 2 powi ?u \<le> of_int (2 ^ 53)" "of_int (- (2 ^ 53)) \<le> q / 2 powi ?u"
    by (auto simp: abs_le_iff divide_le_eq le_divide_eq abs_if split: if_splits)
  then have "round_half_even (q / 2 powi ?u) \<le> 2 ^ 53" "- (2 ^ 53) \<le> round_half_even (q / 2 powi ?u)"
    using round_half_even_mono round_half_even_int by metis+
  then show ?thesis
    using False by (intro exI [of _ "round_half_even (q / 2 powi ?u)"] exI [of _ ?u])
      (auto simp: round53_def ulp_exp_def)
qed

lemma round53_idem: "round53 (round53 q) = round53 q"
  using round53_form [of q] round53_representable by blast

lemma fl_Fin_double: "fl q = Fin r \<Longrightarrow> is_double r"
  by (auto simp: fl_def is_double_def Let_def round53_idem split: if_splits)

lemma fl_double [simp]: "is_double q \<Longrightarrow> fl q = Fin q"
  by (simp add: is_double_def)

lemma is_doubleI:
  assumes "round53 q = q" "\<bar>q\<bar> < 2 ^ 1024" shows "is_double q"
proof -
  have "q < 2 ^ 1024" "- (2 ^ 1024) < q" using assms(2) by (simp_all only: abs_less_iff minus_less_iff)
  with assms(1) show ?thesis by (simp add: is_double_def fl_def Let_def)
qed

lemma is_double_int:
  assumes "\<bar>m\<bar> \<le> 2 ^ 53" shows "is_double (of_int m)"
proof -
  have "round53 (of_int m) = of_int m"
    by (rule round53_representable [where e = 0]) (use assms in auto)
  moreover have "\<bar>of_int m\<bar> < (2 ^ 1024 :: rat)"
  proof -
    have "(of_int \<bar>m\<bar> :: rat) \<le> of_int (2 ^ 53)" using assms by (simp only: of_int_le_iff)
    then show ?thesis by simp
  qed
  ultimately show ?thesis by (rule is_doubleI)
qed

lemma is_double_numeral [simp]:
  "(numeral k :: int) \<le> 2 ^ 53 \<Longrightarrow> is_double (numeral k)"
  "(numeral k :: int) \<le> 2 ^ 53 \<Longrightarrow> is_double (- numeral k)"
  using is_double_int [of "numeral k"] is_double_int [of "- numeral k"] by simp_all

text \<open>A dyadic fraction with a small numerator is a double: \<open>m / 2\<^sup>e\<close>.\<close>

lemma is_double_dyadic:
  assumes "\<bar>m\<bar> \<le> 2 ^ 53" "e \<le> 1074"
  shows "is_double (of_int m / 2 ^ e)"
proof -
  have eq: "of_int m / 2 ^ e = (of_int m * 2 powi (- int e) :: rat)"
    by (simp add: power_int_minus divide_inverse)
  have "round53 (of_int m / 2 ^ e) = of_int m / 2 ^ e"
    by (rule round53_representable [OF eq assms(1)]) (use assms(2) in simp)
  moreover have "\<bar>of_int m / 2 ^ e\<bar> < (2 ^ 1024 :: rat)"
  proof -
    have "(of_int \<bar>m\<bar> :: rat) \<le> of_int (2 ^ 53)" using assms(1) by (simp only: of_int_le_iff)
    then have "\<bar>of_int m\<bar> < (2 ^ 1024 :: rat)" by simp
    also have "\<dots> \<le> 2 ^ 1024 * 2 ^ e" by simp
    finally show ?thesis by (simp add: pos_divide_less_eq)
  qed
  ultimately show ?thesis by (rule is_doubleI)
qed

lemma is_double_0 [simp]: "is_double 0" and is_double_1 [simp]: "is_double 1"
  using is_double_int [of 0] is_double_int [of 1] by simp_all

section \<open>Comparison\<close>

fun num_le :: "js_num \<Rightarrow> js_num \<Rightarrow> bool" where
  "num_le NaN _ = False"
| "num_le _ NaN = False"
| "num_le NegInf _ = True"
| "num_le _ PosInf = True"
| "num_le (Fin a) (Fin b) = (a \<le> b)"
| "num_le (Fin a) NegInf = False"
| "num_le PosInf _ = False"

fun num_lt :: "js_num \<Rightarrow> js_num \<Rightarrow> bool" where
  "num_lt NaN _ = False"
| "num_lt _ NaN = False"
| "num_lt (Fin a) (Fin b) = (a < b)"
| "num_lt NegInf b = (b \<noteq> NegInf)"
| "num_lt a PosInf = (a \<noteq> PosInf)"
| "num_lt (Fin a) NegInf = False"
| "num_lt PosInf _ = False"

text \<open>\<open>a > b\<close>, \<open>a >= b\<close>, and \<open>a === b\<close> on numbers (NaN is not equal to itself).\<close>

abbreviation num_gt :: "js_num \<Rightarrow> js_num \<Rightarrow> bool" where
  "num_gt a b \<equiv> num_lt b a"

abbreviation num_ge :: "js_num \<Rightarrow> js_num \<Rightarrow> bool" where
  "num_ge a b \<equiv> num_le b a"

definition num_eq :: "js_num \<Rightarrow> js_num \<Rightarrow> bool" where
  "num_eq a b \<longleftrightarrow> a = b \<and> a \<noteq> NaN"

fun is_finite :: "js_num \<Rightarrow> bool" where
  "is_finite (Fin a) = True"
| "is_finite _ = False"

lemma num_le_refl [simp]: "num_le a a \<longleftrightarrow> a \<noteq> NaN"
  by (cases a) auto

lemma num_le_trans [trans]: "num_le a b \<Longrightarrow> num_le b c \<Longrightarrow> num_le a c"
  by (cases a; cases b; cases c) auto

lemma num_le_antisym: "num_le a b \<Longrightarrow> num_le b a \<Longrightarrow> a = b"
  by (cases a; cases b) auto

lemma num_lt_iff: "num_lt a b \<longleftrightarrow> num_le a b \<and> a \<noteq> b"
  by (cases a; cases b) auto

lemma num_not_lt: "a \<noteq> NaN \<Longrightarrow> b \<noteq> NaN \<Longrightarrow> \<not> num_lt a b \<longleftrightarrow> num_le b a"
  by (cases a; cases b) auto

lemma num_le_not_NaN: "num_le a b \<Longrightarrow> a \<noteq> NaN \<and> b \<noteq> NaN"
  by (cases a; cases b) auto

lemma num_lt_not_NaN: "num_lt a b \<Longrightarrow> a \<noteq> NaN \<and> b \<noteq> NaN"
  by (cases a; cases b) auto

lemma num_lt_NaN [simp]: "\<not> num_lt a NaN" "\<not> num_le a NaN"
  by (cases a; simp)+

lemma fl_not_NaN [simp]: "fl q \<noteq> NaN" "NaN \<noteq> fl q"
  by (auto simp: fl_def Let_def)

lemma fl_mono: "p \<le> q \<Longrightarrow> num_le (fl p) (fl q)"
  using round53_mono [of p q] by (auto simp: fl_def Let_def)

section \<open>Arithmetic\<close>

fun num_neg :: "js_num \<Rightarrow> js_num" where
  "num_neg (Fin a) = Fin (- a)"
| "num_neg PosInf = NegInf"
| "num_neg NegInf = PosInf"
| "num_neg NaN = NaN"

fun num_add :: "js_num \<Rightarrow> js_num \<Rightarrow> js_num" where
  "num_add NaN _ = NaN"
| "num_add _ NaN = NaN"
| "num_add (Fin a) (Fin b) = fl (a + b)"
| "num_add PosInf NegInf = NaN"
| "num_add NegInf PosInf = NaN"
| "num_add PosInf _ = PosInf"
| "num_add _ PosInf = PosInf"
| "num_add NegInf _ = NegInf"
| "num_add _ NegInf = NegInf"

definition num_sub :: "js_num \<Rightarrow> js_num \<Rightarrow> js_num" where
  "num_sub a b = num_add a (num_neg b)"

text \<open>A product or quotient with an infinite operand; \<open>s\<close> is the sign of the result.\<close>

fun inf_of_sign :: "rat \<Rightarrow> js_num" where
  "inf_of_sign s = (if 0 < s then PosInf else if s < 0 then NegInf else NaN)"

fun num_sgn :: "js_num \<Rightarrow> rat" where
  "num_sgn (Fin a) = sgn a"
| "num_sgn PosInf = 1"
| "num_sgn NegInf = - 1"
| "num_sgn NaN = 0"

fun num_mul :: "js_num \<Rightarrow> js_num \<Rightarrow> js_num" where
  "num_mul (Fin a) (Fin b) = fl (a * b)"
| "num_mul a b = inf_of_sign (num_sgn a * num_sgn b)"

text \<open>The one quotient the model leaves to the sign of a zero, \<open>x / 0\<close>, takes the zero as
  positive; no modelled code divides by a zero.\<close>

fun num_div :: "js_num \<Rightarrow> js_num \<Rightarrow> js_num" where
  "num_div NaN _ = NaN"
| "num_div _ NaN = NaN"
| "num_div (Fin a) (Fin b) = (if b = 0 then inf_of_sign (sgn a) else fl (a / b))"
| "num_div (Fin a) _ = Fin 0"
| "num_div a (Fin b) = inf_of_sign (num_sgn a * (if b < 0 then - 1 else 1))"
| "num_div _ _ = NaN"

fun math_abs :: "js_num \<Rightarrow> js_num" where
  "math_abs (Fin a) = Fin \<bar>a\<bar>"
| "math_abs PosInf = PosInf"
| "math_abs NegInf = PosInf"
| "math_abs NaN = NaN"

fun math_max :: "js_num \<Rightarrow> js_num \<Rightarrow> js_num" where
  "math_max NaN _ = NaN"
| "math_max _ NaN = NaN"
| "math_max a b = (if num_le a b then b else a)"

fun math_min :: "js_num \<Rightarrow> js_num \<Rightarrow> js_num" where
  "math_min NaN _ = NaN"
| "math_min _ NaN = NaN"
| "math_min a b = (if num_le a b then a else b)"

fun math_floor :: "js_num \<Rightarrow> js_num" where
  "math_floor (Fin a) = Fin (of_int \<lfloor>a\<rfloor>)"
| "math_floor a = a"

text \<open>\<open>Math.round\<close>: the nearest integer, ties towards plus infinity (exact, no rounding).\<close>

fun math_round :: "js_num \<Rightarrow> js_num" where
  "math_round (Fin a) = Fin (of_int \<lfloor>a + 1/2\<rfloor>)"
| "math_round a = a"

fun is_integer :: "js_num \<Rightarrow> bool" where
  "is_integer (Fin a) = (a = of_int \<lfloor>a\<rfloor>)"
| "is_integer _ = False"

lemma math_max_eq_NaN [simp]: "math_max a b = NaN \<longleftrightarrow> a = NaN \<or> b = NaN"
  by (cases a; cases b) auto

lemma math_min_eq_NaN [simp]: "math_min a b = NaN \<longleftrightarrow> a = NaN \<or> b = NaN"
  by (cases a; cases b) auto

lemma math_max_ge: "a \<noteq> NaN \<Longrightarrow> b \<noteq> NaN \<Longrightarrow> num_le a (math_max a b) \<and> num_le b (math_max a b)"
  by (cases a; cases b) auto

lemma math_min_le: "a \<noteq> NaN \<Longrightarrow> b \<noteq> NaN \<Longrightarrow> num_le (math_min a b) a \<and> num_le (math_min a b) b"
  by (cases a; cases b) auto

lemma math_max_cases: "math_max a b = a \<or> math_max a b = b"
  by (cases a; cases b) auto

lemma math_min_cases: "math_min a b = a \<or> math_min a b = b"
  by (cases a; cases b) auto

lemma math_max_lub: "num_le a c \<Longrightarrow> num_le b c \<Longrightarrow> num_le (math_max a b) c"
  using math_max_cases [of a b] by auto

lemma math_min_glb: "num_le c a \<Longrightarrow> num_le c b \<Longrightarrow> num_le c (math_min a b)"
  using math_min_cases [of a b] by auto

lemma num_le_PosInf [simp]: "num_le a PosInf \<longleftrightarrow> a \<noteq> NaN"
  by (cases a) auto

lemma num_le_NegInf [simp]: "num_le NegInf a \<longleftrightarrow> a \<noteq> NaN"
  by (cases a) auto

lemma num_add_mono: "num_le a b \<Longrightarrow> c = Fin r \<Longrightarrow> num_le (num_add a c) (num_add b c)"
  by (cases a; cases b) (auto intro: fl_mono)

lemma num_add_nonneg:
  assumes "num_le (Fin 0) b" "is_double r"
  shows "num_le (Fin r) (num_add (Fin r) b)"
proof (cases b)
  case (Fin x)
  with assms(1) have "num_le (fl r) (fl (r + x))" by (intro fl_mono) simp
  with Fin assms(2) show ?thesis by simp
qed (use assms in auto)

end
