(* ===== verification/Js_Value.thy ===== *)
theory Js_Value
  imports Js_Number
begin

text \<open>
  Dynamically typed JavaScript values, as \<open>JSON.parse\<close> and \<open>response.json()\<close> hand them to
  the program before a schema has looked at them, and the regular expressions of the schema
  file as executable recognisers. An object is an association list in insertion order;
  \<open>JSON.parse\<close> keeps one binding per key, the last one.
\<close>

datatype jsval =
    JUndef
  | JNull
  | JBool bool
  | JNum js_num
  | JStr string
  | JArr "jsval list"
  | JObj "(string \<times> jsval) list"

text \<open>\<open>v[k]\<close> on an object, and the test \<open>k in v\<close>.\<close>

fun jprop :: "jsval \<Rightarrow> string \<Rightarrow> jsval" where
  "jprop (JObj ps) k = (case map_of ps k of None \<Rightarrow> JUndef | Some v \<Rightarrow> v)"
| "jprop _ k = JUndef"

fun has_key :: "jsval \<Rightarrow> string \<Rightarrow> bool" where
  "has_key (JObj ps) k = (k \<in> set (map fst ps))"
| "has_key _ k = False"

text \<open>\<open>typeof v === "object" && v !== null\<close>\<close>

fun is_object :: "jsval \<Rightarrow> bool" where
  "is_object (JObj ps) = True"
| "is_object (JArr xs) = True"
| "is_object _ = False"

lemma jprop_not_has: "\<not> has_key v k \<Longrightarrow> jprop v k = JUndef"
  by (cases v) (force dest: map_of_SomeD split: option.splits)+

section \<open>Regular expressions\<close>

text \<open>\<open>/^[a-z0-9]+(-[a-z0-9]+)*$/\<close>: the flag records that the current segment has a character.\<close>

definition lower_or_digit :: "char \<Rightarrow> bool" where
  "lower_or_digit c \<longleftrightarrow>
     (97 \<le> (of_char c :: nat) \<and> (of_char c :: nat) \<le> 122) \<or> (48 \<le> (of_char c :: nat) \<and> (of_char c :: nat) \<le> 57)"

fun slug_from :: "bool \<Rightarrow> string \<Rightarrow> bool" where
  "slug_from seen [] = seen"
| "slug_from seen (c # cs) =
     (if lower_or_digit c then slug_from True cs
      else c = CHR ''-'' \<and> seen \<and> slug_from False cs)"

definition is_slug :: "string \<Rightarrow> bool" where
  "is_slug s \<longleftrightarrow> slug_from False s"

text \<open>\<open>/^([01][0-9]|2[0-3]):[0-5][0-9]$/\<close>\<close>

definition char_in :: "char \<Rightarrow> char \<Rightarrow> char \<Rightarrow> bool" where
  "char_in lo hi c \<longleftrightarrow> (of_char lo :: nat) \<le> of_char c \<and> (of_char c :: nat) \<le> of_char hi"

fun is_time_of_day :: "string \<Rightarrow> bool" where
  "is_time_of_day [a, b, c, d, e] =
     (((char_in CHR ''0'' CHR ''1'' a \<and> char_in CHR ''0'' CHR ''9'' b)
       \<or> (a = CHR ''2'' \<and> char_in CHR ''0'' CHR ''3'' b))
      \<and> c = CHR '':'' \<and> char_in CHR ''0'' CHR ''5'' d \<and> char_in CHR ''0'' CHR ''9'' e)"
| "is_time_of_day _ = False"

text \<open>One \<open>HH:MM\<close>, or several separated by commas.\<close>

fun is_schedule :: "string \<Rightarrow> bool" where
  "is_schedule (a # b # c # d # e # rest) =
     (is_time_of_day [a, b, c, d, e] \<and>
      (case rest of [] \<Rightarrow> True | s # more \<Rightarrow> s = CHR '','' \<and> is_schedule more))"
| "is_schedule _ = False"

text \<open>A slug is a non-empty sequence of non-empty segments joined by hyphens.\<close>

fun segments_ok :: "string list \<Rightarrow> bool" where
  "segments_ok ss = (\<forall>s\<in>set ss. s \<noteq> [] \<and> list_all lower_or_digit s)"

lemma hyphen_not_lower [simp]: "\<not> lower_or_digit CHR ''-''"
  by (simp add: lower_or_digit_def)

lemma slug_from_append_segment:
  "list_all lower_or_digit s \<Longrightarrow> slug_from b (s @ r) = slug_from (b \<or> s \<noteq> []) r"
  by (induction s arbitrary: b) auto

fun join_hyphen :: "string list \<Rightarrow> string" where
  "join_hyphen [] = []"
| "join_hyphen [s] = s"
| "join_hyphen (s # t # ss) = s @ CHR ''-'' # join_hyphen (t # ss)"

lemma slug_join: "ss \<noteq> [] \<Longrightarrow> segments_ok ss \<Longrightarrow> is_slug (join_hyphen ss)"
proof (induction ss rule: join_hyphen.induct)
  case (2 s)
  then show ?case using slug_from_append_segment [of s False "[]"] by (simp add: is_slug_def)
next
  case (3 s t ss)
  then show ?case by (simp add: is_slug_def slug_from_append_segment)
qed simp

end
