(* ===== verification/Zod.thy ===== *)
theory Zod
  imports Js_Value
begin

text \<open>
  The schema language. A schema of \<open>api/schemas.ts\<close> is built from the combinators of the
  zod package; a value of type \<open>zod\<close> is such an expression. zod itself is not part of the
  repository: \<open>safeParse\<close> is a parameter of every definition that validates, and what the
  program relies on is the contract of the locale \<open>zod_package\<close>, which says in the terms of
  zod's documentation which values a schema accepts (\<open>conforms\<close>) and what the returned
  data is (\<open>project\<close>: unknown keys stripped, defaults filled in). \<open>reference_parse\<close>
  shows that the contract can be met.
\<close>

datatype zod =
    ZUnknown
  | ZNull
  | ZBoolean
  | ZNumber
  | ZString
  | ZLiteral string
  | ZEnum "string list"
  | ZMin zod rat
  | ZMax zod rat
  | ZInt zod
  | ZCheck zod "string \<Rightarrow> bool"
  | ZNonEmpty zod
  | ZNullable zod
  | ZOptional zod
  | ZDefault zod jsval
  | ZArray zod
  | ZRecord zod
  | ZObject bool "(string \<times> zod) list"
  | ZRefine zod "jsval \<Rightarrow> bool"

text \<open>
  Method chaining: \<open>z.number().min(a).max(b)\<close>, \<open>z.string().min(1)\<close>, \<open>.partial()\<close>,
  \<open>.strict()\<close> and object spread with an overriding key. \<open>ZNonEmpty\<close> is \<open>.min(1)\<close> on a string
  or an array; \<open>ZCheck\<close> is a regular expression or a \<open>refine\<close> on a string.
\<close>

definition z_range :: "rat \<Rightarrow> rat \<Rightarrow> zod" where
  "z_range lo hi = ZMax (ZMin ZNumber lo) hi"

fun z_partial :: "zod \<Rightarrow> zod" where
  "z_partial (ZObject strict fs) = ZObject strict (map (\<lambda>(k, s). (k, ZOptional s)) fs)"
| "z_partial s = s"

fun z_override :: "(string \<times> zod) list \<Rightarrow> string \<Rightarrow> zod \<Rightarrow> (string \<times> zod) list" where
  "z_override [] k s = [(k, s)]"
| "z_override ((k', s') # fs) k s = (if k' = k then (k, s) # fs else (k', s') # z_override fs k s)"

section \<open>Which values a schema accepts, and what it returns\<close>

lemma size_zod_field [termination_simp]:
  "(k, s) \<in> set fs \<Longrightarrow> size s < Suc (size_list (size_prod (\<lambda>x. 0) size) fs)"
  by (induction fs) auto

fun project :: "zod \<Rightarrow> jsval \<Rightarrow> jsval" where
  "project (ZMin s _) v = project s v"
| "project (ZMax s _) v = project s v"
| "project (ZInt s) v = project s v"
| "project (ZCheck s _) v = project s v"
| "project (ZNonEmpty s) v = project s v"
| "project (ZNullable s) v = (if v = JNull then JNull else project s v)"
| "project (ZOptional s) v = (if v = JUndef then JUndef else project s v)"
| "project (ZDefault s d) v = (if v = JUndef then d else project s v)"
| "project (ZArray s) v = (case v of JArr xs \<Rightarrow> JArr (map (project s) xs) | _ \<Rightarrow> v)"
| "project (ZRecord s) v = (case v of JObj ps \<Rightarrow> JObj (map (\<lambda>(k, x). (k, project s x)) ps) | _ \<Rightarrow> v)"
| "project (ZObject strict fs) v =
     JObj (concat (map (\<lambda>(k, s).
       (let x = project s (jprop v k) in
        if has_key v k \<or> x \<noteq> JUndef then [(k, x)] else [])) fs))"
| "project (ZRefine s _) v = project s v"
| "project _ v = v"

fun num_at_least :: "rat \<Rightarrow> jsval \<Rightarrow> bool" where
  "num_at_least lo (JNum x) = num_le (Fin lo) x"
| "num_at_least lo _ = True"

fun num_at_most :: "rat \<Rightarrow> jsval \<Rightarrow> bool" where
  "num_at_most hi (JNum x) = num_le x (Fin hi)"
| "num_at_most hi _ = True"

fun conforms :: "zod \<Rightarrow> jsval \<Rightarrow> bool" where
  "conforms ZUnknown v = True"
| "conforms ZNull v = (v = JNull)"
| "conforms ZBoolean v = (case v of JBool b \<Rightarrow> True | _ \<Rightarrow> False)"
| "conforms ZNumber v = (case v of JNum x \<Rightarrow> x \<noteq> NaN | _ \<Rightarrow> False)"
| "conforms ZString v = (case v of JStr x \<Rightarrow> True | _ \<Rightarrow> False)"
| "conforms (ZLiteral t) v = (v = JStr t)"
| "conforms (ZEnum ts) v = (case v of JStr x \<Rightarrow> x \<in> set ts | _ \<Rightarrow> False)"
| "conforms (ZMin s lo) v = (conforms s v \<and> num_at_least lo v)"
| "conforms (ZMax s hi) v = (conforms s v \<and> num_at_most hi v)"
| "conforms (ZInt s) v = (conforms s v \<and> (case v of JNum x \<Rightarrow> is_integer x | _ \<Rightarrow> True))"
| "conforms (ZCheck s p) v = (conforms s v \<and> (case v of JStr x \<Rightarrow> p x | _ \<Rightarrow> True))"
| "conforms (ZNonEmpty s) v =
     (conforms s v \<and> (case v of JStr x \<Rightarrow> x \<noteq> [] | JArr xs \<Rightarrow> xs \<noteq> [] | _ \<Rightarrow> True))"
| "conforms (ZNullable s) v = (v = JNull \<or> conforms s v)"
| "conforms (ZOptional s) v = (v = JUndef \<or> conforms s v)"
| "conforms (ZDefault s d) v = (v = JUndef \<or> conforms s v)"
| "conforms (ZArray s) v = (case v of JArr xs \<Rightarrow> (\<forall>x\<in>set xs. conforms s x) | _ \<Rightarrow> False)"
| "conforms (ZRecord s) v = (case v of JObj ps \<Rightarrow> (\<forall>x\<in>set (map snd ps). conforms s x) | _ \<Rightarrow> False)"
| "conforms (ZObject strict fs) v =
     (case v of
        JObj ps \<Rightarrow> (\<forall>(k, s)\<in>set fs. conforms s (jprop v k))
                  \<and> (strict \<longrightarrow> set (map fst ps) \<subseteq> set (map fst fs))
      | _ \<Rightarrow> False)"
| "conforms (ZRefine s p) v = (conforms s v \<and> p (project s v))"

section \<open>The contract of the package\<close>

text \<open>An issue is reported by its message.\<close>

type_synonym issue = string

locale zod_package =
  fixes safe_parse :: "zod \<Rightarrow> jsval \<Rightarrow> issue list + jsval"
  assumes accepts: "conforms s v \<Longrightarrow> safe_parse s v = Inr (project s v)"
    and rejects: "\<not> conforms s v \<Longrightarrow> \<exists>e es. safe_parse s v = Inl (e # es)"
begin

lemma safe_parse_ok_iff: "is_ok (safe_parse s v) \<longleftrightarrow> conforms s v"
  using accepts [of s v] rejects [of s v] by (cases "conforms s v") auto

lemma safe_parse_InrD: "safe_parse s v = Inr d \<Longrightarrow> conforms s v \<and> d = project s v"
  using accepts [of s v] rejects [of s v] by (cases "conforms s v") auto

lemma safe_parse_InlD: "safe_parse s v = Inl es \<Longrightarrow> \<not> conforms s v \<and> es \<noteq> []"
  using accepts [of s v] rejects [of s v] by (cases "conforms s v") auto

end

definition reference_parse :: "zod \<Rightarrow> jsval \<Rightarrow> issue list + jsval" where
  "reference_parse s v = (if conforms s v then Inr (project s v) else Inl [''Invalid input''])"

interpretation ref: zod_package reference_parse
  by unfold_locales (auto simp: reference_parse_def)

section \<open>Facts the component proofs use\<close>

lemma conforms_ZObject:
  "conforms (ZObject strict fs) v \<longleftrightarrow>
     (\<exists>ps. v = JObj ps \<and> (\<forall>(k, s)\<in>set fs. conforms s (jprop v k))
           \<and> (strict \<longrightarrow> set (map fst ps) \<subseteq> set (map fst fs)))"
  by (cases v) auto

lemma conforms_field: "conforms (ZObject strict fs) v \<Longrightarrow> (k, s) \<in> set fs \<Longrightarrow> conforms s (jprop v k)"
  by (cases v) auto

lemma map_of_concat_fields:
  assumes "distinct (map fst fs)"
  shows "map_of (concat (map (\<lambda>(k, s). if P k s then [(k, f k s)] else []) fs)) k =
     (case map_of fs k of None \<Rightarrow> None | Some s \<Rightarrow> if P k s then Some (f k s) else None)"
  using assms
proof (induction fs)
  case Nil
  then show ?case by simp
next
  case (Cons kv fs)
  obtain k' s' where kv: "kv = (k', s')" by (cases kv)
  show ?case
  proof (cases "k = k'")
    case True
    with Cons.prems kv have "map_of fs k = None" by (simp add: map_of_eq_None_iff)
    with True kv Cons show ?thesis by simp
  next
    case False
    with kv Cons show ?thesis by simp
  qed
qed

text \<open>Reading a declared field of the returned data gives the field's own projection.\<close>

lemma jprop_project:
  assumes "distinct (map fst fs)" "map_of fs k = Some s"
  shows "jprop (project (ZObject strict fs) v) k = project s (jprop v k)"
proof -
  have "jprop (project (ZObject strict fs) v) k =
      (case map_of (concat (map (\<lambda>(k, s). if has_key v k \<or> project s (jprop v k) \<noteq> JUndef
             then [(k, project s (jprop v k))] else []) fs)) k of None \<Rightarrow> JUndef | Some x \<Rightarrow> x)"
    by (simp add: Let_def)
  also have "\<dots> = project s (jprop v k)"
    by (simp add: map_of_concat_fields [OF assms(1)] assms(2))
  finally show ?thesis .
qed

text \<open>Only declared keys survive in the data an object schema returns.\<close>

lemma project_keys:
  "project (ZObject strict fs) v = JObj ps \<Longrightarrow> set (map fst ps) \<subseteq> set (map fst fs)"
  by (force simp: Let_def split: if_splits)

end
