(* ===== verification/Wire_Schemas.thy ===== *)
theory Wire_Schemas
  imports Zod
begin

text \<open>
  The runtime schemas of \<open>climate-frontend/src/api/schemas.ts\<close>, one definition per exported
  constant, written with the combinators of theory \<open>Zod\<close>: the shared primitives and
  enums, the REST shapes, the strictly closed WebSocket frames, the crop-profile shapes and
  the optimizer console shapes. \<open>Date.parse\<close> is the parameter \<open>dp\<close>: the time value in
  milliseconds of a string, \<open>None\<close> for NaN. Strings are byte lists, so the characters
  outside ASCII in unit names are their UTF-8 bytes.
\<close>

type_synonym date_parser = "string \<Rightarrow> int option"

section \<open>Primitives and enums\<close>

definition slug :: zod where
  "slug = ZCheck ZString is_slug"

definition isoTimestamp :: "date_parser \<Rightarrow> zod" where
  "isoTimestamp dp = ZCheck ZString (\<lambda>v. dp v \<noteq> None)"

definition timeOfDay :: zod where
  "timeOfDay = ZCheck ZString is_time_of_day"

definition schedule :: zod where
  "schedule = ZCheck ZString is_schedule"

text \<open>Each enum is a datatype with the table of its wire literals.\<close>

datatype connectivity = Online | Degraded | Offline

datatype metric = Temperature | Humidity | Co2 | Par | Vpd | SoilMoisture

datatype event_kind =
    FaultKind | InterlockKind | ProfileApplied | SetpointEdit | DriftKind
  | OptimizerPlanApplied | OptimizerPlanEscalated | OptimizerPlanHeld
  | OptimizerResolved | OptimizerRunFailed

datatype event_severity = Info | Warning | Critical

datatype analytics_interval = FiveMin | FifteenMin | OneHour | SixHours | OneDay

datatype actuator_name =
    Heater | Fans | RoofVents | Misters | Co2Injector | GrowLights | ShadeScreen | IrrigationValve

datatype unit_name = Celsius | RelHumidity | Ppm | MicroMol | KPa | Vwc

definition connectivity_table :: "(string \<times> connectivity) list" where
  "connectivity_table = [(''online'', Online), (''degraded'', Degraded), (''offline'', Offline)]"

definition metric_table :: "(string \<times> metric) list" where
  "metric_table =
     [(''temperature'', Temperature), (''humidity'', Humidity), (''co2'', Co2),
      (''par'', Par), (''vpd'', Vpd), (''soil_moisture'', SoilMoisture)]"

definition event_kind_table :: "(string \<times> event_kind) list" where
  "event_kind_table =
     [(''fault'', FaultKind), (''interlock'', InterlockKind), (''profile_applied'', ProfileApplied),
      (''setpoint_edit'', SetpointEdit), (''drift'', DriftKind),
      (''optimizer_plan_applied'', OptimizerPlanApplied),
      (''optimizer_plan_escalated'', OptimizerPlanEscalated),
      (''optimizer_plan_held'', OptimizerPlanHeld),
      (''optimizer_resolved'', OptimizerResolved),
      (''optimizer_run_failed'', OptimizerRunFailed)]"

definition event_severity_table :: "(string \<times> event_severity) list" where
  "event_severity_table = [(''info'', Info), (''warning'', Warning), (''critical'', Critical)]"

definition analytics_interval_table :: "(string \<times> analytics_interval) list" where
  "analytics_interval_table =
     [(''5m'', FiveMin), (''15m'', FifteenMin), (''1h'', OneHour), (''6h'', SixHours), (''1d'', OneDay)]"

definition actuator_name_table :: "(string \<times> actuator_name) list" where
  "actuator_name_table =
     [(''heater'', Heater), (''fans'', Fans), (''roof_vents'', RoofVents), (''misters'', Misters),
      (''co2_injector'', Co2Injector), (''grow_lights'', GrowLights),
      (''shade_screen'', ShadeScreen), (''irrigation_valve'', IrrigationValve)]"

definition unit_table :: "(string \<times> unit_name) list" where
  "unit_table =
     [([CHR 0xC2, CHR 0xB0, CHR ''C''], Celsius), (''%RH'', RelHumidity), (''ppm'', Ppm),
      ([CHR 0xC2, CHR 0xB5] @ ''mol'' @ [CHR 0xC2, CHR 0xB7, CHR ''m'', CHR 0xE2, CHR 0x81, CHR 0xBB,
        CHR 0xC2, CHR 0xB2, CHR 0xC2, CHR 0xB7, CHR ''s'', CHR 0xE2, CHR 0x81, CHR 0xBB, CHR 0xC2,
        CHR 0xB9], MicroMol),
      (''kPa'', KPa), (''VWC'', Vwc)]"

definition z_enum :: "(string \<times> 'a) list \<Rightarrow> zod" where
  "z_enum table = ZEnum (map fst table)"

definition connectivitySchema :: zod where "connectivitySchema = z_enum connectivity_table"
definition metricSchema :: zod where "metricSchema = z_enum metric_table"
definition eventKindSchema :: zod where "eventKindSchema = z_enum event_kind_table"
definition eventSeveritySchema :: zod where "eventSeveritySchema = z_enum event_severity_table"
definition analyticsIntervalSchema :: zod where
  "analyticsIntervalSchema = z_enum analytics_interval_table"
definition actuatorNameSchema :: zod where "actuatorNameSchema = z_enum actuator_name_table"
definition unitSchema :: zod where "unitSchema = z_enum unit_table"

text \<open>The metric-to-unit binding.\<close>

fun METRIC_UNIT :: "metric \<Rightarrow> unit_name" where
  "METRIC_UNIT Temperature = Celsius"
| "METRIC_UNIT Humidity = RelHumidity"
| "METRIC_UNIT Co2 = Ppm"
| "METRIC_UNIT Par = MicroMol"
| "METRIC_UNIT Vpd = KPa"
| "METRIC_UNIT SoilMoisture = Vwc"

section \<open>REST shapes\<close>

definition wireZoneTargets :: zod where
  "wireZoneTargets = ZObject False
     [(''zone_id'', slug),
      (''moisture_low_threshold'', z_range 0 1),
      (''moisture_high_threshold'', z_range 0 1),
      (''drain_period_secs'', ZMin (ZInt ZNumber) 0),
      (''schedule'', schedule)]"

definition wireZoneStatus :: "date_parser \<Rightarrow> zod" where
  "wireZoneStatus dp = ZObject False
     [(''zone_id'', slug),
      (''soil_moisture_vwc'', ZNullable (z_range 0 1)),
      (''irrigating'', ZBoolean),
      (''faulted'', ZBoolean),
      (''last_cycle_ts'', ZNullable (isoTimestamp dp))]"

definition wireSetpoints :: zod where
  "wireSetpoints = ZObject False
     [(''temperature_day_c'', z_range (- 20) 60),
      (''temperature_night_c'', z_range (- 20) 60),
      (''day_start'', timeOfDay),
      (''day_end'', timeOfDay),
      (''humidity_low_pct'', z_range 0 100),
      (''humidity_high_pct'', z_range 0 100),
      (''humidity_deadband_pct'', z_range 0 50),
      (''co2_target_ppm'', ZMax (ZMin (ZInt ZNumber) 0) 5000),
      (''co2_vent_interlock_threshold_pct'', z_range 0 100),
      (''vpd_target_kpa'', ZMin ZNumber 0),
      (''dli_target_mol'', ZMin ZNumber 0),
      (''zones'', ZArray wireZoneTargets)]"

text \<open>\<open>Object.keys(patch).length >= 1\<close>\<close>

fun has_some_key :: "jsval \<Rightarrow> bool" where
  "has_some_key (JObj ps) = (ps \<noteq> [])"
| "has_some_key _ = False"

definition wireSetpointsPatch :: zod where
  "wireSetpointsPatch = ZRefine (z_partial wireSetpoints) has_some_key"

definition wireClimate :: zod where
  "wireClimate = z_partial (ZObject False
     [(''temperature'', ZNullable ZNumber),
      (''humidity'', ZNullable ZNumber),
      (''co2'', ZNullable ZNumber),
      (''dli'', ZNullable ZNumber)])"

definition time_scale_range :: zod where
  "time_scale_range = z_range (1/4) 32"

definition wireGreenhouseSummary :: zod where
  "wireGreenhouseSummary = ZObject False
     [(''id'', slug),
      (''display_name'', ZString),
      (''crop'', ZNullable ZString),
      (''status'', connectivitySchema),
      (''drift'', ZDefault ZBoolean (JBool False)),
      (''time_scale'', ZOptional (ZNullable time_scale_range)),
      (''climate'', ZOptional wireClimate)]"

definition wireGreenhouseDetail :: "date_parser \<Rightarrow> zod" where
  "wireGreenhouseDetail dp = ZObject False
     [(''id'', slug),
      (''display_name'', ZString),
      (''crop'', ZNullable ZString),
      (''status'', connectivitySchema),
      (''drift'', ZDefault ZBoolean (JBool False)),
      (''time_scale'', ZOptional (ZNullable time_scale_range)),
      (''setpoints'', wireSetpoints),
      (''zone_status'', ZArray (wireZoneStatus dp))]"

text \<open>\<open>.url()\<close> defers to the platform's URL parser, the parameter \<open>is_url\<close>.\<close>

definition wireGreenhouseRegistration :: "(string \<Rightarrow> bool) \<Rightarrow> zod" where
  "wireGreenhouseRegistration is_url = ZObject False
     [(''id'', slug),
      (''display_name'', ZNonEmpty ZString),
      (''crop'', ZOptional (ZNullable ZString)),
      (''controller'', ZObject False
        [(''rest_base_url'', ZCheck ZString is_url),
         (''mqtt_topic_root'', ZString)])]"

definition wireReading :: "date_parser \<Rightarrow> zod" where
  "wireReading dp = ZObject False [(''value'', ZNumber), (''ts'', isoTimestamp dp)]"

definition wireTelemetrySeries :: "date_parser \<Rightarrow> zod" where
  "wireTelemetrySeries dp = ZObject False
     [(''metric'', metricSchema),
      (''zone_id'', ZNullable slug),
      (''readings'', ZArray (wireReading dp))]"

definition wireActuatorState :: "date_parser \<Rightarrow> zod" where
  "wireActuatorState dp = ZObject False
     [(''actuator'', actuatorNameSchema),
      (''zone_id'', ZNullable slug),
      (''commanded'', z_range 0 100),
      (''observed'', ZNullable (z_range 0 100)),
      (''ts'', isoTimestamp dp)]"

definition wireTelemetryRange :: "date_parser \<Rightarrow> zod" where
  "wireTelemetryRange dp = ZObject False
     [(''greenhouse_id'', slug),
      (''from'', isoTimestamp dp),
      (''to'', isoTimestamp dp),
      (''series'', ZArray (wireTelemetrySeries dp)),
      (''actuators'', ZArray (wireActuatorState dp))]"

definition wireFleetSparklineSeries :: "date_parser \<Rightarrow> zod" where
  "wireFleetSparklineSeries dp = ZObject False
     [(''greenhouse_id'', slug), (''readings'', ZArray (wireReading dp))]"

definition wireFleetSparklines :: "date_parser \<Rightarrow> zod" where
  "wireFleetSparklines dp = ZObject False
     [(''from'', isoTimestamp dp),
      (''to'', isoTimestamp dp),
      (''metric'', metricSchema),
      (''series'', ZArray (wireFleetSparklineSeries dp))]"

definition wireAnalyticsBucket :: "date_parser \<Rightarrow> zod" where
  "wireAnalyticsBucket dp = ZObject False
     [(''bucket_start'', isoTimestamp dp),
      (''min'', ZNumber),
      (''max'', ZNumber),
      (''avg'', ZNumber),
      (''count'', ZMin (ZInt ZNumber) 0)]"

definition wireAnalyticsSeries :: "date_parser \<Rightarrow> zod" where
  "wireAnalyticsSeries dp = ZObject False
     [(''metric'', metricSchema),
      (''zone_id'', ZNullable slug),
      (''buckets'', ZArray (wireAnalyticsBucket dp))]"

definition wireAnalyticsResponse :: "date_parser \<Rightarrow> zod" where
  "wireAnalyticsResponse dp = ZObject False
     [(''greenhouse_id'', slug),
      (''from'', isoTimestamp dp),
      (''to'', isoTimestamp dp),
      (''interval'', analyticsIntervalSchema),
      (''series'', ZArray (wireAnalyticsSeries dp))]"

definition wireEventEntry :: "date_parser \<Rightarrow> zod" where
  "wireEventEntry dp = ZObject False
     [(''greenhouse_id'', slug),
      (''ts'', isoTimestamp dp),
      (''kind'', eventKindSchema),
      (''severity'', eventSeveritySchema),
      (''message'', ZString),
      (''source'', ZOptional ZString)]"

definition wireActiveAlert :: "date_parser \<Rightarrow> zod" where
  "wireActiveAlert dp = ZObject False
     [(''greenhouse_id'', slug),
      (''component'', ZString),
      (''zone_id'', ZNullable slug),
      (''fault_type'', ZString),
      (''kind'', ZEnum [''fault'', ''interlock'']),
      (''severity'', ZEnum [''warning'', ''critical'']),
      (''since'', isoTimestamp dp)]"

definition wireTimeScalePatch :: zod where
  "wireTimeScalePatch = ZObject False [(''scale'', time_scale_range)]"

definition wireTimeScale :: "date_parser \<Rightarrow> zod" where
  "wireTimeScale dp = ZObject False
     [(''scale'', time_scale_range),
      (''tick_index'', ZMin (ZInt ZNumber) 0),
      (''updated_at'', isoTimestamp dp)]"

definition wireFleetTimeScaleResult :: zod where
  "wireFleetTimeScaleResult = ZObject False
     [(''requested_scale'', time_scale_range),
      (''results'', ZArray (ZObject False
        [(''greenhouse_id'', slug),
         (''applied'', ZBoolean),
         (''scale'', ZNullable time_scale_range),
         (''detail'', ZNullable ZString)]))]"

definition wireValidationError :: zod where
  "wireValidationError = ZObject False
     [(''error'', ZString),
      (''field'', ZString),
      (''bound'', ZString),
      (''value'', ZOptional ZUnknown)]"

definition wireErrorBody :: zod where
  "wireErrorBody = ZObject False [(''error'', ZString)]"

definition wireFleet :: zod where "wireFleet = ZArray wireGreenhouseSummary"
definition wireEventFeed :: "date_parser \<Rightarrow> zod" where "wireEventFeed dp = ZArray (wireEventEntry dp)"
definition wireActiveAlertFeed :: "date_parser \<Rightarrow> zod" where
  "wireActiveAlertFeed dp = ZArray (wireActiveAlert dp)"

section \<open>WebSocket frames\<close>

definition wsEnvelope :: "date_parser \<Rightarrow> (string \<times> zod) list" where
  "wsEnvelope dp =
     [(''schema_version'', ZMin (ZInt ZNumber) 1),
      (''greenhouse_id'', slug),
      (''zone_id'', ZNullable slug),
      (''ts'', isoTimestamp dp)]"

text \<open>\<open>METRIC_UNIT[reading.metric] !== reading.unit\<close> on the raw literals.\<close>

fun unit_matches :: "jsval \<Rightarrow> bool" where
  "unit_matches v =
     (case (jprop v ''metric'', jprop v ''unit'') of
        (JStr m, JStr u) \<Rightarrow>
          (case map_of metric_table m of
             None \<Rightarrow> False
           | Some x \<Rightarrow> map_of unit_table u = Some (METRIC_UNIT x))
      | _ \<Rightarrow> False)"

definition wsReading :: zod where
  "wsReading = ZRefine (ZObject True
     [(''metric'', metricSchema), (''value'', ZNumber), (''unit'', unitSchema)]) unit_matches"

definition wsActuatorSample :: zod where
  "wsActuatorSample = ZObject True
     [(''actuator'', actuatorNameSchema),
      (''commanded'', z_range 0 100),
      (''observed'', ZNullable (z_range 0 100))]"

definition telemetryFrame :: "date_parser \<Rightarrow> zod" where
  "telemetryFrame dp = ZObject True (wsEnvelope dp @
     [(''type'', ZLiteral ''telemetry''),
      (''readings'', ZArray wsReading),
      (''actuators'', ZOptional (ZArray wsActuatorSample))])"

definition statusFrame :: "date_parser \<Rightarrow> zod" where
  "statusFrame dp = ZObject True (z_override (wsEnvelope dp) ''zone_id'' ZNull @
     [(''type'', ZLiteral ''status''),
      (''status'', connectivitySchema),
      (''time_scale'', ZOptional time_scale_range)])"

definition driftFrame :: "date_parser \<Rightarrow> zod" where
  "driftFrame dp = ZObject True (z_override (wsEnvelope dp) ''zone_id'' ZNull @
     [(''type'', ZLiteral ''drift''), (''drift'', ZBoolean)])"

definition eventFrame :: "date_parser \<Rightarrow> zod" where
  "eventFrame dp = ZObject True (z_override (wsEnvelope dp) ''zone_id'' ZNull @
     [(''type'', ZLiteral ''event''),
      (''kind'', eventKindSchema),
      (''severity'', eventSeveritySchema),
      (''message'', ZString),
      (''source'', ZOptional ZString)])"

definition activeAlertsFrame :: "date_parser \<Rightarrow> zod" where
  "activeAlertsFrame dp = ZObject True (z_override (wsEnvelope dp) ''zone_id'' ZNull @
     [(''type'', ZLiteral ''active_alerts''),
      (''alerts'', ZArray (ZObject True
        [(''component'', ZString),
         (''zone_id'', ZNullable slug),
         (''fault_type'', ZString),
         (''kind'', ZEnum [''fault'', ''interlock'']),
         (''severity'', ZEnum [''warning'', ''critical'']),
         (''since'', isoTimestamp dp)]))])"

datatype frame_type = TelemetryType | StatusType | DriftType | EventType | ActiveAlertsType

fun KNOWN_FRAME_SCHEMAS :: "date_parser \<Rightarrow> frame_type \<Rightarrow> zod" where
  "KNOWN_FRAME_SCHEMAS dp TelemetryType = telemetryFrame dp"
| "KNOWN_FRAME_SCHEMAS dp StatusType = statusFrame dp"
| "KNOWN_FRAME_SCHEMAS dp DriftType = driftFrame dp"
| "KNOWN_FRAME_SCHEMAS dp EventType = eventFrame dp"
| "KNOWN_FRAME_SCHEMAS dp ActiveAlertsType = activeAlertsFrame dp"

section \<open>Crop profiles and assignment\<close>

definition wireBound :: zod where
  "wireBound = ZObject False [(''min'', ZNumber), (''max'', ZNumber)]"

definition wireZoneBounds :: zod where
  "wireZoneBounds = ZObject False
     [(''moisture_low_threshold'', ZOptional wireBound),
      (''moisture_high_threshold'', ZOptional wireBound),
      (''drain_period_secs'', ZOptional wireBound)]"

definition wireStageBounds :: zod where
  "wireStageBounds = ZObject False
     [(''temperature_day_c'', ZOptional wireBound),
      (''temperature_night_c'', ZOptional wireBound),
      (''humidity_low_pct'', ZOptional wireBound),
      (''humidity_high_pct'', ZOptional wireBound),
      (''humidity_deadband_pct'', ZOptional wireBound),
      (''co2_target_ppm'', ZOptional wireBound),
      (''co2_vent_interlock_threshold_pct'', ZOptional wireBound),
      (''vpd_target_kpa'', ZOptional wireBound),
      (''dli_target_mol'', ZOptional wireBound),
      (''zones'', ZOptional wireZoneBounds)]"

definition wireProfileStage :: zod where
  "wireProfileStage = ZObject False
     [(''stage'', ZNonEmpty ZString),
      (''targets'', wireSetpoints),
      (''bounds'', ZOptional wireStageBounds)]"

definition wireCropProfile :: zod where
  "wireCropProfile = ZObject False
     [(''id'', slug),
      (''name'', ZNonEmpty ZString),
      (''crop'', ZNonEmpty ZString),
      (''stages'', ZNonEmpty (ZArray wireProfileStage))]"

definition wireProfileLibrary :: zod where
  "wireProfileLibrary = ZArray wireCropProfile"

definition wireAssignment :: zod where
  "wireAssignment = ZObject False
     [(''greenhouse_id'', slug),
      (''profile_id'', slug),
      (''stage'', ZNonEmpty ZString)]"

section \<open>Optimizer console\<close>

datatype optimizer_outcome_status = Applied | Unchanged | Held | Failed

datatype optimizer_provider = Ollama | Anthropic | OpenAI

datatype reason_code =
    InputStale | InputIncomplete | SensorFault | ActuatorFault | ClockModeUnsupported
  | ContractDrift | TwinDiverged | TwinFidelityFault | ConstraintViolation | LowConfidence
  | BoundsMismatch | WriteUnauthorized | PlatformUnavailable | CycleTimeout | LlmUnavailable
  | PlanUnparseable | InternalError

datatype reason_class = Transient | Persistent

datatype cycle_stage = Ingest | QualityGate | Forecast | Plan | Constrain | Publish

datatype degraded_reason = PlatformUnreachable | LlmUnreachable | CycleStalled | ColdStart

datatype optimizer_service_status = Healthy | ServiceDegraded | Unavailable

datatype backend_role = PrimaryRole | FallbackRole

datatype escalation_resolution = ByOperator | Superseded | Expired

definition optimizer_outcome_status_table :: "(string \<times> optimizer_outcome_status) list" where
  "optimizer_outcome_status_table =
     [(''applied'', Applied), (''unchanged'', Unchanged), (''held'', Held), (''failed'', Failed)]"

definition optimizer_provider_table :: "(string \<times> optimizer_provider) list" where
  "optimizer_provider_table = [(''ollama'', Ollama), (''anthropic'', Anthropic), (''openai'', OpenAI)]"

definition reason_code_table :: "(string \<times> reason_code) list" where
  "reason_code_table =
     [(''input_stale'', InputStale), (''input_incomplete'', InputIncomplete),
      (''sensor_fault'', SensorFault), (''actuator_fault'', ActuatorFault),
      (''clock_mode_unsupported'', ClockModeUnsupported), (''contract_drift'', ContractDrift),
      (''twin_diverged'', TwinDiverged), (''twin_fidelity_fault'', TwinFidelityFault),
      (''constraint_violation'', ConstraintViolation), (''low_confidence'', LowConfidence),
      (''bounds_mismatch'', BoundsMismatch), (''write_unauthorized'', WriteUnauthorized),
      (''platform_unavailable'', PlatformUnavailable), (''cycle_timeout'', CycleTimeout),
      (''llm_unavailable'', LlmUnavailable), (''plan_unparseable'', PlanUnparseable),
      (''internal_error'', InternalError)]"

definition reason_class_table :: "(string \<times> reason_class) list" where
  "reason_class_table = [(''transient'', Transient), (''persistent'', Persistent)]"

definition cycle_stage_table :: "(string \<times> cycle_stage) list" where
  "cycle_stage_table =
     [(''ingest'', Ingest), (''quality_gate'', QualityGate), (''forecast'', Forecast),
      (''plan'', Plan), (''constrain'', Constrain), (''publish'', Publish)]"

definition degraded_reason_table :: "(string \<times> degraded_reason) list" where
  "degraded_reason_table =
     [(''platform_unreachable'', PlatformUnreachable), (''llm_unreachable'', LlmUnreachable),
      (''cycle_stalled'', CycleStalled), (''cold_start'', ColdStart)]"

definition optimizer_service_status_table :: "(string \<times> optimizer_service_status) list" where
  "optimizer_service_status_table =
     [(''healthy'', Healthy), (''degraded'', ServiceDegraded), (''unavailable'', Unavailable)]"

definition backend_role_table :: "(string \<times> backend_role) list" where
  "backend_role_table = [(''primary'', PrimaryRole), (''fallback'', FallbackRole)]"

definition escalation_resolution_table :: "(string \<times> escalation_resolution) list" where
  "escalation_resolution_table =
     [(''operator'', ByOperator), (''superseded'', Superseded), (''expired'', Expired)]"

definition optimizerOutcomeStatusSchema :: zod where
  "optimizerOutcomeStatusSchema = z_enum optimizer_outcome_status_table"
definition optimizerProviderSchema :: zod where
  "optimizerProviderSchema = z_enum optimizer_provider_table"
definition reasonCodeSchema :: zod where "reasonCodeSchema = z_enum reason_code_table"
definition reasonClassSchema :: zod where "reasonClassSchema = z_enum reason_class_table"
definition cycleStageSchema :: zod where "cycleStageSchema = z_enum cycle_stage_table"
definition degradedReasonSchema :: zod where "degradedReasonSchema = z_enum degraded_reason_table"
definition optimizerServiceStatusSchema :: zod where
  "optimizerServiceStatusSchema = z_enum optimizer_service_status_table"
definition backendRoleSchema :: zod where "backendRoleSchema = z_enum backend_role_table"
definition escalationResolutionSchema :: zod where
  "escalationResolutionSchema = z_enum escalation_resolution_table"

definition nullish_of :: "zod \<Rightarrow> zod" where
  "nullish_of s = ZOptional (ZNullable s)"

definition count_schema :: zod where
  "count_schema = ZMin (ZInt ZNumber) 0"

definition wireOptimizerOutcome :: zod where
  "wireOptimizerOutcome = ZObject False
     [(''status'', optimizerOutcomeStatusSchema),
      (''reason_code'', nullish_of reasonCodeSchema),
      (''message'', nullish_of ZString)]"

definition wireOptimizerBackend :: zod where
  "wireOptimizerBackend = ZObject False
     [(''provider'', optimizerProviderSchema),
      (''model'', ZString),
      (''prompt_version'', ZString),
      (''role'', backendRoleSchema)]"

definition wireOptimizerObjectiveScores :: zod where
  "wireOptimizerObjectiveScores = ZObject False
     [(''anticipation'', z_range 0 1), (''coupling'', z_range 0 1), (''efficiency'', z_range 0 1)]"

definition wireOptimizerPlanBody :: zod where
  "wireOptimizerPlanBody = ZObject False
     [(''confidence'', z_range 0 1),
      (''explanation'', ZString),
      (''immediate_setpoints'', wireSetpointsPatch),
      (''objective_scores'', ZOptional wireOptimizerObjectiveScores)]"

definition wireOptimizerHorizon :: "date_parser \<Rightarrow> zod" where
  "wireOptimizerHorizon dp = ZObject False [(''start'', isoTimestamp dp), (''end'', isoTimestamp dp)]"

definition wireOptimizerPlanView :: "date_parser \<Rightarrow> zod" where
  "wireOptimizerPlanView dp = ZObject False
     [(''optimizer_run_id'', ZString),
      (''greenhouse_id'', slug),
      (''created_at'', isoTimestamp dp),
      (''horizon'', wireOptimizerHorizon dp),
      (''backend'', wireOptimizerBackend),
      (''outcome'', wireOptimizerOutcome),
      (''plan'', ZNullable wireOptimizerPlanBody)]"

definition wireFieldBound :: zod where
  "wireFieldBound = ZObject False [(''min'', ZNumber), (''max'', ZNumber)]"

definition wireSetpointDiff :: zod where
  "wireSetpointDiff = ZObject False
     [(''proposed'', wireSetpointsPatch),
      (''current'', wireSetpoints),
      (''bounds'', ZRecord wireFieldBound)]"

definition wireOptimizerPlanDetail :: "date_parser \<Rightarrow> zod" where
  "wireOptimizerPlanDetail dp = ZObject False
     [(''plan'', wireOptimizerPlanView dp), (''diff'', ZNullable wireSetpointDiff)]"

definition wireEscalation :: "date_parser \<Rightarrow> zod" where
  "wireEscalation dp = ZObject False
     [(''id'', ZString),
      (''greenhouse_id'', slug),
      (''optimizer_run_id'', ZString),
      (''reason_code'', reasonCodeSchema),
      (''reason_class'', reasonClassSchema),
      (''created_at'', isoTimestamp dp),
      (''message'', nullish_of ZString),
      (''resolution'', nullish_of escalationResolutionSchema)]"

definition wireEscalationList :: "date_parser \<Rightarrow> zod" where
  "wireEscalationList dp = ZArray (wireEscalation dp)"

definition wireFleetOptimizerGreenhouse :: "date_parser \<Rightarrow> zod" where
  "wireFleetOptimizerGreenhouse dp = ZObject False
     [(''greenhouse_id'', slug),
      (''status'', ZNullable optimizerOutcomeStatusSchema),
      (''reason_code'', nullish_of reasonCodeSchema),
      (''message'', nullish_of ZString),
      (''enabled'', ZBoolean),
      (''created_at'', ZNullable (isoTimestamp dp)),
      (''in_flight'', ZBoolean),
      (''current_stage'', ZNullable cycleStageSchema)]"

definition wireFleetOptimizerRollup :: zod where
  "wireFleetOptimizerRollup = ZObject False
     [(''backlog'', count_schema),
      (''by_outcome'', ZObject False
        [(''applied'', count_schema), (''unchanged'', count_schema),
         (''held'', count_schema), (''failed'', count_schema)]),
      (''oldest_open_age_secs'', ZNullable count_schema)]"

definition wireFleetOptimizerSummary :: "date_parser \<Rightarrow> zod" where
  "wireFleetOptimizerSummary dp = ZObject False
     [(''greenhouses'', ZArray (wireFleetOptimizerGreenhouse dp)),
      (''rollup'', wireFleetOptimizerRollup)]"

definition wireModelState :: zod where
  "wireModelState = ZObject False
     [(''provider'', optimizerProviderSchema),
      (''model'', ZString),
      (''prompt_version'', ZString),
      (''role'', backendRoleSchema),
      (''available_models'', ZNonEmpty (ZArray ZString))]"

definition wireEnableState :: zod where
  "wireEnableState = ZObject False [(''enabled'', ZBoolean)]"

definition wireGreenhouseEnableState :: zod where
  "wireGreenhouseEnableState = ZObject False [(''greenhouse_id'', slug), (''enabled'', ZBoolean)]"

definition wireOptimizerStatus :: "date_parser \<Rightarrow> zod" where
  "wireOptimizerStatus dp = ZObject False
     [(''status'', optimizerServiceStatusSchema),
      (''degraded_reason'', nullish_of degradedReasonSchema),
      (''enabled'', ZBoolean),
      (''read_only_reason'', nullish_of ZString),
      (''last_successful_cycle_at'', ZNullable (isoTimestamp dp)),
      (''cadence_secs'', ZMin (ZInt ZNumber) 1)]"

definition wireCycleAccepted :: zod where
  "wireCycleAccepted = ZObject False [(''optimizer_run_id'', ZString), (''greenhouse_id'', slug)]"

end
