(* ===== verification/Wire_Types.thy ===== *)
theory Wire_Types
  imports Wire_Schemas
begin

text \<open>
  The typed side of \<open>climate-frontend/src/api/schemas.ts\<close>: one record per wire shape
  (what \<open>z.infer\<close> derives from a schema, snake_case) and one per view-model type
  (camelCase). A nullable or an optional field is an \<^typ>\<open>'a option\<close>, a field that is both
  is an \<^typ>\<open>'a js_opt\<close>. Timestamps are strings on the wire and \<open>Date\<close>s in the view: a
  \<open>Date\<close> is its time value in milliseconds, \<open>None\<close> for an invalid date. A field whose name
  is a constant or keyword of the logic is renamed: \<open>id\<close> to \<open>ident\<close>, \<open>value\<close> to \<open>val\<close>,
  \<open>from\<close>/\<open>to\<close> to \<open>from_ts\<close>/\<open>to_ts\<close>, \<open>min\<close>/\<open>max\<close>/\<open>count\<close> to \<open>min_v\<close>/\<open>max_v\<close>/\<open>count_v\<close>,
  \<open>schedule\<close> to \<open>sched\<close>.
\<close>

type_synonym date = "int option"

section \<open>Wire shapes\<close>

record wire_zone_targets =
  zone_id :: string
  moisture_low_threshold :: js_num
  moisture_high_threshold :: js_num
  drain_period_secs :: js_num
  sched :: string

record wire_zone_status =
  zone_id :: string
  soil_moisture_vwc :: "js_num option"
  irrigating :: bool
  faulted :: bool
  last_cycle_ts :: "string option"

record wire_setpoints =
  temperature_day_c :: js_num
  temperature_night_c :: js_num
  day_start :: string
  day_end :: string
  humidity_low_pct :: js_num
  humidity_high_pct :: js_num
  humidity_deadband_pct :: js_num
  co2_target_ppm :: js_num
  co2_vent_interlock_threshold_pct :: js_num
  vpd_target_kpa :: js_num
  dli_target_mol :: js_num
  zones :: "wire_zone_targets list"

record wire_setpoints_patch =
  temperature_day_c :: "js_num option"
  temperature_night_c :: "js_num option"
  day_start :: "string option"
  day_end :: "string option"
  humidity_low_pct :: "js_num option"
  humidity_high_pct :: "js_num option"
  humidity_deadband_pct :: "js_num option"
  co2_target_ppm :: "js_num option"
  co2_vent_interlock_threshold_pct :: "js_num option"
  vpd_target_kpa :: "js_num option"
  dli_target_mol :: "js_num option"
  zones :: "wire_zone_targets list option"

record wire_climate =
  temperature :: "js_num js_opt"
  humidity :: "js_num js_opt"
  co2 :: "js_num js_opt"
  dli :: "js_num js_opt"

record wire_greenhouse_summary =
  ident :: string
  display_name :: string
  crop :: "string option"
  status :: connectivity
  drift :: bool
  time_scale :: "js_num js_opt"
  climate :: "wire_climate option"

record wire_greenhouse_detail =
  ident :: string
  display_name :: string
  crop :: "string option"
  status :: connectivity
  drift :: bool
  time_scale :: "js_num js_opt"
  setpoints :: wire_setpoints
  zone_status :: "wire_zone_status list"

record wire_controller =
  rest_base_url :: string
  mqtt_topic_root :: string

record wire_greenhouse_registration =
  ident :: string
  display_name :: string
  crop :: "string js_opt"
  controller :: wire_controller

record wire_reading =
  val :: js_num
  ts :: string

record wire_telemetry_series =
  metric :: metric
  zone_id :: "string option"
  readings :: "wire_reading list"

record wire_actuator_state =
  actuator :: actuator_name
  zone_id :: "string option"
  commanded :: js_num
  observed :: "js_num option"
  ts :: string

record wire_telemetry_range =
  greenhouse_id :: string
  from_ts :: string
  to_ts :: string
  series :: "wire_telemetry_series list"
  actuators :: "wire_actuator_state list"

record wire_fleet_sparkline_series =
  greenhouse_id :: string
  readings :: "wire_reading list"

record wire_fleet_sparklines =
  from_ts :: string
  to_ts :: string
  metric :: metric
  series :: "wire_fleet_sparkline_series list"

record wire_analytics_bucket =
  bucket_start :: string
  min_v :: js_num
  max_v :: js_num
  avg :: js_num
  count_v :: js_num

record wire_analytics_series =
  metric :: metric
  zone_id :: "string option"
  buckets :: "wire_analytics_bucket list"

record wire_analytics_response =
  greenhouse_id :: string
  from_ts :: string
  to_ts :: string
  interval :: analytics_interval
  series :: "wire_analytics_series list"

record wire_event_entry =
  greenhouse_id :: string
  ts :: string
  kind :: event_kind
  severity :: event_severity
  message :: string
  source :: "string option"

text \<open>An alert's kind and severity range over the sub-enums the schema lists.\<close>

record wire_active_alert =
  greenhouse_id :: string
  component :: string
  zone_id :: "string option"
  fault_type :: string
  kind :: event_kind
  severity :: event_severity
  since :: string

record wire_time_scale =
  scale :: js_num
  tick_index :: js_num
  updated_at :: string

record wire_time_scale_outcome =
  greenhouse_id :: string
  applied :: bool
  scale :: "js_num option"
  detail :: "string option"

record wire_fleet_time_scale_result =
  requested_scale :: js_num
  results :: "wire_time_scale_outcome list"

record wire_validation_error =
  error :: string
  field :: string
  bound :: string
  val :: "jsval option"

section \<open>WebSocket frames\<close>

record ws_reading =
  metric :: metric
  val :: js_num
  unit :: unit_name

record ws_actuator_sample =
  actuator :: actuator_name
  commanded :: js_num
  observed :: "js_num option"

record telemetry_frame =
  schema_version :: js_num
  greenhouse_id :: string
  zone_id :: "string option"
  ts :: string
  readings :: "ws_reading list"
  actuators :: "ws_actuator_sample list option"

record status_frame =
  schema_version :: js_num
  greenhouse_id :: string
  ts :: string
  status :: connectivity
  time_scale :: "js_num option"

record drift_frame =
  schema_version :: js_num
  greenhouse_id :: string
  ts :: string
  drift :: bool

record event_frame =
  schema_version :: js_num
  greenhouse_id :: string
  ts :: string
  kind :: event_kind
  severity :: event_severity
  message :: string
  source :: "string option"

record frame_alert =
  component :: string
  zone_id :: "string option"
  fault_type :: string
  kind :: event_kind
  severity :: event_severity
  since :: string

record active_alerts_frame =
  schema_version :: js_num
  greenhouse_id :: string
  ts :: string
  alerts :: "frame_alert list"

datatype known_frame =
    TelemetryFrame telemetry_frame
  | StatusFrame status_frame
  | DriftFrame drift_frame
  | EventFrame event_frame
  | ActiveAlertsFrame active_alerts_frame

section \<open>View models\<close>

record zone_targets =
  zoneId :: string
  moistureLowThreshold :: js_num
  moistureHighThreshold :: js_num
  drainPeriodSecs :: js_num
  sched :: string

record zone_status =
  zoneId :: string
  soilMoistureVwc :: "js_num option"
  irrigating :: bool
  faulted :: bool
  lastCycleTs :: "date option"

record setpoints =
  temperatureDayC :: js_num
  temperatureNightC :: js_num
  dayStart :: string
  dayEnd :: string
  humidityLowPct :: js_num
  humidityHighPct :: js_num
  humidityDeadbandPct :: js_num
  co2TargetPpm :: js_num
  co2VentInterlockThresholdPct :: js_num
  vpdTargetKpa :: js_num
  dliTargetMol :: js_num
  zones :: "zone_targets list"

record setpoints_patch =
  temperatureDayC :: "js_num option"
  temperatureNightC :: "js_num option"
  dayStart :: "string option"
  dayEnd :: "string option"
  humidityLowPct :: "js_num option"
  humidityHighPct :: "js_num option"
  humidityDeadbandPct :: "js_num option"
  co2TargetPpm :: "js_num option"
  co2VentInterlockThresholdPct :: "js_num option"
  vpdTargetKpa :: "js_num option"
  dliTargetMol :: "js_num option"
  zones :: "zone_targets list option"

record greenhouse_climate =
  temperature :: "js_num js_opt"
  humidity :: "js_num js_opt"
  co2 :: "js_num js_opt"
  dli :: "js_num js_opt"

record greenhouse_summary =
  ident :: string
  displayName :: string
  crop :: "string option"
  status :: connectivity
  drift :: bool
  timeScale :: "js_num option"
  climate :: greenhouse_climate

record greenhouse_detail =
  ident :: string
  displayName :: string
  crop :: "string option"
  status :: connectivity
  drift :: bool
  timeScale :: "js_num option"
  setpoints :: setpoints
  zoneStatus :: "zone_status list"

record controller_ref =
  restBaseUrl :: string
  mqttTopicRoot :: string

record greenhouse_registration_input =
  ident :: string
  displayName :: string
  crop :: "string js_opt"
  controller :: controller_ref

record reading =
  val :: js_num
  ts :: date

record telemetry_series =
  metric :: metric
  zoneId :: "string option"
  readings :: "reading list"

record actuator_state =
  actuator :: actuator_name
  zoneId :: "string option"
  commanded :: js_num
  observed :: "js_num option"
  ts :: date

record telemetry_range =
  greenhouseId :: string
  from_ts :: date
  to_ts :: date
  series :: "telemetry_series list"
  actuators :: "actuator_state list"

record fleet_sparkline_series =
  greenhouseId :: string
  readings :: "reading list"

record fleet_sparklines =
  from_ts :: date
  to_ts :: date
  metric :: metric
  series :: "fleet_sparkline_series list"

record analytics_bucket =
  bucketStart :: date
  min_v :: js_num
  max_v :: js_num
  avg :: js_num
  count_v :: js_num

record analytics_series =
  metric :: metric
  zoneId :: "string option"
  buckets :: "analytics_bucket list"

record analytics_response =
  greenhouseId :: string
  from_ts :: date
  to_ts :: date
  interval :: analytics_interval
  series :: "analytics_series list"

record event_entry =
  greenhouseId :: string
  ts :: date
  kind :: event_kind
  severity :: event_severity
  message :: string
  source :: "string option"

record active_alert =
  greenhouseId :: string
  component :: string
  zoneId :: "string option"
  faultType :: string
  kind :: event_kind
  severity :: event_severity
  since :: date

record time_scale_state =
  scale :: js_num
  tickIndex :: js_num
  updatedAt :: date

record time_scale_outcome =
  greenhouseId :: string
  applied :: bool
  scale :: "js_num option"
  detail :: "string option"

record fleet_time_scale_result =
  requestedScale :: js_num
  results :: "time_scale_outcome list"

end
