(* ===== verification/Frames.thy ===== *)
theory Frames
  imports Wire_Types
begin

text \<open>
  From validated data to typed frames. TypeScript gives the data a schema returns the type
  \<open>z.infer\<close>; here that view is the family of readers \<open>read_*\<close>, partial because a reader sees a
  dynamically typed value. The relation \<open>reads r s\<close> says that every value the schema \<open>s\<close>
  accepts is readable by \<open>r\<close> after parsing, and is proved compositionally, so a frame schema
  and its record type provably fit together. The last section is \<open>KNOWN_FRAME_SCHEMAS\<close>'s
  typed counterpart.
\<close>

section \<open>Readers\<close>

fun rd_str :: "jsval \<Rightarrow> string option" where
  "rd_str (JStr s) = Some s"
| "rd_str _ = None"

fun rd_num :: "jsval \<Rightarrow> js_num option" where
  "rd_num (JNum x) = Some x"
| "rd_num _ = None"

fun rd_bool :: "jsval \<Rightarrow> bool option" where
  "rd_bool (JBool b) = Some b"
| "rd_bool _ = None"

fun rd_enum :: "(string \<times> 'a) list \<Rightarrow> jsval \<Rightarrow> 'a option" where
  "rd_enum table (JStr s) = map_of table s"
| "rd_enum table _ = None"

fun rd_nullable :: "(jsval \<Rightarrow> 'a option) \<Rightarrow> jsval \<Rightarrow> 'a option option" where
  "rd_nullable r v = (if v = JNull then Some None else map_option Some (r v))"

fun rd_optional :: "(jsval \<Rightarrow> 'a option) \<Rightarrow> jsval \<Rightarrow> 'a option option" where
  "rd_optional r v = (if v = JUndef then Some None else map_option Some (r v))"

fun rd_list :: "(jsval \<Rightarrow> 'a option) \<Rightarrow> jsval \<Rightarrow> 'a list option" where
  "rd_list r (JArr xs) = option_list (map r xs)"
| "rd_list r _ = None"

definition read_ws_reading :: "jsval \<Rightarrow> ws_reading option" where
  "read_ws_reading v = do {
     m \<leftarrow> rd_enum metric_table (jprop v ''metric'');
     x \<leftarrow> rd_num (jprop v ''value'');
     u \<leftarrow> rd_enum unit_table (jprop v ''unit'');
     Some \<lparr>ws_reading.metric = m, val = x, unit = u\<rparr> }"

definition read_ws_actuator_sample :: "jsval \<Rightarrow> ws_actuator_sample option" where
  "read_ws_actuator_sample v = do {
     a \<leftarrow> rd_enum actuator_name_table (jprop v ''actuator'');
     c \<leftarrow> rd_num (jprop v ''commanded'');
     ob \<leftarrow> rd_nullable rd_num (jprop v ''observed'');
     Some \<lparr>ws_actuator_sample.actuator = a, commanded = c, observed = ob\<rparr> }"

definition read_telemetry_frame :: "jsval \<Rightarrow> telemetry_frame option" where
  "read_telemetry_frame v = do {
     sv \<leftarrow> rd_num (jprop v ''schema_version'');
     g \<leftarrow> rd_str (jprop v ''greenhouse_id'');
     z \<leftarrow> rd_nullable rd_str (jprop v ''zone_id'');
     t \<leftarrow> rd_str (jprop v ''ts'');
     rs \<leftarrow> rd_list read_ws_reading (jprop v ''readings'');
     acts \<leftarrow> rd_optional (rd_list read_ws_actuator_sample) (jprop v ''actuators'');
     Some \<lparr>telemetry_frame.schema_version = sv, greenhouse_id = g, zone_id = z, ts = t,
           readings = rs, actuators = acts\<rparr> }"

definition read_status_frame :: "jsval \<Rightarrow> status_frame option" where
  "read_status_frame v = do {
     sv \<leftarrow> rd_num (jprop v ''schema_version'');
     g \<leftarrow> rd_str (jprop v ''greenhouse_id'');
     t \<leftarrow> rd_str (jprop v ''ts'');
     st \<leftarrow> rd_enum connectivity_table (jprop v ''status'');
     sc \<leftarrow> rd_optional rd_num (jprop v ''time_scale'');
     Some \<lparr>status_frame.schema_version = sv, greenhouse_id = g, ts = t, status = st, time_scale = sc\<rparr> }"

definition read_drift_frame :: "jsval \<Rightarrow> drift_frame option" where
  "read_drift_frame v = do {
     sv \<leftarrow> rd_num (jprop v ''schema_version'');
     g \<leftarrow> rd_str (jprop v ''greenhouse_id'');
     t \<leftarrow> rd_str (jprop v ''ts'');
     d \<leftarrow> rd_bool (jprop v ''drift'');
     Some \<lparr>drift_frame.schema_version = sv, greenhouse_id = g, ts = t, drift = d\<rparr> }"

definition read_event_frame :: "jsval \<Rightarrow> event_frame option" where
  "read_event_frame v = do {
     sv \<leftarrow> rd_num (jprop v ''schema_version'');
     g \<leftarrow> rd_str (jprop v ''greenhouse_id'');
     t \<leftarrow> rd_str (jprop v ''ts'');
     k \<leftarrow> rd_enum event_kind_table (jprop v ''kind'');
     sev \<leftarrow> rd_enum event_severity_table (jprop v ''severity'');
     m \<leftarrow> rd_str (jprop v ''message'');
     src \<leftarrow> rd_optional rd_str (jprop v ''source'');
     Some \<lparr>event_frame.schema_version = sv, greenhouse_id = g, ts = t, kind = k, severity = sev,
           message = m, source = src\<rparr> }"

definition read_frame_alert :: "jsval \<Rightarrow> frame_alert option" where
  "read_frame_alert v = do {
     c \<leftarrow> rd_str (jprop v ''component'');
     z \<leftarrow> rd_nullable rd_str (jprop v ''zone_id'');
     ft \<leftarrow> rd_str (jprop v ''fault_type'');
     k \<leftarrow> rd_enum event_kind_table (jprop v ''kind'');
     sev \<leftarrow> rd_enum event_severity_table (jprop v ''severity'');
     t \<leftarrow> rd_str (jprop v ''since'');
     Some \<lparr>frame_alert.component = c, zone_id = z, fault_type = ft, kind = k, severity = sev, since = t\<rparr> }"

definition read_active_alerts_frame :: "jsval \<Rightarrow> active_alerts_frame option" where
  "read_active_alerts_frame v = do {
     sv \<leftarrow> rd_num (jprop v ''schema_version'');
     g \<leftarrow> rd_str (jprop v ''greenhouse_id'');
     t \<leftarrow> rd_str (jprop v ''ts'');
     al \<leftarrow> rd_list read_frame_alert (jprop v ''alerts'');
     Some \<lparr>active_alerts_frame.schema_version = sv, greenhouse_id = g, ts = t, alerts = al\<rparr> }"

section \<open>A reader fits a schema\<close>

definition reads :: "(jsval \<Rightarrow> 'a option) \<Rightarrow> zod \<Rightarrow> bool" where
  "reads r s \<longleftrightarrow> (\<forall>v. conforms s v \<longrightarrow> (\<exists>x. r (project s v) = Some x))"

named_theorems reads_intros "which reader fits which schema"

lemma readsD: "reads r s \<Longrightarrow> conforms s v \<Longrightarrow> \<exists>x. r (project s v) = Some x"
  by (simp add: reads_def)

lemma reads_basic [reads_intros]:
  "reads rd_str ZString" "reads rd_num ZNumber" "reads rd_bool ZBoolean"
  by (auto simp: reads_def split: jsval.splits)

lemma reads_checks [reads_intros]:
  "reads r s \<Longrightarrow> reads r (ZCheck s p)" "reads r s \<Longrightarrow> reads r (ZMin s lo)"
  "reads r s \<Longrightarrow> reads r (ZMax s hi)" "reads r s \<Longrightarrow> reads r (ZInt s)"
  "reads r s \<Longrightarrow> reads r (ZRefine s q)" "reads r s \<Longrightarrow> reads r (ZNonEmpty s)"
  by (auto simp: reads_def)

lemma reads_enum: "set lits \<subseteq> set (map fst table) \<Longrightarrow> reads (rd_enum table) (ZEnum lits)"
proof -
  assume sub: "set lits \<subseteq> set (map fst table)"
  have "\<exists>x. map_of table t = Some x" if "t \<in> set lits" for t
    using sub that by (metis map_of_eq_None_iff not_None_eq set_map subsetD)
  then show ?thesis by (auto simp: reads_def split: jsval.splits)
qed

lemma reads_z_enum [reads_intros]: "reads (rd_enum table) (z_enum table)"
  unfolding z_enum_def by (rule reads_enum) simp

lemma reads_nullable [reads_intros]: "reads r s \<Longrightarrow> reads (rd_nullable r) (ZNullable s)"
  by (auto simp: reads_def)

lemma reads_optional [reads_intros]: "reads r s \<Longrightarrow> reads (rd_optional r) (ZOptional s)"
  by (auto simp: reads_def)

lemma reads_list [reads_intros]: "reads r s \<Longrightarrow> reads (rd_list r) (ZArray s)"
proof -
  assume r: "reads r s"
  have "\<exists>ys. rd_list r (project (ZArray s) (JArr xs)) = Some ys" if "\<forall>x\<in>set xs. conforms s x" for xs
    using option_list_total [of xs "\<lambda>x. r (project s x)"] that readsD [OF r] by (simp add: comp_def)
  then show ?thesis by (auto simp: reads_def split: jsval.splits)
qed

text \<open>A declared field of a parsed object reads as its own schema promises.\<close>

lemma reads_field:
  assumes "conforms (ZObject strict fs) v" "distinct (map fst fs)" "map_of fs k = Some s" "reads r s"
  shows "\<exists>x. r (jprop (project (ZObject strict fs) v) k) = Some x"
proof -
  have "(k, s) \<in> set fs" using assms(3) by (rule map_of_SomeD)
  then have "conforms s (jprop v k)" using conforms_field assms(1) by blast
  then show ?thesis
    using readsD [OF assms(4)] by (simp only: jprop_project [OF assms(2,3)])
qed

text \<open>
  The readers of the five frames and their parts fit the schemas. Each proof reads every
  declared field with \<open>reads_field\<close>.
\<close>

lemma reads_slug [reads_intros]: "reads rd_str slug"
  unfolding slug_def by (intro reads_intros)

lemma reads_isoTimestamp [reads_intros]: "reads rd_str (isoTimestamp dp)"
  unfolding isoTimestamp_def by (intro reads_intros)

lemma reads_range [reads_intros]: "reads rd_num (z_range lo hi)"
  unfolding z_range_def by (intro reads_intros)

lemmas frame_enum_defs =
  metricSchema_def unitSchema_def connectivitySchema_def eventKindSchema_def
  eventSeveritySchema_def actuatorNameSchema_def time_scale_range_def

lemma reads_ws_reading [reads_intros]: "reads read_ws_reading wsReading"
proof -
  let ?fs = "[(''metric'', metricSchema), (''value'', ZNumber), (''unit'', unitSchema)]"
  have "reads read_ws_reading (ZObject True ?fs)"
    unfolding reads_def
  proof (intro allI impI)
    fix v assume c: "conforms (ZObject True ?fs) v"
    have d: "distinct (map fst ?fs)" by simp
    from reads_field [OF c d, of "''metric''" metricSchema "rd_enum metric_table"]
      reads_field [OF c d, of "''value''" ZNumber rd_num]
      reads_field [OF c d, of "''unit''" unitSchema "rd_enum unit_table"]
    show "\<exists>x. read_ws_reading (project (ZObject True ?fs) v) = Some x"
      by (auto simp: read_ws_reading_def frame_enum_defs reads_intros simp del: project.simps)
  qed
  then show ?thesis unfolding wsReading_def by (intro reads_intros)
qed

lemma reads_ws_actuator_sample [reads_intros]: "reads read_ws_actuator_sample wsActuatorSample"
proof -
  let ?fs = "[(''actuator'', actuatorNameSchema), (''commanded'', z_range 0 100),
      (''observed'', ZNullable (z_range 0 100))]"
  show ?thesis
    unfolding reads_def wsActuatorSample_def
  proof (intro allI impI)
    fix v assume c: "conforms (ZObject True ?fs) v"
    have d: "distinct (map fst ?fs)" by simp
    from reads_field [OF c d, of "''actuator''" actuatorNameSchema "rd_enum actuator_name_table"]
      reads_field [OF c d, of "''commanded''" "z_range 0 100" rd_num]
      reads_field [OF c d, of "''observed''" "ZNullable (z_range 0 100)" "rd_nullable rd_num"]
    show "\<exists>x. read_ws_actuator_sample (project (ZObject True ?fs) v) = Some x"
      by (auto simp: read_ws_actuator_sample_def frame_enum_defs reads_intros
          simp del: project.simps rd_nullable.simps)
  qed
qed

lemma reads_frame_alert [reads_intros]:
  "reads read_frame_alert (ZObject True
     [(''component'', ZString), (''zone_id'', ZNullable slug), (''fault_type'', ZString),
      (''kind'', ZEnum [''fault'', ''interlock'']), (''severity'', ZEnum [''warning'', ''critical'']),
      (''since'', isoTimestamp dp)])" (is "reads _ (ZObject True ?fs)")
  unfolding reads_def
proof (intro allI impI)
  fix v assume c: "conforms (ZObject True ?fs) v"
  have d: "distinct (map fst ?fs)" by simp
  have k: "reads (rd_enum event_kind_table) (ZEnum [''fault'', ''interlock''])"
    and s: "reads (rd_enum event_severity_table) (ZEnum [''warning'', ''critical''])"
    by (auto intro!: reads_enum simp: event_kind_table_def event_severity_table_def)
  from reads_field [OF c d, of "''component''" ZString rd_str]
    reads_field [OF c d, of "''zone_id''" "ZNullable slug" "rd_nullable rd_str"]
    reads_field [OF c d, of "''fault_type''" ZString rd_str]
    reads_field [OF c d, OF _ k, of "''kind''"]
    reads_field [OF c d, OF _ s, of "''severity''"]
    reads_field [OF c d, of "''since''" "isoTimestamp dp" rd_str]
  show "\<exists>x. read_frame_alert (project (ZObject True ?fs) v) = Some x"
    by (auto simp: read_frame_alert_def reads_intros simp del: project.simps rd_nullable.simps)
qed

lemma reads_telemetry_frame: "reads read_telemetry_frame (telemetryFrame dp)"
proof -
  let ?fs = "[(''schema_version'', ZMin (ZInt ZNumber) 1), (''greenhouse_id'', slug),
      (''zone_id'', ZNullable slug), (''ts'', isoTimestamp dp), (''type'', ZLiteral ''telemetry''),
      (''readings'', ZArray wsReading), (''actuators'', ZOptional (ZArray wsActuatorSample))]"
  have eq: "telemetryFrame dp = ZObject True ?fs" by (simp add: telemetryFrame_def wsEnvelope_def)
  show ?thesis
    unfolding reads_def eq
  proof (intro allI impI)
    fix v assume c: "conforms (ZObject True ?fs) v"
    have d: "distinct (map fst ?fs)" by simp
    from reads_field [OF c d, of "''schema_version''" "ZMin (ZInt ZNumber) 1" rd_num]
      reads_field [OF c d, of "''greenhouse_id''" slug rd_str]
      reads_field [OF c d, of "''zone_id''" "ZNullable slug" "rd_nullable rd_str"]
      reads_field [OF c d, of "''ts''" "isoTimestamp dp" rd_str]
      reads_field [OF c d, of "''readings''" "ZArray wsReading" "rd_list read_ws_reading"]
      reads_field [OF c d, of "''actuators''" "ZOptional (ZArray wsActuatorSample)" "rd_optional (rd_list read_ws_actuator_sample)"]
    show "\<exists>x. read_telemetry_frame (project (ZObject True ?fs) v) = Some x"
      by (auto simp: read_telemetry_frame_def frame_enum_defs reads_intros
          simp del: project.simps rd_nullable.simps rd_optional.simps)
  qed
qed

lemma reads_status_frame: "reads read_status_frame (statusFrame dp)"
proof -
  let ?fs = "[(''schema_version'', ZMin (ZInt ZNumber) 1), (''greenhouse_id'', slug),
      (''zone_id'', ZNull), (''ts'', isoTimestamp dp), (''type'', ZLiteral ''status''),
      (''status'', connectivitySchema), (''time_scale'', ZOptional time_scale_range)]"
  have eq: "statusFrame dp = ZObject True ?fs" by (simp add: statusFrame_def wsEnvelope_def)
  show ?thesis
    unfolding reads_def eq
  proof (intro allI impI)
    fix v assume c: "conforms (ZObject True ?fs) v"
    have d: "distinct (map fst ?fs)" by simp
    from reads_field [OF c d, of "''schema_version''" "ZMin (ZInt ZNumber) 1" rd_num]
      reads_field [OF c d, of "''greenhouse_id''" slug rd_str]
      reads_field [OF c d, of "''ts''" "isoTimestamp dp" rd_str]
      reads_field [OF c d, of "''status''" "connectivitySchema" "rd_enum connectivity_table"]
      reads_field [OF c d, of "''time_scale''" "ZOptional time_scale_range" "rd_optional rd_num"]
    show "\<exists>x. read_status_frame (project (ZObject True ?fs) v) = Some x"
      by (auto simp: read_status_frame_def frame_enum_defs reads_intros
          simp del: project.simps rd_nullable.simps rd_optional.simps)
  qed
qed

lemma reads_drift_frame: "reads read_drift_frame (driftFrame dp)"
proof -
  let ?fs = "[(''schema_version'', ZMin (ZInt ZNumber) 1), (''greenhouse_id'', slug),
      (''zone_id'', ZNull), (''ts'', isoTimestamp dp), (''type'', ZLiteral ''drift''), (''drift'', ZBoolean)]"
  have eq: "driftFrame dp = ZObject True ?fs" by (simp add: driftFrame_def wsEnvelope_def)
  show ?thesis
    unfolding reads_def eq
  proof (intro allI impI)
    fix v assume c: "conforms (ZObject True ?fs) v"
    have d: "distinct (map fst ?fs)" by simp
    from reads_field [OF c d, of "''schema_version''" "ZMin (ZInt ZNumber) 1" rd_num]
      reads_field [OF c d, of "''greenhouse_id''" slug rd_str]
      reads_field [OF c d, of "''ts''" "isoTimestamp dp" rd_str]
      reads_field [OF c d, of "''drift''" "ZBoolean" "rd_bool"]
    show "\<exists>x. read_drift_frame (project (ZObject True ?fs) v) = Some x"
      by (auto simp: read_drift_frame_def frame_enum_defs reads_intros
          simp del: project.simps rd_nullable.simps rd_optional.simps)
  qed
qed

lemma reads_event_frame: "reads read_event_frame (eventFrame dp)"
proof -
  let ?fs = "[(''schema_version'', ZMin (ZInt ZNumber) 1), (''greenhouse_id'', slug),
      (''zone_id'', ZNull), (''ts'', isoTimestamp dp), (''type'', ZLiteral ''event''),
      (''kind'', eventKindSchema), (''severity'', eventSeveritySchema), (''message'', ZString),
      (''source'', ZOptional ZString)]"
  have eq: "eventFrame dp = ZObject True ?fs" by (simp add: eventFrame_def wsEnvelope_def)
  show ?thesis
    unfolding reads_def eq
  proof (intro allI impI)
    fix v assume c: "conforms (ZObject True ?fs) v"
    have d: "distinct (map fst ?fs)" by simp
    from reads_field [OF c d, of "''schema_version''" "ZMin (ZInt ZNumber) 1" rd_num]
      reads_field [OF c d, of "''greenhouse_id''" slug rd_str]
      reads_field [OF c d, of "''ts''" "isoTimestamp dp" rd_str]
      reads_field [OF c d, of "''kind''" "eventKindSchema" "rd_enum event_kind_table"]
      reads_field [OF c d, of "''severity''" "eventSeveritySchema" "rd_enum event_severity_table"]
      reads_field [OF c d, of "''message''" "ZString" "rd_str"]
      reads_field [OF c d, of "''source''" "ZOptional ZString" "rd_optional rd_str"]
    show "\<exists>x. read_event_frame (project (ZObject True ?fs) v) = Some x"
      by (auto simp: read_event_frame_def frame_enum_defs reads_intros
          simp del: project.simps rd_nullable.simps rd_optional.simps)
  qed
qed

lemma reads_active_alerts_frame: "reads read_active_alerts_frame (activeAlertsFrame dp)"
proof -
  let ?fs = "[(''schema_version'', ZMin (ZInt ZNumber) 1), (''greenhouse_id'', slug),
      (''zone_id'', ZNull), (''ts'', isoTimestamp dp), (''type'', ZLiteral ''active_alerts''),
      (''alerts'', ZArray (ZObject True
        [(''component'', ZString), (''zone_id'', ZNullable slug), (''fault_type'', ZString),
         (''kind'', ZEnum [''fault'', ''interlock'']),
         (''severity'', ZEnum [''warning'', ''critical'']), (''since'', isoTimestamp dp)]))]"
  have eq: "activeAlertsFrame dp = ZObject True ?fs" by (simp add: activeAlertsFrame_def wsEnvelope_def)
  show ?thesis
    unfolding reads_def eq
  proof (intro allI impI)
    fix v assume c: "conforms (ZObject True ?fs) v"
    have d: "distinct (map fst ?fs)" by simp
    from reads_field [OF c d, of "''schema_version''" "ZMin (ZInt ZNumber) 1" rd_num]
      reads_field [OF c d, of "''greenhouse_id''" slug rd_str]
      reads_field [OF c d, of "''ts''" "isoTimestamp dp" rd_str]
      reads_field [OF c d, OF _ reads_list [OF reads_frame_alert [of dp]], of "''alerts''"]
    show "\<exists>x. read_active_alerts_frame (project (ZObject True ?fs) v) = Some x"
      by (auto simp: read_active_alerts_frame_def frame_enum_defs reads_intros
          simp del: project.simps rd_nullable.simps rd_optional.simps)
  qed
qed

section \<open>Typed frames\<close>

fun typed_frame :: "frame_type \<Rightarrow> jsval \<Rightarrow> known_frame option" where
  "typed_frame TelemetryType v = map_option TelemetryFrame (read_telemetry_frame v)"
| "typed_frame StatusType v = map_option StatusFrame (read_status_frame v)"
| "typed_frame DriftType v = map_option DriftFrame (read_drift_frame v)"
| "typed_frame EventType v = map_option EventFrame (read_event_frame v)"
| "typed_frame ActiveAlertsType v = map_option ActiveAlertsFrame (read_active_alerts_frame v)"

lemma typed_frame_total: "reads (typed_frame t) (KNOWN_FRAME_SCHEMAS dp t)"
  using reads_telemetry_frame [of dp] reads_status_frame [of dp] reads_drift_frame [of dp]
    reads_event_frame [of dp] reads_active_alerts_frame [of dp]
  by (cases t) (auto simp: reads_def)

text \<open>What the telemetry schema's refinement adds: every reading carries its metric's unit.\<close>

definition units_bound :: "telemetry_frame \<Rightarrow> bool" where
  "units_bound f \<longleftrightarrow>
     (\<forall>r\<in>set (telemetry_frame.readings f). METRIC_UNIT (ws_reading.metric r) = unit r)"

lemma wsReading_unit:
  assumes "conforms wsReading v" "read_ws_reading (project wsReading v) = Some r"
  shows "METRIC_UNIT (ws_reading.metric r) = unit r"
proof -
  let ?w = "project wsReading v"
  from assms(1) have "unit_matches ?w" by (simp add: wsReading_def)
  with assms(2) show ?thesis
    by (auto simp: read_ws_reading_def bind_eq_Some_conv simp del: project.simps
        split: jsval.splits option.splits elim!: rd_enum.elims)
qed

lemma telemetry_units:
  assumes "conforms (telemetryFrame dp) v"
    and "read_telemetry_frame (project (telemetryFrame dp) v) = Some f"
  shows "units_bound f"
proof -
  let ?fs = "[(''schema_version'', ZMin (ZInt ZNumber) 1), (''greenhouse_id'', slug),
      (''zone_id'', ZNullable slug), (''ts'', isoTimestamp dp), (''type'', ZLiteral ''telemetry''),
      (''readings'', ZArray wsReading), (''actuators'', ZOptional (ZArray wsActuatorSample))]"
  have eq: "telemetryFrame dp = ZObject True ?fs" by (simp add: telemetryFrame_def wsEnvelope_def)
  have c: "conforms (ZArray wsReading) (jprop v ''readings'')"
    using conforms_field [of True ?fs v "''readings''"] assms(1) eq by simp
  then obtain xs where xs: "jprop v ''readings'' = JArr xs" "\<forall>x\<in>set xs. conforms wsReading x"
    by (auto split: jsval.splits)
  have "jprop (project (ZObject True ?fs) v) ''readings'' = project (ZArray wsReading) (JArr xs)"
    using jprop_project [of ?fs "''readings''" "ZArray wsReading" True v] xs(1) by simp
  with assms(2) have "option_list (map (\<lambda>x. read_ws_reading (project wsReading x)) xs)
      = Some (telemetry_frame.readings f)"
    by (auto simp: read_telemetry_frame_def bind_eq_Some_conv eq comp_def simp del: project.simps(11)
        rd_optional.simps rd_nullable.simps)
  then have "map (\<lambda>x. read_ws_reading (project wsReading x)) xs = map Some (telemetry_frame.readings f)"
    by (simp only: option_list_eq_Some_iff)
  then have "\<exists>x\<in>set xs. read_ws_reading (project wsReading x) = Some r"
    if "r \<in> set (telemetry_frame.readings f)" for r
    using that by (metis (no_types, lifting) imageE image_eqI set_map)
  then show ?thesis using wsReading_unit xs(2) by (fastforce simp: units_bound_def)
qed

end
