(* ===== verification/Js_Library.thy ===== *)
theory Js_Library
  imports Js_Value "HOL-Library.AList" "HOL-Library.Multiset"
begin

text \<open>
  The parts of the JavaScript standard library the pure logic of the program uses: the stable
  \<open>Array.prototype.sort\<close> with a comparator, \<open>Map\<close> and \<open>Set\<close> in insertion order, the string
  functions \<open>split\<close>, \<open>join\<close>, \<open>trim\<close>, \<open>parseInt\<close> and \<open>padStart\<close>, and the UTC getters of
  \<open>Date\<close>. Strings are sequences of ASCII characters. A \<open>Date\<close> is its integral number of
  milliseconds since the epoch.
\<close>

section \<open>Rounding errors\<close>

text \<open>A rational below a power of two moves by at most half a unit of its last place.\<close>

lemma round53_error:
  assumes "\<bar>q\<bar> < 2 powi k" "- 1021 \<le> k"
  shows "\<bar>round53 q - q\<bar> \<le> 2 powi (k - 54)"
proof (cases "q = 0")
  case False
  let ?u = "ulp_exp q"
  have "ilog2 \<bar>q\<bar> < k" using assms False by (intro ilog2_less) auto
  then have u: "?u \<le> k - 53" using assms(2) by (simp add: ulp_exp_def)
  have "round53 q - q = (of_int (round_half_even (q / 2 powi ?u)) - q / 2 powi ?u) * 2 powi ?u"
    using False by (simp add: round53_def field_simps)
  then have "\<bar>round53 q - q\<bar> = \<bar>of_int (round_half_even (q / 2 powi ?u)) - q / 2 powi ?u\<bar> * 2 powi ?u"
    by (simp add: abs_mult)
  also have "\<dots> \<le> 1 / 2 * 2 powi ?u"
    by (intro mult_right_mono round_half_even_near) simp
  also have "\<dots> = 2 powi (?u - 1)" by (simp add: power_int_diff)
  also have "\<dots> \<le> 2 powi (k - 54)" using u by (intro powi_mono_rat) simp
  finally show ?thesis .
qed simp

lemma round53_double: "is_double q \<Longrightarrow> round53 q = q"
  by (auto simp: is_double_def fl_def Let_def split: if_splits)

text \<open>The rounding error in terms of a power of two above the exact result.\<close>

lemma fl_near:
  assumes "\<bar>q\<bar> < 2 powi k" "- 1021 \<le> k" "k \<le> 100"
  shows "\<exists>r. fl q = Fin r \<and> \<bar>r - q\<bar> \<le> 2 powi (k - 54)"
proof -
  have e: "\<bar>round53 q - q\<bar> \<le> 2 powi (k - 54)" by (rule round53_error [OF assms(1,2)])
  have "(2 powi k :: rat) \<le> 2 powi 100" "(2 powi (k - 54) :: rat) \<le> 2 powi 100"
    by (rule powi_mono_rat, use assms(3) in simp)+
  moreover have "(2 powi 100 + 2 powi 100 :: rat) < 2 ^ 1024" by (simp add: power_int_def)
  ultimately have "\<bar>round53 q\<bar> < 2 ^ 1024" using e assms(1) by linarith
  with e show ?thesis by (auto simp: fl_def Let_def)
qed

lemma fl_int: "\<bar>i\<bar> \<le> 2 ^ 53 \<Longrightarrow> fl (of_int i) = Fin (of_int i)"
  by (rule fl_double, rule is_double_int)

text \<open>The difference of two doubles has the sign of the comparison, even where it underflows.\<close>

lemma double_grid: "is_double q \<Longrightarrow> \<exists>m. q = of_int m * 2 powi (- 1074)"
proof -
  assume "is_double q"
  then have "round53 q = q" by (rule round53_double)
  then obtain m e where me: "q = of_int m * 2 powi e" "- 1074 \<le> e"
    using round53_form [of q] by auto
  obtain n where "e + 1074 = int n" using me(2) nonneg_int_cases [of "e + 1074"] by auto
  then have n: "e = int n - 1074" by simp
  have "(2 :: rat) powi e = 2 ^ n * 2 powi (- 1074)"
    unfolding n diff_conv_add_uminus by (subst power_int_add) auto
  then have "q = of_int (m * 2 ^ n) * 2 powi (- 1074)"
    using me(1) by (simp only: of_int_mult of_int_power of_int_numeral mult.assoc)
  then show ?thesis by blast
qed

lemma fl_pos:
  assumes "is_double p" "is_double q" "q < p"
  shows "num_lt (Fin 0) (fl (p - q))"
proof -
  let ?e = "2 powi (- 1074) :: rat"
  obtain m n where mn: "p = of_int m * ?e" "q = of_int n * ?e"
    using double_grid assms(1,2) by blast
  have pq: "p - q = of_int (m - n) * ?e" by (simp only: mn of_int_diff left_diff_distrib)
  have pos: "0 < ?e" by simp
  have "0 < of_int (m - n) * ?e" using assms(3) pq by simp
  then have "1 \<le> m - n" using pos by (simp only: zero_less_mult_iff) auto
  then have "(1 :: rat) \<le> of_int (m - n)" by (metis of_int_1 of_int_le_iff)
  then have "1 * ?e \<le> of_int (m - n) * ?e" by (rule mult_right_mono) simp
  then have le: "?e \<le> p - q" using pq by simp
  have "round53 ?e = ?e" by (rule round53_representable [where m = 1]) auto
  then have "fl ?e = Fin ?e"
  proof -
    assume r: "round53 ?e = ?e"
    have "?e \<le> 2 powi 0" by (rule powi_mono_rat) simp
    then have "?e \<le> 1" by simp
    then have "\<bar>?e\<bar> < 2 ^ 1024" using pos
      by (metis abs_of_pos one_less_numeral_iff one_less_power order_le_less_trans pos2 semiring_norm(76) zero_less_numeral)
    then show ?thesis using is_doubleI [OF r] fl_double by blast
  qed
  with fl_mono [OF le] show ?thesis by (cases "fl (p - q)") (auto intro: less_le_trans [OF pos])
qed

lemma fl_neg: "fl (- q) = num_neg (fl q)"
  by (auto simp: fl_def Let_def round53_minus)

lemma num_sub_pos_iff:
  assumes "is_double p" "is_double q"
  shows "num_lt (Fin 0) (num_sub (Fin p) (Fin q)) \<longleftrightarrow> q < p"
    and "num_lt (num_sub (Fin p) (Fin q)) (Fin 0) \<longleftrightarrow> p < q"
proof -
  have pos: "num_lt (Fin 0) (fl (a - b))" if "is_double a" "is_double b" "b < a" for a b
    using fl_pos that by blast
  have sub: "num_sub (Fin p) (Fin q) = fl (p - q)" by (simp add: num_sub_def)
  have minus: "fl (p - q) = num_neg (fl (q - p))" using fl_neg [of "q - p"] by simp
  consider "q < p" | "p = q" | "p < q" by linarith
  then have "(num_lt (Fin 0) (num_sub (Fin p) (Fin q)) \<longleftrightarrow> q < p)
      \<and> (num_lt (num_sub (Fin p) (Fin q)) (Fin 0) \<longleftrightarrow> p < q)"
  proof cases
    case 1
    with pos [of p q] assms sub show ?thesis by (cases "fl (p - q)") auto
  next
    case 2
    then show ?thesis unfolding sub by simp
  next
    case 3
    with pos [of q p] assms sub minus show ?thesis by (cases "fl (q - p)") auto
  qed
  then show "num_lt (Fin 0) (num_sub (Fin p) (Fin q)) \<longleftrightarrow> q < p"
    and "num_lt (num_sub (Fin p) (Fin q)) (Fin 0) \<longleftrightarrow> p < q" by auto
qed

text \<open>\<open>Math.min(...values)\<close> and \<open>Math.max(...values)\<close>.\<close>

definition min_of :: "js_num list \<Rightarrow> js_num" where "min_of vs = foldl math_min PosInf vs"
definition max_of :: "js_num list \<Rightarrow> js_num" where "max_of vs = foldl math_max NegInf vs"

lemma min_of_le:
  assumes "v \<in> set vs" "\<forall>v\<in>set vs. v \<noteq> NaN"
  shows "num_le (min_of vs) v" "min_of vs \<in> set vs" "num_le v (max_of vs)" "max_of vs \<in> set vs"
proof -
  have lo: "num_le (foldl math_min a vs) v \<and> (foldl math_min a vs = a \<or> foldl math_min a vs \<in> set vs)
      \<and> num_le (foldl math_min a vs) a"
    if "a \<noteq> NaN" "v = a \<or> v \<in> set vs" "\<forall>v\<in>set vs. v \<noteq> NaN" for a v and vs :: "js_num list"
    using that
  proof (induction vs arbitrary: a v)
    case (Cons w ws)
    have ne: "math_min a w \<noteq> NaN" using Cons.prems by simp
    have le: "num_le (math_min a w) a" "num_le (math_min a w) w" using Cons.prems math_min_le by auto
    note base = Cons.IH [OF ne, of "math_min a w"]
    show ?case
    proof (cases "v \<in> set ws")
      case True
      with Cons.IH [OF ne, of v] Cons.prems(3) math_min_cases [of a w] le show ?thesis
        by (auto intro: num_le_trans)
    next
      case False
      with Cons.prems(2) have "v = a \<or> v = w" by simp
      with base Cons.prems(3) math_min_cases [of a w] le show ?thesis by (auto intro: num_le_trans)
    qed
  qed auto
  have hi: "num_le v (foldl math_max a vs) \<and> (foldl math_max a vs = a \<or> foldl math_max a vs \<in> set vs)
      \<and> num_le a (foldl math_max a vs)"
    if "a \<noteq> NaN" "v = a \<or> v \<in> set vs" "\<forall>v\<in>set vs. v \<noteq> NaN" for a v and vs :: "js_num list"
    using that
  proof (induction vs arbitrary: a v)
    case (Cons w ws)
    have ne: "math_max a w \<noteq> NaN" using Cons.prems by simp
    have le: "num_le a (math_max a w)" "num_le w (math_max a w)" using Cons.prems math_max_ge by auto
    note base = Cons.IH [OF ne, of "math_max a w"]
    show ?case
    proof (cases "v \<in> set ws")
      case True
      with Cons.IH [OF ne, of v] Cons.prems(3) math_max_cases [of a w] le show ?thesis
        by (auto intro: num_le_trans)
    next
      case False
      with Cons.prems(2) have "v = a \<or> v = w" by simp
      with base Cons.prems(3) math_max_cases [of a w] le show ?thesis by (auto intro: num_le_trans)
    qed
  qed auto
  show "num_le (min_of vs) v" "num_le v (max_of vs)"
    using lo [of PosInf v vs] hi [of NegInf v vs] assms by (auto simp: min_of_def max_of_def)
  show "min_of vs \<in> set vs"
    using lo [of PosInf v vs] assms by (auto simp: min_of_def) (cases v; auto)
  show "max_of vs \<in> set vs"
    using hi [of NegInf v vs] assms by (auto simp: max_of_def) (cases v; auto)
qed

text \<open>\<open>2 ** n\<close> as a double, infinite from 1024 on.\<close>

definition num_pow2 :: "nat \<Rightarrow> js_num" where
  "num_pow2 n = fl (2 ^ n)"

lemma num_pow2_mono: "m \<le> n \<Longrightarrow> num_le (num_pow2 m) (num_pow2 n)"
  by (simp add: num_pow2_def fl_mono power_increasing)

lemma num_pow2_ge_1: "num_le (Fin 1) (num_pow2 n)"
  using num_pow2_mono [of 0 n] by (simp add: num_pow2_def)

lemma num_mul_mono:
  "0 < b \<Longrightarrow> num_le (Fin 0) x \<Longrightarrow> num_le x y \<Longrightarrow> num_le (num_mul (Fin b) x) (num_mul (Fin b) y)"
  by (cases x; cases y) (auto intro!: fl_mono mult_left_mono)

lemma num_pow2_nonneg: "num_le (Fin 0) (num_pow2 n)"
  using num_pow2_ge_1 [of n] num_le_trans [of "Fin 0" "Fin 1"] by simp

lemma scaled_mono:
  "0 < b \<Longrightarrow> m \<le> n \<Longrightarrow> num_le (num_mul (Fin b) (num_pow2 m)) (num_mul (Fin b) (num_pow2 n))"
  by (intro num_mul_mono num_pow2_nonneg num_pow2_mono)

section \<open>Sorting with a comparator\<close>

text \<open>
  \<open>xs.sort(cmp)\<close>: a stable sort, so for a consistent comparator the result is that of
  insertion from the right. An element stays before a later one unless the comparator puts
  it strictly after; a NaN verdict counts as equal.
\<close>

fun js_insert :: "('a \<Rightarrow> 'a \<Rightarrow> js_num) \<Rightarrow> 'a \<Rightarrow> 'a list \<Rightarrow> 'a list" where
  "js_insert cmp x [] = [x]"
| "js_insert cmp x (y # ys) =
     (if num_lt (Fin 0) (cmp x y) then y # js_insert cmp x ys else x # y # ys)"

definition js_sort :: "('a \<Rightarrow> 'a \<Rightarrow> js_num) \<Rightarrow> 'a list \<Rightarrow> 'a list" where
  "js_sort cmp xs = foldr (js_insert cmp) xs []"

lemma js_insert_insort:
  assumes "\<And>y. y \<in> set ys \<Longrightarrow> num_lt (Fin 0) (cmp x y) \<longleftrightarrow> key y < (key x :: 'k :: linorder)"
  shows "js_insert cmp x ys = insort_key key x ys"
  using assms by (induction ys) auto

lemma js_sort_sort_key:
  assumes "\<And>x y. x \<in> set xs \<Longrightarrow> y \<in> set xs \<Longrightarrow> num_lt (Fin 0) (cmp x y) \<longleftrightarrow> key y < (key x :: 'k :: linorder)"
  shows "js_sort cmp xs = sort_key key xs"
  using assms
proof (induction xs)
  case Nil
  then show ?case by (simp add: js_sort_def)
next
  case (Cons x xs)
  then have "js_sort cmp xs = sort_key key xs" by simp
  moreover have "js_insert cmp x (sort_key key xs) = insort_key key x (sort_key key xs)"
    using Cons.prems by (intro js_insert_insort) simp
  ultimately show ?case by (simp add: js_sort_def)
qed

lemma mset_js_insert [simp]: "mset (js_insert cmp x ys) = add_mset x (mset ys)"
  by (induction ys) auto

lemma mset_js_sort [simp]: "mset (js_sort cmp xs) = mset xs"
  by (induction xs) (auto simp: js_sort_def)

lemma set_js_sort [simp]: "set (js_sort cmp xs) = set xs"
  by (rule mset_eq_setD) simp

lemma length_js_sort [simp]: "length (js_sort cmp xs) = length xs"
  by (rule mset_eq_length) simp

section \<open>Maps and sets in insertion order\<close>

text \<open>
  A \<open>Map\<close> iterates in the order its keys were first set, and setting a present key keeps its
  place: that is \<^const>\<open>AList.update\<close>. \<open>map_from\<close> is \<open>new Map(entries)\<close>.
\<close>

definition map_from :: "('k \<times> 'v) list \<Rightarrow> ('k \<times> 'v) list" where
  "map_from es = fold (\<lambda>(k, v). AList.update k v) es []"

definition set_add :: "'a \<Rightarrow> 'a list \<Rightarrow> 'a list" where
  "set_add x xs = (if x \<in> set xs then xs else xs @ [x])"

definition set_from :: "'a list \<Rightarrow> 'a list" where
  "set_from es = fold set_add es []"

lemma find_append: "find P (xs @ ys) = (case find P xs of Some x \<Rightarrow> Some x | None \<Rightarrow> find P ys)"
  by (induction xs) auto

lemma fold_update_map_of:
  "map_of (fold (\<lambda>(k, v). AList.update k v) es m) = map_of m ++ map_of (rev es)"
  by (induction es arbitrary: m) (auto simp: update_conv' fun_eq_iff map_add_def split: option.splits)

lemma fold_update_distinct:
  "distinct (map fst m) \<Longrightarrow> distinct (map fst (fold (\<lambda>(k, v). AList.update k v) es m))"
  by (induction es arbitrary: m) (auto simp: distinct_update split: prod.splits)

lemma map_of_map_from [simp]: "map_of (map_from es) = map_of (rev es)"
  by (simp add: map_from_def fold_update_map_of)

lemma distinct_map_from [simp]: "distinct (map fst (map_from es))"
  unfolding map_from_def by (rule fold_update_distinct) simp

lemma in_map_from_iff: "(k, v) \<in> set (map_from es) \<longleftrightarrow> map_of (rev es) k = Some v"
  using map_of_eq_Some_iff [OF distinct_map_from] by (metis map_of_map_from)

lemma map_of_rev_distinct: "distinct (map fst xs) \<Longrightarrow> map_of (rev xs) = map_of xs"
proof (rule ext)
  fix x assume "distinct (map fst xs)"
  then show "map_of (rev xs) x = map_of xs x"
    using map_of_eq_Some_iff [of xs x] map_of_eq_Some_iff [of "rev xs" x]
    by (cases "map_of (rev xs) x"; cases "map_of xs x") (auto simp: rev_map [symmetric])
qed

lemma keys_map_from: "fst ` set (map_from es) = fst ` set es"
proof -
  have "fst ` set (map_from es) = dom (map_of (map_from es))" by (rule dom_map_of_conv_image_fst [symmetric])
  also have "\<dots> = dom (map_of (rev es))" by simp
  also have "\<dots> = fst ` set es" by (simp add: dom_map_of_conv_image_fst)
  finally show ?thesis .
qed

lemma fold_set_add: "set (fold set_add es xs) = set xs \<union> set es"
  by (induction es arbitrary: xs) (auto simp: set_add_def)

lemma distinct_fold_set_add: "distinct xs \<Longrightarrow> distinct (fold set_add es xs)"
  by (induction es arbitrary: xs) (auto simp: set_add_def)

lemma set_set_from [simp]: "set (set_from es) = set es"
  by (simp add: set_from_def fold_set_add)

lemma distinct_set_from [simp]: "distinct (set_from es)"
  by (simp add: set_from_def distinct_fold_set_add)

section \<open>Strings\<close>

text \<open>\<open>s.split(c)\<close> and \<open>parts.join(sep)\<close>\<close>

fun split_on :: "char \<Rightarrow> string \<Rightarrow> string list" where
  "split_on c [] = [[]]"
| "split_on c (x # xs) =
     (if x = c then [] # split_on c xs
      else (case split_on c xs of p # ps \<Rightarrow> (x # p) # ps | [] \<Rightarrow> [[x]]))"

fun join_with :: "string \<Rightarrow> string list \<Rightarrow> string" where
  "join_with sep [] = []"
| "join_with sep [p] = p"
| "join_with sep (p # ps) = p @ sep @ join_with sep ps"

definition is_space :: "char \<Rightarrow> bool" where
  "is_space c \<longleftrightarrow> c = CHR '' '' \<or> (9 \<le> (of_char c :: nat) \<and> (of_char c :: nat) \<le> 13)"

definition trim :: "string \<Rightarrow> string" where
  "trim s = rev (dropWhile is_space (rev (dropWhile is_space s)))"

text \<open>\<open>c.toUpperCase()\<close> on one ASCII character\<close>

definition to_upper :: "char \<Rightarrow> char" where
  "to_upper c = (if 97 \<le> (of_char c :: nat) \<and> (of_char c :: nat) \<le> 122 then char_of ((of_char c :: nat) - 32) else c)"

definition digit_val :: "char \<Rightarrow> nat option" where
  "digit_val c = (if 48 \<le> (of_char c :: nat) \<and> (of_char c :: nat) \<le> 57 then Some (of_char c - 48) else None)"

fun digits_prefix :: "string \<Rightarrow> nat list" where
  "digits_prefix [] = []"
| "digits_prefix (c # cs) = (case digit_val c of None \<Rightarrow> [] | Some d \<Rightarrow> d # digits_prefix cs)"

definition nat_of_digits :: "nat list \<Rightarrow> nat" where
  "nat_of_digits ds = fold (\<lambda>d n. 10 * n + d) ds 0"

text \<open>\<open>Number.parseInt(s, 10)\<close>: leading white space, a sign, the longest run of digits.\<close>

definition parse_int :: "string \<Rightarrow> js_num" where
  "parse_int s =
     (let t = dropWhile is_space s;
          neg = (t \<noteq> [] \<and> hd t = CHR ''-'');
          u = (if t \<noteq> [] \<and> (hd t = CHR ''-'' \<or> hd t = CHR ''+'') then tl t else t);
          ds = digits_prefix u
      in if ds = [] then NaN
         else fl (if neg then - of_nat (nat_of_digits ds) else of_nat (nat_of_digits ds)))"

definition digit_char :: "nat \<Rightarrow> char" where
  "digit_char d = char_of (48 + d)"

text \<open>\<open>String(n)\<close> for an integer, and \<open>s.padStart(n, "0")\<close>.\<close>

fun nat_string :: "nat \<Rightarrow> string" where
  "nat_string n = (if n < 10 then [digit_char n] else nat_string (n div 10) @ [digit_char (n mod 10)])"

declare nat_string.simps [simp del]

definition int_string :: "int \<Rightarrow> string" where
  "int_string n = (if n < 0 then CHR ''-'' # nat_string (nat (- n)) else nat_string (nat n))"

definition pad_start :: "nat \<Rightarrow> string \<Rightarrow> string" where
  "pad_start n s = replicate (n - length s) (CHR ''0'') @ s"

lemma split_on_nonempty [simp]: "split_on c s \<noteq> []"
  by (induction s) (auto split: list.splits)

lemma split_on_no_sep: "c \<notin> set s \<Longrightarrow> split_on c s = [s]"
  by (induction s) auto

lemma split_on_append: "c \<notin> set s \<Longrightarrow> split_on c (s @ c # t) = s # split_on c t"
  by (induction s) auto

lemma join_split: "join_with [c] (split_on c s) = s"
proof (induction s)
  case (Cons x s)
  then show ?case by (cases "split_on c s") (auto simp: neq_Nil_conv, (metis append_Cons join_with.simps(2,3) list.exhaust)+)
qed simp

section \<open>UTC getters\<close>

text \<open>The calendar of the language specification: days since the epoch to year, month, day.\<close>

type_synonym ms = int

text \<open>An invalid date is \<open>None\<close>; \<open>getTime()\<close> and the getters answer NaN there.\<close>

definition num_of_int :: "int \<Rightarrow> js_num" where
  "num_of_int n = Fin (of_int n)"

fun getTime :: "ms option \<Rightarrow> js_num" where
  "getTime None = NaN"
| "getTime (Some t) = num_of_int t"

fun utc_field :: "(ms \<Rightarrow> int) \<Rightarrow> ms option \<Rightarrow> js_num" where
  "utc_field f None = NaN"
| "utc_field f (Some t) = num_of_int (f t)"

definition utc_day :: "ms \<Rightarrow> int" where "utc_day t = t div 86400000"
definition getUTCHours :: "ms \<Rightarrow> int" where "getUTCHours t = t div 3600000 mod 24"
definition getUTCMinutes :: "ms \<Rightarrow> int" where "getUTCMinutes t = t div 60000 mod 60"
definition getUTCSeconds :: "ms \<Rightarrow> int" where "getUTCSeconds t = t div 1000 mod 60"

definition day_from_year :: "int \<Rightarrow> int" where
  "day_from_year y = 365 * (y - 1970) + (y - 1969) div 4 - (y - 1901) div 100 + (y - 1601) div 400"

definition year_from_day :: "int \<Rightarrow> int" where
  "year_from_day d =
     (let y = 1970 + 400 * d div 146097 in
      if d < day_from_year y then y - 1 else if day_from_year (y + 1) \<le> d then y + 1 else y)"

definition leap_year :: "int \<Rightarrow> bool" where
  "leap_year y \<longleftrightarrow> (4 dvd y \<and> \<not> 100 dvd y) \<or> 400 dvd y"

definition month_starts :: "bool \<Rightarrow> int list" where
  "month_starts leap = map (\<lambda>(i, d). if leap \<and> 2 \<le> i then d + 1 else d)
     (enumerate 0 [0, 31, 59, 90, 120, 151, 181, 212, 243, 273, 304, 334])"

definition getUTCFullYear :: "ms \<Rightarrow> int" where
  "getUTCFullYear t = year_from_day (utc_day t)"

definition day_in_year :: "ms \<Rightarrow> int" where
  "day_in_year t = utc_day t - day_from_year (getUTCFullYear t)"

definition getUTCMonth :: "ms \<Rightarrow> nat" where
  "getUTCMonth t =
     length (filter (\<lambda>m. m \<le> day_in_year t) (tl (month_starts (leap_year (getUTCFullYear t)))))"

definition getUTCDate :: "ms \<Rightarrow> int" where
  "getUTCDate t =
     day_in_year t - month_starts (leap_year (getUTCFullYear t)) ! getUTCMonth t + 1"

text \<open>Year, month and day of month determine the day.\<close>

lemma utc_day_from_fields:
  "utc_day t = day_from_year (getUTCFullYear t)
     + month_starts (leap_year (getUTCFullYear t)) ! getUTCMonth t + getUTCDate t - 1"
  by (simp add: getUTCDate_def day_in_year_def)

lemma same_utc_day_iff:
  "getUTCFullYear a = getUTCFullYear b \<and> getUTCMonth a = getUTCMonth b \<and> getUTCDate a = getUTCDate b
   \<longleftrightarrow> utc_day a = utc_day b"
proof
  assume "utc_day a = utc_day b"
  then have "getUTCFullYear a = getUTCFullYear b" "day_in_year a = day_in_year b"
    by (simp_all add: getUTCFullYear_def day_in_year_def)
  then show "getUTCFullYear a = getUTCFullYear b \<and> getUTCMonth a = getUTCMonth b \<and> getUTCDate a = getUTCDate b"
    by (simp add: getUTCMonth_def getUTCDate_def)
qed (metis utc_day_from_fields)

text \<open>The year is the right one: its days enclose the day.\<close>

lemma day_from_year_bounds:
  "146097 * y - 146097 * 1970 - 506 \<le> 400 * day_from_year y"
  "400 * day_from_year y \<le> 146097 * y - 146097 * 1970 + 589"
proof -
  define a where "a = (y - 1969) div 4"
  define b where "b = (y - 1901) div 100"
  define c where "c = (y - 1601) div 400"
  have "4 * a \<le> y - 1969" "y - 1969 < 4 * a + 4"
    "100 * b \<le> y - 1901" "y - 1901 < 100 * b + 100"
    "400 * c \<le> y - 1601" "y - 1601 < 400 * c + 400"
    unfolding a_def b_def c_def by linarith+
  then have "146097 * y - 146097 * 1970 - 506 \<le> 400 * (365 * (y - 1970) + a - b + c)"
    and "400 * (365 * (y - 1970) + a - b + c) \<le> 146097 * y - 146097 * 1970 + 589"
    by (simp_all add: algebra_simps)
  then show "146097 * y - 146097 * 1970 - 506 \<le> 400 * day_from_year y"
    "400 * day_from_year y \<le> 146097 * y - 146097 * 1970 + 589"
    unfolding day_from_year_def a_def [symmetric] b_def [symmetric] c_def [symmetric] by auto
qed

lemma year_from_day_correct:
  "day_from_year (year_from_day d) \<le> d \<and> d < day_from_year (year_from_day d + 1)"
proof -
  define k where "k = 400 * d div 146097"
  have k: "146097 * k \<le> 400 * d" "400 * d < 146097 * k + 146097"
    unfolding k_def by linarith+
  have "146097 * (1969 + k) - 146097 * 1970 + 589 \<le> 400 * d" using k(1) by simp
  then have lower: "day_from_year (1969 + k) \<le> d" using day_from_year_bounds(2) [of "1969 + k"] by linarith
  have "400 * d < 146097 * (1972 + k) - 146097 * 1970 - 506" using k(2) by simp
  then have upper: "d < day_from_year (1972 + k)" using day_from_year_bounds(1) [of "1972 + k"] by linarith
  have "1970 + k - 1 = 1969 + k" "1970 + k + 1 + 1 = 1972 + k" "1970 + k - 1 + 1 = 1970 + k" by simp_all
  with lower upper show ?thesis
    unfolding year_from_day_def k_def [symmetric] Let_def by auto
qed

lemma utc_time_fields:
  "t = ((utc_day t * 24 + getUTCHours t) * 60 + getUTCMinutes t) * 60000 + getUTCSeconds t * 1000 + t mod 1000"
proof -
  have m: "t div 60000 = t div 1000 div 60" and h: "t div 3600000 = t div 60000 div 60"
    and d: "t div 86400000 = t div 3600000 div 24"
    by (simp_all add: zdiv_zmult2_eq [symmetric])
  have "t div 3600000 = utc_day t * 24 + getUTCHours t"
    unfolding utc_day_def getUTCHours_def d by simp
  moreover have "t div 60000 = t div 3600000 * 60 + getUTCMinutes t"
    unfolding getUTCMinutes_def h by simp
  moreover have "t div 1000 = t div 60000 * 60 + getUTCSeconds t"
    unfolding getUTCSeconds_def m by simp
  ultimately show ?thesis by presburger
qed

lemma utc_fields_bounds [simp]:
  "0 \<le> getUTCHours t" "getUTCHours t < 24" "0 \<le> getUTCMinutes t" "getUTCMinutes t < 60"
  "0 \<le> getUTCSeconds t" "getUTCSeconds t < 60"
  by (simp_all add: getUTCHours_def getUTCMinutes_def getUTCSeconds_def)

section \<open>Valid dates in seconds\<close>

text \<open>
  A valid \<open>Date\<close> lies within 8.64e15 milliseconds of the epoch. Dividing it by 1000 rounds,
  but the spacing of doubles in that range is below a millisecond, so distinct instants stay
  distinct and ordered.
\<close>

definition valid_ms :: "ms \<Rightarrow> bool" where
  "valid_ms t \<longleftrightarrow> \<bar>t\<bar> \<le> 8640000000000000"

definition epoch_secs :: "ms \<Rightarrow> rat" where
  "epoch_secs t = round53 (of_int t / 1000)"

lemma epoch_secs_near: "valid_ms t \<Longrightarrow> \<bar>epoch_secs t - of_int t / 1000\<bar> \<le> 1 / 2048"
proof -
  assume "valid_ms t"
  then have "(of_int \<bar>t\<bar> :: rat) \<le> of_int 8640000000000000"
    unfolding valid_ms_def by (simp only: of_int_le_iff)
  then have "\<bar>of_int t / 1000\<bar> < (2 powi 43 :: rat)" by (simp add: abs_divide)
  then have "\<bar>epoch_secs t - of_int t / 1000\<bar> \<le> 2 powi (43 - 54)"
    unfolding epoch_secs_def by (rule round53_error) simp
  moreover have "(2 powi (43 - 54) :: rat) = 1 / 2048" by (simp add: power_int_def power_divide)
  ultimately show ?thesis by (simp only:)
qed

lemma epoch_secs_double:
  assumes "valid_ms t" shows "is_double (epoch_secs t)" "fl (of_int t / 1000) = Fin (epoch_secs t)"
proof -
  have "(of_int \<bar>t\<bar> :: rat) \<le> of_int 8640000000000000"
    using assms unfolding valid_ms_def by (simp only: of_int_le_iff)
  then have "\<bar>of_int t / 1000\<bar> \<le> (8640000000000 :: rat)" by (simp add: abs_divide)
  then have "\<bar>epoch_secs t\<bar> \<le> 8640000000001" using epoch_secs_near [OF assms] by linarith
  also have "\<dots> < (2 ^ 1024 :: rat)" by simp
  finally have "\<bar>epoch_secs t\<bar> < 2 ^ 1024" .
  moreover have "round53 (epoch_secs t) = epoch_secs t" by (simp add: epoch_secs_def round53_idem)
  ultimately show d: "is_double (epoch_secs t)" by (intro is_doubleI) auto
  have "\<not> 2 ^ 1024 \<le> epoch_secs t" "\<not> epoch_secs t \<le> - (2 ^ 1024)"
    using \<open>\<bar>epoch_secs t\<bar> < 2 ^ 1024\<close> by (simp_all only: abs_less_iff not_le minus_less_iff)
  then show "fl (of_int t / 1000) = Fin (epoch_secs t)"
    by (simp add: fl_def epoch_secs_def Let_def)
qed

lemma epoch_secs_strict_mono:
  assumes "valid_ms a" "valid_ms b" "a < b"
  shows "epoch_secs a < epoch_secs b"
proof -
  have "(of_int a :: rat) + 1 \<le> of_int b" using assms(3) by (metis of_int_1 of_int_add of_int_le_iff zless_imp_add1_zle)
  then have "of_int a / 1000 + 1 / 1000 \<le> (of_int b / 1000 :: rat)" by simp
  with epoch_secs_near [OF assms(1)] epoch_secs_near [OF assms(2)] show ?thesis by linarith
qed

lemma epoch_secs_less_iff: "valid_ms a \<Longrightarrow> valid_ms b \<Longrightarrow> epoch_secs a < epoch_secs b \<longleftrightarrow> a < b"
  using epoch_secs_strict_mono by (metis linorder_less_linear order_less_asym)

end
