(* ===== verification/Stream_Client.thy ===== *)
theory Stream_Client
  imports Frames Js_Library
begin

text \<open>
  The live-push channel, \<open>climate-frontend/src/api/ws.ts\<close>: message handling and the
  connection state machine of \<open>StreamClient\<close> with its exponential backoff. The browser is
  part of the state: the phase of every socket the client has created and the timers that
  are pending. A socket or timer is a number, the fresh object the factory or \<open>setTimeout\<close>
  returned. \<open>JSON.parse\<close> is the parameter \<open>jp\<close>, \<open>safeParse\<close> the parameter \<open>sp\<close>.
\<close>

section \<open>Messages\<close>

datatype payload = Text string | Structured jsval

datatype stream_msg =
    IgnoredMsg
  | UnknownMsg jsval
  | RejectedMsg frame_type "issue list"
  | Delivered known_frame

definition msg_type :: "jsval \<Rightarrow> jsval" where
  "msg_type raw = (if is_object raw \<and> has_key raw ''type'' then jprop raw ''type'' else JUndef)"

definition frame_types :: "(string \<times> frame_type) list" where
  "frame_types =
     [(''telemetry'', TelemetryType), (''status'', StatusType), (''drift'', DriftType),
      (''event'', EventType), (''active_alerts'', ActiveAlertsType)]"

text \<open>The \<open>switch (type)\<close>: a strict comparison with each literal in turn.\<close>

fun frame_type_of :: "jsval \<Rightarrow> frame_type option" where
  "frame_type_of (JStr s) = map_of frame_types s"
| "frame_type_of _ = None"

definition dispatch ::
    "date_parser \<Rightarrow> (zod \<Rightarrow> jsval \<Rightarrow> issue list + jsval) \<Rightarrow> jsval \<Rightarrow> stream_msg" where
  "dispatch dp sp raw =
     (case frame_type_of (msg_type raw) of
        None \<Rightarrow> UnknownMsg raw
      | Some t \<Rightarrow>
          (case sp (KNOWN_FRAME_SCHEMAS dp t) raw of
             Inr data \<Rightarrow> Delivered (the (typed_frame t data))
           | Inl issues \<Rightarrow> RejectedMsg t issues))"

fun handleMessage ::
    "date_parser \<Rightarrow> (zod \<Rightarrow> jsval \<Rightarrow> issue list + jsval) \<Rightarrow> (string \<Rightarrow> jsval option)
      \<Rightarrow> payload \<Rightarrow> stream_msg" where
  "handleMessage dp sp jp (Text s) =
     (case jp s of None \<Rightarrow> IgnoredMsg | Some raw \<Rightarrow> dispatch dp sp raw)"
| "handleMessage dp sp jp (Structured raw) = dispatch dp sp raw"

section \<open>State\<close>

datatype ws_connection_state = WsConnecting | WsOpen | WsReconnecting | WsClosed

datatype socket_phase = SockConnecting | SockOpen | SockClosing | SockClosed

record stream_options =
  opt_baseDelayMs :: "js_num option"
  opt_maxDelayMs :: "js_num option"

record stream_sys =
  socket :: "nat option"
  state :: ws_connection_state
  attempts :: nat
  reconnectTimer :: "nat option"
  stopped :: bool
  baseDelayMs :: js_num
  maxDelayMs :: js_num
  sockets :: "nat \<rightharpoonup> socket_phase"
  timers :: "nat \<rightharpoonup> js_num"
  next_id :: nat
  reported :: "ws_connection_state list"
  received :: "stream_msg list"

definition new_client :: "stream_options \<Rightarrow> stream_sys" where
  "new_client opts = \<lparr>
     socket = None, state = WsClosed, attempts = 0, reconnectTimer = None, stopped = False,
     baseDelayMs = (case opt_baseDelayMs opts of None \<Rightarrow> Fin 500 | Some x \<Rightarrow> x),
     maxDelayMs = (case opt_maxDelayMs opts of None \<Rightarrow> Fin 5000 | Some x \<Rightarrow> x),
     sockets = Map.empty, timers = Map.empty, next_id = 0, reported = [], received = [] \<rparr>"

section \<open>Operations\<close>

definition setState :: "ws_connection_state \<Rightarrow> stream_sys \<Rightarrow> stream_sys" where
  "setState st s =
     (if st = state s then s else s\<lparr>state := st, reported := reported s @ [st]\<rparr>)"

definition open_socket :: "stream_sys \<Rightarrow> stream_sys" where
  "open_socket s = s\<lparr>
     socket := Some (next_id s),
     sockets := (sockets s)(next_id s \<mapsto> SockConnecting),
     next_id := Suc (next_id s) \<rparr>"

definition connect :: "stream_sys \<Rightarrow> stream_sys" where
  "connect s =
     (let s1 = s\<lparr>stopped := False\<rparr> in
      if socket s1 \<noteq> None then s1 else open_socket (setState WsConnecting s1))"

definition close_client :: "stream_sys \<Rightarrow> stream_sys" where
  "close_client s =
     (let s1 = s\<lparr>stopped := True\<rparr>;
          s2 = (case reconnectTimer s1 of
                  None \<Rightarrow> s1
                | Some t \<Rightarrow> s1\<lparr>timers := (timers s1)(t := None), reconnectTimer := None\<rparr>);
          s3 = (case socket s2 of
                  None \<Rightarrow> s2
                | Some i \<Rightarrow> s2\<lparr>sockets := (sockets s2)(i \<mapsto> SockClosing)\<rparr>)
      in setState WsClosed (s3\<lparr>socket := None\<rparr>))"

text \<open>The delay before the next attempt; \<open>2 ** attempts\<close> is \<^const>\<open>num_pow2\<close>.\<close>

definition backoff_delay :: "js_num \<Rightarrow> js_num \<Rightarrow> nat \<Rightarrow> js_num" where
  "backoff_delay base maxd n = math_min maxd (num_mul base (num_pow2 n))"

definition scheduleReconnect :: "stream_sys \<Rightarrow> stream_sys" where
  "scheduleReconnect s =
     (let s1 = setState WsReconnecting s in
      s1\<lparr>attempts := Suc (attempts s1),
         timers := (timers s1)(next_id s1 \<mapsto> backoff_delay (baseDelayMs s1) (maxDelayMs s1) (attempts s1)),
         reconnectTimer := Some (next_id s1),
         next_id := Suc (next_id s1)\<rparr>)"

text \<open>The four callbacks. Each is installed on every socket or timer the client creates and
  does not check which one it belongs to.\<close>

definition on_open :: "nat \<Rightarrow> stream_sys \<Rightarrow> stream_sys" where
  "on_open i s = setState WsOpen (s\<lparr>sockets := (sockets s)(i \<mapsto> SockOpen), attempts := 0\<rparr>)"

definition on_close :: "nat \<Rightarrow> stream_sys \<Rightarrow> stream_sys" where
  "on_close i s =
     (let s1 = s\<lparr>sockets := (sockets s)(i \<mapsto> SockClosed), socket := None\<rparr> in
      if stopped s1 then s1 else scheduleReconnect s1)"

definition on_timer :: "nat \<Rightarrow> stream_sys \<Rightarrow> stream_sys" where
  "on_timer t s =
     (let s1 = s\<lparr>timers := (timers s)(t := None), reconnectTimer := None\<rparr> in
      if stopped s1 then s1 else open_socket s1)"

definition on_message :: "(payload \<Rightarrow> stream_msg) \<Rightarrow> payload \<Rightarrow> stream_sys \<Rightarrow> stream_sys" where
  "on_message h data s = s\<lparr>received := received s @ [h data]\<rparr>"

section \<open>What the browser may do\<close>

text \<open>
  A connecting socket may open or fail, an open or closing socket may close, only an open
  socket delivers messages, and a pending timer may fire.
\<close>

inductive browser_step :: "(payload \<Rightarrow> stream_msg) \<Rightarrow> stream_sys \<Rightarrow> stream_sys \<Rightarrow> bool"
  for h where
  sock_open: "sockets s i = Some SockConnecting \<Longrightarrow> browser_step h s (on_open i s)"
| sock_close: "sockets s i = Some p \<Longrightarrow> p \<noteq> SockClosed \<Longrightarrow> browser_step h s (on_close i s)"
| sock_message: "sockets s i = Some SockOpen \<Longrightarrow> browser_step h s (on_message h data s)"
| timer_fire: "timers s t = Some d \<Longrightarrow> browser_step h s (on_timer t s)"

inductive_cases browser_stepE: "browser_step h s t"

text \<open>Any use of the class: \<open>connect\<close> and \<open>close\<close> at any time.\<close>

inductive any_use :: "(payload \<Rightarrow> stream_msg) \<Rightarrow> stream_options \<Rightarrow> stream_sys \<Rightarrow> bool"
  for h opts where
  created: "any_use h opts (new_client opts)"
| connected: "any_use h opts s \<Longrightarrow> any_use h opts (connect s)"
| closed: "any_use h opts s \<Longrightarrow> any_use h opts (close_client s)"
| browser: "any_use h opts s \<Longrightarrow> browser_step h s t \<Longrightarrow> any_use h opts t"

text \<open>
  The use the application makes of it (\<open>app/StreamProvider.tsx\<close>): one client, connected
  once when the provider mounts, closed when it unmounts.
\<close>

inductive mounted :: "(payload \<Rightarrow> stream_msg) \<Rightarrow> stream_options \<Rightarrow> stream_sys \<Rightarrow> bool"
  for h opts where
  mount: "mounted h opts (connect (new_client opts))"
| unmount: "mounted h opts s \<Longrightarrow> mounted h opts (close_client s)"
| live: "mounted h opts s \<Longrightarrow> browser_step h s t \<Longrightarrow> mounted h opts t"

lemma mounted_any_use: "mounted h opts s \<Longrightarrow> any_use h opts s"
  by (induction rule: mounted.induct) (auto intro: any_use.intros)

section \<open>The invariant of a mounted stream\<close>

definition quiet :: "socket_phase option \<Rightarrow> bool" where
  "quiet p \<longleftrightarrow> p = None \<or> p = Some SockClosed"

definition live :: "stream_sys \<Rightarrow> nat \<Rightarrow> bool" where
  "live s i \<longleftrightarrow> sockets s i = Some SockConnecting \<or> sockets s i = Some SockOpen"

definition fresh_ids :: "stream_sys \<Rightarrow> bool" where
  "fresh_ids s \<longleftrightarrow> (\<forall>i \<ge> next_id s. sockets s i = None \<and> timers s i = None)"

definition stopped_inv :: "stream_sys \<Rightarrow> bool" where
  "stopped_inv s \<longleftrightarrow> stopped s \<and> socket s = None \<and> reconnectTimer s = None \<and> state s = WsClosed
     \<and> timers s = Map.empty \<and> (\<forall>i. \<not> live s i)"

definition connected_inv :: "stream_sys \<Rightarrow> nat \<Rightarrow> bool" where
  "connected_inv s i \<longleftrightarrow> \<not> stopped s \<and> socket s = Some i \<and> reconnectTimer s = None
     \<and> timers s = Map.empty
     \<and> (sockets s i = Some SockConnecting \<and> state s \<in> {WsConnecting, WsReconnecting}
        \<or> sockets s i = Some SockOpen \<and> state s = WsOpen)
     \<and> (\<forall>j. j \<noteq> i \<longrightarrow> quiet (sockets s j))"

definition waiting_inv :: "stream_sys \<Rightarrow> nat \<Rightarrow> bool" where
  "waiting_inv s t \<longleftrightarrow> \<not> stopped s \<and> socket s = None \<and> reconnectTimer s = Some t
     \<and> dom (timers s) = {t} \<and> state s = WsReconnecting \<and> (\<forall>j. quiet (sockets s j))"

definition stream_inv :: "stream_sys \<Rightarrow> bool" where
  "stream_inv s \<longleftrightarrow> fresh_ids s \<and>
     (stopped_inv s \<or> (\<exists>i. connected_inv s i) \<or> (\<exists>t. waiting_inv s t))"

lemmas inv_defs = stopped_inv_def connected_inv_def waiting_inv_def fresh_ids_def quiet_def live_def

lemmas op_defs [model_defs] =
  setState_def open_socket_def connect_def close_client_def scheduleReconnect_def
  on_open_def on_close_def on_timer_def on_message_def new_client_def Let_def

lemma dom_single_erase: "dom m = {k} \<Longrightarrow> m(k := None) = Map.empty"
  by (rule ext) (auto simp: dom_def)

text \<open>Every operation only creates the id it takes from the counter.\<close>

lemma fresh_ids_step:
  "fresh_ids s \<Longrightarrow> fresh_ids (connect s)"
  "fresh_ids s \<Longrightarrow> fresh_ids (on_timer t s)"
  "fresh_ids s \<Longrightarrow> fresh_ids (on_message h d s)"
  by (auto simp: op_defs fresh_ids_def)

lemma fresh_ids_socket:
  assumes "fresh_ids s" "sockets s i \<noteq> None"
  shows "fresh_ids (on_open i s)" "fresh_ids (on_close i s)"
proof -
  have "i < next_id s" using assms by (metis fresh_ids_def linorder_not_le)
  with assms show "fresh_ids (on_open i s)" "fresh_ids (on_close i s)"
    by (auto simp: op_defs fresh_ids_def)
qed

lemma fresh_ids_close:
  assumes "fresh_ids s" "\<And>i. socket s = Some i \<Longrightarrow> sockets s i \<noteq> None"
  shows "fresh_ids (close_client s)"
proof (cases "socket s")
  case None
  with assms(1) show ?thesis by (auto simp: op_defs fresh_ids_def split: option.splits)
next
  case (Some i)
  with assms have "i < next_id s" by (metis fresh_ids_def linorder_not_le)
  with assms(1) Some show ?thesis by (auto simp: op_defs fresh_ids_def split: option.splits)
qed

lemma waiting_no_live:
  "waiting_inv s u \<Longrightarrow> sockets s i = Some p \<Longrightarrow> p = SockClosed"
  unfolding waiting_inv_def quiet_def by (metis option.distinct(1) option.inject)

lemma connect_new_inv: "connected_inv (connect (new_client opts)) 0"
  by (simp add: op_defs inv_defs)

lemma close_inv:
  assumes "stream_inv s" shows "stopped_inv (close_client s)"
proof -
  from assms consider "stopped_inv s" | i where "connected_inv s i" | t where "waiting_inv s t"
    by (auto simp: stream_inv_def)
  then show ?thesis
  proof cases
    case 3
    then have "\<not> live s i" for i using waiting_no_live [of s t i] by (auto simp: live_def)
    with 3 show ?thesis
      by (auto simp: op_defs waiting_inv_def stopped_inv_def live_def dom_single_erase)
  qed (auto simp: op_defs inv_defs fun_eq_iff split: if_splits option.splits)
qed

lemma stopped_browser:
  assumes "stopped_inv s" "browser_step h s t"
  shows "stopped_inv t"
  using assms(2,1)
  by cases (auto simp: op_defs inv_defs split: if_splits)

lemma connected_browser:
  assumes "connected_inv s i" "fresh_ids s" "browser_step h s t"
  shows "connected_inv t i \<or> waiting_inv t (next_id s)"
  using assms(3)
proof cases
  case (sock_open j)
  with assms(1) have "j = i" by (auto simp: inv_defs split: if_splits)
  with sock_open assms(1) show ?thesis by (auto simp: op_defs inv_defs)
next
  case (sock_close j p)
  with assms(1) have "j = i" by (auto simp: inv_defs split: if_splits)
  with sock_close assms(1,2) show ?thesis by (auto simp: op_defs inv_defs)
next
  case (sock_message j data)
  with assms(1) show ?thesis by (auto simp: op_defs inv_defs)
next
  case (timer_fire u d)
  with assms(1) show ?thesis by (auto simp: inv_defs)
qed

lemma waiting_browser:
  assumes "waiting_inv s u" "fresh_ids s" "browser_step h s t"
  shows "connected_inv t (next_id s)"
  using assms(3)
proof cases
  case (timer_fire v d)
  with assms(1) have "v = u" by (auto simp: waiting_inv_def)
  with timer_fire assms(1,2) show ?thesis
    by (auto simp: op_defs inv_defs dom_single_erase)
qed (use waiting_no_live [OF assms(1)] in blast)+

lemma browser_fresh:
  assumes "browser_step h s t" "fresh_ids s" shows "fresh_ids t"
  using assms by cases (auto intro: fresh_ids_step fresh_ids_socket)

lemma mounted_inv: "mounted h opts s \<Longrightarrow> stream_inv s"
proof (induction rule: mounted.induct)
  case mount
  have "fresh_ids (connect (new_client opts))" by (simp add: op_defs fresh_ids_def)
  then show ?case using connect_new_inv by (auto simp: stream_inv_def)
next
  case (unmount s)
  have "fresh_ids (close_client s)"
    by (rule fresh_ids_close) (use unmount.IH in \<open>auto simp: stream_inv_def inv_defs\<close>)
  then show ?case using close_inv [OF unmount.IH] by (auto simp: stream_inv_def)
next
  case (live s t)
  then show ?case
    using stopped_browser connected_browser waiting_browser browser_fresh
    unfolding stream_inv_def by metis
qed

section \<open>The delays\<close>

lemma math_min_mono: "num_le a b \<Longrightarrow> c \<noteq> NaN \<Longrightarrow> num_le (math_min c a) (math_min c b)"
  by (cases a; cases b; cases c) auto

lemma backoff_mono:
  "0 < b \<Longrightarrow> m \<le> n \<Longrightarrow> c \<noteq> NaN \<Longrightarrow> num_le (backoff_delay (Fin b) c m) (backoff_delay (Fin b) c n)"
  unfolding backoff_delay_def by (intro math_min_mono scaled_mono)

lemma timers_are_backoff:
  "any_use h opts s \<Longrightarrow>
     baseDelayMs s = baseDelayMs (new_client opts) \<and> maxDelayMs s = maxDelayMs (new_client opts)
     \<and> (\<forall>t d. timers s t = Some d \<longrightarrow> (\<exists>n. d = backoff_delay (baseDelayMs s) (maxDelayMs s) n))"
proof (induction rule: any_use.induct)
  case created
  then show ?case by (simp add: new_client_def)
next
  case (connected s)
  then show ?case by (auto simp: op_defs)
next
  case (closed s)
  then show ?case by (auto simp: op_defs split: option.splits if_splits)
next
  case (browser s t)
  from browser.hyps(2) browser.IH show ?case
    by cases (auto simp: op_defs split: if_splits)
qed

lemma backoff_bounds:
  assumes "0 < b" "b \<le> m" "is_double b"
  shows "num_le (Fin b) (backoff_delay (Fin b) (Fin m) n)" "num_le (backoff_delay (Fin b) (Fin m) n) (Fin m)"
proof -
  have "num_le (num_mul (Fin b) (num_pow2 0)) (num_mul (Fin b) (num_pow2 n))"
    using scaled_mono assms(1) by blast
  then have lower: "num_le (Fin b) (num_mul (Fin b) (num_pow2 n))"
    using assms(3) by (simp add: num_pow2_def)
  then have "num_mul (Fin b) (num_pow2 n) \<noteq> NaN" by auto
  then show "num_le (backoff_delay (Fin b) (Fin m) n) (Fin m)"
    unfolding backoff_delay_def using math_min_le by blast
  show "num_le (Fin b) (backoff_delay (Fin b) (Fin m) n)"
    unfolding backoff_delay_def using lower assms(2) by (intro math_min_glb) auto
qed

lemma stopped_run:
  assumes "(browser_step h)\<^sup>*\<^sup>* s t" "stopped_inv s"
  shows "stopped_inv t \<and> next_id t = next_id s"
  using assms
proof (induction rule: rtranclp_induct)
  case (step y z)
  have "next_id z = next_id y"
    using step.hyps(2) step.IH [OF step.prems]
    by cases (auto simp: op_defs stopped_inv_def)
  with step show ?case using stopped_browser by metis
qed simp

lemma dispatch_cases:
  assumes "zod_package sp" "frame_type_of (msg_type raw) = Some t"
  shows "conforms (KNOWN_FRAME_SCHEMAS dp t) raw \<Longrightarrow>
      \<exists>f. typed_frame t (project (KNOWN_FRAME_SCHEMAS dp t) raw) = Some f
          \<and> dispatch dp sp raw = Delivered f"
    and "\<not> conforms (KNOWN_FRAME_SCHEMAS dp t) raw \<Longrightarrow>
      \<exists>e es. dispatch dp sp raw = RejectedMsg t (e # es)"
proof -
  show "\<exists>f. typed_frame t (project (KNOWN_FRAME_SCHEMAS dp t) raw) = Some f
          \<and> dispatch dp sp raw = Delivered f" if c: "conforms (KNOWN_FRAME_SCHEMAS dp t) raw"
  proof -
    obtain f where "typed_frame t (project (KNOWN_FRAME_SCHEMAS dp t) raw) = Some f"
      using typed_frame_total [of t dp] c by (auto simp: reads_def)
    then show ?thesis
      using zod_package.accepts [OF assms(1) c] assms(2) by (simp add: dispatch_def)
  qed
  show "\<exists>e es. dispatch dp sp raw = RejectedMsg t (e # es)"
    if c: "\<not> conforms (KNOWN_FRAME_SCHEMAS dp t) raw"
    using zod_package.rejects [OF assms(1) c] assms(2) by (auto simp: dispatch_def)
qed

section \<open>Properties\<close>

abbreviation default_stream :: stream_options where
  "default_stream \<equiv> \<lparr>opt_baseDelayMs = None, opt_maxDelayMs = None\<rparr>"

abbreviation no_messages :: "payload \<Rightarrow> stream_msg" where
  "no_messages \<equiv> \<lambda>_. IgnoredMsg"

text \<open>
  C1: the application's one client never holds two connections. In every state a mounted
  stream can reach, at most one socket is connecting or open, at most one reconnect timer is
  pending, and never both a live socket and a pending timer.
\<close>

theorem stream_single_connection:
  assumes "mounted h opts s"
  shows "(\<forall>i j. live s i \<and> live s j \<longrightarrow> i = j)
       \<and> (\<forall>t u. t \<in> dom (timers s) \<and> u \<in> dom (timers s) \<longrightarrow> t = u)
       \<and> ((\<exists>i. live s i) \<longrightarrow> timers s = Map.empty)"
proof -
  from mounted_inv [OF assms]
  consider "stopped_inv s" | i where "connected_inv s i" | t where "waiting_inv s t"
    by (auto simp: stream_inv_def)
  then show ?thesis
  proof cases
    case 3
    then have "\<not> live s i" for i using waiting_no_live [of s t i] by (auto simp: live_def)
    with 3 show ?thesis by (auto simp: waiting_inv_def)
  qed (auto simp: inv_defs, (metis option.distinct(1) option.inject socket_phase.distinct)+)
qed

lemma mounted_open_example:
  "mounted no_messages default_stream (on_open 0 (connect (new_client default_stream)))"
  by (rule mounted.live [OF mounted.mount], rule browser_step.sock_open) (simp add: op_defs)

theorem stream_single_connection_witness:
  "let s = on_open 0 (connect (new_client default_stream)) in
   mounted no_messages default_stream s \<and> live s 0 \<and> timers s = Map.empty"
proof -
  let ?s = "on_open 0 (connect (new_client default_stream))"
  have l: "live ?s 0" by (simp add: op_defs live_def)
  with stream_single_connection [OF mounted_open_example]
  have "timers ?s = Map.empty" by blast
  with l show ?thesis using mounted_open_example by (simp add: Let_def)
qed

text \<open>
  C2: a mounted stream that has not been closed is never stuck: either its socket is
  connecting or open, or the connection indicator says reconnecting and exactly one timer,
  the recorded one, is pending to open the next socket.
\<close>

theorem stream_never_stuck:
  assumes "mounted h opts s" "\<not> stopped s"
  shows "(\<exists>i. socket s = Some i \<and> live s i)
       \<or> (\<exists>t d. reconnectTimer s = Some t \<and> timers s = [t \<mapsto> d] \<and> state s = WsReconnecting)"
proof -
  from mounted_inv [OF assms(1)] assms(2)
  consider i where "connected_inv s i" | t where "waiting_inv s t"
    by (auto simp: stream_inv_def stopped_inv_def)
  then show ?thesis
  proof cases
    case 2
    then obtain d where "timers s = [t \<mapsto> d]" by (auto simp: waiting_inv_def dom_eq_singleton_conv)
    with 2 show ?thesis by (auto simp: waiting_inv_def)
  qed (auto simp: connected_inv_def live_def)
qed

theorem stream_never_stuck_witness:
  "let s = on_close 0 (connect (new_client default_stream)) in
   \<not> stopped s \<and> (\<exists>t d. reconnectTimer s = Some t \<and> timers s = [t \<mapsto> d] \<and> state s = WsReconnecting)"
proof -
  let ?s = "on_close 0 (connect (new_client default_stream))"
  have m: "mounted no_messages default_stream ?s"
    by (rule mounted.live [OF mounted.mount], rule browser_step.sock_close [where p = SockConnecting])
      (simp_all add: op_defs)
  have n: "\<not> stopped ?s" and k: "socket ?s = None" by (simp_all add: op_defs)
  from stream_never_stuck [OF m n] k n show ?thesis by (simp add: Let_def)
qed

text \<open>
  C3: closing is final. After \<open>close()\<close> no event the browser can still deliver reopens the
  stream: the state stays closed, nothing is live or pending, and no further socket or timer
  is ever created.
\<close>

theorem close_is_final:
  assumes "mounted h opts s" "(browser_step h)\<^sup>*\<^sup>* (close_client s) t"
  shows "state t = WsClosed \<and> timers t = Map.empty \<and> (\<forall>i. \<not> live t i) \<and> next_id t = next_id s"
proof -
  have "stopped_inv (close_client s)" using close_inv mounted_inv assms(1) by blast
  with assms(2) have "stopped_inv t \<and> next_id t = next_id (close_client s)" by (rule stopped_run)
  moreover have "next_id (close_client s) = next_id s"
    by (simp add: op_defs split: option.splits)
  ultimately show ?thesis by (simp add: stopped_inv_def)
qed

theorem close_is_final_witness:
  "let s = close_client (on_open 0 (connect (new_client default_stream)));
       t = on_close 0 s in
   browser_step no_messages s t \<and> state t = WsClosed \<and> timers t = Map.empty"
proof -
  let ?s = "on_open 0 (connect (new_client default_stream))"
  have b: "browser_step no_messages (close_client ?s) (on_close 0 (close_client ?s))"
    by (rule browser_step.sock_close [where p = SockClosing]) (simp_all add: op_defs)
  from close_is_final [OF mounted_open_example r_into_rtranclp [where r = "browser_step no_messages", OF b]] b
  show ?thesis by (simp add: Let_def)
qed

text \<open>
  The connection indicator is honest. In a mounted stream the reported state is "open"
  exactly when the client's current socket is open.
\<close>

theorem indicator_honest:
  assumes "mounted h opts s"
  shows "state s = WsOpen \<longleftrightarrow> (\<exists>i. socket s = Some i \<and> sockets s i = Some SockOpen)"
  using mounted_inv [OF assms] by (auto simp: stream_inv_def inv_defs)

theorem indicator_honest_witness:
  "\<exists>i. socket (on_open 0 (connect (new_client default_stream))) = Some i
     \<and> sockets (on_open 0 (connect (new_client default_stream))) i = Some SockOpen"
  using indicator_honest [OF mounted_open_example] by (simp add: op_defs)

text \<open>
  The default backoff doubles from 500 ms and is capped at 5000 ms, at every attempt,
  including those where \<open>2 ** attempts\<close> overflows to infinity.
\<close>

theorem default_backoff_schedule:
  "backoff_delay (Fin 500) (Fin 5000) n = Fin (if n < 4 then 500 * 2 ^ n else 5000)"
proof (cases "n < 4")
  case True
  then have "n = 0 \<or> n = 1 \<or> n = 2 \<or> n = 3" by auto
  then show ?thesis by (auto simp: backoff_delay_def num_pow2_def)
next
  case False
  have "num_le (num_mul (Fin 500) (num_pow2 4)) (num_mul (Fin 500) (num_pow2 n))"
    using False by (intro scaled_mono) auto
  then have "num_le (Fin 8000) (num_mul (Fin 500) (num_pow2 n))"
    by (simp add: num_pow2_def)
  then show ?thesis using False
    by (cases "num_mul (Fin 500) (num_pow2 n)") (auto simp: backoff_delay_def)
qed

text \<open>
  Whatever the caller does with the client, every pending reconnect delay lies between
  the base delay and the maximum delay.
\<close>

theorem reconnect_delay_bounds:
  assumes "any_use h opts s" "timers s t = Some d"
    and "baseDelayMs s = Fin b" "maxDelayMs s = Fin m" "0 < b" "b \<le> m" "is_double b"
  shows "num_le (Fin b) d \<and> num_le d (Fin m)"
  using timers_are_backoff [OF assms(1)] assms(2-) backoff_bounds by metis

theorem reconnect_delay_bounds_witness:
  "num_le (Fin 500) (backoff_delay (Fin 500) (Fin 5000) 0)
   \<and> num_le (backoff_delay (Fin 500) (Fin 5000) 0) (Fin 5000)"
proof -
  let ?s = "on_close 0 (connect (new_client default_stream))"
  have "any_use no_messages default_stream ?s"
    by (rule any_use.browser [OF any_use.connected [OF any_use.created]],
        rule browser_step.sock_close [where p = SockConnecting]) (simp_all add: op_defs)
  then show ?thesis
    by (rule reconnect_delay_bounds [where t = 1]) (simp_all add: op_defs)
qed

text \<open>
  A call of \<open>connect()\<close> is idempotent only while a socket is held. Called while a reconnect is
  pending it opens a socket without cancelling the timer; when the timer fires a second
  socket is opened and the first one is orphaned, still live and no longer reachable by
  \<open>close()\<close>.
\<close>

theorem connect_during_backoff_leaks:
  "\<exists>s. any_use no_messages default_stream s \<and> live s 2 \<and> live s 3 \<and> live (close_client s) 2"
proof -
  let ?s0 = "connect (new_client default_stream)"
  let ?s1 = "on_close 0 ?s0"
  let ?s2 = "connect ?s1"
  let ?s3 = "on_timer 1 ?s2"
  have b1: "browser_step no_messages ?s0 ?s1"
    by (rule browser_step.sock_close [where p = SockConnecting]) (simp_all add: op_defs)
  have b2: "browser_step no_messages ?s2 ?s3"
    by (rule browser_step.timer_fire [where d = "backoff_delay (Fin 500) (Fin 5000) 0"])
      (simp add: op_defs)
  have "any_use no_messages default_stream ?s3"
    by (rule any_use.browser [OF any_use.connected [OF any_use.browser
          [OF any_use.connected [OF any_use.created] b1]] b2])
  moreover have "live ?s3 2" "live ?s3 3" "live (close_client ?s3) 2"
    by (simp_all add: op_defs live_def)
  ultimately show ?thesis by blast
qed

text \<open>
  C4: a frame reaches a handler only validated and typed. Given the contract of the schema
  package, a delivered frame comes from a message whose \<open>type\<close> names a known frame and which
  conforms to that frame's schema; the handler receives the typed reading of the parsed
  data, and in a telemetry frame every reading carries the unit of its metric.
\<close>

theorem delivered_frames_valid:
  assumes "zod_package sp" "handleMessage dp sp jp p = Delivered f"
  shows "\<exists>raw t. (p = Structured raw \<or> (\<exists>x. p = Text x \<and> jp x = Some raw))
      \<and> frame_type_of (msg_type raw) = Some t \<and> conforms (KNOWN_FRAME_SCHEMAS dp t) raw
      \<and> typed_frame t (project (KNOWN_FRAME_SCHEMAS dp t) raw) = Some f
      \<and> (\<forall>x. f = TelemetryFrame x \<longrightarrow> units_bound x)"
proof -
  obtain raw where raw: "p = Structured raw \<or> (\<exists>x. p = Text x \<and> jp x = Some raw)"
    and d: "dispatch dp sp raw = Delivered f"
    using assms(2) by (cases p) (auto split: option.splits)
  then obtain t where t: "frame_type_of (msg_type raw) = Some t"
    by (auto simp: dispatch_def split: option.splits)
  have c: "conforms (KNOWN_FRAME_SCHEMAS dp t) raw"
    using dispatch_cases(2) [OF assms(1) t] d by fastforce
  then have f: "typed_frame t (project (KNOWN_FRAME_SCHEMAS dp t) raw) = Some f"
    using dispatch_cases(1) [OF assms(1) t] d by fastforce
  have "units_bound x" if "f = TelemetryFrame x" for x
    using f c that telemetry_units [of dp raw x] by (cases t) auto
  with raw t c f show ?thesis by blast
qed

definition sample_drift_message :: jsval where
  "sample_drift_message = JObj
     [(''schema_version'', JNum (Fin 1)), (''greenhouse_id'', JStr ''gh-a''), (''zone_id'', JNull),
      (''ts'', JStr ''t0''), (''type'', JStr ''drift''), (''drift'', JBool True)]"

lemma sample_drift_delivered:
  "handleMessage (\<lambda>_. Some 0) reference_parse (\<lambda>_. None) (Structured sample_drift_message)
   = Delivered (DriftFrame \<lparr>drift_frame.schema_version = Fin 1, greenhouse_id = ''gh-a'', ts = ''t0'', drift = True\<rparr>)"
  by code_simp

theorem delivered_frames_valid_witness:
  "\<exists>raw t. Structured sample_drift_message = Structured raw
      \<and> frame_type_of (msg_type raw) = Some t \<and> conforms (KNOWN_FRAME_SCHEMAS (\<lambda>_. Some 0) t) raw"
  using delivered_frames_valid [OF ref.zod_package_axioms sample_drift_delivered] by blast

text \<open>
  Drift between the platform and the client is never silent. A message of a known type
  that does not conform is rejected, with at least one issue to report; one of an unknown
  type goes to the unknown handler; only text that is not JSON is ignored.
\<close>

theorem dispatch_never_silent:
  assumes "zod_package sp"
  shows "(case frame_type_of (msg_type raw) of
            None \<Rightarrow> dispatch dp sp raw = UnknownMsg raw
          | Some t \<Rightarrow> if conforms (KNOWN_FRAME_SCHEMAS dp t) raw
                      then \<exists>f. dispatch dp sp raw = Delivered f
                      else \<exists>e es. dispatch dp sp raw = RejectedMsg t (e # es))"
  using dispatch_cases [OF assms] by (fastforce simp: dispatch_def split: option.splits)

theorem dispatch_never_silent_witness:
  "\<exists>e es. dispatch (\<lambda>_. Some 0) reference_parse
     (JObj [(''type'', JStr ''status''), (''status'', JStr ''online'')]) = RejectedMsg StatusType (e # es)"
proof -
  let ?raw = "JObj [(''type'', JStr ''status''), (''status'', JStr ''online'')]"
  have "frame_type_of (msg_type ?raw) = Some StatusType" "\<not> conforms (statusFrame (\<lambda>_. Some 0)) ?raw"
    by code_simp+
  then show ?thesis
    using dispatch_never_silent [OF ref.zod_package_axioms, where raw = ?raw and dp = "\<lambda>_. Some 0"] by simp
qed

end
