(* ===== verification/Adapters.thy ===== *)
theory Adapters
  imports Wire_Types
begin

text \<open>
  The adapters of \<open>api/schemas.ts\<close>: \<open>to*\<close> turn a validated wire record into its view model,
  \<open>toWire*\<close> encode a view model as a write body. \<open>new Date(s)\<close> is \<open>dp s\<close>.
\<close>

section \<open>Wire to view\<close>

text \<open>\<open>s ? new Date(s) : null\<close> on a nullable string: the empty string is falsy.\<close>

fun date_or_null :: "date_parser \<Rightarrow> string option \<Rightarrow> date option" where
  "date_or_null dp None = None"
| "date_or_null dp (Some s) = (if s = [] then None else Some (dp s))"

definition toZoneStatus :: "date_parser \<Rightarrow> wire_zone_status \<Rightarrow> zone_status" where
  "toZoneStatus dp w = \<lparr>
     zone_status.zoneId = wire_zone_status.zone_id w,
     zone_status.soilMoistureVwc = soil_moisture_vwc w,
     zone_status.irrigating = wire_zone_status.irrigating w,
     zone_status.faulted = wire_zone_status.faulted w,
     zone_status.lastCycleTs = date_or_null dp (last_cycle_ts w) \<rparr>"

definition toZoneTargets :: "wire_zone_targets \<Rightarrow> zone_targets" where
  "toZoneTargets w = \<lparr>
     zone_targets.zoneId = wire_zone_targets.zone_id w,
     zone_targets.moistureLowThreshold = moisture_low_threshold w,
     zone_targets.moistureHighThreshold = moisture_high_threshold w,
     zone_targets.drainPeriodSecs = drain_period_secs w,
     zone_targets.sched = wire_zone_targets.sched w \<rparr>"

definition toSetpoints :: "wire_setpoints \<Rightarrow> setpoints" where
  "toSetpoints w = \<lparr>
     setpoints.temperatureDayC = wire_setpoints.temperature_day_c w,
     setpoints.temperatureNightC = wire_setpoints.temperature_night_c w,
     setpoints.dayStart = wire_setpoints.day_start w,
     setpoints.dayEnd = wire_setpoints.day_end w,
     setpoints.humidityLowPct = wire_setpoints.humidity_low_pct w,
     setpoints.humidityHighPct = wire_setpoints.humidity_high_pct w,
     setpoints.humidityDeadbandPct = wire_setpoints.humidity_deadband_pct w,
     setpoints.co2TargetPpm = wire_setpoints.co2_target_ppm w,
     setpoints.co2VentInterlockThresholdPct = wire_setpoints.co2_vent_interlock_threshold_pct w,
     setpoints.vpdTargetKpa = wire_setpoints.vpd_target_kpa w,
     setpoints.dliTargetMol = wire_setpoints.dli_target_mol w,
     setpoints.zones = map toZoneTargets (wire_setpoints.zones w) \<rparr>"

text \<open>\<open>w.climate?.x ?? null\<close>\<close>

definition climate_field :: "(wire_climate \<Rightarrow> js_num js_opt) \<Rightarrow> wire_climate option \<Rightarrow> js_num js_opt" where
  "climate_field sel c = or_null (case c of None \<Rightarrow> Undefined | Some x \<Rightarrow> sel x)"

definition toGreenhouseSummary :: "wire_greenhouse_summary \<Rightarrow> greenhouse_summary" where
  "toGreenhouseSummary w = \<lparr>
     greenhouse_summary.ident = wire_greenhouse_summary.ident w,
     greenhouse_summary.displayName = wire_greenhouse_summary.display_name w,
     greenhouse_summary.crop = wire_greenhouse_summary.crop w,
     greenhouse_summary.status = wire_greenhouse_summary.status w,
     greenhouse_summary.drift = wire_greenhouse_summary.drift w,
     greenhouse_summary.timeScale = nullish (wire_greenhouse_summary.time_scale w),
     greenhouse_summary.climate = \<lparr>
       greenhouse_climate.temperature = climate_field wire_climate.temperature (wire_greenhouse_summary.climate w),
       greenhouse_climate.humidity = climate_field wire_climate.humidity (wire_greenhouse_summary.climate w),
       greenhouse_climate.co2 = climate_field wire_climate.co2 (wire_greenhouse_summary.climate w),
       greenhouse_climate.dli = climate_field wire_climate.dli (wire_greenhouse_summary.climate w) \<rparr> \<rparr>"

definition toGreenhouseDetail :: "date_parser \<Rightarrow> wire_greenhouse_detail \<Rightarrow> greenhouse_detail" where
  "toGreenhouseDetail dp w = \<lparr>
     greenhouse_detail.ident = wire_greenhouse_detail.ident w,
     greenhouse_detail.displayName = wire_greenhouse_detail.display_name w,
     greenhouse_detail.crop = wire_greenhouse_detail.crop w,
     greenhouse_detail.status = wire_greenhouse_detail.status w,
     greenhouse_detail.drift = wire_greenhouse_detail.drift w,
     greenhouse_detail.timeScale = nullish (wire_greenhouse_detail.time_scale w),
     greenhouse_detail.setpoints = toSetpoints (wire_greenhouse_detail.setpoints w),
     greenhouse_detail.zoneStatus = map (toZoneStatus dp) (wire_greenhouse_detail.zone_status w) \<rparr>"

definition toReading :: "date_parser \<Rightarrow> wire_reading \<Rightarrow> reading" where
  "toReading dp w = \<lparr> reading.val = wire_reading.val w, reading.ts = dp (wire_reading.ts w) \<rparr>"

definition toTelemetrySeries :: "date_parser \<Rightarrow> wire_telemetry_series \<Rightarrow> telemetry_series" where
  "toTelemetrySeries dp w = \<lparr>
     telemetry_series.metric = wire_telemetry_series.metric w,
     telemetry_series.zoneId = wire_telemetry_series.zone_id w,
     telemetry_series.readings = map (toReading dp) (wire_telemetry_series.readings w) \<rparr>"

definition toActuatorState :: "date_parser \<Rightarrow> wire_actuator_state \<Rightarrow> actuator_state" where
  "toActuatorState dp w = \<lparr>
     actuator_state.actuator = wire_actuator_state.actuator w,
     actuator_state.zoneId = wire_actuator_state.zone_id w,
     actuator_state.commanded = wire_actuator_state.commanded w,
     actuator_state.observed = wire_actuator_state.observed w,
     actuator_state.ts = dp (wire_actuator_state.ts w) \<rparr>"

definition toTelemetryRange :: "date_parser \<Rightarrow> wire_telemetry_range \<Rightarrow> telemetry_range" where
  "toTelemetryRange dp w = \<lparr>
     telemetry_range.greenhouseId = wire_telemetry_range.greenhouse_id w,
     telemetry_range.from_ts = dp (wire_telemetry_range.from_ts w),
     telemetry_range.to_ts = dp (wire_telemetry_range.to_ts w),
     telemetry_range.series = map (toTelemetrySeries dp) (wire_telemetry_range.series w),
     telemetry_range.actuators = map (toActuatorState dp) (wire_telemetry_range.actuators w) \<rparr>"

definition toFleetSparklineSeries ::
    "date_parser \<Rightarrow> wire_fleet_sparkline_series \<Rightarrow> fleet_sparkline_series" where
  "toFleetSparklineSeries dp w = \<lparr>
     fleet_sparkline_series.greenhouseId = wire_fleet_sparkline_series.greenhouse_id w,
     fleet_sparkline_series.readings = map (toReading dp) (wire_fleet_sparkline_series.readings w) \<rparr>"

definition toFleetSparklines :: "date_parser \<Rightarrow> wire_fleet_sparklines \<Rightarrow> fleet_sparklines" where
  "toFleetSparklines dp w = \<lparr>
     fleet_sparklines.from_ts = dp (wire_fleet_sparklines.from_ts w),
     fleet_sparklines.to_ts = dp (wire_fleet_sparklines.to_ts w),
     fleet_sparklines.metric = wire_fleet_sparklines.metric w,
     fleet_sparklines.series = map (toFleetSparklineSeries dp) (wire_fleet_sparklines.series w) \<rparr>"

definition toAnalyticsBucket :: "date_parser \<Rightarrow> wire_analytics_bucket \<Rightarrow> analytics_bucket" where
  "toAnalyticsBucket dp w = \<lparr>
     analytics_bucket.bucketStart = dp (bucket_start w),
     analytics_bucket.min_v = wire_analytics_bucket.min_v w,
     analytics_bucket.max_v = wire_analytics_bucket.max_v w,
     analytics_bucket.avg = wire_analytics_bucket.avg w,
     analytics_bucket.count_v = wire_analytics_bucket.count_v w \<rparr>"

definition toAnalyticsSeries :: "date_parser \<Rightarrow> wire_analytics_series \<Rightarrow> analytics_series" where
  "toAnalyticsSeries dp w = \<lparr>
     analytics_series.metric = wire_analytics_series.metric w,
     analytics_series.zoneId = wire_analytics_series.zone_id w,
     analytics_series.buckets = map (toAnalyticsBucket dp) (wire_analytics_series.buckets w) \<rparr>"

definition toAnalyticsResponse :: "date_parser \<Rightarrow> wire_analytics_response \<Rightarrow> analytics_response" where
  "toAnalyticsResponse dp w = \<lparr>
     analytics_response.greenhouseId = wire_analytics_response.greenhouse_id w,
     analytics_response.from_ts = dp (wire_analytics_response.from_ts w),
     analytics_response.to_ts = dp (wire_analytics_response.to_ts w),
     analytics_response.interval = wire_analytics_response.interval w,
     analytics_response.series = map (toAnalyticsSeries dp) (wire_analytics_response.series w) \<rparr>"

definition toEventEntry :: "date_parser \<Rightarrow> wire_event_entry \<Rightarrow> event_entry" where
  "toEventEntry dp w = \<lparr>
     event_entry.greenhouseId = wire_event_entry.greenhouse_id w,
     event_entry.ts = dp (wire_event_entry.ts w),
     event_entry.kind = wire_event_entry.kind w,
     event_entry.severity = wire_event_entry.severity w,
     event_entry.message = wire_event_entry.message w,
     event_entry.source = wire_event_entry.source w \<rparr>"

definition toActiveAlert :: "date_parser \<Rightarrow> wire_active_alert \<Rightarrow> active_alert" where
  "toActiveAlert dp w = \<lparr>
     active_alert.greenhouseId = wire_active_alert.greenhouse_id w,
     active_alert.component = wire_active_alert.component w,
     active_alert.zoneId = wire_active_alert.zone_id w,
     active_alert.faultType = wire_active_alert.fault_type w,
     active_alert.kind = wire_active_alert.kind w,
     active_alert.severity = wire_active_alert.severity w,
     active_alert.since = dp (wire_active_alert.since w) \<rparr>"

definition toTimeScale :: "date_parser \<Rightarrow> wire_time_scale \<Rightarrow> time_scale_state" where
  "toTimeScale dp w = \<lparr>
     time_scale_state.scale = wire_time_scale.scale w,
     time_scale_state.tickIndex = tick_index w,
     time_scale_state.updatedAt = dp (updated_at w) \<rparr>"

definition toFleetTimeScaleResult :: "wire_fleet_time_scale_result \<Rightarrow> fleet_time_scale_result" where
  "toFleetTimeScaleResult w = \<lparr>
     fleet_time_scale_result.requestedScale = requested_scale w,
     fleet_time_scale_result.results = map (\<lambda>r. \<lparr>
       time_scale_outcome.greenhouseId = wire_time_scale_outcome.greenhouse_id r,
       time_scale_outcome.applied = wire_time_scale_outcome.applied r,
       time_scale_outcome.scale = wire_time_scale_outcome.scale r,
       time_scale_outcome.detail = wire_time_scale_outcome.detail r \<rparr>) (wire_fleet_time_scale_result.results w) \<rparr>"

section \<open>View to wire\<close>

definition toWireZoneTargets :: "zone_targets \<Rightarrow> wire_zone_targets" where
  "toWireZoneTargets zone = \<lparr>
     wire_zone_targets.zone_id = zone_targets.zoneId zone,
     wire_zone_targets.moisture_low_threshold = moistureLowThreshold zone,
     wire_zone_targets.moisture_high_threshold = moistureHighThreshold zone,
     wire_zone_targets.drain_period_secs = drainPeriodSecs zone,
     wire_zone_targets.sched = zone_targets.sched zone \<rparr>"

definition toWireSetpointsPatch :: "setpoints_patch \<Rightarrow> wire_setpoints_patch" where
  "toWireSetpointsPatch patch = \<lparr>
     wire_setpoints_patch.temperature_day_c = setpoints_patch.temperatureDayC patch,
     wire_setpoints_patch.temperature_night_c = setpoints_patch.temperatureNightC patch,
     wire_setpoints_patch.day_start = setpoints_patch.dayStart patch,
     wire_setpoints_patch.day_end = setpoints_patch.dayEnd patch,
     wire_setpoints_patch.humidity_low_pct = setpoints_patch.humidityLowPct patch,
     wire_setpoints_patch.humidity_high_pct = setpoints_patch.humidityHighPct patch,
     wire_setpoints_patch.humidity_deadband_pct = setpoints_patch.humidityDeadbandPct patch,
     wire_setpoints_patch.co2_target_ppm = setpoints_patch.co2TargetPpm patch,
     wire_setpoints_patch.co2_vent_interlock_threshold_pct = setpoints_patch.co2VentInterlockThresholdPct patch,
     wire_setpoints_patch.vpd_target_kpa = setpoints_patch.vpdTargetKpa patch,
     wire_setpoints_patch.dli_target_mol = setpoints_patch.dliTargetMol patch,
     wire_setpoints_patch.zones = map_option (map toWireZoneTargets) (setpoints_patch.zones patch) \<rparr>"

definition toSetpointsPatch :: "wire_setpoints_patch \<Rightarrow> setpoints_patch" where
  "toSetpointsPatch w = \<lparr>
     setpoints_patch.temperatureDayC = wire_setpoints_patch.temperature_day_c w,
     setpoints_patch.temperatureNightC = wire_setpoints_patch.temperature_night_c w,
     setpoints_patch.dayStart = wire_setpoints_patch.day_start w,
     setpoints_patch.dayEnd = wire_setpoints_patch.day_end w,
     setpoints_patch.humidityLowPct = wire_setpoints_patch.humidity_low_pct w,
     setpoints_patch.humidityHighPct = wire_setpoints_patch.humidity_high_pct w,
     setpoints_patch.humidityDeadbandPct = wire_setpoints_patch.humidity_deadband_pct w,
     setpoints_patch.co2TargetPpm = wire_setpoints_patch.co2_target_ppm w,
     setpoints_patch.co2VentInterlockThresholdPct = wire_setpoints_patch.co2_vent_interlock_threshold_pct w,
     setpoints_patch.vpdTargetKpa = wire_setpoints_patch.vpd_target_kpa w,
     setpoints_patch.dliTargetMol = wire_setpoints_patch.dli_target_mol w,
     setpoints_patch.zones = map_option (map toZoneTargets) (wire_setpoints_patch.zones w) \<rparr>"

text \<open>\<open>crop: input.crop ?? null\<close>\<close>

definition toWireRegistration ::
    "greenhouse_registration_input \<Rightarrow> wire_greenhouse_registration" where
  "toWireRegistration input = \<lparr>
     wire_greenhouse_registration.ident = greenhouse_registration_input.ident input,
     wire_greenhouse_registration.display_name = greenhouse_registration_input.displayName input,
     wire_greenhouse_registration.crop = or_null (greenhouse_registration_input.crop input),
     wire_greenhouse_registration.controller = \<lparr>
       wire_controller.rest_base_url = restBaseUrl (greenhouse_registration_input.controller input),
       wire_controller.mqtt_topic_root = mqttTopicRoot (greenhouse_registration_input.controller input) \<rparr> \<rparr>"

definition toWireSetpoints :: "setpoints \<Rightarrow> wire_setpoints" where
  "toWireSetpoints sp = \<lparr>
     wire_setpoints.temperature_day_c = setpoints.temperatureDayC sp,
     wire_setpoints.temperature_night_c = setpoints.temperatureNightC sp,
     wire_setpoints.day_start = setpoints.dayStart sp,
     wire_setpoints.day_end = setpoints.dayEnd sp,
     wire_setpoints.humidity_low_pct = setpoints.humidityLowPct sp,
     wire_setpoints.humidity_high_pct = setpoints.humidityHighPct sp,
     wire_setpoints.humidity_deadband_pct = setpoints.humidityDeadbandPct sp,
     wire_setpoints.co2_target_ppm = setpoints.co2TargetPpm sp,
     wire_setpoints.co2_vent_interlock_threshold_pct = setpoints.co2VentInterlockThresholdPct sp,
     wire_setpoints.vpd_target_kpa = setpoints.vpdTargetKpa sp,
     wire_setpoints.dli_target_mol = setpoints.dliTargetMol sp,
     wire_setpoints.zones = map toWireZoneTargets (setpoints.zones sp) \<rparr>"

section \<open>Encoding loses nothing\<close>

lemma toZoneTargets_toWire [simp]: "toZoneTargets (toWireZoneTargets z) = z"
  by (simp add: toZoneTargets_def toWireZoneTargets_def)

lemma toWireZoneTargets_toZone [simp]: "toWireZoneTargets (toZoneTargets w) = w"
  by (simp add: toZoneTargets_def toWireZoneTargets_def)

lemma zone_targets_comp [simp]:
  "toZoneTargets \<circ> toWireZoneTargets = id" "toWireZoneTargets \<circ> toZoneTargets = id"
  by (simp_all add: fun_eq_iff)

end
