(* ===== verification/Profile_Codec.thy ===== *)
theory Profile_Codec
  imports Adapters
begin

text \<open>
  Crop profiles (\<open>api/schemas.ts\<close>, "Crop profiles & assignment"): the crop-safe envelopes and
  the adapters and encoders that go through the two key tables. A \<open>Partial<Record<K, Bound>>\<close>
  is a map from the keys; the wire objects are maps from the wire key names.
\<close>

record bound =
  min_v :: js_num
  max_v :: js_num

datatype scalar_setpoint_key =
    TemperatureDayC | TemperatureNightC | HumidityLowPct | HumidityHighPct
  | HumidityDeadbandPct | Co2TargetPpm | Co2VentInterlockThresholdPct | VpdTargetKpa | DliTargetMol

datatype zone_bound_key = MoistureLowThreshold | MoistureHighThreshold | DrainPeriodSecs

type_synonym zone_bounds = "zone_bound_key \<rightharpoonup> bound"

record stage_bounds =
  scalars :: "scalar_setpoint_key \<rightharpoonup> bound"
  zones :: "zone_bounds option"

type_synonym wire_zone_bounds = "string \<rightharpoonup> bound"

record wire_stage_bounds =
  scalars :: "string \<rightharpoonup> bound"
  zones :: "wire_zone_bounds option"

record wire_profile_stage =
  stage :: string
  targets :: wire_setpoints
  bounds :: "wire_stage_bounds option"

record wire_crop_profile =
  ident :: string
  name :: string
  crop :: string
  stages :: "wire_profile_stage list"

record wire_crop_profile_patch =
  name :: string
  crop :: string
  stages :: "wire_profile_stage list"

record wire_assignment =
  greenhouse_id :: string
  profile_id :: string
  stage :: string

record profile_stage =
  stage :: string
  targets :: setpoints
  bounds :: "stage_bounds option"

record crop_profile =
  ident :: string
  name :: string
  crop :: string
  stages :: "profile_stage list"

record assignment =
  greenhouseId :: string
  profileId :: string
  stage :: string

record assignment_input =
  profileId :: string
  stage :: string

record wire_assignment_input =
  profile_id :: string
  stage :: string

section \<open>The key tables\<close>

definition BOUND_KEYS :: "(scalar_setpoint_key \<times> string) list" where
  "BOUND_KEYS =
     [(TemperatureDayC, ''temperature_day_c''),
      (TemperatureNightC, ''temperature_night_c''),
      (HumidityLowPct, ''humidity_low_pct''),
      (HumidityHighPct, ''humidity_high_pct''),
      (HumidityDeadbandPct, ''humidity_deadband_pct''),
      (Co2TargetPpm, ''co2_target_ppm''),
      (Co2VentInterlockThresholdPct, ''co2_vent_interlock_threshold_pct''),
      (VpdTargetKpa, ''vpd_target_kpa''),
      (DliTargetMol, ''dli_target_mol'')]"

definition ZONE_BOUND_KEYS :: "(zone_bound_key \<times> string) list" where
  "ZONE_BOUND_KEYS =
     [(MoistureLowThreshold, ''moisture_low_threshold''),
      (MoistureHighThreshold, ''moisture_high_threshold''),
      (DrainPeriodSecs, ''drain_period_secs'')]"

text \<open>
  The loop both directions share: for each pair of keys, copy the bound under the first key
  to the second when it is present.
\<close>

fun copy_bounds :: "('a \<times> 'b) list \<Rightarrow> ('a \<rightharpoonup> bound) \<Rightarrow> ('b \<rightharpoonup> bound) \<Rightarrow> ('b \<rightharpoonup> bound)" where
  "copy_bounds [] w acc = acc"
| "copy_bounds ((a, b) # ks) w acc =
     copy_bounds ks w (case w a of None \<Rightarrow> acc | Some x \<Rightarrow> acc(b \<mapsto> \<lparr>bound.min_v = bound.min_v x, max_v = bound.max_v x\<rparr>))"

definition swap_keys :: "('a \<times> 'b) list \<Rightarrow> ('b \<times> 'a) list" where
  "swap_keys ks = map (\<lambda>(a, b). (b, a)) ks"

definition toZoneBounds :: "wire_zone_bounds \<Rightarrow> zone_bounds" where
  "toZoneBounds w = copy_bounds (swap_keys ZONE_BOUND_KEYS) w Map.empty"

definition toWireZoneBounds :: "zone_bounds \<Rightarrow> wire_zone_bounds" where
  "toWireZoneBounds b = copy_bounds ZONE_BOUND_KEYS b Map.empty"

definition toStageBounds :: "wire_stage_bounds \<Rightarrow> stage_bounds" where
  "toStageBounds w = \<lparr>
     stage_bounds.scalars = copy_bounds (swap_keys BOUND_KEYS) (wire_stage_bounds.scalars w) Map.empty,
     zones = map_option toZoneBounds (wire_stage_bounds.zones w) \<rparr>"

definition toWireStageBounds :: "stage_bounds \<Rightarrow> wire_stage_bounds" where
  "toWireStageBounds b = \<lparr>
     wire_stage_bounds.scalars = copy_bounds BOUND_KEYS (stage_bounds.scalars b) Map.empty,
     zones = map_option toWireZoneBounds (stage_bounds.zones b) \<rparr>"

definition toProfileStage :: "wire_profile_stage \<Rightarrow> profile_stage" where
  "toProfileStage w = \<lparr>
     profile_stage.stage = wire_profile_stage.stage w,
     targets = toSetpoints (wire_profile_stage.targets w),
     bounds = map_option toStageBounds (wire_profile_stage.bounds w) \<rparr>"

definition toCropProfile :: "wire_crop_profile \<Rightarrow> crop_profile" where
  "toCropProfile w = \<lparr>
     crop_profile.ident = wire_crop_profile.ident w,
     name = wire_crop_profile.name w,
     crop = wire_crop_profile.crop w,
     stages = map toProfileStage (wire_crop_profile.stages w) \<rparr>"

definition toAssignment :: "wire_assignment \<Rightarrow> assignment" where
  "toAssignment w = \<lparr>
     assignment.greenhouseId = wire_assignment.greenhouse_id w,
     profileId = wire_assignment.profile_id w,
     stage = wire_assignment.stage w \<rparr>"

definition toWireProfileStage :: "profile_stage \<Rightarrow> wire_profile_stage" where
  "toWireProfileStage st = \<lparr>
     wire_profile_stage.stage = profile_stage.stage st,
     targets = toWireSetpoints (profile_stage.targets st),
     bounds = map_option toWireStageBounds (profile_stage.bounds st) \<rparr>"

definition toWireCropProfile :: "crop_profile \<Rightarrow> wire_crop_profile" where
  "toWireCropProfile profile = \<lparr>
     wire_crop_profile.ident = crop_profile.ident profile,
     name = crop_profile.name profile,
     crop = crop_profile.crop profile,
     stages = map toWireProfileStage (crop_profile.stages profile) \<rparr>"

text \<open>The patch body carries no id: the identity is the path's.\<close>

definition toWireCropProfilePatch :: "crop_profile \<Rightarrow> wire_crop_profile_patch" where
  "toWireCropProfilePatch profile = \<lparr>
     wire_crop_profile_patch.name = crop_profile.name profile,
     crop = crop_profile.crop profile,
     stages = map toWireProfileStage (crop_profile.stages profile) \<rparr>"

definition toWireAssignmentInput :: "assignment_input \<Rightarrow> wire_assignment_input" where
  "toWireAssignmentInput input = \<lparr>
     wire_assignment_input.profile_id = assignment_input.profileId input,
     stage = assignment_input.stage input \<rparr>"

lemma toWireSetpoints_to [simp]: "toWireSetpoints (toSetpoints w) = w"
  by (simp add: toSetpoints_def toWireSetpoints_def)

section \<open>The key tables are bijections, so the codecs invert each other\<close>

lemma copy_bounds_notin: "b \<notin> snd ` set ks \<Longrightarrow> copy_bounds ks w acc b = acc b"
  by (induction ks w acc rule: copy_bounds.induct) (auto split: option.splits)

lemma copy_bounds_lookup:
  "distinct (map snd ks) \<Longrightarrow> (a, b) \<in> set ks \<Longrightarrow>
   copy_bounds ks w acc b = (case w a of None \<Rightarrow> acc b | Some x \<Rightarrow> Some x)"
proof (induction ks w acc rule: copy_bounds.induct)
  case (2 a' b' ks w acc)
  show ?case
  proof (cases "(a, b) = (a', b')")
    case True
    with 2 show ?thesis by (auto simp: copy_bounds_notin split: option.splits)
  next
    case False
    with "2.prems" have ab: "(a, b) \<in> set ks" by auto
    with "2.prems" have "b \<noteq> b'" by force
    moreover from "2.prems" have "distinct (map snd ks)" by simp
    ultimately show ?thesis using "2.IH" [OF _ ab] by (auto split: option.splits)
  qed
qed simp

lemma copy_bounds_inverse:
  assumes "distinct (map fst ks)" "distinct (map snd ks)" "dom m \<subseteq> fst ` set ks"
  shows "copy_bounds (swap_keys ks) (copy_bounds ks m Map.empty) Map.empty = m"
proof
  fix a
  have sw: "map snd (swap_keys ks) = map fst ks"
    by (auto simp: swap_keys_def)
  show "copy_bounds (swap_keys ks) (copy_bounds ks m Map.empty) Map.empty a = m a"
  proof (cases "a \<in> fst ` set ks")
    case True
    then obtain b where ab: "(a, b) \<in> set ks" by auto
    then have "(b, a) \<in> set (swap_keys ks)" by (force simp: swap_keys_def)
    with assms(1,2) ab sw show ?thesis
      by (simp add: copy_bounds_lookup [of _ b a] copy_bounds_lookup [of _ a b] split: option.splits)
  next
    case False
    then have "a \<notin> snd ` set (swap_keys ks)" by (force simp: swap_keys_def)
    moreover from False assms(3) have "m a = None" by (metis domIff subsetD)
    ultimately show ?thesis by (simp add: copy_bounds_notin)
  qed
qed

lemma swap_swap [simp]: "swap_keys (swap_keys ks) = ks"
  by (simp add: swap_keys_def comp_def case_prod_unfold)

lemma BOUND_KEYS_bij:
  "distinct (map fst BOUND_KEYS)" "distinct (map snd BOUND_KEYS)"
  "a \<in> fst ` set BOUND_KEYS"
  by (cases a; simp add: BOUND_KEYS_def)+

lemma ZONE_BOUND_KEYS_bij:
  "distinct (map fst ZONE_BOUND_KEYS)" "distinct (map snd ZONE_BOUND_KEYS)"
  "a \<in> fst ` set ZONE_BOUND_KEYS"
  by (cases a; simp add: ZONE_BOUND_KEYS_def)+

lemma toZoneBounds_toWire [simp]: "toZoneBounds (toWireZoneBounds b) = b"
  unfolding toZoneBounds_def toWireZoneBounds_def
  by (rule copy_bounds_inverse) (auto simp: ZONE_BOUND_KEYS_bij)

lemma toStageBounds_toWire [simp]: "toStageBounds (toWireStageBounds b) = b"
  unfolding toStageBounds_def toWireStageBounds_def
  by (simp add: copy_bounds_inverse BOUND_KEYS_bij subsetI option.map_comp comp_def option.map_ident)

lemma toSetpoints_toWire [simp]: "toSetpoints (toWireSetpoints s) = s"
  by (simp add: toSetpoints_def toWireSetpoints_def)

lemma toProfileStage_toWire [simp]: "toProfileStage (toWireProfileStage s) = s"
  by (simp add: toProfileStage_def toWireProfileStage_def option.map_comp comp_def option.map_ident)

text \<open>In the other direction, a wire envelope comes back without its undeclared keys.\<close>

lemma toWireStageBounds_to:
  assumes "dom (wire_stage_bounds.scalars w) \<subseteq> snd ` set BOUND_KEYS" "wire_stage_bounds.zones w = None"
  shows "toWireStageBounds (toStageBounds w) = w"
proof -
  have "copy_bounds (swap_keys (swap_keys BOUND_KEYS))
      (copy_bounds (swap_keys BOUND_KEYS) (wire_stage_bounds.scalars w) Map.empty) Map.empty
      = wire_stage_bounds.scalars w"
    by (rule copy_bounds_inverse)
      (use assms(1) BOUND_KEYS_bij in \<open>force simp: swap_keys_def BOUND_KEYS_def\<close>)+
  with assms(2) show ?thesis by (simp add: toWireStageBounds_def toStageBounds_def)
qed

end
