(* ===== verification/Optimizer_Wire.thy ===== *)
theory Optimizer_Wire
  imports Adapters
begin

text \<open>
  The optimizer console shapes of \<open>api/schemas.ts\<close>: wire records, view models and adapters.
\<close>

section \<open>Wire shapes\<close>

record wire_optimizer_outcome =
  status :: optimizer_outcome_status
  reason_code :: "reason_code js_opt"
  message :: "string js_opt"

record wire_optimizer_backend =
  provider :: optimizer_provider
  model :: string
  prompt_version :: string
  role :: backend_role

record optimizer_objective_scores =
  anticipation :: js_num
  coupling :: js_num
  efficiency :: js_num

record wire_optimizer_plan_body =
  confidence :: js_num
  explanation :: string
  immediate_setpoints :: wire_setpoints_patch
  objective_scores :: "optimizer_objective_scores option"

record wire_optimizer_horizon =
  start_ts :: string
  end_ts :: string

record wire_optimizer_plan_view =
  optimizer_run_id :: string
  greenhouse_id :: string
  created_at :: string
  horizon :: wire_optimizer_horizon
  backend :: wire_optimizer_backend
  outcome :: wire_optimizer_outcome
  plan :: "wire_optimizer_plan_body option"

record field_bound =
  min_v :: js_num
  max_v :: js_num

record wire_setpoint_diff =
  proposed :: wire_setpoints_patch
  current :: wire_setpoints
  bounds :: "string \<rightharpoonup> field_bound"

record wire_optimizer_plan_detail =
  plan :: wire_optimizer_plan_view
  diff :: "wire_setpoint_diff option"

record wire_escalation =
  ident :: string
  greenhouse_id :: string
  optimizer_run_id :: string
  reason_code :: reason_code
  reason_class :: reason_class
  created_at :: string
  message :: "string js_opt"
  resolution :: "escalation_resolution js_opt"

record wire_fleet_optimizer_greenhouse =
  greenhouse_id :: string
  status :: "optimizer_outcome_status option"
  reason_code :: "reason_code js_opt"
  message :: "string js_opt"
  enabled :: bool
  created_at :: "string option"
  in_flight :: bool
  current_stage :: "cycle_stage option"

record outcome_counts =
  applied :: js_num
  unchanged :: js_num
  held :: js_num
  failed :: js_num

record wire_fleet_optimizer_rollup =
  backlog :: js_num
  by_outcome :: outcome_counts
  oldest_open_age_secs :: "js_num option"

record wire_fleet_optimizer_summary =
  greenhouses :: "wire_fleet_optimizer_greenhouse list"
  rollup :: wire_fleet_optimizer_rollup

record wire_model_state =
  provider :: optimizer_provider
  model :: string
  prompt_version :: string
  role :: backend_role
  available_models :: "string list"

record wire_enable_state =
  enabled :: bool

record wire_greenhouse_enable_state =
  greenhouse_id :: string
  enabled :: bool

record wire_optimizer_status =
  status :: optimizer_service_status
  degraded_reason :: "degraded_reason js_opt"
  enabled :: bool
  read_only_reason :: "string js_opt"
  last_successful_cycle_at :: "string option"
  cadence_secs :: js_num

record wire_cycle_accepted =
  optimizer_run_id :: string
  greenhouse_id :: string

section \<open>View models\<close>

record optimizer_outcome =
  status :: optimizer_outcome_status
  reasonCode :: "reason_code option"
  message :: "string option"

record optimizer_backend =
  provider :: optimizer_provider
  model :: string
  promptVersion :: string
  role :: backend_role

record optimizer_plan_body =
  confidence :: js_num
  explanation :: string
  immediateSetpoints :: setpoints_patch
  objectiveScores :: "optimizer_objective_scores option"

record optimizer_horizon =
  start_ts :: date
  end_ts :: date

record optimizer_plan_view =
  optimizerRunId :: string
  greenhouseId :: string
  createdAt :: date
  horizon :: optimizer_horizon
  backend :: optimizer_backend
  outcome :: optimizer_outcome
  plan :: "optimizer_plan_body option"

record setpoint_diff =
  proposed :: setpoints_patch
  current :: setpoints
  bounds :: "string \<rightharpoonup> field_bound"

record optimizer_plan_detail =
  plan :: optimizer_plan_view
  diff :: "setpoint_diff option"

record escalation =
  ident :: string
  greenhouseId :: string
  optimizerRunId :: string
  reasonCode :: reason_code
  reasonClass :: reason_class
  createdAt :: date
  message :: "string option"
  resolution :: "escalation_resolution option"

record fleet_optimizer_greenhouse =
  greenhouseId :: string
  status :: "optimizer_outcome_status option"
  reasonCode :: "reason_code option"
  message :: "string option"
  enabled :: bool
  createdAt :: "date option"
  inFlight :: bool
  currentStage :: "cycle_stage option"

record fleet_optimizer_rollup =
  backlog :: js_num
  byOutcome :: outcome_counts
  oldestOpenAgeSecs :: "js_num option"

record fleet_optimizer_summary =
  greenhouses :: "fleet_optimizer_greenhouse list"
  rollup :: fleet_optimizer_rollup

record model_state =
  provider :: optimizer_provider
  model :: string
  promptVersion :: string
  role :: backend_role
  availableModels :: "string list"

record enable_state =
  enabled :: bool

record greenhouse_enable_state =
  greenhouseId :: string
  enabled :: bool

record optimizer_status =
  status :: optimizer_service_status
  degradedReason :: "degraded_reason option"
  enabled :: bool
  readOnlyReason :: "string option"
  lastSuccessfulCycleAt :: "date option"
  cadenceSecs :: js_num

record cycle_accepted =
  optimizerRunId :: string
  greenhouseId :: string

section \<open>Adapters\<close>

definition toOptimizerOutcome :: "wire_optimizer_outcome \<Rightarrow> optimizer_outcome" where
  "toOptimizerOutcome w = \<lparr>
     optimizer_outcome.status = wire_optimizer_outcome.status w,
     optimizer_outcome.reasonCode = nullish (wire_optimizer_outcome.reason_code w),
     optimizer_outcome.message = nullish (wire_optimizer_outcome.message w) \<rparr>"

definition toOptimizerBackend :: "wire_optimizer_backend \<Rightarrow> optimizer_backend" where
  "toOptimizerBackend w = \<lparr>
     optimizer_backend.provider = wire_optimizer_backend.provider w,
     optimizer_backend.model = wire_optimizer_backend.model w,
     optimizer_backend.promptVersion = wire_optimizer_backend.prompt_version w,
     optimizer_backend.role = wire_optimizer_backend.role w \<rparr>"

definition toOptimizerPlanBody :: "wire_optimizer_plan_body \<Rightarrow> optimizer_plan_body" where
  "toOptimizerPlanBody w = \<lparr>
     optimizer_plan_body.confidence = wire_optimizer_plan_body.confidence w,
     optimizer_plan_body.explanation = wire_optimizer_plan_body.explanation w,
     optimizer_plan_body.immediateSetpoints = toSetpointsPatch (immediate_setpoints w),
     optimizer_plan_body.objectiveScores = objective_scores w \<rparr>"

definition toOptimizerPlanView :: "date_parser \<Rightarrow> wire_optimizer_plan_view \<Rightarrow> optimizer_plan_view" where
  "toOptimizerPlanView dp w = \<lparr>
     optimizer_plan_view.optimizerRunId = wire_optimizer_plan_view.optimizer_run_id w,
     optimizer_plan_view.greenhouseId = wire_optimizer_plan_view.greenhouse_id w,
     optimizer_plan_view.createdAt = dp (wire_optimizer_plan_view.created_at w),
     optimizer_plan_view.horizon = \<lparr>
       optimizer_horizon.start_ts = dp (wire_optimizer_horizon.start_ts (wire_optimizer_plan_view.horizon w)),
       optimizer_horizon.end_ts = dp (wire_optimizer_horizon.end_ts (wire_optimizer_plan_view.horizon w)) \<rparr>,
     optimizer_plan_view.backend = toOptimizerBackend (wire_optimizer_plan_view.backend w),
     optimizer_plan_view.outcome = toOptimizerOutcome (wire_optimizer_plan_view.outcome w),
     optimizer_plan_view.plan = map_option toOptimizerPlanBody (wire_optimizer_plan_view.plan w) \<rparr>"

definition toSetpointDiff :: "wire_setpoint_diff \<Rightarrow> setpoint_diff" where
  "toSetpointDiff w = \<lparr>
     setpoint_diff.proposed = toSetpointsPatch (wire_setpoint_diff.proposed w),
     setpoint_diff.current = toSetpoints (wire_setpoint_diff.current w),
     setpoint_diff.bounds = wire_setpoint_diff.bounds w \<rparr>"

definition toOptimizerPlanDetail ::
    "date_parser \<Rightarrow> wire_optimizer_plan_detail \<Rightarrow> optimizer_plan_detail" where
  "toOptimizerPlanDetail dp w = \<lparr>
     optimizer_plan_detail.plan = toOptimizerPlanView dp (wire_optimizer_plan_detail.plan w),
     optimizer_plan_detail.diff = map_option toSetpointDiff (wire_optimizer_plan_detail.diff w) \<rparr>"

definition toEscalation :: "date_parser \<Rightarrow> wire_escalation \<Rightarrow> escalation" where
  "toEscalation dp w = \<lparr>
     escalation.ident = wire_escalation.ident w,
     escalation.greenhouseId = wire_escalation.greenhouse_id w,
     escalation.optimizerRunId = wire_escalation.optimizer_run_id w,
     escalation.reasonCode = wire_escalation.reason_code w,
     escalation.reasonClass = wire_escalation.reason_class w,
     escalation.createdAt = dp (wire_escalation.created_at w),
     escalation.message = nullish (wire_escalation.message w),
     escalation.resolution = nullish (wire_escalation.resolution w) \<rparr>"

definition toFleetOptimizerGreenhouse ::
    "date_parser \<Rightarrow> wire_fleet_optimizer_greenhouse \<Rightarrow> fleet_optimizer_greenhouse" where
  "toFleetOptimizerGreenhouse dp g = \<lparr>
     fleet_optimizer_greenhouse.greenhouseId = wire_fleet_optimizer_greenhouse.greenhouse_id g,
     fleet_optimizer_greenhouse.status = wire_fleet_optimizer_greenhouse.status g,
     fleet_optimizer_greenhouse.reasonCode = nullish (wire_fleet_optimizer_greenhouse.reason_code g),
     fleet_optimizer_greenhouse.message = nullish (wire_fleet_optimizer_greenhouse.message g),
     fleet_optimizer_greenhouse.enabled = wire_fleet_optimizer_greenhouse.enabled g,
     fleet_optimizer_greenhouse.createdAt = date_or_null dp (wire_fleet_optimizer_greenhouse.created_at g),
     fleet_optimizer_greenhouse.inFlight = in_flight g,
     fleet_optimizer_greenhouse.currentStage = current_stage g \<rparr>"

definition toFleetOptimizerSummary ::
    "date_parser \<Rightarrow> wire_fleet_optimizer_summary \<Rightarrow> fleet_optimizer_summary" where
  "toFleetOptimizerSummary dp w = \<lparr>
     fleet_optimizer_summary.greenhouses = map (toFleetOptimizerGreenhouse dp) (wire_fleet_optimizer_summary.greenhouses w),
     fleet_optimizer_summary.rollup = \<lparr>
       fleet_optimizer_rollup.backlog = wire_fleet_optimizer_rollup.backlog (wire_fleet_optimizer_summary.rollup w),
       fleet_optimizer_rollup.byOutcome = by_outcome (wire_fleet_optimizer_summary.rollup w),
       fleet_optimizer_rollup.oldestOpenAgeSecs = oldest_open_age_secs (wire_fleet_optimizer_summary.rollup w) \<rparr> \<rparr>"

definition toModelState :: "wire_model_state \<Rightarrow> model_state" where
  "toModelState w = \<lparr>
     model_state.provider = wire_model_state.provider w,
     model_state.model = wire_model_state.model w,
     model_state.promptVersion = wire_model_state.prompt_version w,
     model_state.role = wire_model_state.role w,
     model_state.availableModels = available_models w \<rparr>"

definition toEnableState :: "wire_enable_state \<Rightarrow> enable_state" where
  "toEnableState w = \<lparr> enable_state.enabled = wire_enable_state.enabled w \<rparr>"

definition toGreenhouseEnableState :: "wire_greenhouse_enable_state \<Rightarrow> greenhouse_enable_state" where
  "toGreenhouseEnableState w = \<lparr>
     greenhouse_enable_state.greenhouseId = wire_greenhouse_enable_state.greenhouse_id w,
     greenhouse_enable_state.enabled = wire_greenhouse_enable_state.enabled w \<rparr>"

definition toOptimizerStatus :: "date_parser \<Rightarrow> wire_optimizer_status \<Rightarrow> optimizer_status" where
  "toOptimizerStatus dp w = \<lparr>
     optimizer_status.status = wire_optimizer_status.status w,
     optimizer_status.degradedReason = nullish (degraded_reason w),
     optimizer_status.enabled = wire_optimizer_status.enabled w,
     optimizer_status.readOnlyReason = nullish (read_only_reason w),
     optimizer_status.lastSuccessfulCycleAt = date_or_null dp (last_successful_cycle_at w),
     optimizer_status.cadenceSecs = cadence_secs w \<rparr>"

definition toCycleAccepted :: "wire_cycle_accepted \<Rightarrow> cycle_accepted" where
  "toCycleAccepted w = \<lparr>
     cycle_accepted.optimizerRunId = wire_cycle_accepted.optimizer_run_id w,
     cycle_accepted.greenhouseId = wire_cycle_accepted.greenhouse_id w \<rparr>"

end
