(* ===== verification/Query_Cache.thy ===== *)
theory Query_Cache
  imports Profile_Codec Optimizer_Wire "HOL-Library.Sublist"
begin

text \<open>
  The server-state cache. Keys follow \<open>api/queries/keys.ts\<close>: an array of strings, with a
  filter scope as second part for the two feeds. The cache itself is the third-party query
  client; the part the program relies on is the record of operations \<open>query_client\<close>, whose
  documented laws are the locale \<open>query_cache\<close>. A reference client on association lists shows
  the laws to be consistent and makes everything built on them executable.
\<close>

section \<open>Keys\<close>

record event_scope =
  sc_greenhouseId :: "string option"
  sc_kind :: "event_kind option"
  sc_severity :: "event_severity option"

datatype key_part = KStr string | KInterval analytics_interval | KScope event_scope

type_synonym query_key = "key_part list"

definition empty_scope :: event_scope where
  "empty_scope = \<lparr>sc_greenhouseId = None, sc_kind = None, sc_severity = None\<rparr>"

definition fleet_key :: query_key where "fleet_key = [KStr ''fleet'']"
definition greenhouse_key :: "string \<Rightarrow> query_key" where "greenhouse_key i = [KStr ''greenhouse'', KStr i]"
definition fleetSparklines_key :: "string \<Rightarrow> query_key" where
  "fleetSparklines_key w = [KStr ''fleet-sparklines'', KStr w]"
definition telemetry_key :: "string \<Rightarrow> string \<Rightarrow> query_key" where
  "telemetry_key i w = [KStr ''telemetry'', KStr i, KStr w]"
definition analytics_key :: "string \<Rightarrow> string \<Rightarrow> analytics_interval \<Rightarrow> query_key" where
  "analytics_key i w n = [KStr ''analytics'', KStr i, KStr w, KInterval n]"
definition events_key :: "event_scope \<Rightarrow> query_key" where "events_key s = [KStr ''events'', KScope s]"
definition activeAlerts_key :: "event_scope \<Rightarrow> query_key" where
  "activeAlerts_key s = [KStr ''active-alerts'', KScope s]"
definition profiles_key :: query_key where "profiles_key = [KStr ''profiles'']"
definition profile_key :: "string \<Rightarrow> query_key" where "profile_key i = [KStr ''profile'', KStr i]"
definition assignment_key :: "string \<Rightarrow> query_key" where "assignment_key i = [KStr ''assignment'', KStr i]"
definition optimizerStatus_key :: query_key where "optimizerStatus_key = [KStr ''optimizer-status'']"
definition optimizerFleet_key :: query_key where "optimizerFleet_key = [KStr ''optimizer-fleet'']"
definition optimizerEscalations_key :: query_key where
  "optimizerEscalations_key = [KStr ''optimizer-escalations'']"
definition optimizerModel_key :: query_key where "optimizerModel_key = [KStr ''optimizer-model'']"
definition optimizerEnabled_key :: query_key where "optimizerEnabled_key = [KStr ''optimizer-enabled'']"
definition optimizerPlan_key :: "string \<Rightarrow> query_key" where
  "optimizerPlan_key i = [KStr ''optimizer-plan'', KStr i]"
definition optimizerGreenhouseEnabled_key :: "string \<Rightarrow> query_key" where
  "optimizerGreenhouseEnabled_key i = [KStr ''optimizer-greenhouse-enabled'', KStr i]"

lemmas key_defs = fleet_key_def greenhouse_key_def fleetSparklines_key_def telemetry_key_def
  analytics_key_def events_key_def activeAlerts_key_def profiles_key_def profile_key_def
  assignment_key_def optimizerStatus_key_def optimizerFleet_key_def optimizerEscalations_key_def
  optimizerModel_key_def optimizerEnabled_key_def optimizerPlan_key_def optimizerGreenhouseEnabled_key_def

section \<open>Cached data\<close>

text \<open>
  One constructor per type argument of a query hook. \<open>Mistyped\<close> is data of none of them: what an
  updater written for one type leaves of data of another, where TypeScript's types are gone.
\<close>

datatype query_data =
    FleetData "greenhouse_summary list"
  | DetailData greenhouse_detail
  | SparklineData fleet_sparklines
  | TelemetryData telemetry_range
  | AnalyticsData analytics_response
  | EventsData "event_entry list"
  | AlertsData "active_alert list"
  | ProfilesData "crop_profile list"
  | ProfileData crop_profile
  | AssignmentData assignment
  | OptStatusData optimizer_status
  | OptFleetData fleet_optimizer_summary
  | OptEscalationsData "escalation list"
  | OptModelData model_state
  | OptEnabledData enable_state
  | OptPlanData optimizer_plan_detail
  | OptGreenhouseEnabledData greenhouse_enable_state
  | Mistyped

text \<open>The type a key's data has: the type argument of the query hook that owns the key.\<close>

fun key_typed :: "query_key \<Rightarrow> query_data \<Rightarrow> bool" where
  "key_typed (KStr s # ps) d = (case d of
      FleetData _ \<Rightarrow> s = ''fleet''
    | DetailData _ \<Rightarrow> s = ''greenhouse''
    | SparklineData _ \<Rightarrow> s = ''fleet-sparklines''
    | TelemetryData _ \<Rightarrow> s = ''telemetry''
    | AnalyticsData _ \<Rightarrow> s = ''analytics''
    | EventsData _ \<Rightarrow> s = ''events''
    | AlertsData _ \<Rightarrow> s = ''active-alerts''
    | ProfilesData _ \<Rightarrow> s = ''profiles''
    | ProfileData _ \<Rightarrow> s = ''profile''
    | AssignmentData _ \<Rightarrow> s = ''assignment''
    | OptStatusData _ \<Rightarrow> s = ''optimizer-status''
    | OptFleetData _ \<Rightarrow> s = ''optimizer-fleet''
    | OptEscalationsData _ \<Rightarrow> s = ''optimizer-escalations''
    | OptModelData _ \<Rightarrow> s = ''optimizer-model''
    | OptEnabledData _ \<Rightarrow> s = ''optimizer-enabled''
    | OptPlanData _ \<Rightarrow> s = ''optimizer-plan''
    | OptGreenhouseEnabledData _ \<Rightarrow> s = ''optimizer-greenhouse-enabled''
    | Mistyped \<Rightarrow> False)"
| "key_typed _ d = False"

section \<open>The query client\<close>

text \<open>
  An updater receives the cached data, or undefined, and returning undefined leaves the cache
  as it is. \<open>findAll\<close>, \<open>invalidateQueries\<close> and \<open>removeQueries\<close> match keys by prefix.
\<close>

record 'c query_client =
  getQueryData :: "query_key \<Rightarrow> 'c \<Rightarrow> query_data option"
  setQueryData :: "query_key \<Rightarrow> (query_data option \<Rightarrow> query_data option) \<Rightarrow> 'c \<Rightarrow> 'c"
  findAll :: "query_key \<Rightarrow> 'c \<Rightarrow> query_key list"
  invalidateQueries :: "query_key \<Rightarrow> 'c \<Rightarrow> 'c"
  removeQueries :: "query_key \<Rightarrow> 'c \<Rightarrow> 'c"
  isInvalidated :: "query_key \<Rightarrow> 'c \<Rightarrow> bool"

locale query_cache =
  fixes qc :: "'c query_client"
  assumes get_set: "getQueryData qc k (setQueryData qc k f c) =
      (case f (getQueryData qc k c) of None \<Rightarrow> getQueryData qc k c | Some d \<Rightarrow> Some d)"
    and get_set_other: "k' \<noteq> k \<Longrightarrow> getQueryData qc k' (setQueryData qc k f c) = getQueryData qc k' c"
    and find_prefix: "k \<in> set (findAll qc p c) \<Longrightarrow> prefix p k"
    and find_cached: "prefix p k \<Longrightarrow> getQueryData qc k c \<noteq> None \<Longrightarrow> k \<in> set (findAll qc p c)"
    and find_distinct: "distinct (findAll qc p c)"
    and get_invalidate: "getQueryData qc k (invalidateQueries qc p c) = getQueryData qc k c"
    and invalidated: "isInvalidated qc k (invalidateQueries qc p c) \<longleftrightarrow>
      isInvalidated qc k c \<or> (prefix p k \<and> k \<in> set (findAll qc [] c))"
    and find_invalidate: "findAll qc q (invalidateQueries qc p c) = findAll qc q c"
    and get_remove: "getQueryData qc k (removeQueries qc p c) =
      (if prefix p k then None else getQueryData qc k c)"
    and find_remove: "set (findAll qc q (removeQueries qc p c)) =
      {k \<in> set (findAll qc q c). \<not> prefix p k}"
    and invalidated_remove: "\<not> prefix p k \<Longrightarrow>
      isInvalidated qc k (removeQueries qc p c) \<longleftrightarrow> isInvalidated qc k c"
begin

lemma get_set_if: "getQueryData qc k' (setQueryData qc k f c) =
   (if k' = k then (case f (getQueryData qc k c) of None \<Rightarrow> getQueryData qc k c | Some d \<Rightarrow> Some d)
    else getQueryData qc k' c)"
  by (simp add: get_set get_set_other)

text \<open>Writing a list of distinct keys in turn updates each of them once, from its old data.\<close>

lemma fold_set:
  assumes "distinct ks"
  shows "getQueryData qc k (fold (\<lambda>q. setQueryData qc q (f q)) ks c) =
     (if k \<in> set ks
      then (case f k (getQueryData qc k c) of None \<Rightarrow> getQueryData qc k c | Some d \<Rightarrow> Some d)
      else getQueryData qc k c)"
  using assms by (induction ks arbitrary: c) (auto simp: get_set_if split: option.splits)

lemma cached_found: "getQueryData qc k c \<noteq> None \<Longrightarrow> k \<in> set (findAll qc [] c)"
  by (rule find_cached) auto

end

section \<open>A reference client\<close>

record cache_entry =
  ce_data :: "query_data option"
  ce_invalidated :: bool

type_synonym ref_cache = "(query_key \<times> cache_entry) list"

definition ref_get :: "query_key \<Rightarrow> ref_cache \<Rightarrow> query_data option" where
  "ref_get k c = (case map_of c k of None \<Rightarrow> None | Some e \<Rightarrow> ce_data e)"

definition ref_set :: "query_key \<Rightarrow> (query_data option \<Rightarrow> query_data option) \<Rightarrow> ref_cache \<Rightarrow> ref_cache" where
  "ref_set k f c = (case f (ref_get k c) of
      None \<Rightarrow> c
    | Some d \<Rightarrow> (k, \<lparr>ce_data = Some d, ce_invalidated = False\<rparr>) # filter (\<lambda>e. fst e \<noteq> k) c)"

definition ref_find :: "query_key \<Rightarrow> ref_cache \<Rightarrow> query_key list" where
  "ref_find p c = filter (\<lambda>k. prefix p k) (remdups (map fst c))"

definition ref_invalidate :: "query_key \<Rightarrow> ref_cache \<Rightarrow> ref_cache" where
  "ref_invalidate p c = map (\<lambda>(k, e). (k, if prefix p k then e\<lparr>ce_invalidated := True\<rparr> else e)) c"

definition ref_remove :: "query_key \<Rightarrow> ref_cache \<Rightarrow> ref_cache" where
  "ref_remove p c = filter (\<lambda>(k, e). \<not> prefix p k) c"

definition ref_invalidated :: "query_key \<Rightarrow> ref_cache \<Rightarrow> bool" where
  "ref_invalidated k c = (case map_of c k of None \<Rightarrow> False | Some e \<Rightarrow> ce_invalidated e)"

definition ref_client :: "ref_cache query_client" where
  "ref_client = \<lparr>getQueryData = ref_get, setQueryData = ref_set, findAll = ref_find,
     invalidateQueries = ref_invalidate, removeQueries = ref_remove, isInvalidated = ref_invalidated\<rparr>"

lemma map_of_filter_key: "map_of (filter (\<lambda>e. P (fst e)) c) k = (if P k then map_of c k else None)"
  by (induction c) auto

lemma map_of_invalidate:
  "map_of (ref_invalidate p c) k
   = map_option (\<lambda>e. if prefix p k then e\<lparr>ce_invalidated := True\<rparr> else e) (map_of c k)"
  by (induction c) (auto simp: ref_invalidate_def)

lemma map_of_remove: "map_of (ref_remove p c) k = (if prefix p k then None else map_of c k)"
  using map_of_filter_key [of "\<lambda>k. \<not> prefix p k" c k] by (simp add: ref_remove_def case_prod_beta')

lemma keys_invalidate: "map fst (ref_invalidate p c) = map fst c"
  by (simp add: ref_invalidate_def case_prod_beta' o_def)

lemma cached_iff: "k \<in> fst ` set c \<longleftrightarrow> map_of c k \<noteq> None"
  by (simp add: map_of_eq_None_iff)

interpretation ref_cache: query_cache ref_client
proof unfold_locales
  fix k k' p q :: query_key and f and c :: ref_cache
  show "getQueryData ref_client k (setQueryData ref_client k f c) =
      (case f (getQueryData ref_client k c) of None \<Rightarrow> getQueryData ref_client k c | Some d \<Rightarrow> Some d)"
    by (simp add: ref_client_def ref_set_def ref_get_def split: option.splits)
  show "getQueryData ref_client k' (setQueryData ref_client k f c) = getQueryData ref_client k' c" if "k' \<noteq> k"
    using that map_of_filter_key [of "\<lambda>x. x \<noteq> k" c k']
    by (simp add: ref_client_def ref_set_def ref_get_def split: option.splits)
  show "k \<in> set (findAll ref_client p c) \<Longrightarrow> prefix p k" by (simp add: ref_client_def ref_find_def)
  show "prefix p k \<Longrightarrow> getQueryData ref_client k c \<noteq> None \<Longrightarrow> k \<in> set (findAll ref_client p c)"
    using cached_iff [of k c] by (auto simp: ref_client_def ref_find_def ref_get_def split: option.splits)
  show "distinct (findAll ref_client p c)" by (simp add: ref_client_def ref_find_def)
  show "getQueryData ref_client k (invalidateQueries ref_client p c) = getQueryData ref_client k c"
    by (simp add: ref_client_def ref_get_def map_of_invalidate split: option.splits)
  show "isInvalidated ref_client k (invalidateQueries ref_client p c) \<longleftrightarrow>
      isInvalidated ref_client k c \<or> (prefix p k \<and> k \<in> set (findAll ref_client [] c))"
    using cached_iff [of k c]
    by (auto simp: ref_client_def ref_invalidated_def ref_find_def map_of_invalidate split: option.splits)
  show "findAll ref_client q (invalidateQueries ref_client p c) = findAll ref_client q c"
    by (simp add: ref_client_def ref_find_def keys_invalidate)
  show "getQueryData ref_client k (removeQueries ref_client p c) =
      (if prefix p k then None else getQueryData ref_client k c)"
    by (simp add: ref_client_def ref_get_def map_of_remove)
  show "set (findAll ref_client q (removeQueries ref_client p c)) = {k \<in> set (findAll ref_client q c). \<not> prefix p k}"
    by (force simp: ref_client_def ref_find_def ref_remove_def)
  show "isInvalidated ref_client k (removeQueries ref_client p c) \<longleftrightarrow> isInvalidated ref_client k c" if "\<not> prefix p k"
    using that by (simp add: ref_client_def ref_invalidated_def map_of_remove)
qed

end
