(* ===== verification/Live_Patch.thy ===== *)
theory Live_Patch
  imports Query_Cache Adapters
begin

text \<open>
  Applying the live frames to the cached data (\<open>lib/livePatch.ts\<close>): the pure per-frame
  transforms, which return the same object when nothing changes, and the cache writes around
  them over the abstract query client. \<open>dp\<close> is \<open>Date.parse\<close>, so \<open>new Date(s)\<close> is \<open>dp s\<close>.
\<close>

section \<open>Pure transforms\<close>

text \<open>\<open>===\<close> on optional numbers\<close>

fun opt_num_eq :: "js_num option \<Rightarrow> js_num option \<Rightarrow> bool" where
  "opt_num_eq (Some a) (Some b) = num_eq a b"
| "opt_num_eq None None = True"
| "opt_num_eq _ _ = False"

fun js_num_eq :: "js_num js_opt \<Rightarrow> js_num js_opt \<Rightarrow> bool" where
  "js_num_eq (Given a) (Given b) = num_eq a b"
| "js_num_eq Undefined Undefined = True"
| "js_num_eq Null Null = True"
| "js_num_eq _ _ = False"

definition applyStatusToSummary :: "greenhouse_summary \<Rightarrow> status_frame \<Rightarrow> greenhouse_summary patched" where
  "applyStatusToSummary s f =
     (let ts' = (case status_frame.time_scale f of Some x \<Rightarrow> Some x | None \<Rightarrow> greenhouse_summary.timeScale s) in
      if greenhouse_summary.status s = status_frame.status f \<and> opt_num_eq (greenhouse_summary.timeScale s) ts'
      then Same
      else Fresh (s\<lparr>greenhouse_summary.status := status_frame.status f, greenhouse_summary.timeScale := ts'\<rparr>))"

definition applyStatusToDetail :: "greenhouse_detail \<Rightarrow> status_frame \<Rightarrow> greenhouse_detail patched" where
  "applyStatusToDetail d f =
     (let ts' = (case status_frame.time_scale f of Some x \<Rightarrow> Some x | None \<Rightarrow> greenhouse_detail.timeScale d) in
      if greenhouse_detail.status d = status_frame.status f \<and> opt_num_eq (greenhouse_detail.timeScale d) ts'
      then Same
      else Fresh (d\<lparr>greenhouse_detail.status := status_frame.status f, greenhouse_detail.timeScale := ts'\<rparr>))"

definition next_reading :: "telemetry_frame \<Rightarrow> metric \<Rightarrow> js_num js_opt \<Rightarrow> js_num js_opt" where
  "next_reading f m old =
     (case find (\<lambda>r. ws_reading.metric r = m) (telemetry_frame.readings f) of
        Some r \<Rightarrow> Given (ws_reading.val r) | None \<Rightarrow> old)"

definition applyTelemetryToSummary :: "greenhouse_summary \<Rightarrow> telemetry_frame \<Rightarrow> greenhouse_summary patched" where
  "applyTelemetryToSummary s f =
     (if telemetry_frame.zone_id f \<noteq> None then Same
      else
        let c = greenhouse_summary.climate s;
            t = next_reading f Temperature (greenhouse_climate.temperature c);
            h = next_reading f Humidity (greenhouse_climate.humidity c);
            co = next_reading f Co2 (greenhouse_climate.co2 c)
        in if js_num_eq t (greenhouse_climate.temperature c) \<and> js_num_eq h (greenhouse_climate.humidity c)
              \<and> js_num_eq co (greenhouse_climate.co2 c)
           then Same
           else Fresh (s\<lparr>greenhouse_summary.climate :=
                   c\<lparr>greenhouse_climate.temperature := t, greenhouse_climate.humidity := h,
                     greenhouse_climate.co2 := co\<rparr>\<rparr>))"

definition applyDriftToSummary :: "drift_frame \<Rightarrow> greenhouse_summary \<Rightarrow> greenhouse_summary patched" where
  "applyDriftToSummary f s =
     (if greenhouse_summary.drift s = drift_frame.drift f then Same
      else Fresh (s\<lparr>greenhouse_summary.drift := drift_frame.drift f\<rparr>))"

definition applyDriftToDetail :: "drift_frame \<Rightarrow> greenhouse_detail \<Rightarrow> greenhouse_detail patched" where
  "applyDriftToDetail f d =
     (if greenhouse_detail.drift d = drift_frame.drift f then Same
      else Fresh (d\<lparr>greenhouse_detail.drift := drift_frame.drift f\<rparr>))"

definition eventFrameToEntry :: "date_parser \<Rightarrow> event_frame \<Rightarrow> event_entry" where
  "eventFrameToEntry dp f = \<lparr>
     event_entry.greenhouseId = event_frame.greenhouse_id f,
     event_entry.ts = dp (event_frame.ts f),
     event_entry.kind = event_frame.kind f,
     event_entry.severity = event_frame.severity f,
     event_entry.message = event_frame.message f,
     event_entry.source = event_frame.source f\<rparr>"

text \<open>\<open>if (scope.x && ...)\<close>: an absent or empty greenhouse id filters nothing.\<close>

definition truthy_id :: "string option \<Rightarrow> bool" where
  "truthy_id i \<longleftrightarrow> i \<noteq> None \<and> i \<noteq> Some []"

definition eventMatchesScope :: "event_entry \<Rightarrow> event_scope \<Rightarrow> bool" where
  "eventMatchesScope e sc =
     (if truthy_id (sc_greenhouseId sc) \<and> Some (event_entry.greenhouseId e) \<noteq> sc_greenhouseId sc then False
      else if sc_kind sc \<noteq> None \<and> Some (event_entry.kind e) \<noteq> sc_kind sc then False
      else if sc_severity sc \<noteq> None \<and> Some (event_entry.severity e) \<noteq> sc_severity sc then False
      else True)"

section \<open>Cache writes\<close>

text \<open>The fleet list after one greenhouse's summary was patched: the old list when the patch
  left every summary as it was.\<close>

definition patch_summaries ::
    "string \<Rightarrow> (greenhouse_summary \<Rightarrow> greenhouse_summary patched) \<Rightarrow> greenhouse_summary list \<Rightarrow> greenhouse_summary list patched" where
  "patch_summaries i patch fleet =
     (let results = map (\<lambda>s. if greenhouse_summary.ident s \<noteq> i then (s, Same) else (s, patch s)) fleet;
          changed = list_ex (\<lambda>(s, p). is_fresh p) results
      in if changed then Fresh (map (\<lambda>(s, p). patched_value s p) results) else Same)"

text \<open>An updater leaves undefined as it is and maps data of its own type. Nothing checks at run
  time that the data under the key it is given has that type; where it has not, what is left is
  \<open>Mistyped\<close>.\<close>

fun on_fleet :: "(greenhouse_summary list \<Rightarrow> greenhouse_summary list) \<Rightarrow> query_data option \<Rightarrow> query_data option" where
  "on_fleet f (Some (FleetData xs)) = Some (FleetData (f xs))"
| "on_fleet f (Some d) = Some Mistyped"
| "on_fleet f None = None"

fun on_detail :: "(greenhouse_detail \<Rightarrow> greenhouse_detail) \<Rightarrow> query_data option \<Rightarrow> query_data option" where
  "on_detail f (Some (DetailData x)) = Some (DetailData (f x))"
| "on_detail f (Some d) = Some Mistyped"
| "on_detail f None = None"

fun on_events :: "(event_entry list \<Rightarrow> event_entry list) \<Rightarrow> query_data option \<Rightarrow> query_data option" where
  "on_events f (Some (EventsData x)) = Some (EventsData (f x))"
| "on_events f (Some d) = Some Mistyped"
| "on_events f None = None"

fun on_alerts :: "(active_alert list \<Rightarrow> active_alert list) \<Rightarrow> query_data option \<Rightarrow> query_data option" where
  "on_alerts f (Some (AlertsData x)) = Some (AlertsData (f x))"
| "on_alerts f (Some d) = Some Mistyped"
| "on_alerts f None = None"

definition patchFleetSummary ::
    "'c query_client \<Rightarrow> string \<Rightarrow> (greenhouse_summary \<Rightarrow> greenhouse_summary patched) \<Rightarrow> 'c \<Rightarrow> 'c" where
  "patchFleetSummary qc i patch =
     setQueryData qc fleet_key (on_fleet (\<lambda>fleet. patched_value fleet (patch_summaries i patch fleet)))"

definition patchGreenhouseDetail ::
    "'c query_client \<Rightarrow> string \<Rightarrow> (greenhouse_detail \<Rightarrow> greenhouse_detail patched) \<Rightarrow> 'c \<Rightarrow> 'c" where
  "patchGreenhouseDetail qc i patch =
     setQueryData qc (greenhouse_key i) (on_detail (\<lambda>d. patched_value d (patch d)))"

definition applyStatusFrame :: "'c query_client \<Rightarrow> status_frame \<Rightarrow> 'c \<Rightarrow> 'c" where
  "applyStatusFrame qc f c =
     (let c1 = patchFleetSummary qc (status_frame.greenhouse_id f) (\<lambda>s. applyStatusToSummary s f) c in
      patchGreenhouseDetail qc (status_frame.greenhouse_id f) (\<lambda>d. applyStatusToDetail d f) c1)"

definition applyDriftFrame :: "'c query_client \<Rightarrow> drift_frame \<Rightarrow> 'c \<Rightarrow> 'c" where
  "applyDriftFrame qc f c =
     (let c1 = patchFleetSummary qc (drift_frame.greenhouse_id f) (applyDriftToSummary f) c in
      patchGreenhouseDetail qc (drift_frame.greenhouse_id f) (applyDriftToDetail f) c1)"

definition applyTelemetryFrame :: "'c query_client \<Rightarrow> telemetry_frame \<Rightarrow> 'c \<Rightarrow> 'c" where
  "applyTelemetryFrame qc f =
     patchFleetSummary qc (telemetry_frame.greenhouse_id f) (\<lambda>s. applyTelemetryToSummary s f)"

text \<open>\<open>query.queryKey[1] ?? {}\<close>\<close>

fun key_scope :: "query_key \<Rightarrow> event_scope" where
  "key_scope (_ # KScope s # _) = s"
| "key_scope _ = empty_scope"

definition applyEventFrame :: "'c query_client \<Rightarrow> date_parser \<Rightarrow> event_frame \<Rightarrow> 'c \<Rightarrow> 'c" where
  "applyEventFrame qc dp f c =
     (let entry = eventFrameToEntry dp f;
          keys = findAll qc [KStr ''events''] c
      in fold (\<lambda>k c. if \<not> eventMatchesScope entry (key_scope k) then c
                     else setQueryData qc k (on_events (\<lambda>es. entry # es)) c) keys c)"

fun rank :: "event_severity \<Rightarrow> nat" where
  "rank Info = 0"
| "rank Warning = 1"
| "rank Critical = 2"

definition frame_alert_to_active :: "date_parser \<Rightarrow> active_alerts_frame \<Rightarrow> frame_alert \<Rightarrow> active_alert" where
  "frame_alert_to_active dp f a = \<lparr>
     active_alert.greenhouseId = active_alerts_frame.greenhouse_id f,
     active_alert.component = frame_alert.component a,
     active_alert.zoneId = frame_alert.zone_id a,
     active_alert.faultType = frame_alert.fault_type a,
     active_alert.kind = frame_alert.kind a,
     active_alert.severity = frame_alert.severity a,
     active_alert.since = dp (frame_alert.since a)\<rparr>"

definition alertMatchesScope :: "active_alert \<Rightarrow> event_scope \<Rightarrow> bool" where
  "alertMatchesScope a sc =
     (if sc_kind sc \<noteq> None \<and> Some (active_alert.kind a) \<noteq> sc_kind sc then False
      else (case sc_severity sc of None \<Rightarrow> True | Some v \<Rightarrow> rank v \<le> rank (active_alert.severity a)))"

definition replace_alerts :: "string \<Rightarrow> active_alert list \<Rightarrow> active_alert list \<Rightarrow> active_alert list" where
  "replace_alerts i matching old =
     filter (\<lambda>a. active_alert.greenhouseId a \<noteq> i) old @ matching"

definition applyActiveAlertsFrame :: "'c query_client \<Rightarrow> date_parser \<Rightarrow> active_alerts_frame \<Rightarrow> 'c \<Rightarrow> 'c" where
  "applyActiveAlertsFrame qc dp f c =
     (let als = map (frame_alert_to_active dp f) (active_alerts_frame.alerts f);
          i = active_alerts_frame.greenhouse_id f;
          keys = findAll qc [KStr ''active-alerts''] c
      in fold (\<lambda>k c.
           let sc = key_scope k in
           if truthy_id (sc_greenhouseId sc) \<and> sc_greenhouseId sc \<noteq> Some i then c
           else setQueryData qc k (on_alerts (replace_alerts i (filter (\<lambda>a. alertMatchesScope a sc) als))) c)
         keys c)"

section \<open>Lemmas\<close>

lemma js_num_eq_iff: "js_num_eq a b \<longleftrightarrow> a = b \<and> a \<noteq> Given NaN"
  by (cases a; cases b) (auto simp: num_eq_def)

lemma opt_num_eq_iff: "opt_num_eq a b \<longleftrightarrow> a = b \<and> a \<noteq> Some NaN"
  by (cases a; cases b) (auto simp: num_eq_def)

text \<open>What each transform makes of the object, whether or not it is a fresh one.\<close>

lemma status_summary_value:
  "patched_value s (applyStatusToSummary s f) =
     s\<lparr>greenhouse_summary.status := status_frame.status f,
       greenhouse_summary.timeScale := (case status_frame.time_scale f of Some x \<Rightarrow> Some x | None \<Rightarrow> greenhouse_summary.timeScale s)\<rparr>"
  by (simp add: applyStatusToSummary_def Let_def opt_num_eq_iff split: option.splits)

lemma status_detail_value:
  "patched_value d (applyStatusToDetail d f) =
     d\<lparr>greenhouse_detail.status := status_frame.status f,
       greenhouse_detail.timeScale := (case status_frame.time_scale f of Some x \<Rightarrow> Some x | None \<Rightarrow> greenhouse_detail.timeScale d)\<rparr>"
  by (simp add: applyStatusToDetail_def Let_def opt_num_eq_iff split: option.splits)

lemma telemetry_summary_value:
  "patched_value s (applyTelemetryToSummary s f) =
     (if telemetry_frame.zone_id f \<noteq> None then s
      else s\<lparr>greenhouse_summary.climate := (greenhouse_summary.climate s)
        \<lparr>greenhouse_climate.temperature := next_reading f Temperature (greenhouse_climate.temperature (greenhouse_summary.climate s)),
         greenhouse_climate.humidity := next_reading f Humidity (greenhouse_climate.humidity (greenhouse_summary.climate s)),
         greenhouse_climate.co2 := next_reading f Co2 (greenhouse_climate.co2 (greenhouse_summary.climate s))\<rparr>\<rparr>)"
  by (auto simp: applyTelemetryToSummary_def Let_def js_num_eq_iff)

lemma drift_summary_value:
  "patched_value s (applyDriftToSummary f s) = s\<lparr>greenhouse_summary.drift := drift_frame.drift f\<rparr>"
  by (simp add: applyDriftToSummary_def)

lemma drift_detail_value:
  "patched_value d (applyDriftToDetail f d) = d\<lparr>greenhouse_detail.drift := drift_frame.drift f\<rparr>"
  by (simp add: applyDriftToDetail_def)

text \<open>A patched fleet list is the old one with the patch applied to the one greenhouse.\<close>

lemma patch_summaries_value:
  "patched_value fleet (patch_summaries i patch fleet)
   = map (\<lambda>s. if greenhouse_summary.ident s = i then patched_value s (patch s) else s) fleet"
proof -
  let ?r = "map (\<lambda>s. if greenhouse_summary.ident s \<noteq> i then (s, Same) else (s, patch s)) fleet"
  have eq: "map (\<lambda>(s, p). patched_value s p) ?r
      = map (\<lambda>s. if greenhouse_summary.ident s = i then patched_value s (patch s) else s) fleet"
    by (simp add: if_distrib cong: if_cong)
  have "map (\<lambda>(s, p). patched_value s p) ?r = fleet" if "\<not> list_ex (\<lambda>(s, p). is_fresh p) ?r"
  proof -
    have "patched_value s p = s" if "\<not> is_fresh p" for s and p :: "greenhouse_summary patched"
      using that by (cases p) auto
    with that show ?thesis
      unfolding eq by (intro map_idI) (auto simp: list_ex_iff image_iff split: if_splits)
  qed
  then show ?thesis unfolding patch_summaries_def Let_def eq by (auto simp del: map_map)
qed

lemma patch_summaries_fresh:
  "is_fresh (patch_summaries i patch fleet)
   \<longleftrightarrow> (\<exists>s\<in>set fleet. greenhouse_summary.ident s = i \<and> is_fresh (patch s))"
  by (auto simp: patch_summaries_def Let_def list_ex_iff image_iff split: if_splits)

lemma on_fleet_Some: "on_fleet f (Some d) \<noteq> None" by (cases d) auto
lemma on_detail_Some: "on_detail f (Some d) \<noteq> None" by (cases d) auto
lemma on_events_Some: "on_events f (Some d) \<noteq> None" by (cases d) auto
lemma on_alerts_Some: "on_alerts f (Some d) \<noteq> None" by (cases d) auto

lemma fleet_detail_keys [simp]: "fleet_key \<noteq> greenhouse_key i" "greenhouse_key i \<noteq> fleet_key"
  by (simp_all add: key_defs)

context query_cache
begin

lemma get_set_on:
  assumes "\<And>d. f (Some d) \<noteq> None" "f None = None"
  shows "getQueryData qc k' (setQueryData qc k f c) =
     (if k' = k then f (getQueryData qc k c) else getQueryData qc k' c)"
proof (cases "getQueryData qc k c")
  case (Some d)
  then show ?thesis using assms(1) [of d] by (auto simp: get_set_if split: option.splits)
qed (simp add: get_set_if assms(2))

lemma get_patchFleet:
  "getQueryData qc k (patchFleetSummary qc i patch c) =
     (if k = fleet_key
      then on_fleet (map (\<lambda>s. if greenhouse_summary.ident s = i then patched_value s (patch s) else s)) (getQueryData qc k c)
      else getQueryData qc k c)"
  unfolding patchFleetSummary_def patch_summaries_value
  by (subst get_set_on) (simp_all add: on_fleet_Some)

lemma get_patchDetail:
  "getQueryData qc k (patchGreenhouseDetail qc i patch c) =
     (if k = greenhouse_key i then on_detail (\<lambda>d. patched_value d (patch d)) (getQueryData qc k c)
      else getQueryData qc k c)"
  unfolding patchGreenhouseDetail_def
  by (subst get_set_on) (simp_all add: on_detail_Some)

text \<open>Writing every found key that passes a test, each with its own total updater.\<close>

lemma get_fold_on:
  assumes "\<And>k d. f k (Some d) \<noteq> None" "\<And>k. f k None = None" "distinct ks"
  shows "getQueryData qc k (fold (\<lambda>q c. if skip q then c else setQueryData qc q (f q) c) ks c) =
     (if k \<in> set ks \<and> \<not> skip k then f k (getQueryData qc k c) else getQueryData qc k c)"
  using assms(3)
proof (induction ks arbitrary: c)
  case (Cons q ks)
  then show ?case by (auto simp: get_set_on [where f = "f q"] assms(1,2))
qed simp

lemma get_event_frame:
  "getQueryData qc k (applyEventFrame qc dp f c) =
     (if prefix [KStr ''events''] k \<and> eventMatchesScope (eventFrameToEntry dp f) (key_scope k)
      then on_events ((#) (eventFrameToEntry dp f)) (getQueryData qc k c)
      else getQueryData qc k c)"
proof -
  have "getQueryData qc k (applyEventFrame qc dp f c) =
      (if k \<in> set (findAll qc [KStr ''events''] c) \<and> eventMatchesScope (eventFrameToEntry dp f) (key_scope k)
       then on_events ((#) (eventFrameToEntry dp f)) (getQueryData qc k c) else getQueryData qc k c)"
    unfolding applyEventFrame_def Let_def
    using get_fold_on [where f = "\<lambda>_. on_events ((#) (eventFrameToEntry dp f))"
        and skip = "\<lambda>k. \<not> eventMatchesScope (eventFrameToEntry dp f) (key_scope k)"]
    by (simp add: on_events_Some find_distinct)
  then show ?thesis
    using find_prefix find_cached by (cases "getQueryData qc k c") auto
qed

lemma get_alerts_frame:
  "getQueryData qc k (applyActiveAlertsFrame qc dp f c) =
     (if prefix [KStr ''active-alerts''] k
         \<and> (truthy_id (sc_greenhouseId (key_scope k))
             \<longrightarrow> sc_greenhouseId (key_scope k) = Some (active_alerts_frame.greenhouse_id f))
      then on_alerts (replace_alerts (active_alerts_frame.greenhouse_id f)
             (filter (\<lambda>a. alertMatchesScope a (key_scope k))
               (map (frame_alert_to_active dp f) (active_alerts_frame.alerts f)))) (getQueryData qc k c)
      else getQueryData qc k c)"
    (is "_ = (if ?p \<and> (?t \<longrightarrow> ?e) then on_alerts (?g k) _ else _)")
proof -
  let ?g = "\<lambda>k. replace_alerts (active_alerts_frame.greenhouse_id f)
             (filter (\<lambda>a. alertMatchesScope a (key_scope k))
               (map (frame_alert_to_active dp f) (active_alerts_frame.alerts f)))"
  have "getQueryData qc k (applyActiveAlertsFrame qc dp f c) =
      (if k \<in> set (findAll qc [KStr ''active-alerts''] c) \<and> \<not> (?t \<and> \<not> ?e)
       then on_alerts (?g k) (getQueryData qc k c) else getQueryData qc k c)"
    unfolding applyActiveAlertsFrame_def Let_def
    using get_fold_on [where f = "\<lambda>k. on_alerts (?g k)"
        and skip = "\<lambda>k. truthy_id (sc_greenhouseId (key_scope k))
            \<and> sc_greenhouseId (key_scope k) \<noteq> Some (active_alerts_frame.greenhouse_id f)"]
    by (simp add: on_alerts_Some find_distinct)
  then show ?thesis
    using find_prefix find_cached by (cases "getQueryData qc k c") auto
qed

end

section \<open>Properties\<close>

definition nan_free_summary :: "greenhouse_summary \<Rightarrow> bool" where
  "nan_free_summary s \<longleftrightarrow> greenhouse_summary.timeScale s \<noteq> Some NaN
     \<and> greenhouse_climate.temperature (greenhouse_summary.climate s) \<noteq> Given NaN
     \<and> greenhouse_climate.humidity (greenhouse_summary.climate s) \<noteq> Given NaN
     \<and> greenhouse_climate.co2 (greenhouse_summary.climate s) \<noteq> Given NaN"

lemma climate_eqI:
  "(c\<lparr>greenhouse_climate.temperature := t, greenhouse_climate.humidity := h, greenhouse_climate.co2 := co\<rparr> = c)
   \<longleftrightarrow> t = greenhouse_climate.temperature c \<and> h = greenhouse_climate.humidity c \<and> co = greenhouse_climate.co2 c"
  by (cases c) auto

lemma summary_climate_eq: "(s\<lparr>greenhouse_summary.climate := c\<rparr> = s) \<longleftrightarrow> c = greenhouse_summary.climate s"
  by (cases s) auto

lemma next_reading_not_NaN:
  "\<forall>r\<in>set (telemetry_frame.readings f). ws_reading.val r \<noteq> NaN \<Longrightarrow> old \<noteq> Given NaN
   \<Longrightarrow> next_reading f m old \<noteq> Given NaN"
  by (auto simp: next_reading_def dest: find_SomeD split: option.splits)

lemma summary_status_eq:
  "(s\<lparr>greenhouse_summary.status := x, greenhouse_summary.timeScale := y\<rparr> = s)
   \<longleftrightarrow> x = greenhouse_summary.status s \<and> y = greenhouse_summary.timeScale s"
  by (cases s) auto

lemma summary_drift_eq: "(s\<lparr>greenhouse_summary.drift := x\<rparr> = s) \<longleftrightarrow> x = greenhouse_summary.drift s"
  by (cases s) auto

text \<open>
  Object identity tells the truth. On data and frames free of NaN (which the schemas
  exclude), each pure transform returns a fresh object exactly when the summary really
  changes, so a memoised card re-renders if and only if it has something new to show.
\<close>

theorem fresh_iff_changed:
  assumes "nan_free_summary s" "\<forall>r\<in>set (telemetry_frame.readings tf). ws_reading.val r \<noteq> NaN"
    and "status_frame.time_scale sf \<noteq> Some NaN"
  shows "(is_fresh (applyTelemetryToSummary s tf) \<longleftrightarrow> patched_value s (applyTelemetryToSummary s tf) \<noteq> s)
       \<and> (is_fresh (applyStatusToSummary s sf) \<longleftrightarrow> patched_value s (applyStatusToSummary s sf) \<noteq> s)
       \<and> (is_fresh (applyDriftToSummary df s) \<longleftrightarrow> patched_value s (applyDriftToSummary df s) \<noteq> s)"
proof (intro conjI)
  have "next_reading tf Temperature (greenhouse_climate.temperature (greenhouse_summary.climate s)) \<noteq> Given NaN"
    "next_reading tf Humidity (greenhouse_climate.humidity (greenhouse_summary.climate s)) \<noteq> Given NaN"
    "next_reading tf Co2 (greenhouse_climate.co2 (greenhouse_summary.climate s)) \<noteq> Given NaN"
    using assms(1) by (auto intro!: next_reading_not_NaN [OF assms(2)] simp: nan_free_summary_def)
  then show "is_fresh (applyTelemetryToSummary s tf) \<longleftrightarrow> patched_value s (applyTelemetryToSummary s tf) \<noteq> s"
    unfolding telemetry_summary_value
    by (simp add: applyTelemetryToSummary_def Let_def js_num_eq_iff summary_climate_eq climate_eqI)
  show "is_fresh (applyStatusToSummary s sf) \<longleftrightarrow> patched_value s (applyStatusToSummary s sf) \<noteq> s"
    unfolding status_summary_value using assms(1)
    by (auto simp: applyStatusToSummary_def Let_def opt_num_eq_iff summary_status_eq nan_free_summary_def split: option.splits)
  show "is_fresh (applyDriftToSummary df s) \<longleftrightarrow> patched_value s (applyDriftToSummary df s) \<noteq> s"
    unfolding drift_summary_value by (auto simp: applyDriftToSummary_def summary_drift_eq)
qed

abbreviation example_summary :: greenhouse_summary where
  "example_summary \<equiv> \<lparr>greenhouse_summary.ident = ''gh-a'', displayName = ''A'', crop = None, status = Online,
     drift = False, timeScale = Some (Fin 1),
     climate = \<lparr>greenhouse_climate.temperature = Given (Fin 21), humidity = Undefined, co2 = Null, dli = Undefined\<rparr>\<rparr>"

theorem fresh_iff_changed_witness:
  "let f = \<lparr>status_frame.schema_version = Fin 1, greenhouse_id = ''gh-a'', ts = [], status = Online, time_scale = Some (Fin 1)\<rparr>
   in \<not> is_fresh (applyStatusToSummary example_summary f)
      \<longleftrightarrow> patched_value example_summary (applyStatusToSummary example_summary f) = example_summary"
  using fresh_iff_changed [of example_summary
      "\<lparr>telemetry_frame.schema_version = Fin 1, greenhouse_id = ''gh-a'', zone_id = None, ts = [], readings = [], actuators = None\<rparr>"
      "\<lparr>status_frame.schema_version = Fin 1, greenhouse_id = ''gh-a'', ts = [], status = Online, time_scale = Some (Fin 1)\<rparr>"]
  unfolding Let_def by (simp add: nan_free_summary_def)

text \<open>
  C7: a live frame changes exactly the cached data it is about. Over any lawful query client:
  a status frame sets, in the fleet list and in the detail entry of its greenhouse, the status
  and (where the frame carries one) the time scale; a drift frame sets the drift flag there; a
  telemetry frame without a zone sets the temperature, humidity and CO2 of its greenhouse in
  the fleet list to the first reading of that metric, where the frame has one, and a telemetry
  frame of a zone changes nothing. Every other greenhouse, every other field and every other
  key keep their data, and a key without data is left without.
\<close>

theorem frame_patch_frame:
  assumes "query_cache qc"
  shows "(\<forall>fleet. getQueryData qc [KStr ''fleet''] c = Some (FleetData fleet) \<longrightarrow>
      getQueryData qc [KStr ''fleet''] (applyStatusFrame qc sf c) = Some (FleetData (map (\<lambda>s.
        if greenhouse_summary.ident s = status_frame.greenhouse_id sf
        then s\<lparr>greenhouse_summary.status := status_frame.status sf,
               greenhouse_summary.timeScale := (case status_frame.time_scale sf of Some x \<Rightarrow> Some x | None \<Rightarrow> greenhouse_summary.timeScale s)\<rparr>
        else s) fleet))
    \<and> getQueryData qc [KStr ''fleet''] (applyDriftFrame qc df c) = Some (FleetData (map (\<lambda>s.
        if greenhouse_summary.ident s = drift_frame.greenhouse_id df
        then s\<lparr>greenhouse_summary.drift := drift_frame.drift df\<rparr> else s) fleet))
    \<and> getQueryData qc [KStr ''fleet''] (applyTelemetryFrame qc tf c) = Some (FleetData (map (\<lambda>s.
        if greenhouse_summary.ident s = telemetry_frame.greenhouse_id tf \<and> telemetry_frame.zone_id tf = None
        then s\<lparr>greenhouse_summary.climate := (greenhouse_summary.climate s)
          \<lparr>greenhouse_climate.temperature :=
              (case find (\<lambda>r. ws_reading.metric r = Temperature) (telemetry_frame.readings tf) of
                 Some r \<Rightarrow> Given (ws_reading.val r) | None \<Rightarrow> greenhouse_climate.temperature (greenhouse_summary.climate s)),
           greenhouse_climate.humidity :=
              (case find (\<lambda>r. ws_reading.metric r = Humidity) (telemetry_frame.readings tf) of
                 Some r \<Rightarrow> Given (ws_reading.val r) | None \<Rightarrow> greenhouse_climate.humidity (greenhouse_summary.climate s)),
           greenhouse_climate.co2 :=
              (case find (\<lambda>r. ws_reading.metric r = Co2) (telemetry_frame.readings tf) of
                 Some r \<Rightarrow> Given (ws_reading.val r) | None \<Rightarrow> greenhouse_climate.co2 (greenhouse_summary.climate s))\<rparr>\<rparr>
        else s) fleet)))
    \<and> (\<forall>i detail. getQueryData qc [KStr ''greenhouse'', KStr i] c = Some (DetailData detail) \<longrightarrow>
      getQueryData qc [KStr ''greenhouse'', KStr i] (applyStatusFrame qc sf c) = Some (DetailData (
        if i = status_frame.greenhouse_id sf
        then detail\<lparr>greenhouse_detail.status := status_frame.status sf,
               greenhouse_detail.timeScale := (case status_frame.time_scale sf of Some x \<Rightarrow> Some x | None \<Rightarrow> greenhouse_detail.timeScale detail)\<rparr>
        else detail))
    \<and> getQueryData qc [KStr ''greenhouse'', KStr i] (applyDriftFrame qc df c) = Some (DetailData (
        if i = drift_frame.greenhouse_id df then detail\<lparr>greenhouse_detail.drift := drift_frame.drift df\<rparr> else detail)))
    \<and> (\<forall>k. k \<noteq> [KStr ''fleet''] \<longrightarrow>
        getQueryData qc k (applyTelemetryFrame qc tf c) = getQueryData qc k c
      \<and> (k \<noteq> [KStr ''greenhouse'', KStr (status_frame.greenhouse_id sf)] \<longrightarrow>
          getQueryData qc k (applyStatusFrame qc sf c) = getQueryData qc k c)
      \<and> (k \<noteq> [KStr ''greenhouse'', KStr (drift_frame.greenhouse_id df)] \<longrightarrow>
          getQueryData qc k (applyDriftFrame qc df c) = getQueryData qc k c))
    \<and> (\<forall>k. getQueryData qc k c = None \<longrightarrow> getQueryData qc k (applyStatusFrame qc sf c) = None
      \<and> getQueryData qc k (applyDriftFrame qc df c) = None \<and> getQueryData qc k (applyTelemetryFrame qc tf c) = None)"
  using query_cache.get_patchFleet [OF assms] query_cache.get_patchDetail [OF assms]
  by (intro conjI allI impI) (auto simp: applyStatusFrame_def applyDriftFrame_def applyTelemetryFrame_def Let_def
      status_summary_value status_detail_value drift_summary_value drift_detail_value telemetry_summary_value
      next_reading_def key_defs cong: if_cong)

theorem frame_patch_frame_witness:
  "let c = [(fleet_key, \<lparr>ce_data = Some (FleetData [example_summary]), ce_invalidated = False\<rparr>)];
       tf = (\<lambda>z. \<lparr>telemetry_frame.schema_version = Fin 1, greenhouse_id = ''gh-a'', zone_id = z, ts = [],
         readings = [\<lparr>ws_reading.metric = Co2, val = Fin 800, unit = Ppm\<rparr>], actuators = None\<rparr>)
   in getQueryData ref_client fleet_key (applyDriftFrame ref_client
        \<lparr>drift_frame.schema_version = Fin 1, greenhouse_id = ''gh-a'', ts = [], drift = True\<rparr> c)
      = Some (FleetData [example_summary\<lparr>greenhouse_summary.drift := True\<rparr>])
    \<and> getQueryData ref_client fleet_key (applyTelemetryFrame ref_client (tf (Some ''z1'')) c)
      = Some (FleetData [example_summary])
    \<and> getQueryData ref_client fleet_key (applyTelemetryFrame ref_client (tf None) c)
      = Some (FleetData [example_summary\<lparr>greenhouse_summary.climate :=
          \<lparr>greenhouse_climate.temperature = Given (Fin 21), humidity = Undefined, co2 = Given (Fin 800), dli = Undefined\<rparr>\<rparr>])"
proof -
  let ?c = "[(fleet_key, \<lparr>ce_data = Some (FleetData [example_summary]), ce_invalidated = False\<rparr>)]"
  have "getQueryData ref_client [KStr ''fleet''] ?c = Some (FleetData [example_summary])"
    by (simp add: ref_client_def ref_get_def fleet_key_def)
  note got = frame_patch_frame [OF ref_cache.query_cache_axioms, THEN conjunct1, rule_format, OF this]
  show ?thesis unfolding Let_def fleet_key_def [symmetric]
    using got [unfolded fleet_key_def [symmetric]] by simp
qed

text \<open>
  C8: the activity feed. A live event is put, once, at the head of every cached activity feed
  whose scope names (or leaves open) its greenhouse, its kind and its severity; a feed of any
  other scope and every other key keep their data. The severity of the scope is compared for
  equality: a feed scoped to warnings does not receive a critical event, although the REST
  contract and the alert feed take that filter as a minimum.
\<close>

theorem event_frame_feeds:
  assumes "query_cache qc"
  shows "(\<forall>sc rest es. getQueryData qc (KStr ''events'' # KScope sc # rest) c = Some (EventsData es) \<longrightarrow>
      getQueryData qc (KStr ''events'' # KScope sc # rest) (applyEventFrame qc dp f c) = Some (EventsData (
        if (sc_greenhouseId sc = None \<or> sc_greenhouseId sc = Some [] \<or> sc_greenhouseId sc = Some (event_frame.greenhouse_id f))
          \<and> (sc_kind sc = None \<or> sc_kind sc = Some (event_frame.kind f))
          \<and> (sc_severity sc = None \<or> sc_severity sc = Some (event_frame.severity f))
        then \<lparr>event_entry.greenhouseId = event_frame.greenhouse_id f, ts = dp (event_frame.ts f),
              kind = event_frame.kind f, severity = event_frame.severity f,
              message = event_frame.message f, source = event_frame.source f\<rparr> # es
        else es)))
    \<and> (\<forall>k. (\<forall>rest. k \<noteq> KStr ''events'' # rest) \<or> getQueryData qc k c = None \<longrightarrow>
        getQueryData qc k (applyEventFrame qc dp f c) = getQueryData qc k c)"
proof (intro conjI allI impI)
  note get = query_cache.get_event_frame [OF assms]
  fix sc rest es assume "getQueryData qc (KStr ''events'' # KScope sc # rest) c = Some (EventsData es)"
  then show "getQueryData qc (KStr ''events'' # KScope sc # rest) (applyEventFrame qc dp f c) = Some (EventsData (
        if (sc_greenhouseId sc = None \<or> sc_greenhouseId sc = Some [] \<or> sc_greenhouseId sc = Some (event_frame.greenhouse_id f))
          \<and> (sc_kind sc = None \<or> sc_kind sc = Some (event_frame.kind f))
          \<and> (sc_severity sc = None \<or> sc_severity sc = Some (event_frame.severity f))
        then \<lparr>event_entry.greenhouseId = event_frame.greenhouse_id f, ts = dp (event_frame.ts f),
              kind = event_frame.kind f, severity = event_frame.severity f,
              message = event_frame.message f, source = event_frame.source f\<rparr> # es
        else es))"
    by (auto simp: get eventMatchesScope_def truthy_id_def eventFrameToEntry_def)
next
  fix k assume "(\<forall>rest. k \<noteq> KStr ''events'' # rest) \<or> getQueryData qc k c = None"
  then show "getQueryData qc k (applyEventFrame qc dp f c) = getQueryData qc k c"
    by (auto simp: query_cache.get_event_frame [OF assms] prefix_def)
qed

abbreviation example_event :: event_frame where
  "example_event \<equiv> \<lparr>event_frame.schema_version = Fin 1, greenhouse_id = ''gh-a'', ts = [], kind = FaultKind,
     severity = Critical, message = ''m'', source = None\<rparr>"

theorem event_frame_feeds_witness:
  "getQueryData ref_client (events_key empty_scope)
     (applyEventFrame ref_client (\<lambda>_. Some 0) example_event
       [(events_key empty_scope, \<lparr>ce_data = Some (EventsData []), ce_invalidated = False\<rparr>)])
   = Some (EventsData [eventFrameToEntry (\<lambda>_. Some 0) example_event])"
proof -
  let ?c = "[(events_key empty_scope, \<lparr>ce_data = Some (EventsData []), ce_invalidated = False\<rparr>)]"
  have "getQueryData ref_client [KStr ''events'', KScope empty_scope] ?c = Some (EventsData [])"
    by (simp add: ref_client_def ref_get_def events_key_def)
  from event_frame_feeds [OF ref_cache.query_cache_axioms, THEN conjunct1, rule_format, OF this,
      of "\<lambda>_. Some 0" example_event]
  show ?thesis by (simp add: events_key_def empty_scope_def eventFrameToEntry_def)
qed

lemma replace_alerts_split:
  assumes "\<forall>a\<in>set m. active_alert.greenhouseId a = i"
  shows "filter (\<lambda>a. active_alert.greenhouseId a \<noteq> i) (replace_alerts i m old)
      = filter (\<lambda>a. active_alert.greenhouseId a \<noteq> i) old"
    and "filter (\<lambda>a. active_alert.greenhouseId a = i) (replace_alerts i m old) = m"
proof -
  have "filter (\<lambda>a. active_alert.greenhouseId a \<noteq> i) m = []" using assms by (simp add: filter_empty_conv)
  then show "filter (\<lambda>a. active_alert.greenhouseId a \<noteq> i) (replace_alerts i m old)
      = filter (\<lambda>a. active_alert.greenhouseId a \<noteq> i) old"
    by (simp add: replace_alerts_def)
  have "filter (\<lambda>a. active_alert.greenhouseId a = i) (filter (\<lambda>a. active_alert.greenhouseId a \<noteq> i) old) = []"
    by (simp add: filter_empty_conv)
  moreover have "filter (\<lambda>a. active_alert.greenhouseId a = i) m = m" using assms by (simp add: filter_id_conv)
  ultimately show "filter (\<lambda>a. active_alert.greenhouseId a = i) (replace_alerts i m old) = m"
    by (simp only: replace_alerts_def filter_append append_Nil)
qed

text \<open>
  C9: the active-alert snapshot. After an active-alerts frame every cached list in scope
  holds, for the frame's greenhouse, exactly the frame's alerts that pass the scope's kind
  and minimum severity, and for all others what it held before, in order; lists scoped to
  another greenhouse and all other keys keep their data.
\<close>

theorem active_alerts_snapshot:
  assumes "query_cache qc" "getQueryData qc (activeAlerts_key sc) c = Some (AlertsData old)"
  shows "let i = active_alerts_frame.greenhouse_id f; c' = applyActiveAlertsFrame qc dp f c in
     (if truthy_id (sc_greenhouseId sc) \<and> sc_greenhouseId sc \<noteq> Some i
      then getQueryData qc (activeAlerts_key sc) c' = Some (AlertsData old)
      else \<exists>new. getQueryData qc (activeAlerts_key sc) c' = Some (AlertsData new)
        \<and> filter (\<lambda>a. active_alert.greenhouseId a \<noteq> i) new = filter (\<lambda>a. active_alert.greenhouseId a \<noteq> i) old
        \<and> filter (\<lambda>a. active_alert.greenhouseId a = i) new
          = filter (\<lambda>a. alertMatchesScope a sc) (map (frame_alert_to_active dp f) (active_alerts_frame.alerts f)))
     \<and> (\<forall>k. \<not> prefix [KStr ''active-alerts''] k \<longrightarrow> getQueryData qc k c' = getQueryData qc k c)"
proof -
  have other: "\<forall>k. \<not> prefix [KStr ''active-alerts''] k \<longrightarrow>
      getQueryData qc k (applyActiveAlertsFrame qc dp f c) = getQueryData qc k c"
    by (simp add: query_cache.get_alerts_frame [OF assms(1)])
  show ?thesis
  proof (cases "truthy_id (sc_greenhouseId sc) \<and> sc_greenhouseId sc \<noteq> Some (active_alerts_frame.greenhouse_id f)")
    case True
    then show ?thesis
      using other assms(2) by (simp add: Let_def query_cache.get_alerts_frame [OF assms(1)] activeAlerts_key_def)
  next
    case False
    let ?m = "filter (\<lambda>a. alertMatchesScope a sc) (map (frame_alert_to_active dp f) (active_alerts_frame.alerts f))"
    let ?new = "replace_alerts (active_alerts_frame.greenhouse_id f) ?m old"
    have got: "getQueryData qc (activeAlerts_key sc) (applyActiveAlertsFrame qc dp f c) = Some (AlertsData ?new)"
      using False assms(2) by (simp add: query_cache.get_alerts_frame [OF assms(1)] activeAlerts_key_def)
    have "\<forall>a\<in>set ?m. active_alert.greenhouseId a = active_alerts_frame.greenhouse_id f"
      by (auto simp: frame_alert_to_active_def)
    note split = replace_alerts_split [OF this, of old]
    show ?thesis
      unfolding Let_def if_not_P [OF False]
      by (intro conjI exI [of _ ?new] got split other)
  qed
qed

theorem active_alerts_snapshot_witness:
  "\<exists>new. getQueryData ref_client (activeAlerts_key empty_scope)
     (applyActiveAlertsFrame ref_client (\<lambda>_. Some 0)
       \<lparr>active_alerts_frame.schema_version = Fin 1, greenhouse_id = ''gh-a'', ts = [], alerts = []\<rparr>
       [(activeAlerts_key empty_scope, \<lparr>ce_data = Some (AlertsData []), ce_invalidated = False\<rparr>)])
     = Some (AlertsData new) \<and> filter (\<lambda>a. active_alert.greenhouseId a = ''gh-a'') new = []"
proof -
  let ?c = "[(activeAlerts_key empty_scope, \<lparr>ce_data = Some (AlertsData []), ce_invalidated = False\<rparr>)]"
  have "getQueryData ref_client (activeAlerts_key empty_scope) ?c = Some (AlertsData [])"
    by (simp add: ref_client_def ref_get_def)
  from active_alerts_snapshot [OF ref_cache.query_cache_axioms this,
      of "\<lparr>active_alerts_frame.schema_version = Fin 1, greenhouse_id = ''gh-a'', ts = [], alerts = []\<rparr>" "\<lambda>_. Some 0"]
  show ?thesis by (auto simp: Let_def empty_scope_def truthy_id_def)
qed

definition cache_typed :: "'c query_client \<Rightarrow> 'c \<Rightarrow> bool" where
  "cache_typed qc c \<longleftrightarrow> (\<forall>k d. getQueryData qc k c = Some d \<longrightarrow> key_typed k d)"

lemma key_typed_head: "key_typed k d \<Longrightarrow> \<exists>s ps. k = KStr s # ps"
  by (cases "(k, d)" rule: key_typed.cases) auto

text \<open>An updater keeps the typing only under a key of its own type.\<close>

lemma typed_on:
  "k = fleet_key \<Longrightarrow> key_typed k d \<Longrightarrow> Some d' = on_fleet f (Some d) \<Longrightarrow> key_typed k d'"
  "k = greenhouse_key i \<Longrightarrow> key_typed k d \<Longrightarrow> Some d' = on_detail g (Some d) \<Longrightarrow> key_typed k d'"
  "k = KStr ''events'' # ps \<Longrightarrow> key_typed k d \<Longrightarrow> Some d' = on_events h (Some d) \<Longrightarrow> key_typed k d'"
  "k = KStr ''active-alerts'' # ps \<Longrightarrow> key_typed k d \<Longrightarrow> Some d' = on_alerts e (Some d) \<Longrightarrow> key_typed k d'"
  unfolding key_defs by (cases d; auto)+

lemma on_None [simp]: "on_fleet f None = None" "on_detail g None = None" "on_events h None = None" "on_alerts e None = None"
  by simp_all

lemma on_eq_None [simp]:
  "on_fleet f x = None \<longleftrightarrow> x = None" "on_detail g x = None \<longleftrightarrow> x = None"
  "on_events h x = None \<longleftrightarrow> x = None" "on_alerts e x = None \<longleftrightarrow> x = None"
  using on_fleet_Some on_detail_Some on_events_Some on_alerts_Some by (cases x; auto)+

text \<open>
  C10: the live frames write each key with data of its own type, and only keys that have data.
  On a cache whose data all has the type of the query that owns its key, no frame leaves
  anything ill-typed (it never writes through the updater of another type, which would), and
  none creates or drops an entry.
\<close>

theorem frames_keep_cache_typed:
  assumes "query_cache qc" "cache_typed qc c"
  shows "list_all (\<lambda>c'. (\<forall>k. getQueryData qc k c' = None \<longleftrightarrow> getQueryData qc k c = None)
       \<and> (\<forall>k d. getQueryData qc k c' = Some d \<longrightarrow> key_typed k d))
     [applyStatusFrame qc sf c, applyDriftFrame qc df c, applyTelemetryFrame qc tf c,
      applyEventFrame qc dp ef c, applyActiveAlertsFrame qc dp af c]"
proof -
  let ?ok = "\<lambda>c'. (\<forall>k. getQueryData qc k c' = None \<longleftrightarrow> getQueryData qc k c = None)
       \<and> (\<forall>k d. getQueryData qc k c' = Some d \<longrightarrow> key_typed k d)"
  have step: "?ok c'"
    if upd: "\<And>k. getQueryData qc k c' = getQueryData qc k c
        \<or> (k = fleet_key \<and> (\<exists>f. getQueryData qc k c' = on_fleet f (getQueryData qc k c)))
        \<or> (\<exists>i. k = greenhouse_key i \<and> (\<exists>f. getQueryData qc k c' = on_detail f (getQueryData qc k c)))
        \<or> (\<exists>ps. k = KStr ''events'' # ps \<and> (\<exists>f. getQueryData qc k c' = on_events f (getQueryData qc k c)))
        \<or> (\<exists>ps. k = KStr ''active-alerts'' # ps \<and> (\<exists>f. getQueryData qc k c' = on_alerts f (getQueryData qc k c)))" for c'
  proof (intro conjI allI impI)
    show none: "getQueryData qc k c' = None \<longleftrightarrow> getQueryData qc k c = None" for k
      using upd [of k] by (elim disjE conjE exE) simp_all
    fix k d assume d: "getQueryData qc k c' = Some d"
    then obtain d0 where d0: "getQueryData qc k c = Some d0" using none [of k] by auto
    then have "key_typed k d0" using assms(2) by (simp add: cache_typed_def)
    with upd [of k] show "key_typed k d"
      unfolding d d0 by (elim disjE conjE exE) (simp, (erule (2) typed_on)+)
  qed
  note get = query_cache.get_patchFleet [OF assms(1)] query_cache.get_patchDetail [OF assms(1)]
    query_cache.get_event_frame [OF assms(1)] query_cache.get_alerts_frame [OF assms(1)]
  have "?ok (applyStatusFrame qc sf c)" "?ok (applyDriftFrame qc df c)" "?ok (applyTelemetryFrame qc tf c)"
    "?ok (applyEventFrame qc dp ef c)" "?ok (applyActiveAlertsFrame qc dp af c)"
    by (rule step; auto simp: applyStatusFrame_def applyDriftFrame_def applyTelemetryFrame_def Let_def get prefix_def)+
  then show ?thesis by simp
qed

theorem frames_keep_cache_typed_witness:
  "cache_typed ref_client (applyEventFrame ref_client (\<lambda>_. Some 0) example_event
     [(events_key empty_scope, \<lparr>ce_data = Some (EventsData []), ce_invalidated = False\<rparr>)])"
proof -
  have "cache_typed ref_client [(events_key empty_scope, \<lparr>ce_data = Some (EventsData []), ce_invalidated = False\<rparr>)]"
    by (simp add: cache_typed_def ref_client_def ref_get_def events_key_def)
  note typed = frames_keep_cache_typed [OF ref_cache.query_cache_axioms this, unfolded list.pred_inject]
  show ?thesis unfolding cache_typed_def
    by (rule typed [THEN conjunct2, THEN conjunct2, THEN conjunct2, THEN conjunct1, THEN conjunct2])
qed

text \<open>
  The two feeds read their severity filter differently. The alert feed, like the REST
  filter of both feeds, takes it as a minimum, the event feed's live test as the exact
  severity: there is a scope under which a critical alert is kept but a critical event of the
  same greenhouse and kind, which a refetch would list, is not prepended.
\<close>

theorem event_scope_not_minimum:
  "\<exists>sc e a. event_entry.greenhouseId e = active_alert.greenhouseId a \<and> event_entry.kind e = active_alert.kind a
     \<and> event_entry.severity e = active_alert.severity a
     \<and> sc_severity sc = Some Warning \<and> event_entry.severity e = Critical
     \<and> alertMatchesScope a sc \<and> \<not> eventMatchesScope e sc"
proof -
  let ?e = "eventFrameToEntry (\<lambda>_. Some 0) example_event"
  let ?a = "\<lparr>active_alert.greenhouseId = ''gh-a'', component = ''fan'', zoneId = None, faultType = ''stuck'',
      kind = FaultKind, severity = Critical, since = Some 0\<rparr>"
  let ?sc = "\<lparr>sc_greenhouseId = None, sc_kind = None, sc_severity = Some Warning\<rparr>"
  have "alertMatchesScope ?a ?sc" "\<not> eventMatchesScope ?e ?sc"
    by (simp_all add: alertMatchesScope_def eventMatchesScope_def eventFrameToEntry_def truthy_id_def)
  then show ?thesis
    by (intro exI [of _ ?sc] exI [of _ ?e] exI [of _ ?a]) (simp add: eventFrameToEntry_def)
qed

end
