(* ===== verification/Machines.thy ===== *)
theory Machines
  imports Main
begin

text \<open>
  The contracts of the components that are driven by events: a handler takes an event and the state
  to the next state, and a history is a fold of its events. Each component states what its handler
  keeps, or what it sends, by interpreting one of these locales.
\<close>

section \<open>Invariants\<close>

locale event_machine =
  fixes step :: "'e \<Rightarrow> 's \<Rightarrow> 's" and holds :: "'s \<Rightarrow> bool"
  assumes step_holds: "holds s \<Longrightarrow> holds (step e s)"
begin

lemma run_holds: "holds s \<Longrightarrow> holds (fold step es s)"
  by (induction es arbitrary: s) (simp_all add: step_holds)

end

locale started_machine = event_machine step holds
  for step :: "'e \<Rightarrow> 's \<Rightarrow> 's" and holds :: "'s \<Rightarrow> bool" +
  fixes initial :: 's
  assumes initial_holds: "holds initial"
begin

lemma reached_holds: "holds (fold step es initial)"
  by (rule run_holds) (rule initial_holds)

end

section \<open>What is sent\<close>

text \<open>The log of a machine only grows, by what \<open>sends\<close> says of the event and the state it meets.\<close>

locale sending_machine =
  fixes step :: "'e \<Rightarrow> 's \<Rightarrow> 's" and sent :: "'s \<Rightarrow> 'm list" and sends :: "'e \<Rightarrow> 's \<Rightarrow> 'm list"
  assumes step_sent: "sent (step e s) = sent s @ sends e s"
begin

lemma sent_cause:
  "x \<in> set (sent (fold step es s)) \<Longrightarrow>
   x \<in> set (sent s) \<or> (\<exists>before e rest. es = before @ e # rest \<and> x \<in> set (sends e (fold step before s)))"
proof (induction es rule: rev_induct)
  case (snoc e es)
  then consider "x \<in> set (sent (fold step es s))" | "x \<in> set (sends e (fold step es s))" by (auto simp: step_sent)
  then show ?case
  proof cases
    case 1
    from snoc.IH [OF this] show ?thesis by (metis append.assoc append_Cons)
  next
    case 2
    then show ?thesis by (intro disjI2 exI [of _ es] exI [of _ e] exI [of _ "[]"]) simp
  qed
qed simp

lemma sent_all:
  assumes "\<And>e s. \<forall>x\<in>set (sends e s). P x" and "\<forall>x\<in>set (sent s). P x"
  shows "\<forall>x\<in>set (sent (fold step es s)). P x"
  using sent_cause [of _ es s] assms by blast

end

end
