(* ===== verification/Toasts.thy ===== *)
theory Toasts
  imports Js_Library Machines
begin

text \<open>
  The toast queue of \<open>components/ui/ToastProvider.tsx\<close>: pushing with a generated id, the
  auto-dismiss timers, and dismissal. A pending \<open>setTimeout\<close> is the id it will dismiss.
\<close>

datatype toast_variant = InfoToast | SuccessToast | WarningToast | CriticalToast

record toast_input =
  ti_variant :: "toast_variant option"
  ti_title :: string
  ti_message :: "string option"
  ti_durationMs :: "js_num option"

record toast_record =
  tr_id :: string
  tr_variant :: toast_variant
  tr_title :: string
  tr_message :: "string option"
  tr_durationMs :: "js_num option"

record toast_state =
  toasts :: "toast_record list"
  counter :: nat
  pending :: "(string \<times> js_num) list"

definition no_toasts :: toast_state where
  "no_toasts = \<lparr>toasts = [], counter = 0, pending = []\<rparr>"

definition dismiss :: "string \<Rightarrow> toast_state \<Rightarrow> toast_state" where
  "dismiss i s = s\<lparr>toasts := filter (\<lambda>t. tr_id t \<noteq> i) (toasts s)\<rparr>"

definition toast_id :: "nat \<Rightarrow> string" where
  "toast_id n = ''toast-'' @ nat_string n"

definition push :: "toast_input \<Rightarrow> toast_state \<Rightarrow> toast_state \<times> string" where
  "push input s =
     (let n = counter s + 1;
          i = toast_id n;
          v = case_option InfoToast id (ti_variant input);
          t = \<lparr>tr_id = i, tr_variant = v, tr_title = ti_title input, tr_message = ti_message input,
               tr_durationMs = ti_durationMs input\<rparr>;
          duration = (case ti_durationMs input of Some d \<Rightarrow> d
                      | None \<Rightarrow> if v = CriticalToast then Fin 0 else Fin 5000);
          s1 = s\<lparr>counter := n, toasts := toasts s @ [t]\<rparr>;
          s2 = (if num_gt duration (Fin 0) then s1\<lparr>pending := pending s1 @ [(i, duration)]\<rparr> else s1)
      in (s2, i))"

text \<open>The \<open>k\<close>-th pending timer fires.\<close>

definition fire :: "nat \<Rightarrow> toast_state \<Rightarrow> toast_state" where
  "fire k s =
     (if k < length (pending s)
      then dismiss (fst (pending s ! k)) (s\<lparr>pending := take k (pending s) @ drop (Suc k) (pending s)\<rparr>)
      else s)"

text \<open>What can happen to the queue: a push, the user's dismissal, a timer.\<close>

datatype toast_event = Push toast_input | Dismiss string | Fire nat

fun toast_step :: "toast_event \<Rightarrow> toast_state \<Rightarrow> toast_state" where
  "toast_step (Push input) s = fst (push input s)"
| "toast_step (Dismiss i) s = dismiss i s"
| "toast_step (Fire k) s = fire k s"

definition run_toasts :: "toast_event list \<Rightarrow> toast_state \<Rightarrow> toast_state" where
  "run_toasts es s = fold toast_step es s"

section \<open>Lemmas\<close>

lemma digit_char_inj: "a < 10 \<Longrightarrow> b < 10 \<Longrightarrow> digit_char a = digit_char b \<longleftrightarrow> a = b"
proof -
  assume "a < 10" "b < 10"
  then have "(of_char (digit_char a) :: nat) = 48 + a" "(of_char (digit_char b) :: nat) = 48 + b"
    by (simp_all add: digit_char_def)
  then show ?thesis by (metis add_left_cancel)
qed

lemma nat_string_inj: "nat_string m = nat_string n \<longleftrightarrow> m = n"
proof (induction m arbitrary: n rule: nat_string.induct)
  case (1 m)
  have len: "nat_string k \<noteq> []" for k by (subst nat_string.simps) simp
  show ?case
  proof (cases "m < 10 \<or> n < 10")
    case True
    then show ?thesis
      using len [of "m div 10"] len [of "n div 10"]
      by (subst (1 2) nat_string.simps) (auto simp: digit_char_inj)
  next
    case False
    then have "nat_string m = nat_string n \<longleftrightarrow>
        nat_string (m div 10) = nat_string (n div 10) \<and> digit_char (m mod 10) = digit_char (n mod 10)"
      by (subst (1 2) nat_string.simps) auto
    also have "\<dots> \<longleftrightarrow> m div 10 = n div 10 \<and> m mod 10 = n mod 10"
      using 1 [of "n div 10"] False by (simp add: digit_char_inj)
    also have "\<dots> \<longleftrightarrow> m = n" by (metis div_mult_mod_eq)
    finally show ?thesis .
  qed
qed

lemma toast_id_inj [simp]: "toast_id m = toast_id n \<longleftrightarrow> m = n"
  by (simp add: toast_id_def nat_string_inj)

text \<open>
  Ids in use come from the counter, are distinct, and a pending timer never names a toast that
  is meant to stay: one whose default or explicit duration is zero.
\<close>

definition lifetime :: "toast_record \<Rightarrow> js_num" where
  "lifetime t = (case tr_durationMs t of Some d \<Rightarrow> d
     | None \<Rightarrow> if tr_variant t = CriticalToast then Fin 0 else Fin 5000)"

definition toasts_inv :: "toast_state \<Rightarrow> bool" where
  "toasts_inv s \<longleftrightarrow>
     (\<forall>t\<in>set (toasts s). \<exists>n. n \<le> counter s \<and> tr_id t = toast_id n)
     \<and> (\<forall>p\<in>set (pending s). \<exists>n. n \<le> counter s \<and> fst p = toast_id n)
     \<and> distinct (map tr_id (toasts s))
     \<and> (\<forall>t\<in>set (toasts s). \<forall>p\<in>set (pending s). fst p = tr_id t \<longrightarrow> num_gt (lifetime t) (Fin 0))"

lemma inv_empty: "toasts_inv no_toasts"
  by (simp add: toasts_inv_def no_toasts_def)

lemma inv_dismiss: "toasts_inv s \<Longrightarrow> toasts_inv (dismiss i s)"
  by (auto simp: toasts_inv_def dismiss_def distinct_map inj_on_def)

lemma inv_fewer_timers:
  "toasts_inv s \<Longrightarrow> set ps \<subseteq> set (pending s) \<Longrightarrow> toasts_inv (s\<lparr>pending := ps\<rparr>)"
  unfolding toasts_inv_def by simp blast

lemma inv_fire:
  assumes "toasts_inv s" shows "toasts_inv (fire k s)"
proof (cases "k < length (pending s)")
  case True
  have "set (take k (pending s) @ drop (Suc k) (pending s)) \<subseteq> set (pending s)"
    by (auto dest: in_set_takeD in_set_dropD)
  with assms have "toasts_inv (s\<lparr>pending := take k (pending s) @ drop (Suc k) (pending s)\<rparr>)"
    by (intro inv_fewer_timers)
  with True show ?thesis by (simp add: fire_def inv_dismiss)
qed (use assms in \<open>simp add: fire_def\<close>)

lemma inv_push:
  assumes "toasts_inv s" shows "toasts_inv (fst (push input s))"
proof -
  have fresh: "tr_id t \<noteq> toast_id (Suc (counter s))" if "t \<in> set (toasts s)" for t
    using assms that by (force simp: toasts_inv_def)
  have fresh': "fst p \<noteq> toast_id (Suc (counter s))" if "p \<in> set (pending s)" for p
    using assms that by (force simp: toasts_inv_def)
  show ?thesis
    using assms fresh fresh' unfolding toasts_inv_def push_def Let_def
    by (auto simp: lifetime_def le_SucI split: option.splits if_splits)
qed

interpretation toast_machine: started_machine toast_step toasts_inv no_toasts
proof
  show "toasts_inv (toast_step e s)" if "toasts_inv s" for e s
    using that by (cases e) (simp_all add: inv_push inv_dismiss inv_fire)
qed (rule inv_empty)

lemma inv_run: "toasts_inv s \<Longrightarrow> toasts_inv (run_toasts es s)"
  unfolding run_toasts_def by (rule toast_machine.run_holds)

lemma stays_step:
  assumes "toasts_inv s" "t \<in> set (toasts s)" "\<not> num_gt (lifetime t) (Fin 0)" "e \<noteq> Dismiss (tr_id t)"
  shows "t \<in> set (toasts (toast_step e s))"
proof (cases e)
  case (Push input)
  with assms(2) show ?thesis by (simp add: push_def Let_def)
next
  case (Dismiss i)
  with assms show ?thesis by (simp add: dismiss_def)
next
  case (Fire k)
  then show ?thesis
  proof (cases "k < length (pending s)")
    case True
    then have "fst (pending s ! k) \<noteq> tr_id t"
      using assms(1-3) nth_mem unfolding toasts_inv_def by blast
    with Fire True assms(2) show ?thesis by (simp add: fire_def dismiss_def)
  qed (simp add: fire_def assms(2))
qed

section \<open>Properties\<close>

text \<open>
  C11: a critical toast stays until it is acknowledged. Whatever is pushed, dismissed or timed
  out before and after, a critical toast pushed without a duration leaves the queue only when
  its own id is dismissed; no timer ever removes it, and ids never collide.
\<close>

theorem critical_toast_persists:
  assumes "t \<in> set (toasts (run_toasts es0 no_toasts))"
    and "tr_variant t = CriticalToast" "tr_durationMs t = None" "Dismiss (tr_id t) \<notin> set es"
  shows "t \<in> set (toasts (run_toasts (es0 @ es) no_toasts))
     \<and> distinct (map tr_id (toasts (run_toasts (es0 @ es) no_toasts)))"
proof
  have life: "\<not> num_gt (lifetime t) (Fin 0)" using assms(2,3) by (simp add: lifetime_def)
  have "t \<in> set (toasts (run_toasts es s))" if "toasts_inv s" "t \<in> set (toasts s)" for s
    using that assms(4)
  proof (induction es arbitrary: s)
    case (Cons e es)
    have "t \<in> set (toasts (toast_step e s))" using stays_step [OF Cons.prems(1,2) life] Cons.prems(3) by auto
    moreover have "toasts_inv (toast_step e s)" using inv_run [OF Cons.prems(1), of "[e]"] by (simp add: run_toasts_def)
    ultimately show ?case using Cons.IH Cons.prems(3) by (simp add: run_toasts_def)
  qed (simp add: run_toasts_def)
  from this [OF inv_run [OF inv_empty] assms(1)]
  show "t \<in> set (toasts (run_toasts (es0 @ es) no_toasts))" by (simp add: run_toasts_def)
  show "distinct (map tr_id (toasts (run_toasts (es0 @ es) no_toasts)))"
    using inv_run [OF inv_empty] unfolding toasts_inv_def by blast
qed

theorem critical_toast_persists_witness:
  "let alarm = \<lparr>ti_variant = Some CriticalToast, ti_title = ''Fault'', ti_message = None, ti_durationMs = None\<rparr>;
       note = \<lparr>ti_variant = None, ti_title = ''Saved'', ti_message = None, ti_durationMs = None\<rparr> in
   map tr_id (toasts (run_toasts ([Push note, Push alarm] @ [Fire 0, Fire 0]) no_toasts)) = [''toast-2'']
   \<and> \<lparr>tr_id = ''toast-2'', tr_variant = CriticalToast, tr_title = ''Fault'', tr_message = None, tr_durationMs = None\<rparr>
       \<in> set (toasts (run_toasts ([Push note, Push alarm] @ [Fire 0, Fire 0]) no_toasts))"
proof -
  let ?alarm = "\<lparr>ti_variant = Some CriticalToast, ti_title = ''Fault'', ti_message = None, ti_durationMs = None\<rparr>"
  let ?note = "\<lparr>ti_variant = None, ti_title = ''Saved'', ti_message = None, ti_durationMs = None\<rparr>"
  let ?t = "\<lparr>tr_id = ''toast-2'', tr_variant = CriticalToast, tr_title = ''Fault'', tr_message = None, tr_durationMs = None\<rparr>"
  have i: "toast_id 1 = ''toast-1''" "toast_id 2 = ''toast-2''"
    by code_simp+
  have t: "?t \<in> set (toasts (run_toasts [Push ?note, Push ?alarm] no_toasts))"
    using i by (simp add: run_toasts_def push_def no_toasts_def Let_def numeral_2_eq_2)
  have "map tr_id (toasts (run_toasts ([Push ?note, Push ?alarm] @ [Fire 0, Fire 0]) no_toasts)) = [''toast-2'']"
    using i by (simp add: run_toasts_def push_def fire_def dismiss_def no_toasts_def Let_def numeral_2_eq_2)
  moreover have "?t \<in> set (toasts (run_toasts ([Push ?note, Push ?alarm] @ [Fire 0, Fire 0]) no_toasts))"
    using critical_toast_persists [OF t, of "[Fire 0, Fire 0]"] by simp
  ultimately show ?thesis by (simp add: Let_def)
qed

end
