(* ===== verification/Live_Series.thy ===== *)
theory Live_Series
  imports Wire_Types Js_Library Machines
begin

text \<open>
  The two telemetry subscribers: the per-series ring buffers of \<open>hooks/useLiveSeries.ts\<close>, with
  their once-per-animation-frame snapshot, and the latest actuator positions of
  \<open>hooks/useLiveActuators.ts\<close>. A hook instance is the record of its refs and its state.
\<close>

section \<open>Ring buffers\<close>

definition liveSeriesKey :: "metric \<Rightarrow> string option \<Rightarrow> string" where
  "liveSeriesKey m z =
     (let t = (case map_of (map prod.swap metric_table) m of Some s \<Rightarrow> s | None \<Rightarrow> []) in
      if z \<noteq> None \<and> z \<noteq> Some [] then t @ '':'' @ the z else t)"

type_synonym series_map = "(string \<times> reading list) list"

record live_series =
  ls_greenhouseId :: string
  ls_capacity :: nat
  ls_buffers :: series_map
  ls_rafPending :: bool
  ls_series :: series_map

definition DEFAULT_CAPACITY :: nat where "DEFAULT_CAPACITY = 600"

text \<open>The effect's start: empty buffers and an empty snapshot.\<close>

definition mount_series :: "string \<Rightarrow> nat \<Rightarrow> live_series" where
  "mount_series i cap = \<lparr>ls_greenhouseId = i, ls_capacity = cap, ls_buffers = [], ls_rafPending = False, ls_series = []\<rparr>"

text \<open>\<open>flush\<close> copies every buffer; \<open>has_raf\<close> tells whether \<open>requestAnimationFrame\<close> exists.\<close>

definition flush :: "live_series \<Rightarrow> live_series" where
  "flush h = h\<lparr>ls_rafPending := False, ls_series := ls_buffers h\<rparr>"

definition scheduleFlush :: "bool \<Rightarrow> live_series \<Rightarrow> live_series" where
  "scheduleFlush has_raf h =
     (if ls_rafPending h then h
      else if has_raf then h\<lparr>ls_rafPending := True\<rparr> else flush h)"

text \<open>\<open>buffer.push(r); if (buffer.length > capacity) buffer.splice(0, buffer.length - capacity)\<close>\<close>

definition push_capped :: "nat \<Rightarrow> reading \<Rightarrow> reading list \<Rightarrow> reading list" where
  "push_capped cap r b =
     (let b1 = b @ [r] in if length b1 > cap then drop (length b1 - cap) b1 else b1)"

definition buffer_reading :: "telemetry_frame \<Rightarrow> date \<Rightarrow> nat \<Rightarrow> ws_reading \<Rightarrow> series_map \<Rightarrow> series_map" where
  "buffer_reading f d cap r m =
     (let k = liveSeriesKey (ws_reading.metric r) (telemetry_frame.zone_id f);
          b = (case map_of m k of Some b \<Rightarrow> b | None \<Rightarrow> [])
      in AList.update k (push_capped cap \<lparr>reading.val = ws_reading.val r, ts = d\<rparr> b) m)"

definition series_frame :: "(string \<Rightarrow> date) \<Rightarrow> bool \<Rightarrow> telemetry_frame \<Rightarrow> live_series \<Rightarrow> live_series" where
  "series_frame dp has_raf f h =
     (if telemetry_frame.greenhouse_id f \<noteq> ls_greenhouseId h then h
      else let d = dp (telemetry_frame.ts f) in
        scheduleFlush has_raf
          (h\<lparr>ls_buffers := fold (buffer_reading f d (ls_capacity h)) (telemetry_frame.readings f) (ls_buffers h)\<rparr>))"

section \<open>Latest actuators\<close>

record live_actuator =
  lv_commanded :: js_num
  lv_observed :: "js_num option"
  lv_ts :: date

record live_actuators =
  la_greenhouseId :: string
  la_latest :: "(actuator_name \<times> live_actuator) list"
  la_actuators :: "(actuator_name \<times> live_actuator) list"

definition mount_actuators :: "string \<Rightarrow> live_actuators" where
  "mount_actuators i = \<lparr>la_greenhouseId = i, la_latest = [], la_actuators = []\<rparr>"

definition actuators_frame :: "(string \<Rightarrow> date) \<Rightarrow> telemetry_frame \<Rightarrow> live_actuators \<Rightarrow> live_actuators" where
  "actuators_frame dp f h =
     (if telemetry_frame.greenhouse_id f \<noteq> la_greenhouseId h
         \<or> telemetry_frame.actuators f = None \<or> telemetry_frame.actuators f = Some [] then h
      else let d = dp (telemetry_frame.ts f);
               latest = fold (\<lambda>a. AList.update (ws_actuator_sample.actuator a)
                          \<lparr>lv_commanded = ws_actuator_sample.commanded a,
                           lv_observed = ws_actuator_sample.observed a, lv_ts = d\<rparr>)
                        (the (telemetry_frame.actuators f)) (la_latest h)
           in h\<lparr>la_latest := latest, la_actuators := latest\<rparr>)"

section \<open>Lemmas\<close>

definition take_last :: "nat \<Rightarrow> 'a list \<Rightarrow> 'a list" where
  "take_last n xs = drop (length xs - n) xs"

lemma take_last_short: "length xs \<le> n \<Longrightarrow> take_last n xs = xs"
  by (simp add: take_last_def)

lemma length_take_last [simp]: "length (take_last n xs) = min n (length xs)"
  by (auto simp: take_last_def)

lemma push_capped_take_last: "push_capped cap r (take_last cap xs) = take_last cap (xs @ [r])"
proof (cases "length xs < cap")
  case True
  then show ?thesis by (simp add: push_capped_def take_last_def)
next
  case False
  then have "push_capped cap r (take_last cap xs) = drop 1 (take_last cap xs @ [r])"
    by (simp add: push_capped_def Let_def min_def)
  also have "\<dots> = take_last cap (xs @ [r])"
    using False by (cases "cap = 0") (simp_all add: take_last_def Suc_diff_le)
  finally show ?thesis .
qed

definition buffer_of :: "series_map \<Rightarrow> string \<Rightarrow> reading list" where
  "buffer_of m k = (case map_of m k of Some b \<Rightarrow> b | None \<Rightarrow> [])"

lemma buffer_of_update: "buffer_of (AList.update k b m) k' = (if k' = k then b else buffer_of m k')"
  by (simp add: buffer_of_def update_conv')

text \<open>The readings of a frame that belong to a series, and of a history of frames.\<close>

definition frame_series :: "(string \<Rightarrow> date) \<Rightarrow> string \<Rightarrow> telemetry_frame \<Rightarrow> reading list" where
  "frame_series dp k f =
     map (\<lambda>r. \<lparr>reading.val = ws_reading.val r, ts = dp (telemetry_frame.ts f)\<rparr>)
       (filter (\<lambda>r. liveSeriesKey (ws_reading.metric r) (telemetry_frame.zone_id f) = k)
         (telemetry_frame.readings f))"

definition history_series :: "(string \<Rightarrow> date) \<Rightarrow> string \<Rightarrow> string \<Rightarrow> telemetry_frame list \<Rightarrow> reading list" where
  "history_series dp i k fs =
     concat (map (frame_series dp k) (filter (\<lambda>f. telemetry_frame.greenhouse_id f = i) fs))"

lemma buffer_readings:
  assumes "buffer_of m k = take_last cap xs"
  shows "buffer_of (fold (buffer_reading f (dp (telemetry_frame.ts f)) cap) rs m) k
    = take_last cap (xs @ map (\<lambda>r. \<lparr>reading.val = ws_reading.val r, ts = dp (telemetry_frame.ts f)\<rparr>)
        (filter (\<lambda>r. liveSeriesKey (ws_reading.metric r) (telemetry_frame.zone_id f) = k) rs))"
  using assms
proof (induction rs arbitrary: m xs)
  case (Cons r rs)
  let ?r = "\<lparr>reading.val = ws_reading.val r, ts = dp (telemetry_frame.ts f)\<rparr>"
  let ?k = "liveSeriesKey (ws_reading.metric r) (telemetry_frame.zone_id f)"
  have step: "buffer_of (buffer_reading f (dp (telemetry_frame.ts f)) cap r m) k
      = (if k = ?k then push_capped cap ?r (buffer_of m k) else buffer_of m k)"
    unfolding buffer_reading_def Let_def buffer_of_update by (auto simp: buffer_of_def)
  show ?case
  proof (cases "k = ?k")
    case True
    with step Cons.prems have "buffer_of (buffer_reading f (dp (telemetry_frame.ts f)) cap r m) k
        = take_last cap (xs @ [?r])" by (simp add: push_capped_take_last)
    from Cons.IH [OF this] True show ?thesis by simp
  next
    case False
    with step Cons show ?thesis by simp
  qed
qed simp

lemma series_frame_static [simp]:
  "ls_greenhouseId (series_frame dp b f h) = ls_greenhouseId h" "ls_capacity (series_frame dp b f h) = ls_capacity h"
  by (simp_all add: series_frame_def scheduleFlush_def flush_def Let_def)

lemma series_frame_buffers:
  "ls_buffers (series_frame dp b f h) =
     (if telemetry_frame.greenhouse_id f = ls_greenhouseId h
      then fold (buffer_reading f (dp (telemetry_frame.ts f)) (ls_capacity h)) (telemetry_frame.readings f) (ls_buffers h)
      else ls_buffers h)"
  by (simp add: series_frame_def scheduleFlush_def flush_def Let_def)

text \<open>Frames and animation frames interleaved: \<open>None\<close> is the browser calling back \<open>flush\<close>.\<close>

definition series_event :: "(string \<Rightarrow> date) \<Rightarrow> telemetry_frame option \<Rightarrow> live_series \<Rightarrow> live_series" where
  "series_event dp e h = (case e of Some f \<Rightarrow> series_frame dp True f h
     | None \<Rightarrow> if ls_rafPending h then flush h else h)"

definition frames_of :: "telemetry_frame option list \<Rightarrow> telemetry_frame list" where
  "frames_of es = List.map_filter id es"

lemma series_event_static [simp]:
  "ls_greenhouseId (series_event dp e h) = ls_greenhouseId h" "ls_capacity (series_event dp e h) = ls_capacity h"
  by (simp_all add: series_event_def flush_def split: option.splits)

lemma run_buffers:
  assumes "buffer_of (ls_buffers h) k = take_last (ls_capacity h) xs"
  shows "buffer_of (ls_buffers (fold (series_event dp) es h)) k
    = take_last (ls_capacity h) (xs @ history_series dp (ls_greenhouseId h) k (frames_of es))"
  using assms
proof (induction es arbitrary: h xs)
  case (Cons e es)
  show ?case
  proof (cases e)
    case None
    have "ls_buffers (series_event dp None h) = ls_buffers h" by (simp add: series_event_def flush_def)
    with Cons.IH [of "series_event dp e h" xs] Cons.prems None show ?thesis
      by (simp add: frames_of_def List.map_filter_simps)
  next
    case (Some f)
    have "buffer_of (ls_buffers (series_event dp e h)) k
        = take_last (ls_capacity h) (xs @ (if telemetry_frame.greenhouse_id f = ls_greenhouseId h then frame_series dp k f else []))"
      using buffer_readings [OF Cons.prems, of f dp "telemetry_frame.readings f"] Cons.prems Some
      by (simp add: series_event_def series_frame_buffers frame_series_def)
    with Cons.IH [of "series_event dp e h"] Some show ?thesis
      by (simp add: frames_of_def List.map_filter_simps history_series_def)
  qed
qed (simp add: frames_of_def List.map_filter_simps history_series_def)

text \<open>When no snapshot is due, the rendered series are the buffers.\<close>

definition snapshot_inv :: "live_series \<Rightarrow> bool" where
  "snapshot_inv h \<longleftrightarrow> ls_rafPending h \<or> ls_series h = ls_buffers h"

lemma snapshot_event: "snapshot_inv h \<Longrightarrow> snapshot_inv (series_event dp e h)"
  by (auto simp: snapshot_inv_def series_event_def series_frame_def scheduleFlush_def flush_def Let_def split: option.splits)

interpretation series_machine: event_machine "series_event dp" snapshot_inv for dp
  by unfold_locales (rule snapshot_event)

lemmas snapshot_run = series_machine.run_holds

text \<open>
  The actuator map is keyed by name alone, although irrigation valves are per zone: the frame
  of one zone replaces the position reported for another.
\<close>

lemma actuators_zone_collision:
  fixes f :: "string \<Rightarrow> js_num \<Rightarrow> telemetry_frame"
  defines "f \<equiv> \<lambda>z x. \<lparr>telemetry_frame.schema_version = Fin 1, greenhouse_id = ''gh-a'', zone_id = Some z, ts = [],
      readings = [], actuators = Some [\<lparr>ws_actuator_sample.actuator = IrrigationValve, commanded = x, observed = None\<rparr>]\<rparr>"
  shows "la_actuators (actuators_frame dp (f ''bench-b'' (Fin 0)) (actuators_frame dp (f ''bench-a'' (Fin 100)) (mount_actuators ''gh-a'')))
    = [(IrrigationValve, \<lparr>lv_commanded = Fin 0, lv_observed = None, lv_ts = dp []\<rparr>)]"
  by (simp add: f_def actuators_frame_def mount_actuators_def Let_def)

section \<open>Properties\<close>

text \<open>
  C12: the ring buffers. After any interleaving of frames and animation frames, the buffer of
  a series holds exactly the last \<open>capacity\<close> readings of that series among all frames of the
  hook's greenhouse, in arrival order, and the rendered snapshot equals the buffers whenever
  no animation frame is outstanding.
\<close>

theorem live_series_ring:
  "let h = fold (series_event dp) es (mount_series i cap) in
   buffer_of (ls_buffers h) k = take_last cap (history_series dp i k (frames_of es))
   \<and> length (buffer_of (ls_buffers h) k) \<le> cap
   \<and> (ls_rafPending h \<or> ls_series h = ls_buffers h)"
proof -
  let ?h = "fold (series_event dp) es (mount_series i cap)"
  have "buffer_of (ls_buffers ?h) k = take_last cap (history_series dp i k (frames_of es))"
    using run_buffers [of "mount_series i cap" k "[]" dp es]
    by (simp add: mount_series_def buffer_of_def take_last_def)
  moreover have "snapshot_inv ?h" by (rule snapshot_run) (simp add: snapshot_inv_def mount_series_def)
  ultimately show ?thesis by (simp add: snapshot_inv_def Let_def)
qed

end
