(* ===== verification/Stream_Provider.thy ===== *)
theory Stream_Provider
  imports Stream_Client Live_Patch Toasts Live_Series
begin

text \<open>
  The application's one stream (\<open>app/StreamProvider.tsx\<close>): the handlers it gives the client
  patch the cached data, feed the telemetry subscribers, raise toasts and tally the frames
  the schemas reject; the top bar shows the connection state and the tally.
\<close>

section \<open>State\<close>

record schema_drift =
  dr_count :: nat
  dr_lastType :: "frame_type option"
  dr_lastIssue :: "string option"

definition NO_DRIFT :: schema_drift where
  "NO_DRIFT = \<lparr>dr_count = 0, dr_lastType = None, dr_lastIssue = None\<rparr>"

text \<open>A subscriber is a mounted telemetry hook, named by the identity of its handler; the set of
  subscribers iterates in insertion order.\<close>

datatype telemetry_hook = SeriesHook live_series | ActuatorsHook live_actuators

record 'c provider =
  pv_connectionState :: ws_connection_state
  pv_schemaDrift :: schema_drift
  pv_cache :: 'c
  pv_toasts :: toast_state
  pv_subscribers :: "(nat \<times> telemetry_hook) list"

definition mount_provider :: "'c \<Rightarrow> 'c provider" where
  "mount_provider c = \<lparr>pv_connectionState = WsClosed, pv_schemaDrift = NO_DRIFT, pv_cache = c,
     pv_toasts = no_toasts, pv_subscribers = []\<rparr>"

definition subscribeTelemetry :: "nat \<Rightarrow> telemetry_hook \<Rightarrow> 'c provider \<Rightarrow> 'c provider" where
  "subscribeTelemetry i h p =
     p\<lparr>pv_subscribers := (if i \<in> fst ` set (pv_subscribers p) then pv_subscribers p else pv_subscribers p @ [(i, h)])\<rparr>"

definition unsubscribeTelemetry :: "nat \<Rightarrow> 'c provider \<Rightarrow> 'c provider" where
  "unsubscribeTelemetry i p = p\<lparr>pv_subscribers := filter (\<lambda>s. fst s \<noteq> i) (pv_subscribers p)\<rparr>"

section \<open>Handlers\<close>

fun run_hook :: "date_parser \<Rightarrow> bool \<Rightarrow> telemetry_frame \<Rightarrow> telemetry_hook \<Rightarrow> telemetry_hook" where
  "run_hook dp has_raf f (SeriesHook h) = SeriesHook (series_frame dp has_raf f h)"
| "run_hook dp has_raf f (ActuatorsHook h) = ActuatorsHook (actuators_frame dp f h)"

definition onTelemetry :: "'c query_client \<Rightarrow> date_parser \<Rightarrow> bool \<Rightarrow> telemetry_frame \<Rightarrow> 'c provider \<Rightarrow> 'c provider" where
  "onTelemetry qc dp has_raf f p =
     (let p1 = p\<lparr>pv_cache := applyTelemetryFrame qc f (pv_cache p)\<rparr> in
      p1\<lparr>pv_subscribers := map (\<lambda>(i, h). (i, run_hook dp has_raf f h)) (pv_subscribers p1)\<rparr>)"

definition onStatus :: "'c query_client \<Rightarrow> status_frame \<Rightarrow> 'c provider \<Rightarrow> 'c provider" where
  "onStatus qc f p = p\<lparr>pv_cache := applyStatusFrame qc f (pv_cache p)\<rparr>"

definition onDrift :: "'c query_client \<Rightarrow> drift_frame \<Rightarrow> 'c provider \<Rightarrow> 'c provider" where
  "onDrift qc f p = p\<lparr>pv_cache := applyDriftFrame qc f (pv_cache p)\<rparr>"

definition critical_toast :: "date_parser \<Rightarrow> event_frame \<Rightarrow> toast_input" where
  "critical_toast dp f = \<lparr>
     ti_variant = Some CriticalToast,
     ti_title = (if event_frame.kind f = InterlockKind then ''Interlock'' else ''Fault'')
       @ '' '' @ [char_of (194 :: nat), char_of (183 :: nat)] @ '' '' @ event_frame.greenhouse_id f,
     ti_message = Some (event_entry.message (eventFrameToEntry dp f)),
     ti_durationMs = None\<rparr>"

definition onEvent :: "'c query_client \<Rightarrow> date_parser \<Rightarrow> event_frame \<Rightarrow> 'c provider \<Rightarrow> 'c provider" where
  "onEvent qc dp f p =
     (let p1 = p\<lparr>pv_cache := applyEventFrame qc dp f (pv_cache p)\<rparr> in
      if event_frame.severity f = Critical
      then p1\<lparr>pv_toasts := fst (push (critical_toast dp f) (pv_toasts p1))\<rparr>
      else p1)"

definition onActiveAlerts :: "'c query_client \<Rightarrow> date_parser \<Rightarrow> active_alerts_frame \<Rightarrow> 'c provider \<Rightarrow> 'c provider" where
  "onActiveAlerts qc dp f p = p\<lparr>pv_cache := applyActiveAlertsFrame qc dp f (pv_cache p)\<rparr>"

definition onFrameRejected :: "frame_type \<Rightarrow> issue list \<Rightarrow> 'c provider \<Rightarrow> 'c provider" where
  "onFrameRejected t issues p =
     p\<lparr>pv_schemaDrift := \<lparr>
         dr_count = dr_count (pv_schemaDrift p) + 1,
         dr_lastType = Some t,
         dr_lastIssue = Some (case issues of i # _ \<Rightarrow> i | [] \<Rightarrow> ''schema mismatch'')\<rparr>\<rparr>"

fun deliver :: "'c query_client \<Rightarrow> date_parser \<Rightarrow> bool \<Rightarrow> known_frame \<Rightarrow> 'c provider \<Rightarrow> 'c provider" where
  "deliver qc dp has_raf (TelemetryFrame f) p = onTelemetry qc dp has_raf f p"
| "deliver qc dp has_raf (StatusFrame f) p = onStatus qc f p"
| "deliver qc dp has_raf (DriftFrame f) p = onDrift qc f p"
| "deliver qc dp has_raf (EventFrame f) p = onEvent qc dp f p"
| "deliver qc dp has_raf (ActiveAlertsFrame f) p = onActiveAlerts qc dp f p"

text \<open>One message of the socket: no handler is registered for unknown frame types.\<close>

fun provider_message :: "'c query_client \<Rightarrow> date_parser \<Rightarrow> bool \<Rightarrow> stream_msg \<Rightarrow> 'c provider \<Rightarrow> 'c provider" where
  "provider_message qc dp has_raf IgnoredMsg p = p"
| "provider_message qc dp has_raf (UnknownMsg raw) p = p"
| "provider_message qc dp has_raf (RejectedMsg t issues) p = onFrameRejected t issues p"
| "provider_message qc dp has_raf (Delivered f) p = deliver qc dp has_raf f p"

section \<open>The top bar\<close>

datatype connection_state = LiveConn | ReconnectingConn | PollingConn | OfflineConn

fun connectionStateFromWs :: "ws_connection_state \<Rightarrow> connection_state" where
  "connectionStateFromWs WsOpen = LiveConn"
| "connectionStateFromWs WsConnecting = ReconnectingConn"
| "connectionStateFromWs WsReconnecting = ReconnectingConn"
| "connectionStateFromWs WsClosed = OfflineConn"

text \<open>\<open>SchemaDriftBadge\<close>: nothing until a frame was rejected, then the label with the type.\<close>

definition schemaDriftBadge :: "schema_drift \<Rightarrow> string option" where
  "schemaDriftBadge d =
     (if dr_count d = 0 then None
      else Some (''Telemetry schema mismatch''
        @ (case dr_lastType d of None \<Rightarrow> []
           | Some t \<Rightarrow> '' ('' @ (case map_of (map prod.swap frame_types) t of Some s \<Rightarrow> s | None \<Rightarrow> []) @ '')'')))"

section \<open>Lemmas\<close>

definition run_messages :: "'c query_client \<Rightarrow> date_parser \<Rightarrow> bool \<Rightarrow> stream_msg list \<Rightarrow> 'c provider \<Rightarrow> 'c provider" where
  "run_messages qc dp has_raf ms p = fold (provider_message qc dp has_raf) ms p"

fun rejections :: "stream_msg list \<Rightarrow> (frame_type \<times> issue list) list" where
  "rejections [] = []"
| "rejections (RejectedMsg t es # ms) = (t, es) # rejections ms"
| "rejections (_ # ms) = rejections ms"

fun critical_events :: "stream_msg list \<Rightarrow> event_frame list" where
  "critical_events [] = []"
| "critical_events (Delivered (EventFrame f) # ms) =
     (if event_frame.severity f = Critical then f # critical_events ms else critical_events ms)"
| "critical_events (_ # ms) = critical_events ms"

lemmas handler_defs = onTelemetry_def onStatus_def onDrift_def onEvent_def onActiveAlerts_def Let_def

lemma deliver_keeps_drift [simp]: "pv_schemaDrift (deliver qc dp b f p) = pv_schemaDrift p"
  by (cases f) (simp_all add: handler_defs)

lemma drift_run:
  "pv_schemaDrift (run_messages qc dp b ms p) =
     (case rev (rejections ms) of
        [] \<Rightarrow> pv_schemaDrift p
      | (t, es) # _ \<Rightarrow> \<lparr>dr_count = dr_count (pv_schemaDrift p) + length (rejections ms), dr_lastType = Some t,
          dr_lastIssue = Some (case es of i # _ \<Rightarrow> i | [] \<Rightarrow> ''schema mismatch'')\<rparr>)"
proof (induction ms arbitrary: p rule: rejections.induct)
  case (2 t es ms)
  show ?case
    using 2 [of "onFrameRejected t es p"]
    by (cases "rev (rejections ms)") (auto simp: run_messages_def onFrameRejected_def)
qed (simp_all add: run_messages_def split: list.splits)

lemma critical_toast_fields [simp]:
  "ti_variant (critical_toast dp f) = Some CriticalToast" "ti_durationMs (critical_toast dp f) = None"
  "ti_message (critical_toast dp f) = Some (event_frame.message f)"
  by (simp_all add: critical_toast_def eventFrameToEntry_def)

lemma push_one:
  "toasts (fst (push (critical_toast dp f) s)) = toasts s @ [\<lparr>tr_id = toast_id (counter s + 1),
     tr_variant = CriticalToast, tr_title = ti_title (critical_toast dp f),
     tr_message = Some (event_frame.message f), tr_durationMs = None\<rparr>]"
  "pending (fst (push (critical_toast dp f) s)) = pending s"
  "counter (fst (push (critical_toast dp f) s)) = counter s + 1"
  by (simp_all add: push_def Let_def)

lemma toasts_unmoved:
  "(\<And>f. m \<noteq> Delivered (EventFrame f)) \<Longrightarrow> pv_toasts (provider_message qc dp b m p) = pv_toasts p"
proof (cases m)
  case (Delivered k)
  assume "\<And>f. m \<noteq> Delivered (EventFrame f)"
  with Delivered show ?thesis by (cases k) (simp_all add: handler_defs)
qed (simp_all add: onFrameRejected_def)

lemma toasts_run:
  "map tr_message (toasts (pv_toasts (run_messages qc dp b ms p)))
     = map tr_message (toasts (pv_toasts p)) @ map (\<lambda>f. Some (event_frame.message f)) (critical_events ms)
   \<and> pending (pv_toasts (run_messages qc dp b ms p)) = pending (pv_toasts p)"
proof (induction ms arbitrary: p rule: critical_events.induct)
  case (2 f ms)
  show ?case
    using 2(1) [of "onEvent qc dp f p"] 2(2) [of "onEvent qc dp f p"]
    by (simp add: run_messages_def onEvent_def Let_def push_one)
qed (simp_all add: run_messages_def toasts_unmoved del: provider_message.simps)

text \<open>The subscribers of a telemetry frame, each served once, in place.\<close>

lemma subscribers_run_hook:
  "pv_subscribers (onTelemetry qc dp b f p) = map (\<lambda>(i, h). (i, run_hook dp b f h)) (pv_subscribers p)"
  by (simp add: onTelemetry_def Let_def)

section \<open>Properties\<close>

text \<open>
  Schema drift is counted and shown. After any sequence of messages the tally is the
  number of rejected frames, its type and issue are those of the last one, and the top bar
  shows the warning exactly when at least one frame was rejected.
\<close>

theorem drift_tally:
  "let d = pv_schemaDrift (run_messages qc dp b ms (mount_provider c)) in
   dr_count d = length (rejections ms)
   \<and> (rejections ms \<noteq> [] \<longrightarrow> dr_lastType d = Some (fst (last (rejections ms))))
   \<and> (schemaDriftBadge d \<noteq> None \<longleftrightarrow> rejections ms \<noteq> [])"
  by (cases "rejections ms" rule: rev_cases)
    (auto simp: drift_run mount_provider_def NO_DRIFT_def schemaDriftBadge_def Let_def split: prod.splits)

theorem drift_tally_witness:
  "dr_count (pv_schemaDrift (run_messages ref_client (\<lambda>_. Some 0) True
     [RejectedMsg TelemetryType [''unit mismatch'']] (mount_provider []))) = 1"
  using drift_tally [of ref_client "\<lambda>_. Some 0" True "[RejectedMsg TelemetryType [''unit mismatch'']]" "[]"]
  by (simp add: Let_def)

text \<open>
  Every critical event is announced, and nothing else is. Over any sequence of messages
  the provider appends exactly one toast per critical event frame, in order and with the
  event's message, and starts no timer for it, so it stays until acknowledged.
\<close>

theorem critical_events_announced:
  "let p' = run_messages qc dp b ms p in
   map tr_message (toasts (pv_toasts p'))
     = map tr_message (toasts (pv_toasts p)) @ map (\<lambda>f. Some (event_frame.message f)) (critical_events ms)
   \<and> pending (pv_toasts p') = pending (pv_toasts p)"
  using toasts_run by (simp add: Let_def)

end
