(* ===== verification/Derivations.thy ===== *)
theory Derivations
  imports Wire_Types Js_Library
begin

text \<open>
  The pure view-model derivations of \<open>lib/derivations.ts\<close>: reading against setpoint, the
  day/night setpoint, the fleet and alert rollups, the choice between raw and aggregated
  history, the merge of history with the live edge, the alignment of several series on one
  axis, and the soil-moisture status. The locale-dependent formatting of dates is a parameter.
\<close>

section \<open>Reading against setpoint\<close>

datatype direction = Above | Below | Equal | UnknownDirection

record reading_delta =
  rd_delta :: "js_num option"
  rd_direction :: direction

definition readingVsSetpointDelta :: "js_num js_opt \<Rightarrow> js_num js_opt \<Rightarrow> reading_delta" where
  "readingVsSetpointDelta r s =
     (case (nullish r, nullish s) of
        (Some x, Some y) \<Rightarrow>
          (let d = num_sub x y in
           \<lparr>rd_delta = Some d,
            rd_direction = (if num_gt d (Fin 0) then Above else if num_lt d (Fin 0) then Below else Equal)\<rparr>)
      | _ \<Rightarrow> \<lparr>rd_delta = None, rd_direction = UnknownDirection\<rparr>)"

section \<open>Day and night setpoint\<close>

datatype day_label = Day | Night

text \<open>\<open>const [hour, minute] = parts\<close>: a missing element is undefined, which counts as NaN in
  the arithmetic that follows.\<close>

definition nth_num :: "js_num list \<Rightarrow> nat \<Rightarrow> js_num" where
  "nth_num xs i = (if i < length xs then xs ! i else NaN)"

definition parseTimeOfDay :: "string \<Rightarrow> js_num \<times> js_num" where
  "parseTimeOfDay v =
     (let parts = map parse_int (split_on (CHR '':'') v) in (nth_num parts 0, nth_num parts 1))"

definition activeTemperatureSetpoint :: "setpoints \<Rightarrow> date option \<Rightarrow> day_label \<times> js_num" where
  "activeTemperatureSetpoint sp instant =
     (case instant of
        None \<Rightarrow> (Day, setpoints.temperatureDayC sp)
      | Some now \<Rightarrow>
          (let (startHour, startMinute) = parseTimeOfDay (setpoints.dayStart sp);
               (endHour, endMinute) = parseTimeOfDay (setpoints.dayEnd sp);
               nowMinutes = num_add (num_mul (utc_field getUTCHours now) (Fin 60)) (utc_field getUTCMinutes now);
               startMinutes = num_add (num_mul startHour (Fin 60)) startMinute;
               endMinutes = num_add (num_mul endHour (Fin 60)) endMinute;
               isDay = (if num_le startMinutes endMinutes
                        then num_ge nowMinutes startMinutes \<and> num_lt nowMinutes endMinutes
                        else num_ge nowMinutes startMinutes \<or> num_lt nowMinutes endMinutes)
           in if isDay then (Day, setpoints.temperatureDayC sp)
              else (Night, setpoints.temperatureNightC sp)))"

section \<open>Rollups\<close>

record status_rollup =
  sr_total :: nat
  sr_online :: nat
  sr_degraded :: nat
  sr_offline :: nat
  sr_drift :: nat

fun bump_status :: "connectivity \<Rightarrow> status_rollup \<Rightarrow> status_rollup" where
  "bump_status Online r = r\<lparr>sr_online := sr_online r + 1\<rparr>"
| "bump_status Degraded r = r\<lparr>sr_degraded := sr_degraded r + 1\<rparr>"
| "bump_status Offline r = r\<lparr>sr_offline := sr_offline r + 1\<rparr>"

definition statusRollup :: "greenhouse_summary list \<Rightarrow> status_rollup" where
  "statusRollup summaries =
     fold (\<lambda>s r.
         let r1 = bump_status (greenhouse_summary.status s) (r\<lparr>sr_total := sr_total r + 1\<rparr>)
         in if greenhouse_summary.drift s then r1\<lparr>sr_drift := sr_drift r1 + 1\<rparr> else r1)
       summaries
       \<lparr>sr_total = 0, sr_online = 0, sr_degraded = 0, sr_offline = 0, sr_drift = 0\<rparr>"

definition activeFaultCount :: "event_entry list \<Rightarrow> nat" where
  "activeFaultCount events =
     fold (\<lambda>e n. if event_entry.kind e = FaultKind then n + 1 else n) events 0"

record active_alert_rollup =
  ar_alarms :: nat
  ar_warnings :: nat
  ar_affected :: nat
  ar_clear :: int

definition activeAlertRollup :: "active_alert list \<Rightarrow> string list \<Rightarrow> active_alert_rollup" where
  "activeAlertRollup als greenhouseIds =
     (let affected = set_from (map active_alert.greenhouseId als) in
      \<lparr>ar_alarms = length (filter (\<lambda>a. active_alert.severity a = Critical) als),
       ar_warnings = length (filter (\<lambda>a. active_alert.severity a = Warning) als),
       ar_affected = length affected,
       ar_clear = max 0 (int (length greenhouseIds) - int (length affected))\<rparr>)"

section \<open>Raw or aggregated history\<close>

datatype range_tier = RawTier | AggregateTier analytics_interval

record range_tier_options =
  rawThresholdMs :: "js_num option"
  maxBuckets :: "js_num option"

definition INTERVAL_SECONDS :: "(analytics_interval \<times> js_num) list" where
  "INTERVAL_SECONDS =
     [(FiveMin, Fin 300), (FifteenMin, Fin 900), (OneHour, Fin 3600),
      (SixHours, Fin 21600), (OneDay, Fin 86400)]"

definition rangeTierSelection :: "js_num \<Rightarrow> range_tier_options \<Rightarrow> range_tier" where
  "rangeTierSelection rangeMs opts =
     (let thr = case_option (Fin 86400000) id (rawThresholdMs opts);
          mb = case_option (Fin 500) id (maxBuckets opts)
      in if num_le rangeMs thr then RawTier
         else let rangeSeconds = num_div rangeMs (Fin 1000) in
           case find (\<lambda>(i, secs). num_le (num_div rangeSeconds secs) mb) INTERVAL_SECONDS of
             Some (i, secs) \<Rightarrow> AggregateTier i
           | None \<Rightarrow> AggregateTier OneDay)"

section \<open>Series merge and alignment\<close>

record series_point =
  pt_t :: js_num
  pt_v :: js_num

text \<open>\<open>map.set(r.ts.getTime(), r.value)\<close> for each reading in turn, then the entries as points
  in seconds, sorted by time, and cut to the window behind the newest point.\<close>

definition put_reading :: "reading \<Rightarrow> (js_num \<times> js_num) list \<Rightarrow> (js_num \<times> js_num) list" where
  "put_reading r m = AList.update (getTime (reading.ts r)) (reading.val r) m"

definition point_of :: "js_num \<times> js_num \<Rightarrow> series_point" where
  "point_of e = \<lparr>pt_t = num_div (fst e) (Fin 1000), pt_v = snd e\<rparr>"

definition mergeReadings :: "reading list \<Rightarrow> reading list \<Rightarrow> js_num option \<Rightarrow> series_point list" where
  "mergeReadings historical live_edge windowMs =
     (let byMillis = fold put_reading live_edge (fold put_reading historical []);
          points = js_sort (\<lambda>a b. num_sub (pt_t a) (pt_t b)) (map point_of byMillis)
      in case windowMs of
           Some w \<Rightarrow>
             if points \<noteq> []
             then (let cutoff = num_sub (pt_t (last points)) (num_div w (Fin 1000)) in
                   filter (\<lambda>p. num_ge (pt_t p) cutoff) points)
             else points
         | None \<Rightarrow> points)"

definition place_point :: "(js_num \<times> nat) list \<Rightarrow> series_point \<Rightarrow> js_num option list \<Rightarrow> js_num option list" where
  "place_point indexByX p row =
     (case map_of indexByX (pt_t p) of Some i \<Rightarrow> row[i := Some (pt_v p)] | None \<Rightarrow> row)"

definition alignSeries :: "series_point list list \<Rightarrow> js_num list \<times> js_num option list list" where
  "alignSeries seriesList =
     (let xs = js_sort num_sub (set_from (map pt_t (concat seriesList)));
          indexByX = map_from (zip xs [0..<length xs])
      in (xs, map (\<lambda>ps. fold (place_point indexByX) ps (replicate (length xs) None)) seriesList))"

section \<open>Soil moisture\<close>

datatype zone_moisture_status_kind = MOk | MDry | MWet | MWatering | MFault | MUnknown

record zone_moisture_status =
  zm_kind :: zone_moisture_status_kind
  zm_label :: string
  zm_colorVar :: string

record zone_moisture_inputs =
  zi_moistureVwc :: "js_num option"
  zi_lowThreshold :: js_num
  zi_highThreshold :: js_num
  zi_irrigating :: bool
  zi_faulted :: bool

definition zoneMoistureStatus :: "zone_moisture_inputs \<Rightarrow> zone_moisture_status" where
  "zoneMoistureStatus z =
     (if zi_faulted z
      then \<lparr>zm_kind = MFault, zm_label = ''Fault'', zm_colorVar = ''--color-fault''\<rparr>
      else (case zi_moistureVwc z of
        None \<Rightarrow> \<lparr>zm_kind = MUnknown, zm_label = ''No data'', zm_colorVar = ''--color-fg-muted''\<rparr>
      | Some v \<Rightarrow>
          if zi_irrigating z
          then \<lparr>zm_kind = MWatering, zm_label = ''Watering'', zm_colorVar = ''--color-info''\<rparr>
          else if num_lt v (zi_lowThreshold z)
          then \<lparr>zm_kind = MDry, zm_label = ''Dry'', zm_colorVar = ''--color-warning''\<rparr>
          else if num_gt v (zi_highThreshold z)
          then \<lparr>zm_kind = MWet, zm_label = ''Saturated'', zm_colorVar = ''--color-warning''\<rparr>
          else \<lparr>zm_kind = MOk, zm_label = ''OK'', zm_colorVar = ''--color-status-online''\<rparr>))"

definition clamp01 :: "js_num \<Rightarrow> js_num" where
  "clamp01 v = (if num_lt v (Fin 0) then Fin 0 else if num_gt v (Fin 1) then Fin 1 else v)"

definition moistureScalePosition :: "js_num option \<Rightarrow> js_num option" where
  "moistureScalePosition m =
     (case m of None \<Rightarrow> None
      | Some v \<Rightarrow> Some (if num_lt v (Fin 0) then Fin 0 else if num_gt v (Fin 1) then Fin 1 else v))"

record moisture_fill_spans =
  ms_low :: js_num
  ms_high :: js_num
  ms_dry :: js_num
  ms_target :: js_num
  ms_wet :: js_num

definition moistureFillSpans :: "js_num option \<Rightarrow> js_num \<Rightarrow> js_num \<Rightarrow> moisture_fill_spans" where
  "moistureFillSpans m lowThreshold highThreshold =
     (let low = clamp01 lowThreshold;
          high = math_max low (clamp01 highThreshold);
          fill = (case m of None \<Rightarrow> Fin 0 | Some v \<Rightarrow> clamp01 v)
      in \<lparr>ms_low = low, ms_high = high,
          ms_dry = math_min fill low,
          ms_target = math_max (Fin 0) (num_sub (math_min fill high) low),
          ms_wet = math_max (Fin 0) (num_sub fill high)\<rparr>)"

section \<open>Labels\<close>

definition isSameUTCDay :: "date \<Rightarrow> date \<Rightarrow> bool" where
  "isSameUTCDay a b \<longleftrightarrow>
     num_eq (utc_field getUTCFullYear a) (utc_field getUTCFullYear b)
     \<and> num_eq (utc_field (\<lambda>t. int (getUTCMonth t)) a) (utc_field (\<lambda>t. int (getUTCMonth t)) b)
     \<and> num_eq (utc_field getUTCDate a) (utc_field getUTCDate b)"

text \<open>\<open>time_text\<close> and \<open>date_text\<close> are \<open>toLocaleTimeString\<close> and \<open>toLocaleDateString\<close> in UTC.\<close>

definition formatLastWatered ::
    "(date \<Rightarrow> string) \<Rightarrow> (date \<Rightarrow> string) \<Rightarrow> date option \<Rightarrow> date \<Rightarrow> string" where
  "formatLastWatered time_text date_text moment now =
     (case moment of
        None \<Rightarrow> ''Never''
      | Some t \<Rightarrow>
          if isSameUTCDay t now then ''Today, '' @ time_text t
          else date_text t @ '', '' @ time_text t)"

text \<open>\<open>value.split(/[\s-]+/)\<close>: a run of separators is one split point.\<close>

function split_runs :: "(char \<Rightarrow> bool) \<Rightarrow> string \<Rightarrow> string list" where
  "split_runs sep [] = [[]]"
| "split_runs sep (c # cs) =
     (if sep c then [] # split_runs sep (dropWhile sep cs)
      else (case split_runs sep cs of p # ps \<Rightarrow> (c # p) # ps | [] \<Rightarrow> [[c]]))"
  by pat_completeness auto
termination
  by (relation "measure (\<lambda>(sep, cs). length cs)") (auto simp: less_Suc_eq_le length_dropWhile_le)

fun capitalize :: "string \<Rightarrow> string" where
  "capitalize [] = []"
| "capitalize (c # cs) = to_upper c # cs"

definition titleCaseLabel :: "string \<Rightarrow> string" where
  "titleCaseLabel v =
     join_with '' ''
       (map capitalize
         (filter (\<lambda>part. part \<noteq> []) (split_runs (\<lambda>c. is_space c \<or> c = CHR ''-'') v)))"

definition formatZoneLabel :: "string \<Rightarrow> string" where
  "formatZoneLabel v = titleCaseLabel v"

definition formatGreenhouseLabel :: "string \<Rightarrow> string" where
  "formatGreenhouseLabel v = titleCaseLabel v"

definition formatSchedule :: "string \<Rightarrow> string" where
  "formatSchedule s =
     join_with '', '' (filter (\<lambda>time. time \<noteq> []) (map trim (split_on (CHR '','') s)))"

section \<open>Lemmas\<close>

subsection \<open>Merging\<close>

definition valid_readings :: "reading list \<Rightarrow> bool" where
  "valid_readings rs \<longleftrightarrow> (\<forall>r\<in>set rs. \<exists>t. reading.ts r = Some t \<and> valid_ms t)"

text \<open>The value a merge must show at an instant: the last reading of that instant, the live
  ones counted after the historical ones.\<close>

definition latest_at :: "reading list \<Rightarrow> ms \<Rightarrow> js_num option" where
  "latest_at rs t = map_option reading.val (find (\<lambda>r. reading.ts r = Some t) (rev rs))"

lemma fold_put_reading:
  "fold put_reading rs m = fold (\<lambda>(k, v). AList.update k v) (map (\<lambda>r. (getTime (reading.ts r), reading.val r)) rs) m"
  by (induction rs arbitrary: m) (simp_all add: put_reading_def)

lemma merged_entries:
  "fold put_reading l (fold put_reading h []) = map_from (map (\<lambda>r. (getTime (reading.ts r), reading.val r)) (h @ l))"
  by (simp add: fold_put_reading map_from_def)

lemma getTime_eq_iff: "getTime d = num_of_int t \<longleftrightarrow> d = Some t"
  by (cases d) (auto simp: num_of_int_def)

lemma map_of_readings:
  "map_of (map (\<lambda>r. (getTime (reading.ts r), reading.val r)) rs) (num_of_int t)
   = map_option reading.val (find (\<lambda>r. reading.ts r = Some t) rs)"
  by (induction rs) (auto simp: getTime_eq_iff eq_commute [of "num_of_int t"])

lemma map_of_merged:
  "map_of (map_from (map (\<lambda>r. (getTime (reading.ts r), reading.val r)) rs)) (num_of_int t) = latest_at rs t"
  unfolding map_of_map_from rev_map map_of_readings latest_at_def ..

text \<open>A sort by time difference of points at finite times is the library's sort by the time.\<close>

fun fin_of :: "js_num \<Rightarrow> rat" where
  "fin_of (Fin a) = a"
| "fin_of _ = 0"

definition fin_double :: "js_num \<Rightarrow> bool" where
  "fin_double a \<longleftrightarrow> (\<exists>q. a = Fin q \<and> is_double q)"

lemma fin_double_Fin: "fin_double (Fin q) \<longleftrightarrow> is_double q"
  by (auto simp: fin_double_def)

lemma fin_double_cmp:
  "fin_double a \<Longrightarrow> fin_double b \<Longrightarrow> num_lt (Fin 0) (num_sub a b) \<longleftrightarrow> fin_of b < fin_of a"
  by (auto simp: fin_double_def num_sub_pos_iff)

lemma fin_double_lt: "fin_double a \<Longrightarrow> fin_double b \<Longrightarrow> num_lt a b \<longleftrightarrow> fin_of a < fin_of b"
  by (auto simp: fin_double_def)

lemma fin_double_inj: "fin_double a \<Longrightarrow> fin_double b \<Longrightarrow> fin_of a = fin_of b \<Longrightarrow> a = b"
  by (auto simp: fin_double_def)

lemma sort_by_difference:
  assumes "\<And>x. x \<in> set xs \<Longrightarrow> fin_double (f x)"
  shows "js_sort (\<lambda>a b. num_sub (f a) (f b)) xs = sort_key (\<lambda>x. fin_of (f x)) xs"
  using assms by (intro js_sort_sort_key fin_double_cmp) auto

lemma strictly_ascending:
  assumes "\<And>x. x \<in> set xs \<Longrightarrow> fin_double (f x)" "distinct (map f xs)"
  shows "sorted_wrt (\<lambda>a b. num_lt (f a) (f b)) (js_sort (\<lambda>a b. num_sub (f a) (f b)) xs)"
proof -
  let ?ys = "sort_key (\<lambda>x. fin_of (f x)) xs"
  have "distinct (map (\<lambda>x. fin_of (f x)) xs)"
    using assms by (auto simp: distinct_map inj_on_def dest!: fin_double_inj)
  then have "distinct (map (\<lambda>x. fin_of (f x)) ?ys)"
    by (simp add: distinct_map)
  then have "sorted_wrt (<) (map (\<lambda>x. fin_of (f x)) ?ys)"
    by (simp add: strict_sorted_iff)
  then have "sorted_wrt (\<lambda>a b. fin_of (f a) < fin_of (f b)) ?ys"
    by (simp add: sorted_wrt_map)
  then have "sorted_wrt (\<lambda>a b. num_lt (f a) (f b)) ?ys"
    by (rule sorted_wrt_mono_rel [rotated]) (auto simp: assms(1) fin_double_lt)
  then show ?thesis by (simp add: sort_by_difference [where f = f] assms(1))
qed

definition time_key :: "ms \<Rightarrow> js_num" where
  "time_key t = num_div (num_of_int t) (Fin 1000)"

lemma time_key: "valid_ms t \<Longrightarrow> time_key t = Fin (epoch_secs t)"
  by (simp add: time_key_def num_of_int_def epoch_secs_double)

lemma merged_instants:
  assumes "valid_readings rs"
  shows "\<forall>k\<in>fst ` set (map_from (map (\<lambda>r. (getTime (reading.ts r), reading.val r)) rs)).
           \<exists>t. k = num_of_int t \<and> valid_ms t"
proof
  fix k assume "k \<in> fst ` set (map_from (map (\<lambda>r. (getTime (reading.ts r), reading.val r)) rs))"
  then have "k \<in> (\<lambda>r. getTime (reading.ts r)) ` set rs"
    by (simp only: keys_map_from set_map image_image fst_conv)
  with assms show "\<exists>t. k = num_of_int t \<and> valid_ms t"
    by (fastforce simp: valid_readings_def)
qed

text \<open>The merged points before the window is cut.\<close>

definition merged_points :: "reading list \<Rightarrow> series_point list" where
  "merged_points rs = js_sort (\<lambda>a b. num_sub (pt_t a) (pt_t b))
     (map point_of (map_from (map (\<lambda>r. (getTime (reading.ts r), reading.val r)) rs)))"

lemma mergeReadings_points:
  "mergeReadings h l w =
     (let ps = merged_points (h @ l) in
      case w of
        None \<Rightarrow> ps
      | Some x \<Rightarrow> if ps = [] then ps
          else filter (\<lambda>p. num_ge (pt_t p) (num_sub (pt_t (last ps)) (num_div x (Fin 1000)))) ps)"
  unfolding mergeReadings_def merged_points_def merged_entries Let_def
  by (simp split: option.splits)

lemma merged_points_correct:
  assumes "valid_readings rs"
  shows "sorted_wrt (\<lambda>p q. num_lt (pt_t p) (pt_t q)) (merged_points rs)"
    and "set (merged_points rs) = {\<lparr>pt_t = time_key t, pt_v = v\<rparr> | t v. latest_at rs t = Some v}"
    and "\<forall>p\<in>set (merged_points rs). fin_double (pt_t p)"
proof -
  let ?m = "map_from (map (\<lambda>r. (getTime (reading.ts r), reading.val r)) rs)"
  have key: "\<exists>t. k = num_of_int t \<and> valid_ms t" if "(k, v) \<in> set ?m" for k v
    using merged_instants [OF assms] that by force
  have pt: "pt_t (point_of (num_of_int t, v)) = time_key t" for t v
    by (simp add: point_of_def time_key_def)
  show fin: "\<forall>p\<in>set (merged_points rs). fin_double (pt_t p)"
    unfolding merged_points_def using key
    by (force simp: pt time_key fin_double_def epoch_secs_double)
  have "inj_on (\<lambda>e. pt_t (point_of e)) (set ?m)"
  proof (rule inj_onI)
    fix e e' assume e: "e \<in> set ?m" "e' \<in> set ?m" "pt_t (point_of e) = pt_t (point_of e')"
    obtain t t' v v' where t: "e = (num_of_int t, v)" "e' = (num_of_int t', v')" "valid_ms t" "valid_ms t'"
      using e(1,2) key [of "fst e" "snd e"] key [of "fst e'" "snd e'"]
      unfolding prod.collapse by (metis prod.collapse)
    then have "epoch_secs t = epoch_secs t'" using e(3) by (simp add: pt time_key)
    then have "t = t'" using epoch_secs_less_iff t(3,4) by (metis linorder_neqE order_less_irrefl)
    with e t show "e = e'" using distinct_map_from by (metis eq_key_imp_eq_value)
  qed
  then have "distinct (map pt_t (map point_of ?m))"
    using distinct_map_from [THEN distinct_map [THEN iffD1], THEN conjunct1] by (simp add: distinct_map o_def)
  then show "sorted_wrt (\<lambda>p q. num_lt (pt_t p) (pt_t q)) (merged_points rs)"
    using fin unfolding merged_points_def by (intro strictly_ascending) auto
  have "(k, v) \<in> set ?m \<longleftrightarrow> (\<exists>t. k = num_of_int t \<and> latest_at rs t = Some v)" for k v
    using key map_of_merged [of rs] distinct_map_from map_of_eq_Some_iff by metis
  then have "set (map point_of ?m) = {\<lparr>pt_t = time_key t, pt_v = v\<rparr> | t v. latest_at rs t = Some v}"
    by (force simp: point_of_def time_key_def image_iff)
  then show "set (merged_points rs) = {\<lparr>pt_t = time_key t, pt_v = v\<rparr> | t v. latest_at rs t = Some v}"
    by (simp add: merged_points_def)
qed

subsection \<open>Alignment\<close>

lemma index_map:
  assumes "distinct xs"
  shows "map_of (map_from (zip xs [0..<length xs])) x = Some i \<longleftrightarrow> i < length xs \<and> xs ! i = x"
proof -
  have "map_of (map_from (zip xs [0..<length xs])) = map_of (zip xs [0..<length xs])"
    unfolding map_of_map_from by (rule map_of_rev_distinct) (simp add: assms)
  then show ?thesis using assms by (auto simp: map_of_zip_nth in_set_zip dest: map_of_SomeD)
qed

lemma length_place [simp]: "length (place_point idx p row) = length row"
  by (simp add: place_point_def split: option.splits)

lemma length_fold_place [simp]: "length (fold (place_point idx) ps row) = length row"
  by (induction ps arbitrary: row) auto

lemma fold_place_nth:
  assumes "\<And>x i. map_of idx x = Some i \<longleftrightarrow> i < length xs \<and> xs ! i = x" "length row = length xs" "i < length xs"
    and "set (map pt_t ps) \<subseteq> set xs"
  shows "fold (place_point idx) ps row ! i =
     (case find (\<lambda>p. pt_t p = xs ! i) (rev ps) of None \<Rightarrow> row ! i | Some p \<Rightarrow> Some (pt_v p))"
  using assms(4)
proof (induction ps rule: rev_induct)
  case (snoc p ps)
  then obtain j where j: "j < length xs" "xs ! j = pt_t p" by (auto simp: in_set_conv_nth)
  then have m: "map_of idx (pt_t p) = Some j" using assms(1) by blast
  have put: "place_point idx p r = r[j := Some (pt_v p)]" for r
    using m by (simp add: place_point_def)
  show ?case
  proof (cases "i = j")
    case True
    with j assms(2) show ?thesis by (simp add: put)
  next
    case False
    then have "pt_t p \<noteq> xs ! i" using assms(1,3) m by (metis option.inject)
    with False snoc show ?thesis by (simp add: put)
  qed
qed simp

subsection \<open>Clock times\<close>

definition digit :: "char \<Rightarrow> int" where
  "digit c = int (of_char c) - 48"

text \<open>Minutes since midnight of an HH:MM text, and of an instant in UTC.\<close>

fun minutes_of :: "string \<Rightarrow> int" where
  "minutes_of [a, b, _, c, d] = (10 * digit a + digit b) * 60 + (10 * digit c + digit d)"
| "minutes_of _ = 0"

definition utc_minute :: "ms \<Rightarrow> int" where
  "utc_minute t = t div 60000 mod 1440"

lemma parse_two_digits:
  assumes "digit_val a = Some x" "digit_val b = Some y"
  shows "parse_int [a, b] = num_of_int (10 * int x + int y)"
proof -
  have a: "\<not> is_space a" "a \<noteq> CHR ''-''" "a \<noteq> CHR ''+''" and "x < 10" "y < 10"
    using assms by (auto simp: digit_val_def is_space_def split: if_splits)
  then have "is_double (of_int (10 * int x + int y))" by (intro is_double_int) simp
  with a assms show ?thesis
    by (simp add: parse_int_def nat_of_digits_def num_of_int_def)
qed

lemma digit_val_in:
  assumes "char_in (CHR ''0'') hi c" "of_char hi \<le> (57 :: nat)"
  shows "digit_val c = Some (nat (digit c))" "0 \<le> digit c" "digit c \<le> int (of_char hi) - 48"
  using assms by (auto simp: char_in_def digit_val_def digit_def)

lemma colon_not_digit: "digit_val c = Some n \<Longrightarrow> c \<noteq> CHR '':''"
  by (auto simp: digit_val_def)

lemma parse_time_digits:
  assumes "digit_val a = Some x" "digit_val b = Some y" "digit_val c = Some z" "digit_val d = Some w"
  shows "parseTimeOfDay [a, b, CHR '':'', c, d]
    = (num_of_int (10 * int x + int y), num_of_int (10 * int z + int w))"
  using assms [THEN colon_not_digit]
  by (simp add: parseTimeOfDay_def nth_num_def parse_two_digits assms)

lemma parse_time_of_day:
  assumes "is_time_of_day s"
  shows "\<exists>h m. parseTimeOfDay s = (num_of_int h, num_of_int m) \<and> 0 \<le> h \<and> h < 24 \<and> 0 \<le> m \<and> m < 60
      \<and> minutes_of s = h * 60 + m"
proof -
  obtain a b c d where s: "s = [a, b, CHR '':'', c, d]"
    using assms by (cases s rule: is_time_of_day.cases) auto
  have h: "(char_in CHR ''0'' CHR ''1'' a \<and> char_in CHR ''0'' CHR ''9'' b) \<or> (a = CHR ''2'' \<and> char_in CHR ''0'' CHR ''3'' b)"
    and m: "char_in CHR ''0'' CHR ''5'' c" "char_in CHR ''0'' CHR ''9'' d"
    using assms by (simp_all add: s)
  have ab: "digit_val a = Some (nat (digit a))" "digit_val b = Some (nat (digit b))"
    "0 \<le> digit a" "0 \<le> digit b" "10 * digit a + digit b < 24"
    using h digit_val_in [of "CHR ''1''" a] digit_val_in [of "CHR ''9''" b] digit_val_in [of "CHR ''3''" b]
    by (auto simp: digit_val_def digit_def)
  have cd: "digit_val c = Some (nat (digit c))" "digit_val d = Some (nat (digit d))"
    "0 \<le> digit c" "0 \<le> digit d" "10 * digit c + digit d < 60"
    using digit_val_in [OF m(1)] digit_val_in [OF m(2)] by auto
  show ?thesis
    using parse_time_digits [OF ab(1,2) cd(1,2)] ab(3-5) cd(3-5)
    by (intro exI [of _ "10 * digit a + digit b"] exI [of _ "10 * digit c + digit d"]) (simp add: s)
qed

text \<open>Hours and minutes recombine without rounding.\<close>

lemma clock_number:
  assumes "0 \<le> h" "h < 24" "0 \<le> m" "m < 60"
  shows "num_add (num_mul (num_of_int h) (Fin 60)) (num_of_int m) = num_of_int (h * 60 + m)"
proof -
  have "is_double (of_int (h * 60))" "is_double (of_int (h * 60 + m))"
    using assms by (intro is_double_int; simp)+
  then show ?thesis by (simp add: num_of_int_def)
qed

lemma utc_minute_fields: "utc_minute t = getUTCHours t * 60 + getUTCMinutes t"
proof -
  have "t div 3600000 = t div 60000 div 60" by (simp add: zdiv_zmult2_eq [symmetric])
  moreover have "x mod 1440 = x div 60 mod 24 * 60 + x mod 60" for x :: int
    using zmod_zmult2_eq [of 24 x 60] by simp
  ultimately show ?thesis by (simp add: utc_minute_def getUTCHours_def getUTCMinutes_def)
qed

lemma circular_window:
  fixes n s e :: int
  assumes "0 \<le> n" "n < 1440" "0 \<le> s" "s < 1440" "0 \<le> e" "e < 1440"
  shows "(if s \<le> e then s \<le> n \<and> n < e else s \<le> n \<or> n < e) \<longleftrightarrow> (n - s) mod 1440 < (e - s) mod 1440"
proof -
  have up: "(x - s) mod 1440 = x - s" if "s \<le> x" "x < 1440" for x
    using that assms(3) by (intro mod_pos_pos_trivial) auto
  have down: "(x - s) mod 1440 = x - s + 1440" if "x < s" "0 \<le> x" for x
  proof -
    have "(x - s) mod 1440 = (x - s + 1440) mod 1440" by simp
    also have "\<dots> = x - s + 1440" using that assms(4) by (intro mod_pos_pos_trivial) auto
    finally show ?thesis .
  qed
  show ?thesis using up [of n] up [of e] down [of n] down [of e] assms
    by (cases "s \<le> n"; cases "s \<le> e") auto
qed

subsection \<open>Spans of the moisture bar\<close>

lemma math_max_Fin: "math_max (Fin a) (Fin b) = Fin (max a b)"
  and math_min_Fin: "math_min (Fin a) (Fin b) = Fin (min a b)"
  by (simp_all add: max_def min_def)

lemma clamp01_unit:
  assumes "fin_double v" shows "\<exists>q. clamp01 v = Fin q \<and> is_double q \<and> 0 \<le> q \<and> q \<le> 1"
  using assms by (auto simp: clamp01_def fin_double_def)

lemma unit_difference:
  assumes "is_double p" "is_double q" "0 \<le> p" "p \<le> 1" "0 \<le> q" "q \<le> 1" "q \<le> p"
  shows "\<exists>d. fl (p - q) = Fin d \<and> 0 \<le> d \<and> d \<le> 1 \<and> \<bar>d - (p - q)\<bar> \<le> 2 powi (- 53)"
proof -
  have le: "num_le (Fin 0) (fl (p - q))" "num_le (fl (p - q)) (Fin 1)"
    using fl_mono [of 0 "p - q"] fl_mono [of "p - q" 1] assms by auto
  then obtain d where d: "fl (p - q) = Fin d" by (cases "fl (p - q)") auto
  have "\<bar>p - q\<bar> < 2 powi 1" using assms by (simp add: abs_if)
  then have "\<bar>round53 (p - q) - (p - q)\<bar> \<le> 2 powi (1 - 54)" by (rule round53_error) simp
  moreover have "d = round53 (p - q)" using d by (auto simp: fl_def Let_def split: if_splits)
  ultimately show ?thesis using d le by simp
qed

section \<open>Properties\<close>

text \<open>
  C5: merging history with the live edge. For valid dates the merged points are strictly
  ascending in time, and they are exactly one point per instant of either input, carrying the
  last live value of the instant if there is one and the last historical value otherwise;
  division into seconds collapses no two instants.
\<close>

theorem mergeReadings_correct:
  assumes "valid_readings (h @ l)"
  shows "sorted_wrt (\<lambda>p q. num_lt (pt_t p) (pt_t q)) (mergeReadings h l None)
     \<and> set (mergeReadings h l None)
       = {\<lparr>pt_t = time_key t, pt_v = v\<rparr> | t v.
            (case latest_at l t of Some x \<Rightarrow> Some x | None \<Rightarrow> latest_at h t) = Some v}"
proof -
  have "latest_at (h @ l) t = (case latest_at l t of Some x \<Rightarrow> Some x | None \<Rightarrow> latest_at h t)" for t
    by (simp add: latest_at_def find_append split: option.splits)
  then show ?thesis
    using merged_points_correct [OF assms] by (simp add: mergeReadings_points)
qed

theorem mergeReadings_correct_witness:
  "valid_readings [\<lparr>reading.val = Fin 1, ts = Some 1000\<rparr>, \<lparr>reading.val = Fin 2, ts = Some 1000\<rparr>]
   \<and> \<lparr>pt_t = time_key 1000, pt_v = Fin 2\<rparr>
       \<in> set (mergeReadings [\<lparr>reading.val = Fin 1, ts = Some 1000\<rparr>] [\<lparr>reading.val = Fin 2, ts = Some 1000\<rparr>] None)"
proof -
  have v: "valid_readings ([\<lparr>reading.val = Fin 1, ts = Some 1000\<rparr>] @ [\<lparr>reading.val = Fin 2, ts = Some 1000\<rparr>])"
    by (simp add: valid_readings_def valid_ms_def)
  with mergeReadings_correct [OF v] show ?thesis by (simp add: latest_at_def)
qed

text \<open>
  The visible window. With a non-negative window the merge keeps the newest point and
  drops exactly the points that lie before the cutoff behind it, so what remains is still
  strictly ascending.
\<close>

theorem mergeReadings_window:
  assumes "valid_readings (h @ l)" "h @ l \<noteq> []" "0 \<le> w" "is_double w"
  shows "let ps = mergeReadings h l None; kept = mergeReadings h l (Some (Fin w));
             cutoff = num_sub (pt_t (last ps)) (num_div (Fin w) (Fin 1000)) in
         ps \<noteq> [] \<and> last ps \<in> set kept
         \<and> set kept = {p \<in> set ps. num_le cutoff (pt_t p)}
         \<and> sorted_wrt (\<lambda>p q. num_lt (pt_t p) (pt_t q)) kept"
proof -
  let ?ps = "merged_points (h @ l)"
  note m = merged_points_correct [OF assms(1)]
  obtain r where r: "r \<in> set (h @ l)" using assms(2) by (metis list.set_intros(1) neq_Nil_conv)
  then obtain t where t: "reading.ts r = Some t" using assms(1) by (auto simp: valid_readings_def)
  have "latest_at (h @ l) t \<noteq> None"
    using r t unfolding latest_at_def by (auto simp: find_eq_None_iff)
  then obtain v where "latest_at (h @ l) t = Some v" by blast
  then have "\<lparr>pt_t = time_key t, pt_v = v\<rparr> \<in> set ?ps" using m(2) by blast
  then have ne: "?ps \<noteq> []" by auto
  obtain a where a: "pt_t (last ?ps) = Fin a" "is_double a"
    using m(3) ne last_in_set by (auto simp: fin_double_def)
  have "num_le (Fin 0) (fl (w / 1000))" using fl_mono [of 0 "w / 1000"] assms(3) by simp
  then have "num_le (num_sub (Fin a) (num_div (Fin w) (Fin 1000))) (Fin a)"
  proof (cases "fl (w / 1000)")
    case (Fin x)
    then have "num_le (fl (a - x)) (fl a)"
      using \<open>num_le (Fin 0) (fl (w / 1000))\<close> by (intro fl_mono) simp
    with Fin a(2) show ?thesis by (simp add: num_sub_def)
  qed (auto simp: num_sub_def)
  then have "last ?ps \<in> set (filter (\<lambda>p. num_ge (pt_t p) (num_sub (pt_t (last ?ps)) (num_div (Fin w) (Fin 1000)))) ?ps)"
    using ne a(1) by simp
  with ne m(1) show ?thesis
    unfolding mergeReadings_points Let_def option.case if_not_P [OF ne] set_filter
    by (intro conjI sorted_wrt_filter refl) auto
qed

theorem mergeReadings_window_witness:
  "last (mergeReadings [] [\<lparr>reading.val = Fin 2, ts = Some 1000\<rparr>] None)
     \<in> set (mergeReadings [] [\<lparr>reading.val = Fin 2, ts = Some 1000\<rparr>] (Some (Fin 60000)))"
proof -
  have "valid_readings ([] @ [\<lparr>reading.val = Fin 2, ts = Some 1000\<rparr>])"
    by (simp add: valid_readings_def valid_ms_def)
  from mergeReadings_window [OF this, of 60000] show ?thesis unfolding Let_def by simp blast
qed

text \<open>
  Aligning several series on one axis. The shared axis is the strictly ascending union of
  the series' times, every row has one cell per time, and the cell of a series at a time is
  that series' (last) value there, or null where it has no sample.
\<close>

lemma alignSeries_correct:
  assumes "\<forall>ps\<in>set seriesList. \<forall>p\<in>set ps. fin_double (pt_t p)"
  shows "let (xs, ys) = alignSeries seriesList in
         sorted_wrt num_lt xs \<and> set xs = (\<Union>ps\<in>set seriesList. pt_t ` set ps)
         \<and> length ys = length seriesList
         \<and> (\<forall>j<length ys. length (ys ! j) = length xs
             \<and> (\<forall>i<length xs. ys ! j ! i
                  = map_option pt_v (find (\<lambda>p. pt_t p = xs ! i) (rev (seriesList ! j)))))"
proof -
  define xs where "xs = js_sort num_sub (set_from (map pt_t (concat seriesList)))"
  define idx where "idx = map_from (zip xs [0..<length xs])"
  have "sorted_wrt (\<lambda>a b. num_lt (id a) (id b))
      (js_sort (\<lambda>a b. num_sub (id a) (id b)) (set_from (map pt_t (concat seriesList))))"
    using assms by (intro strictly_ascending) auto
  then have asc: "sorted_wrt num_lt xs" by (simp add: xs_def)
  have keys: "set xs = (\<Union>ps\<in>set seriesList. pt_t ` set ps)" by (auto simp: xs_def)
  have "distinct xs"
    unfolding xs_def by (metis distinct_set_from distinct_count_atmost_1 mset_js_sort set_mset_mset)
  note idx = index_map [OF this, folded idx_def]
  have cell: "fold (place_point idx) ps (replicate (length xs) None) ! i
      = map_option pt_v (find (\<lambda>p. pt_t p = xs ! i) (rev ps))"
    if "ps \<in> set seriesList" "i < length xs" for ps i
  proof -
    have "set (map pt_t ps) \<subseteq> set xs" using that(1) keys by auto
    from fold_place_nth [OF idx _ that(2) this, of "replicate (length xs) None"] that(2)
    show ?thesis by (simp split: option.splits)
  qed
  have "alignSeries seriesList = (xs, map (\<lambda>ps. fold (place_point idx) ps (replicate (length xs) None)) seriesList)"
    by (simp add: alignSeries_def xs_def idx_def Let_def)
  then show ?thesis using asc keys cell by simp
qed

text \<open>
  The active temperature setpoint. For day bounds in HH:MM form the day value applies
  exactly in the half-open window that starts at \<open>dayStart\<close> and runs forward, round midnight
  if need be, to \<open>dayEnd\<close>; the night value applies otherwise.
\<close>

theorem activeTemperatureSetpoint_window:
  assumes "is_time_of_day (setpoints.dayStart sp)" "is_time_of_day (setpoints.dayEnd sp)"
  shows "activeTemperatureSetpoint sp (Some (Some t)) =
     (if (utc_minute t - minutes_of (setpoints.dayStart sp)) mod 1440
         < (minutes_of (setpoints.dayEnd sp) - minutes_of (setpoints.dayStart sp)) mod 1440
      then (Day, setpoints.temperatureDayC sp) else (Night, setpoints.temperatureNightC sp))"
proof -
  obtain h m where s: "parseTimeOfDay (setpoints.dayStart sp) = (num_of_int h, num_of_int m)"
    "0 \<le> h" "h < 24" "0 \<le> m" "m < 60" "minutes_of (setpoints.dayStart sp) = h * 60 + m"
    using parse_time_of_day [OF assms(1)] by blast
  obtain h' m' where e: "parseTimeOfDay (setpoints.dayEnd sp) = (num_of_int h', num_of_int m')"
    "0 \<le> h'" "h' < 24" "0 \<le> m'" "m' < 60" "minutes_of (setpoints.dayEnd sp) = h' * 60 + m'"
    using parse_time_of_day [OF assms(2)] by blast
  have cmp: "num_le (num_of_int x) (num_of_int y) \<longleftrightarrow> x \<le> y"
    "num_lt (num_of_int x) (num_of_int y) \<longleftrightarrow> x < y" for x y
    by (simp_all add: num_of_int_def)
  have now: "num_add (num_mul (utc_field getUTCHours (Some t)) (Fin 60)) (utc_field getUTCMinutes (Some t))
      = num_of_int (utc_minute t)"
    by (simp add: clock_number utc_minute_fields)
  have n: "0 \<le> utc_minute t" "utc_minute t < 1440" by (simp_all add: utc_minute_def)
  have w: "(if h * 60 + m \<le> h' * 60 + m' then h * 60 + m \<le> utc_minute t \<and> utc_minute t < h' * 60 + m'
            else h * 60 + m \<le> utc_minute t \<or> utc_minute t < h' * 60 + m')
      \<longleftrightarrow> (utc_minute t - (h * 60 + m)) mod 1440 < (h' * 60 + m' - (h * 60 + m)) mod 1440"
    using n s(2-5) e(2-5) by (intro circular_window) auto
  show ?thesis
    unfolding activeTemperatureSetpoint_def option.case s(1) e(1) Let_def prod.case now
      clock_number [OF s(2-5)] clock_number [OF e(2-5)] cmp s(6) e(6) w ..
qed

theorem activeTemperatureSetpoint_window_witness:
  "\<exists>sp. is_time_of_day (setpoints.dayStart sp) \<and> is_time_of_day (setpoints.dayEnd sp)
     \<and> minutes_of (setpoints.dayEnd sp) < minutes_of (setpoints.dayStart sp)
     \<and> activeTemperatureSetpoint sp (Some (Some (23 * 3600000))) = (Day, Fin 24)"
proof -
  let ?sp = "\<lparr>setpoints.temperatureDayC = Fin 24, temperatureNightC = Fin 18, dayStart = ''22:00'',
    dayEnd = ''06:00'', humidityLowPct = Fin 50, humidityHighPct = Fin 70, humidityDeadbandPct = Fin 5,
    co2TargetPpm = Fin 800, co2VentInterlockThresholdPct = Fin 30, vpdTargetKpa = Fin 1,
    dliTargetMol = Fin 17, zones = []\<rparr>"
  have t: "is_time_of_day (setpoints.dayStart ?sp)" "is_time_of_day (setpoints.dayEnd ?sp)"
    by (simp_all add: char_in_def)
  have "activeTemperatureSetpoint ?sp (Some (Some (23 * 3600000))) = (Day, Fin 24)"
    unfolding activeTemperatureSetpoint_window [OF t] by (simp add: utc_minute_def digit_def)
  with t show ?thesis by (intro exI [of _ ?sp]) (simp add: digit_def)
qed

text \<open>
  The choice of history tier. Raw telemetry is used exactly up to the threshold; beyond
  it the chosen interval is the finest of the table whose bucket count stays within the
  bound, and the coarsest one if none does.
\<close>

theorem rangeTierSelection_optimal:
  "let thr = case_option (Fin 86400000) id (rawThresholdMs opts);
       bound = case_option (Fin 500) id (maxBuckets opts);
       fits = (\<lambda>k. num_le (num_div (num_div r (Fin 1000)) (snd (INTERVAL_SECONDS ! k))) bound) in
   case rangeTierSelection r opts of
     RawTier \<Rightarrow> num_le r thr
   | AggregateTier i \<Rightarrow> \<not> num_le r thr
       \<and> (\<exists>k<5. i = fst (INTERVAL_SECONDS ! k) \<and> (\<forall>j<k. \<not> fits j) \<and> (fits k \<or> k = 4))"
proof (cases "num_le r (case_option (Fin 86400000) id (rawThresholdMs opts))")
  case True
  then show ?thesis by (simp add: rangeTierSelection_def Let_def)
next
  case False
  define bound where "bound = case_option (Fin 500) id (maxBuckets opts)"
  define fits where "fits = (\<lambda>e :: analytics_interval \<times> js_num. num_le (num_div (num_div r (Fin 1000)) (snd e)) bound)"
  have sel: "rangeTierSelection r opts
      = (case find fits INTERVAL_SECONDS of Some e \<Rightarrow> AggregateTier (fst e) | None \<Rightarrow> AggregateTier OneDay)"
    using False unfolding rangeTierSelection_def Let_def fits_def bound_def
    by (simp add: case_prod_beta' split: option.splits)
  have len: "length INTERVAL_SECONDS = 5" and last: "fst (INTERVAL_SECONDS ! 4) = OneDay"
    by (simp_all add: INTERVAL_SECONDS_def)
  have "\<exists>i. rangeTierSelection r opts = AggregateTier i \<and> (\<exists>k<5. i = fst (INTERVAL_SECONDS ! k)
      \<and> (\<forall>j<k. \<not> fits (INTERVAL_SECONDS ! j)) \<and> (fits (INTERVAL_SECONDS ! k) \<or> k = 4))"
  proof (cases "find fits INTERVAL_SECONDS")
    case None
    then have "\<forall>j<5. \<not> fits (INTERVAL_SECONDS ! j)" unfolding find_None_iff by (metis len nth_mem)
    with None sel last show ?thesis
      by (intro exI [of _ OneDay] conjI exI [of _ 4]) auto
  next
    case (Some e)
    with sel len show ?thesis by (auto simp: find_Some_iff)
  qed
  then obtain i where i: "rangeTierSelection r opts = AggregateTier i" "\<exists>k<5. i = fst (INTERVAL_SECONDS ! k)
      \<and> (\<forall>j<k. \<not> fits (INTERVAL_SECONDS ! j)) \<and> (fits (INTERVAL_SECONDS ! k) \<or> k = 4)" by blast
  show ?thesis
    using False i(2) unfolding Let_def i(1) range_tier.case fits_def bound_def by blast
qed

theorem rangeTierSelection_optimal_witness:
  "rangeTierSelection (Fin 60000) \<lparr>rawThresholdMs = None, maxBuckets = None\<rparr> = RawTier"
  using rangeTierSelection_optimal [of "\<lparr>rawThresholdMs = None, maxBuckets = None\<rparr>" "Fin 60000"]
  by (simp add: Let_def split: range_tier.splits)

text \<open>
  C6: the moisture bar. For finite thresholds the bands are ordered inside the unit scale,
  each coloured span lies inside its band's width, and the three spans together are the
  clamped reading up to one rounding of the last place (2 to the minus 52).
\<close>

theorem moistureFillSpans_partition:
  assumes "fin_double lo" "fin_double hi" "\<forall>v. m = Some v \<longrightarrow> fin_double v"
  shows "let s = moistureFillSpans m lo hi; fill = (case m of None \<Rightarrow> 0 | Some v \<Rightarrow> fin_of (clamp01 v)) in
     \<exists>l h d t w. s = \<lparr>ms_low = Fin l, ms_high = Fin h, ms_dry = Fin d, ms_target = Fin t, ms_wet = Fin w\<rparr>
       \<and> 0 \<le> l \<and> l \<le> h \<and> h \<le> 1 \<and> 0 \<le> d \<and> d \<le> l \<and> 0 \<le> t \<and> t \<le> 1 \<and> 0 \<le> w \<and> w \<le> 1
       \<and> (fill \<le> l \<longrightarrow> t = 0) \<and> (fill \<le> h \<longrightarrow> w = 0)
       \<and> \<bar>d + t + w - fill\<bar> \<le> 2 powi (- 52)"
proof -
  obtain l where l: "clamp01 lo = Fin l" "is_double l" "0 \<le> l" "l \<le> 1" using clamp01_unit assms(1) by blast
  obtain h' where h': "clamp01 hi = Fin h'" "is_double h'" "0 \<le> h'" "h' \<le> 1" using clamp01_unit assms(2) by blast
  obtain f where f: "(case m of None \<Rightarrow> Fin 0 | Some v \<Rightarrow> clamp01 v) = Fin f" "is_double f" "0 \<le> f" "f \<le> 1"
  proof (cases m)
    case (Some v)
    then show ?thesis using that clamp01_unit [of v] assms(3) by auto
  qed (use that [of 0] in simp)
  have fill: "(case m of None \<Rightarrow> 0 | Some v \<Rightarrow> fin_of (clamp01 v)) = f"
    using f(1) by (cases m) auto
  define h where "h = max l h'"
  have h: "is_double h" "l \<le> h" "h \<le> 1" using l h' by (auto simp: h_def max_def)
  have span: "\<exists>t. math_max (Fin 0) (num_sub (Fin x) (Fin y)) = Fin t \<and> 0 \<le> t \<and> t \<le> 1
      \<and> (x \<le> y \<longrightarrow> t = 0) \<and> \<bar>t - max 0 (x - y)\<bar> \<le> 2 powi (- 53)"
    if "is_double x" "is_double y" "0 \<le> x" "x \<le> 1" "0 \<le> y" "y \<le> 1" for x y
  proof (cases "x \<le> y")
    case True
    then have "num_le (fl (x - y)) (Fin 0)" using fl_mono [of "x - y" 0] by simp
    then have "math_max (Fin 0) (num_sub (Fin x) (Fin y)) = Fin 0"
      by (cases "fl (x - y)") (auto simp: num_sub_def)
    with True show ?thesis by simp
  next
    case False
    with unit_difference [OF that] show ?thesis by (auto simp: num_sub_def)
  qed
  obtain t where t: "math_max (Fin 0) (num_sub (Fin (min f h)) (Fin l)) = Fin t" "0 \<le> t" "t \<le> 1"
      "min f h \<le> l \<longrightarrow> t = 0" "\<bar>t - max 0 (min f h - l)\<bar> \<le> 2 powi (- 53)"
  proof -
    have "is_double (min f h)" "0 \<le> min f h" "min f h \<le> 1" using f h l by (auto simp: min_def)
    from span [OF this(1) l(2) this(2,3) l(3,4)] show ?thesis using that by blast
  qed
  obtain w where w: "math_max (Fin 0) (num_sub (Fin f) (Fin h)) = Fin w" "0 \<le> w" "w \<le> 1"
      "f \<le> h \<longrightarrow> w = 0" "\<bar>w - max 0 (f - h)\<bar> \<le> 2 powi (- 53)"
  proof -
    have "0 \<le> h" using h l by simp
    from span [OF f(2) h(1) f(3,4) this h(3)] show ?thesis using that by blast
  qed
  have s: "moistureFillSpans m lo hi = \<lparr>ms_low = Fin l, ms_high = Fin h, ms_dry = Fin (min f l), ms_target = Fin t, ms_wet = Fin w\<rparr>"
    unfolding moistureFillSpans_def Let_def f(1) l(1) h'(1) math_max_Fin [of l h'] h_def [symmetric]
      math_min_Fin t(1) w(1) ..
  have sum: "\<bar>min f l + t + w - f\<bar> \<le> 2 powi (- 53) + 2 powi (- 53)"
  proof -
    define e :: rat where "e = 2 powi (- 53)"
    have "0 \<le> e" by (simp add: e_def)
    with t(4,5) w(4,5) h(2) show ?thesis
      unfolding e_def [symmetric] by (cases "f \<le> l"; cases "f \<le> h") auto
  qed
  have "(2 powi (- 53) + 2 powi (- 53) :: rat) = 2 powi (- 52)" by (simp add: power_int_def power_divide)
  with sum have "\<bar>min f l + t + w - f\<bar> \<le> 2 powi (- 52)" by simp
  moreover have "0 \<le> min f l" "min f l \<le> l" "f \<le> l \<longrightarrow> t = 0" using f l t(4) by (auto simp: min_def)
  ultimately show ?thesis
    unfolding Let_def fill s using l(3) h(2,3) t(2,3) w(2-4) by blast
qed

theorem moistureFillSpans_partition_witness:
  "\<exists>l h d t w. moistureFillSpans (Some (Fin (1/2))) (Fin (1/4)) (Fin (3/4))
     = \<lparr>ms_low = Fin l, ms_high = Fin h, ms_dry = Fin d, ms_target = Fin t, ms_wet = Fin w\<rparr> \<and> w = 0"
proof -
  have d: "is_double (1/4)" "is_double (3/4)" "is_double (1/2)"
    using is_double_dyadic [of 1 2] is_double_dyadic [of 3 2] is_double_dyadic [of 1 1] by simp_all
  then have "fin_double (Fin (1/4))" "fin_double (Fin (3/4))"
    "\<forall>v. Some (Fin (1/2)) = Some v \<longrightarrow> fin_double v"
    by (simp_all add: fin_double_Fin)
  from moistureFillSpans_partition [OF this] show ?thesis
    unfolding Let_def by (auto simp: moistureFillSpans_def clamp01_def Let_def num_sub_def fl_double)
qed

end
