(* ===== verification/Api_Client.thy ===== *)
theory Api_Client
  imports Wire_Types Js_Library
begin

text \<open>
  The REST client (\<open>api/client.ts\<close>) with the token holder (\<open>api/authToken.ts\<close>) and the retry
  policy (\<open>api/retryPolicy.ts\<close>). The browser's \<open>fetch\<close> is a parameter that answers a request
  with a network failure or a response: a status and a body, \<open>None\<close> when the body is not
  JSON. \<open>safeParse\<close> is the parameter \<open>sp\<close>. The module state is the token, whether an
  unauthorized handler is registered, and how often it was invoked.
\<close>

section \<open>Errors\<close>

datatype api_error_kind = ValidationErr | NotFoundErr | UnavailableErr | ClientErr | ServerErr | NetworkErr | ParseErr

record validation_detail =
  vd_field :: string
  vd_bound :: string
  vd_value :: jsval

record api_error =
  ae_kind :: api_error_kind
  ae_message :: string
  ae_status :: "int option"
  ae_validation :: "validation_detail option"

text \<open>A thrown value: an \<open>ApiError\<close>, or anything else.\<close>

datatype thrown = ApiError api_error | OtherThrown

fun getHttpStatus :: "thrown \<Rightarrow> int option" where
  "getHttpStatus (ApiError e) = ae_status e"
| "getHttpStatus OtherThrown = None"

definition errorKindForStatus :: "int \<Rightarrow> api_error_kind" where
  "errorKindForStatus st =
     (if st = 404 then NotFoundErr
      else if st = 503 then UnavailableErr
      else if st \<ge> 500 then ServerErr
      else ClientErr)"

section \<open>Requests\<close>

datatype http_method = GET | POST | PUT | PATCH | DELETE

record http_request =
  rq_url :: string
  rq_method :: http_method
  rq_headers :: "(string \<times> string) list"
  rq_body :: "jsval option"

record http_response =
  rs_status :: int
  rs_json :: "jsval option"

datatype fetch_result = NetworkFailure | Response http_response

type_synonym browser_fetch = "http_request \<Rightarrow> fetch_result"
type_synonym schema_parser = "zod \<Rightarrow> jsval \<Rightarrow> issue list + jsval"

record auth_module =
  accessToken :: "string option"
  unauthorizedHandler :: bool
  unauthorizedCalls :: nat

definition setAccessToken :: "string option \<Rightarrow> auth_module \<Rightarrow> auth_module" where
  "setAccessToken t m = m\<lparr>accessToken := t\<rparr>"

definition getAccessToken :: "auth_module \<Rightarrow> string option" where
  "getAccessToken m = accessToken m"

definition setUnauthorizedHandler :: "bool \<Rightarrow> auth_module \<Rightarrow> auth_module" where
  "setUnauthorizedHandler h m = m\<lparr>unauthorizedHandler := h\<rparr>"

definition handleUnauthorized :: "auth_module \<Rightarrow> auth_module" where
  "handleUnauthorized m =
     (if unauthorizedHandler m then m\<lparr>unauthorizedCalls := unauthorizedCalls m + 1\<rparr> else m)"

text \<open>\<open>url(path)\<close>; \<open>base\<close> is the deployment's \<open>VITE_API_BASE ?? ""\<close>.\<close>

definition url :: "string \<Rightarrow> string \<Rightarrow> string" where
  "url base path = base @ ''/api'' @ path"

definition build_request :: "string \<Rightarrow> string \<Rightarrow> http_method \<Rightarrow> jsval option \<Rightarrow> auth_module \<Rightarrow> http_request" where
  "build_request base path meth body m =
     (let h0 = (if body \<noteq> None then [(''Content-Type'', ''application/json'')] else []);
          h1 = (case getAccessToken m of
                  Some t \<Rightarrow> if t \<noteq> [] then h0 @ [(''Authorization'', ''Bearer '' @ t)] else h0
                | None \<Rightarrow> h0)
      in \<lparr>rq_url = url base path, rq_method = meth, rq_headers = h1, rq_body = body\<rparr>)"

text \<open>A string field of parsed data.\<close>

fun js_text :: "jsval \<Rightarrow> string" where
  "js_text (JStr s) = s"
| "js_text _ = []"

definition parseError :: "schema_parser \<Rightarrow> http_response \<Rightarrow> api_error" where
  "parseError sp r =
     (let st = rs_status r;
          payload = (case rs_json r of Some v \<Rightarrow> v | None \<Rightarrow> JUndef);
          generic = (case sp wireErrorBody payload of
              Inr d \<Rightarrow> js_text (jprop d ''error'')
            | Inl _ \<Rightarrow> ''request failed with status '' @ int_string st);
          fallback = \<lparr>ae_kind = errorKindForStatus st, ae_message = generic,
                      ae_status = Some st, ae_validation = None\<rparr>
      in if st = 422
         then (case sp wireValidationError payload of
             Inr d \<Rightarrow> \<lparr>ae_kind = ValidationErr, ae_message = js_text (jprop d ''error''), ae_status = Some st,
                       ae_validation = Some \<lparr>vd_field = js_text (jprop d ''field''), vd_bound = js_text (jprop d ''bound''),
                                             vd_value = jprop d ''value''\<rparr>\<rparr>
           | Inl _ \<Rightarrow> fallback)
         else fallback)"

definition response_ok :: "http_response \<Rightarrow> bool" where
  "response_ok r \<longleftrightarrow> 200 \<le> rs_status r \<and> rs_status r \<le> 299"

definition local_error :: "api_error_kind \<Rightarrow> string \<Rightarrow> api_error" where
  "local_error k msg = \<lparr>ae_kind = k, ae_message = msg, ae_status = None, ae_validation = None\<rparr>"

definition rawFetch ::
    "schema_parser \<Rightarrow> browser_fetch \<Rightarrow> string \<Rightarrow> string \<Rightarrow> http_method \<Rightarrow> jsval option \<Rightarrow> auth_module
      \<Rightarrow> (api_error + http_response) \<times> auth_module" where
  "rawFetch sp fetch base path meth body m =
     (case fetch (build_request base path meth body m) of
        NetworkFailure \<Rightarrow> (Inl (local_error NetworkErr ''could not reach the platform API''), m)
      | Response r \<Rightarrow>
          if \<not> response_ok r
          then (let m1 = (if rs_status r = 401 then handleUnauthorized m else m) in (Inl (parseError sp r), m1))
          else (Inr r, m))"

definition requestJson ::
    "schema_parser \<Rightarrow> browser_fetch \<Rightarrow> string \<Rightarrow> string \<Rightarrow> zod \<Rightarrow> http_method \<Rightarrow> jsval option \<Rightarrow> auth_module
      \<Rightarrow> (api_error + jsval) \<times> auth_module" where
  "requestJson sp fetch base path schema meth body m =
     (case rawFetch sp fetch base path meth body m of
        (Inl e, m1) \<Rightarrow> (Inl e, m1)
      | (Inr r, m1) \<Rightarrow>
          (case rs_json r of
             None \<Rightarrow> (Inl (local_error ParseErr ''response body was not valid JSON''), m1)
           | Some v \<Rightarrow>
               (case sp schema v of
                  Inl issues \<Rightarrow> (Inl (local_error ParseErr ''response did not match the contract''), m1)
                | Inr d \<Rightarrow> (Inr d, m1))))"

definition api_get where "api_get sp fetch base path schema m = requestJson sp fetch base path schema GET None m"
definition api_post where
  "api_post sp fetch base path body schema m = requestJson sp fetch base path schema POST (Some body) m"
definition api_put where
  "api_put sp fetch base path body schema m = requestJson sp fetch base path schema PUT (Some body) m"
definition api_patch where
  "api_patch sp fetch base path body schema m = requestJson sp fetch base path schema PATCH (Some body) m"

definition api_delete ::
    "schema_parser \<Rightarrow> browser_fetch \<Rightarrow> string \<Rightarrow> string \<Rightarrow> auth_module \<Rightarrow> (api_error + unit) \<times> auth_module" where
  "api_delete sp fetch base path m =
     (case rawFetch sp fetch base path DELETE None m of
        (Inl e, m1) \<Rightarrow> (Inl e, m1) | (Inr r, m1) \<Rightarrow> (Inr (), m1))"

section \<open>Retry policy\<close>

definition shouldRetryQuery :: "nat \<Rightarrow> thrown \<Rightarrow> bool" where
  "shouldRetryQuery failureCount err =
     (if failureCount \<ge> 1 then False
      else (case err of ApiError e \<Rightarrow> ae_kind e = NetworkErr | OtherThrown \<Rightarrow> False))"

text \<open>\<open>rand\<close> is the value of \<open>Math.random()\<close>, in the half-open unit interval.\<close>

definition queryRetryDelay :: "nat \<Rightarrow> js_num \<Rightarrow> js_num" where
  "queryRetryDelay attemptIndex rand =
     num_add (math_min (num_mul (Fin 1000) (num_pow2 attemptIndex)) (Fin 30000)) (num_mul rand (Fin 250))"

section \<open>Lemmas\<close>

lemma ZString_iff: "conforms ZString v \<longleftrightarrow> (\<exists>s. v = JStr s)"
  by (cases v) auto

lemma jprop_string_object: "jprop v k = JStr s \<Longrightarrow> \<exists>ps. v = JObj ps"
  by (cases v) auto

lemma conforms_optional_unknown: "conforms (ZOptional ZUnknown) v"
  by simp

lemma conforms_validation_iff:
  "conforms wireValidationError v \<longleftrightarrow>
     (\<exists>e f b. jprop v ''error'' = JStr e \<and> jprop v ''field'' = JStr f \<and> jprop v ''bound'' = JStr b)"
  unfolding wireValidationError_def conforms_ZObject
  by (auto simp: ZString_iff conforms_optional_unknown dest: jprop_string_object simp del: jprop.simps conforms.simps)

lemma conforms_errorBody_iff: "conforms wireErrorBody v \<longleftrightarrow> (\<exists>e. jprop v ''error'' = JStr e)"
  unfolding wireErrorBody_def conforms_ZObject
  by (auto simp: ZString_iff dest: jprop_string_object simp del: jprop.simps conforms.simps)

lemma project_validation [simp]:
  "jprop (project wireValidationError v) ''error'' = jprop v ''error''"
  "jprop (project wireValidationError v) ''field'' = jprop v ''field''"
  "jprop (project wireValidationError v) ''bound'' = jprop v ''bound''"
  "jprop (project wireValidationError v) ''value'' = jprop v ''value''"
  unfolding wireValidationError_def by (simp_all add: jprop_project del: project.simps(11))

lemma project_errorBody [simp]: "jprop (project wireErrorBody v) ''error'' = jprop v ''error''"
  unfolding wireErrorBody_def by (simp add: jprop_project del: project.simps(11))

lemma case_three_strings:
  assumes "\<And>e f b. t \<Longrightarrow> x = JStr e \<Longrightarrow> y = JStr f \<Longrightarrow> z \<noteq> JStr b"
  shows "(case (t, x, y, z) of (True, JStr e, JStr f, JStr b) \<Rightarrow> g e f b | (_, err, _, _) \<Rightarrow> h err) = h x"
  using assms by (cases t; (simp; fail)?; cases x; (simp; fail)?; cases y; (simp; fail)?; cases z; simp)

text \<open>The error made of a failure response, in terms of the fields of its body.\<close>

lemma parseError_value:
  assumes "zod_package sp" and attr: "attr = (\<lambda>k. case rs_json r of Some v \<Rightarrow> jprop v k | None \<Rightarrow> JUndef)"
  shows "parseError sp r = (case (rs_status r = 422, attr ''error'', attr ''field'', attr ''bound'') of
      (True, JStr e, JStr f, JStr b) \<Rightarrow>
        \<lparr>ae_kind = ValidationErr, ae_message = e, ae_status = Some (rs_status r),
         ae_validation = Some \<lparr>vd_field = f, vd_bound = b, vd_value = attr ''value''\<rparr>\<rparr>
    | (_, err, _, _) \<Rightarrow>
        \<lparr>ae_kind = errorKindForStatus (rs_status r),
         ae_message = (case err of JStr e \<Rightarrow> e | _ \<Rightarrow> ''request failed with status '' @ int_string (rs_status r)),
         ae_status = Some (rs_status r), ae_validation = None\<rparr>)" (is "_ = (case _ of (True, JStr e, JStr f, JStr b) \<Rightarrow> ?val e f b | (_, err, _, _) \<Rightarrow> ?other err)")
proof -
  define p where "p = (case rs_json r of Some v \<Rightarrow> v | None \<Rightarrow> JUndef)"
  have at: "attr k = jprop p k" for k unfolding attr p_def by (cases "rs_json r") auto
  note accepts = zod_package.accepts [OF assms(1)] and rejects = zod_package.rejects [OF assms(1)]
  show ?thesis
  proof (cases "rs_status r = 422 \<and> conforms wireValidationError p")
    case True
    then obtain e f b where "attr ''error'' = JStr e" "attr ''field'' = JStr f" "attr ''bound'' = JStr b"
      unfolding at conforms_validation_iff by blast
    with True show ?thesis by (simp add: parseError_def accepts Let_def p_def [symmetric] at [symmetric])
  next
    case False
    have "ae_message (parseError sp r) = (case attr ''error'' of JStr e \<Rightarrow> e
        | _ \<Rightarrow> ''request failed with status '' @ int_string (rs_status r))"
    proof (cases "conforms wireErrorBody p")
      case True
      then obtain e where "attr ''error'' = JStr e" unfolding at conforms_errorBody_iff by blast
      with True False rejects [of wireValidationError p] show ?thesis
        by (auto simp: parseError_def accepts Let_def p_def [symmetric] at [symmetric])
    next
      case nobody: False
      then have "attr ''error'' \<noteq> JStr e" for e unfolding at conforms_errorBody_iff by blast
      then have "(case attr ''error'' of JStr e \<Rightarrow> e | _ \<Rightarrow> ''request failed with status '' @ int_string (rs_status r))
          = ''request failed with status '' @ int_string (rs_status r)" by (cases "attr ''error''") auto
      with nobody False rejects [of wireValidationError p] rejects [of wireErrorBody p] show ?thesis
        by (auto simp: parseError_def Let_def p_def [symmetric])
    qed
    moreover have "ae_kind (parseError sp r) = errorKindForStatus (rs_status r)" "ae_status (parseError sp r) = Some (rs_status r)"
      "ae_validation (parseError sp r) = None"
      using False rejects [of wireValidationError p] by (auto simp: parseError_def Let_def p_def [symmetric] split: sum.splits)
    ultimately have "parseError sp r = ?other (attr ''error'')" by simp
    moreover have "attr ''bound'' \<noteq> JStr b" if "rs_status r = 422" "attr ''error'' = JStr e" "attr ''field'' = JStr f" for e f b
      using that False unfolding at conforms_validation_iff by blast
    ultimately show ?thesis by (subst case_three_strings) auto
  qed
qed

section \<open>Properties\<close>

text \<open>
  C13: every outcome of a request is classified. A request that never completes is a network
  error without a status. A status of 200 to 299 returns the data the schema makes of a
  conforming body and is a parse error otherwise. Any other status is carried by the error: a
  422 whose body names an error, a field and a bound is a validation error with just these and
  the offending value; every other failure is not-found for 404, unavailable for 503, a server
  error from 500 on and a client error below, with the error text of the body as its message,
  or the status where the body has none. Only a network error is ever retried, and only after
  the first failure.
\<close>

theorem requestJson_outcome:
  assumes "zod_package sp"
  shows "let req = build_request base path meth body m; res = fst (requestJson sp fetch base path schema meth body m) in
     (case fetch req of
        NetworkFailure \<Rightarrow> res = Inl \<lparr>ae_kind = NetworkErr, ae_message = ''could not reach the platform API'',
            ae_status = None, ae_validation = None\<rparr>
      | Response r \<Rightarrow>
          (let st = rs_status r; attr = (\<lambda>k. case rs_json r of Some v \<Rightarrow> jprop v k | None \<Rightarrow> JUndef) in
          if 200 \<le> st \<and> st \<le> 299
          then res = (case rs_json r of
              Some v \<Rightarrow> if conforms schema v then Inr (project schema v)
                        else Inl \<lparr>ae_kind = ParseErr, ae_message = ''response did not match the contract'',
                                  ae_status = None, ae_validation = None\<rparr>
            | None \<Rightarrow> Inl \<lparr>ae_kind = ParseErr, ae_message = ''response body was not valid JSON'',
                           ae_status = None, ae_validation = None\<rparr>)
          else res = Inl (case (st = 422, attr ''error'', attr ''field'', attr ''bound'') of
              (True, JStr e, JStr f, JStr b) \<Rightarrow>
                \<lparr>ae_kind = ValidationErr, ae_message = e, ae_status = Some st,
                 ae_validation = Some \<lparr>vd_field = f, vd_bound = b, vd_value = attr ''value''\<rparr>\<rparr>
            | (_, err, _, _) \<Rightarrow>
                \<lparr>ae_kind = (if st = 404 then NotFoundErr else if st = 503 then UnavailableErr
                            else if 500 \<le> st then ServerErr else ClientErr),
                 ae_message = (case err of JStr e \<Rightarrow> e | _ \<Rightarrow> ''request failed with status '' @ int_string st),
                 ae_status = Some st, ae_validation = None\<rparr>)))
     \<and> (\<forall>n e. res = Inl e \<longrightarrow> (shouldRetryQuery n (ApiError e) \<longleftrightarrow> n = 0 \<and> fetch req = NetworkFailure))"
proof -
  let ?req = "build_request base path meth body m"
  let ?res = "fst (requestJson sp fetch base path schema meth body m)"
  note accepts = zod_package.accepts [OF assms] and rejects = zod_package.rejects [OF assms]
  show ?thesis
  proof (cases "fetch ?req")
    case NetworkFailure
    then show ?thesis by (simp add: requestJson_def rawFetch_def local_error_def shouldRetryQuery_def Let_def)
  next
    case (Response r)
    show ?thesis
    proof (cases "response_ok r")
      case False
      then have res: "?res = Inl (parseError sp r)" using Response by (simp add: requestJson_def rawFetch_def Let_def)
      have "ae_kind (parseError sp r) \<noteq> NetworkErr"
        by (simp add: parseError_def errorKindForStatus_def Let_def split: sum.splits)
      moreover have nok: "\<not> (200 \<le> rs_status r \<and> rs_status r \<le> 299)" using False by (simp add: response_ok_def)
      ultimately show ?thesis
        unfolding Let_def Response fetch_result.case if_not_P [OF nok] res
        by (intro conjI arg_cong [where f = Inl] parseError_value [OF assms refl, of r, unfolded errorKindForStatus_def])
          (simp add: shouldRetryQuery_def)
    next
      case True
      then have res: "?res = (case rs_json r of None \<Rightarrow> Inl (local_error ParseErr ''response body was not valid JSON'')
          | Some v \<Rightarrow> (case sp schema v of Inl _ \<Rightarrow> Inl (local_error ParseErr ''response did not match the contract'') | Inr d \<Rightarrow> Inr d))"
        using Response by (simp add: requestJson_def rawFetch_def split: option.splits sum.splits)
      note ok = True [unfolded response_ok_def]
      show ?thesis
      proof (cases "rs_json r")
        case None
        then show ?thesis using ok Response unfolding Let_def res by (simp add: local_error_def shouldRetryQuery_def)
      next
        case (Some v)
        then show ?thesis
          using ok Response accepts [of schema v] rejects [of schema v] unfolding Let_def res
          by (cases "conforms schema v") (auto simp: local_error_def shouldRetryQuery_def)
      qed
    qed
  qed
qed

theorem requestJson_outcome_witness:
  "fst (requestJson reference_parse (\<lambda>_. Response \<lparr>rs_status = 200, rs_json = Some (JObj [(''error'', JStr ''x'')])\<rparr>)
      [] ''/greenhouses'' wireErrorBody GET None
      \<lparr>accessToken = None, unauthorizedHandler = False, unauthorizedCalls = 0\<rparr>)
   = Inr (project wireErrorBody (JObj [(''error'', JStr ''x'')]))"
  using requestJson_outcome [OF ref.zod_package_axioms, of "[]" "''/greenhouses''" GET None
      "\<lparr>accessToken = None, unauthorizedHandler = False, unauthorizedCalls = 0\<rparr>"
      "\<lambda>_. Response \<lparr>rs_status = 200, rs_json = Some (JObj [(''error'', JStr ''x'')])\<rparr>" wireErrorBody]
  by (simp add: Let_def response_ok_def wireErrorBody_def)

text \<open>
  C14: authentication of requests. A request carries the bearer token exactly when a non-empty
  token is held, and a content type exactly when it has a body; the unauthorized handler runs
  once for a 401 answer when it is registered and never otherwise, and nothing a request does
  changes the token.
\<close>

theorem request_authentication:
  "let req = build_request base path meth body m; m' = snd (requestJson sp fetch base path schema meth body m) in
   (map_of (rq_headers req) ''Authorization''
      = (case accessToken m of Some t \<Rightarrow> if t \<noteq> [] then Some (''Bearer '' @ t) else None | None \<Rightarrow> None))
   \<and> (''Content-Type'' \<in> fst ` set (rq_headers req) \<longleftrightarrow> body \<noteq> None)
   \<and> accessToken m' = accessToken m
   \<and> unauthorizedCalls m' = unauthorizedCalls m
       + (if unauthorizedHandler m \<and> (\<exists>r. fetch req = Response r \<and> rs_status r = 401) then 1 else 0)"
proof -
  have "response_ok r \<Longrightarrow> rs_status r \<noteq> 401" for r by (simp add: response_ok_def)
  moreover have "snd (requestJson sp fetch base path schema meth body m) = snd (rawFetch sp fetch base path meth body m)"
    by (simp add: requestJson_def split: prod.splits sum.splits option.splits)
  ultimately show ?thesis
    unfolding Let_def rawFetch_def
    by (cases "fetch (build_request base path meth body m)"; cases "accessToken m")
      (simp_all add: build_request_def getAccessToken_def handleUnauthorized_def)
qed

text \<open>
  The retry delay stays between one second and 30.25 seconds for every attempt and every
  random jitter.
\<close>

theorem queryRetryDelay_bounds:
  assumes "is_double r" "0 \<le> r" "r < 1"
  shows "num_le (Fin 1000) (queryRetryDelay n (Fin r)) \<and> num_le (queryRetryDelay n (Fin r)) (Fin 30250)"
proof -
  let ?b = "math_min (num_mul (Fin 1000) (num_pow2 n)) (Fin 30000)"
  have lower: "num_le (num_mul (Fin 1000) (num_pow2 0)) (num_mul (Fin 1000) (num_pow2 n))"
    by (rule scaled_mono) simp_all
  then have l: "num_le (Fin 1000) (num_mul (Fin 1000) (num_pow2 n))" by (simp add: num_pow2_def)
  then have "num_mul (Fin 1000) (num_pow2 n) \<noteq> NaN" by auto
  with l have b: "num_le (Fin 1000) ?b" "num_le ?b (Fin 30000)"
    using math_min_glb [of "Fin 1000"] math_min_le by auto
  then obtain x where x: "?b = Fin x" "1000 \<le> x" "x \<le> 30000" by (cases ?b) auto
  have j: "num_le (Fin 0) (fl (r * 250))" "num_le (fl (r * 250)) (Fin 250)"
    using fl_mono [of 0 "r * 250"] fl_mono [of "r * 250" 250] assms(2,3) by auto
  then obtain y where y: "fl (r * 250) = Fin y" "0 \<le> y" "y \<le> 250" by (cases "fl (r * 250)") auto
  have "num_le (fl 1000) (fl (x + y))" "num_le (fl (x + y)) (fl 30250)"
    using x(2,3) y(2,3) by (intro fl_mono; simp)+
  then show ?thesis by (simp only: queryRetryDelay_def x(1) num_mul.simps y(1) num_add.simps) simp
qed

theorem queryRetryDelay_bounds_witness:
  "num_le (Fin 1000) (queryRetryDelay 3 (Fin 0))"
  using queryRetryDelay_bounds [of 0 3] by simp

end
