(* ===== verification/Optimizer_Console.thy ===== *)
theory Optimizer_Console
  imports Optimizer_Wire Api_Client "HOL-Library.Product_Lexorder"
begin

text \<open>
  The optimizer console's view logic: reason codes (\<open>features/optimizer/reasonCodes.ts\<close>), the
  card state, triage order, setpoint diff and cycle age (\<open>derivations.ts\<close>), the pipeline
  tracker (\<open>pipeline.ts\<close>) and the messages of failed actions (\<open>errors.ts\<close>). Characters
  outside ASCII are their UTF-8 bytes.
\<close>

section \<open>Reason codes\<close>

definition REASON_CODES :: "reason_code \<Rightarrow> reason_class \<times> string" where
  "REASON_CODES c = (case c of
     InputStale \<Rightarrow> (Transient, ''Input telemetry is stale (freshness miss).'')
   | InputIncomplete \<Rightarrow> (Transient, ''Input telemetry is incomplete (a required metric is missing).'')
   | SensorFault \<Rightarrow> (Transient, ''A required sensor is faulted or degraded.'')
   | ActuatorFault \<Rightarrow> (Transient, ''An actuator is stuck or not responding.'')
   | ClockModeUnsupported \<Rightarrow> (Transient, ''The greenhouse is running off real-time (time-scale ''
       @ [CHR 0xE2, CHR 0x89, CHR 0xA0] @ '' 1'' @ [CHR 0xC3, CHR 0x97] @ '').'')
   | ContractDrift \<Rightarrow> (Persistent, ''Identity or schema-version mismatch with the platform.'')
   | TwinDiverged \<Rightarrow> (Transient, ''The digital twin diverged (a non-finite / out-of-envelope step).'')
   | TwinFidelityFault \<Rightarrow> (Persistent, ''Sustained twin parameter drift (a fidelity fault).'')
   | ConstraintViolation \<Rightarrow> (Persistent, ''A proposed target is out of crop-safe range, or the bundle is inconsistent.'')
   | LowConfidence \<Rightarrow> (Transient, ''Plan confidence fell below the auto-apply threshold.'')
   | BoundsMismatch \<Rightarrow> (Persistent, ''The platform rejected the write '' @ [CHR 0xE2, CHR 0x80, CHR 0x94]
       @ '' a bounds disagreement (422).'')
   | WriteUnauthorized \<Rightarrow> (Persistent, ''The platform rejected the write '' @ [CHR 0xE2, CHR 0x80, CHR 0x94]
       @ '' missing/invalid credentials (401/403).'')
   | PlatformUnavailable \<Rightarrow> (Transient, ''The platform REST API was unreachable (transport failure / timeout / 5xx).'')
   | CycleTimeout \<Rightarrow> (Transient, ''The cycle overran its timeout and was abandoned.'')
   | LlmUnavailable \<Rightarrow> (Transient, ''The LLM backend was unreachable (no response) and no fallback is configured.'')
   | PlanUnparseable \<Rightarrow> (Transient, ''The LLM backend responded, but its output could not be parsed into a valid plan.'')
   | InternalError \<Rightarrow> (Transient, ''An unexpected fault interrupted the cycle; it was surfaced rather than lost.''))"

definition reasonClassForCode :: "reason_code \<Rightarrow> reason_class" where
  "reasonClassForCode c = fst (REASON_CODES c)"

definition DEGRADED_REASONS :: "degraded_reason \<Rightarrow> string" where
  "DEGRADED_REASONS r = (case r of
     PlatformUnreachable \<Rightarrow> ''The platform (Phase 2) is unreachable.''
   | LlmUnreachable \<Rightarrow> ''The LLM backend is unreachable.''
   | CycleStalled \<Rightarrow> ''Enabled, but no successful cycle within the expected cadence.''
   | ColdStart \<Rightarrow> ''Enabled, but no successful cycle yet.'')"

section \<open>Card state\<close>

datatype optimizer_card_state =
    ReadOnlyCard
  | DisabledCard
  | NoPlanCard
  | OutcomeCard optimizer_outcome_status "reason_code option"

definition toOptimizerCardState :: "fleet_optimizer_greenhouse option \<Rightarrow> bool \<Rightarrow> optimizer_card_state" where
  "toOptimizerCardState entry serviceEnabled =
     (if \<not> serviceEnabled then ReadOnlyCard
      else case entry of
        None \<Rightarrow> NoPlanCard
      | Some g \<Rightarrow>
          if \<not> fleet_optimizer_greenhouse.enabled g then DisabledCard
          else (case fleet_optimizer_greenhouse.status g of
                  None \<Rightarrow> NoPlanCard
                | Some st \<Rightarrow> OutcomeCard st (fleet_optimizer_greenhouse.reasonCode g)))"

section \<open>Triage order\<close>

text \<open>\<open>a || b\<close> on numbers: zero and NaN are falsy.\<close>

definition num_or :: "js_num \<Rightarrow> js_num \<Rightarrow> js_num" where
  "num_or a b = (if a = Fin 0 \<or> a = NaN then b else a)"

definition esc_rank :: "escalation \<Rightarrow> js_num" where
  "esc_rank e = (if escalation.reasonClass e = Persistent then Fin 0 else Fin 1)"

definition compareEscalations :: "escalation \<Rightarrow> escalation \<Rightarrow> js_num" where
  "compareEscalations a b =
     num_or (num_sub (esc_rank a) (esc_rank b))
       (num_sub (getTime (escalation.createdAt a)) (getTime (escalation.createdAt b)))"

definition sortEscalationsByTriage :: "escalation list \<Rightarrow> escalation list" where
  "sortEscalationsByTriage es = js_sort compareEscalations es"

definition fleet_rank :: "fleet_optimizer_greenhouse \<Rightarrow> js_num" where
  "fleet_rank g = (case fleet_optimizer_greenhouse.reasonCode g of
      Some c \<Rightarrow> if reasonClassForCode c = Persistent then Fin 0 else Fin 1
    | None \<Rightarrow> Fin 1)"

definition fleet_age :: "fleet_optimizer_greenhouse \<Rightarrow> js_num" where
  "fleet_age g = (case fleet_optimizer_greenhouse.createdAt g of Some d \<Rightarrow> getTime d | None \<Rightarrow> PosInf)"

definition compareFleetTriage :: "fleet_optimizer_greenhouse \<Rightarrow> fleet_optimizer_greenhouse \<Rightarrow> js_num" where
  "compareFleetTriage a b =
     num_or (num_sub (fleet_rank a) (fleet_rank b)) (num_sub (fleet_age a) (fleet_age b))"

section \<open>Setpoint diff\<close>

definition NEAR_BOUND_FRACTION :: js_num where
  "NEAR_BOUND_FRACTION = fl (1 / 20)"

definition isNearBound :: "js_num \<Rightarrow> field_bound \<Rightarrow> bool" where
  "isNearBound v b =
     (let range = num_sub (field_bound.max_v b) (field_bound.min_v b) in
      if num_le range (Fin 0) then num_le v (field_bound.min_v b) \<or> num_ge v (field_bound.max_v b)
      else let margin = num_mul range NEAR_BOUND_FRACTION in
        num_le v (num_add (field_bound.min_v b) margin) \<or> num_ge v (num_sub (field_bound.max_v b) margin))"

datatype diff_direction = Up | Down | SameDirection

record setpoint_diff_row =
  sdr_field :: string
  sdr_label :: string
  sdr_unit :: string
  sdr_current :: js_num
  sdr_proposed :: js_num
  sdr_direction :: diff_direction
  sdr_nearBound :: bool
  sdr_bound :: "field_bound option"

record diff_field =
  df_wireKey :: string
  df_proposed :: "setpoints_patch \<Rightarrow> js_num option"
  df_current :: "setpoints \<Rightarrow> js_num"
  df_label :: string
  df_unit :: string

definition degree_c :: string where "degree_c = [CHR 0xC2, CHR 0xB0, CHR ''C'']"
definition co2_text :: string where "co2_text = ''CO'' @ [CHR 0xE2, CHR 0x82, CHR 0x82]"

definition DIFF_FIELDS :: "diff_field list" where
  "DIFF_FIELDS =
     [\<lparr>df_wireKey = ''temperature_day_c'', df_proposed = setpoints_patch.temperatureDayC,
       df_current = setpoints.temperatureDayC, df_label = ''Temp (day)'', df_unit = degree_c\<rparr>,
      \<lparr>df_wireKey = ''temperature_night_c'', df_proposed = setpoints_patch.temperatureNightC,
       df_current = setpoints.temperatureNightC, df_label = ''Temp (night)'', df_unit = degree_c\<rparr>,
      \<lparr>df_wireKey = ''humidity_low_pct'', df_proposed = setpoints_patch.humidityLowPct,
       df_current = setpoints.humidityLowPct, df_label = ''Humidity low'', df_unit = ''%''\<rparr>,
      \<lparr>df_wireKey = ''humidity_high_pct'', df_proposed = setpoints_patch.humidityHighPct,
       df_current = setpoints.humidityHighPct, df_label = ''Humidity high'', df_unit = ''%''\<rparr>,
      \<lparr>df_wireKey = ''humidity_deadband_pct'', df_proposed = setpoints_patch.humidityDeadbandPct,
       df_current = setpoints.humidityDeadbandPct, df_label = ''Humidity deadband'', df_unit = ''%''\<rparr>,
      \<lparr>df_wireKey = ''co2_target_ppm'', df_proposed = setpoints_patch.co2TargetPpm,
       df_current = setpoints.co2TargetPpm, df_label = co2_text @ '' target'', df_unit = ''ppm''\<rparr>,
      \<lparr>df_wireKey = ''co2_vent_interlock_threshold_pct'', df_proposed = setpoints_patch.co2VentInterlockThresholdPct,
       df_current = setpoints.co2VentInterlockThresholdPct, df_label = co2_text @ '' vent interlock'', df_unit = ''%''\<rparr>,
      \<lparr>df_wireKey = ''vpd_target_kpa'', df_proposed = setpoints_patch.vpdTargetKpa,
       df_current = setpoints.vpdTargetKpa, df_label = ''VPD target'', df_unit = ''kPa''\<rparr>,
      \<lparr>df_wireKey = ''dli_target_mol'', df_proposed = setpoints_patch.dliTargetMol,
       df_current = setpoints.dliTargetMol, df_label = ''DLI target'', df_unit = ''mol''\<rparr>]"

definition setpointDiffRows :: "setpoint_diff \<Rightarrow> setpoint_diff_row list" where
  "setpointDiffRows d =
     fold (\<lambda>f rows.
       case df_proposed f (setpoint_diff.proposed d) of
         None \<Rightarrow> rows
       | Some p \<Rightarrow>
           (let cur = df_current f (setpoint_diff.current d);
                b = setpoint_diff.bounds d (df_wireKey f);
                dir = (if num_gt p cur then Up else if num_lt p cur then Down else SameDirection)
            in rows @ [\<lparr>sdr_field = df_wireKey f, sdr_label = df_label f, sdr_unit = df_unit f,
                        sdr_current = cur, sdr_proposed = p, sdr_direction = dir,
                        sdr_nearBound = (case b of Some x \<Rightarrow> isNearBound p x | None \<Rightarrow> False),
                        sdr_bound = b\<rparr>]))
       DIFF_FIELDS []"

section \<open>Cycle age\<close>

record cycle_age =
  ca_ageSecs :: "js_num option"
  ca_stale :: bool

definition lastCycleAge :: "optimizer_status \<Rightarrow> date \<Rightarrow> cycle_age" where
  "lastCycleAge s now =
     (case optimizer_status.lastSuccessfulCycleAt s of
        None \<Rightarrow> \<lparr>ca_ageSecs = None, ca_stale = False\<rparr>
      | Some at0 \<Rightarrow>
          (let age = math_max (Fin 0) (math_round (num_div (num_sub (getTime now) (getTime at0)) (Fin 1000))) in
           \<lparr>ca_ageSecs = Some age,
            ca_stale = (optimizer_status.enabled s \<and> num_gt age (optimizer_status.cadenceSecs s))\<rparr>))"

text \<open>Durations are whole seconds.\<close>

definition formatDurationSecs :: "int \<Rightarrow> string" where
  "formatDurationSecs n =
     (if n < 60 then int_string n @ ''s''
      else let minutes = n div 60 in
        if minutes < 60
        then (let remSecs = n mod 60 in
          if remSecs \<noteq> 0 then int_string minutes @ ''m '' @ int_string remSecs @ ''s'' else int_string minutes @ ''m'')
        else (let hours = minutes div 60; remMins = minutes mod 60 in
          if remMins \<noteq> 0 then int_string hours @ ''h '' @ int_string remMins @ ''m'' else int_string hours @ ''h''))"

section \<open>Pipeline tracker\<close>

datatype pipeline_node_state = NodeDone | NodeActive | NodeFailed | NodeHeld | NodeUnchanged | NodePending | NodeIdle

record pipeline_node =
  pn_stage :: cycle_stage
  pn_label :: string
  pn_state :: pipeline_node_state
  pn_message :: "string option"

definition CYCLE_STAGES :: "(cycle_stage \<times> string) list" where
  "CYCLE_STAGES =
     [(Ingest, ''Ingest''), (QualityGate, ''Quality Gate''), (Forecast, ''Forecast''),
      (Plan, ''Plan''), (Constrain, ''Constrain''), (Publish, ''Publish'')]"

text \<open>The index map is built from the list; a later entry for the same stage would win.\<close>

definition STAGE_INDEX :: "cycle_stage \<Rightarrow> nat" where
  "STAGE_INDEX st = the (map_of (map_from (zip (map fst CYCLE_STAGES) [0..<length CYCLE_STAGES])) st)"

definition STAGE_FOR_REASON_CODE :: "reason_code \<Rightarrow> cycle_stage" where
  "STAGE_FOR_REASON_CODE c = (case c of
     ContractDrift \<Rightarrow> Ingest | PlatformUnavailable \<Rightarrow> Ingest
   | InputStale \<Rightarrow> QualityGate | InputIncomplete \<Rightarrow> QualityGate | SensorFault \<Rightarrow> QualityGate
   | ActuatorFault \<Rightarrow> QualityGate | ClockModeUnsupported \<Rightarrow> QualityGate
   | TwinDiverged \<Rightarrow> Forecast | TwinFidelityFault \<Rightarrow> Forecast
   | LlmUnavailable \<Rightarrow> Plan | PlanUnparseable \<Rightarrow> Plan | CycleTimeout \<Rightarrow> Plan | InternalError \<Rightarrow> Plan
   | ConstraintViolation \<Rightarrow> Constrain | LowConfidence \<Rightarrow> Constrain
   | BoundsMismatch \<Rightarrow> Publish | WriteUnauthorized \<Rightarrow> Publish)"

definition idleTrack :: "pipeline_node list" where
  "idleTrack = map (\<lambda>(st, lab). \<lparr>pn_stage = st, pn_label = lab, pn_state = NodeIdle, pn_message = None\<rparr>) CYCLE_STAGES"

definition is_outcome :: "optimizer_card_state \<Rightarrow> bool" where
  "is_outcome c \<longleftrightarrow> (case c of OutcomeCard st r \<Rightarrow> True | _ \<Rightarrow> False)"

definition outcome_is :: "optimizer_outcome_status \<Rightarrow> optimizer_card_state \<Rightarrow> bool" where
  "outcome_is st c \<longleftrightarrow> (case c of OutcomeCard st' r \<Rightarrow> st' = st | _ \<Rightarrow> False)"

definition pipelineStages ::
    "fleet_optimizer_greenhouse option \<Rightarrow> optimizer_card_state \<Rightarrow> string option \<Rightarrow> pipeline_node list" where
  "pipelineStages entry cardState outcomeMessage =
     (let inFl = (case entry of Some g \<Rightarrow> fleet_optimizer_greenhouse.inFlight g | None \<Rightarrow> False) in
      if \<not> inFl \<and> \<not> is_outcome cardState then idleTrack
      else
        let stageFromReason = (case cardState of OutcomeCard st (Some r) \<Rightarrow> Some (STAGE_FOR_REASON_CODE r) | _ \<Rightarrow> None);
            entryStage = (case entry of Some g \<Rightarrow> fleet_optimizer_greenhouse.currentStage g | None \<Rightarrow> None);
            activeStage = (case entryStage of Some st \<Rightarrow> Some st | None \<Rightarrow> stageFromReason)
        in case activeStage of
          None \<Rightarrow> idleTrack
        | Some st \<Rightarrow>
            (let k = STAGE_INDEX st;
                 appliedComplete = (\<not> inFl \<and> outcome_is Applied cardState);
                 marker = (if inFl then NodeActive
                           else if outcome_is Failed cardState then NodeFailed
                           else if outcome_is Held cardState then NodeHeld
                           else NodeUnchanged)
             in map (\<lambda>(i, sl, lab).
                  let ns = (if i < k then NodeDone else if i > k then NodePending
                            else if appliedComplete then NodeDone else marker)
                  in \<lparr>pn_stage = sl, pn_label = lab, pn_state = ns,
                      pn_message = (if i = k \<and> ns \<in> {NodeFailed, NodeHeld, NodeUnchanged} then outcomeMessage else None)\<rparr>)
                (enumerate 0 CYCLE_STAGES)))"

section \<open>Failed actions\<close>

text \<open>\<open>OtherThrown\<close> stands for a thrown value that is not an \<open>Error\<close> with a message.\<close>

definition optimizerActionError :: "thrown \<Rightarrow> string \<Rightarrow> string" where
  "optimizerActionError err fallback =
     (if getHttpStatus err = Some 409 then ''The optimizer is paused or already planning this greenhouse.''
      else if getHttpStatus err = Some 400 then ''That model isn'' @ [CHR 0x27] @ ''t in the current provider'' @ [CHR 0x27] @ ''s allowlist.''
      else (case err of
          ApiError e \<Rightarrow>
            if ae_kind e = UnavailableErr then ''The optimizer is unavailable right now.''
            else if ae_message e \<noteq> [] then ae_message e else fallback
        | OtherThrown \<Rightarrow> fallback))"

section \<open>Lemmas\<close>

text \<open>The order the comparators mean: persistent before transient, then older before newer,
  an entry that never cycled last.\<close>

definition esc_key :: "escalation \<Rightarrow> nat \<times> int" where
  "esc_key e = (if escalation.reasonClass e = Persistent then 0 else 1, the (escalation.createdAt e))"

definition esc_dated :: "escalation \<Rightarrow> bool" where
  "esc_dated e \<longleftrightarrow> (\<exists>t. escalation.createdAt e = Some t \<and> valid_ms t)"

definition fleet_key_of :: "fleet_optimizer_greenhouse \<Rightarrow> nat \<times> nat \<times> int" where
  "fleet_key_of g =
     (case fleet_optimizer_greenhouse.reasonCode g of
        Some c \<Rightarrow> if reasonClassForCode c = Persistent then 0 else 1 | None \<Rightarrow> 1,
      case fleet_optimizer_greenhouse.createdAt g of Some d \<Rightarrow> (0, the d) | None \<Rightarrow> (1, 0))"

definition fleet_dated :: "fleet_optimizer_greenhouse \<Rightarrow> bool" where
  "fleet_dated g \<longleftrightarrow> (\<forall>d. fleet_optimizer_greenhouse.createdAt g = Some d \<longrightarrow> (\<exists>t. d = Some t \<and> valid_ms t))"

lemma valid_ms_double: "valid_ms t \<Longrightarrow> is_double (of_int t)"
  by (rule is_double_int) (simp add: valid_ms_def)

lemma date_difference:
  assumes "valid_ms a" "valid_ms b"
  shows "num_lt (Fin 0) (num_sub (num_of_int a) (num_of_int b)) \<longleftrightarrow> b < a"
  using num_sub_pos_iff(1) [OF valid_ms_double [OF assms(1)] valid_ms_double [OF assms(2)]]
  by (simp add: num_of_int_def)

lemma small_differences:
  "num_sub (Fin 0) (Fin 0) = Fin 0" "num_sub (Fin 1) (Fin 1) = Fin 0"
  "num_sub (Fin 0) (Fin 1) = Fin (- 1)" "num_sub (Fin 1) (Fin 0) = Fin 1"
  using is_double_int [of "- 1"] by (simp_all add: num_sub_def)

lemma compareEscalations_key:
  assumes "esc_dated a" "esc_dated b"
  shows "num_lt (Fin 0) (compareEscalations a b) \<longleftrightarrow> esc_key b < esc_key a"
proof -
  obtain s t where "escalation.createdAt a = Some s" "valid_ms s" "escalation.createdAt b = Some t" "valid_ms t"
    using assms by (auto simp: esc_dated_def)
  then show ?thesis
    by (auto simp: compareEscalations_def esc_rank_def esc_key_def num_or_def small_differences date_difference less_prod_def)
qed

lemma fleet_age_difference:
  assumes "fleet_dated a" "fleet_dated b"
  shows "num_lt (Fin 0) (num_sub (fleet_age a) (fleet_age b))
    \<longleftrightarrow> snd (fleet_key_of b) < snd (fleet_key_of a)"
proof (cases "fleet_optimizer_greenhouse.createdAt a")
  case None
  then show ?thesis
    using assms(2) by (cases "fleet_optimizer_greenhouse.createdAt b")
      (auto simp: fleet_age_def fleet_key_of_def fleet_dated_def num_sub_def num_of_int_def less_prod_def)
next
  case (Some d)
  then obtain s where s: "d = Some s" "valid_ms s" using assms(1) by (auto simp: fleet_dated_def)
  show ?thesis
  proof (cases "fleet_optimizer_greenhouse.createdAt b")
    case None
    then show ?thesis using Some s
      by (simp add: fleet_age_def fleet_key_of_def num_sub_def num_of_int_def less_prod_def)
  next
    case (Some e)
    then obtain t where "e = Some t" "valid_ms t" using assms(2) by (auto simp: fleet_dated_def)
    then show ?thesis using Some s \<open>fleet_optimizer_greenhouse.createdAt a = Some d\<close>
      by (simp add: fleet_age_def fleet_key_of_def date_difference less_prod_def)
  qed
qed

lemma compareFleetTriage_key:
  assumes "fleet_dated a" "fleet_dated b"
  shows "num_lt (Fin 0) (compareFleetTriage a b) \<longleftrightarrow> fleet_key_of b < fleet_key_of a"
proof -
  have r: "fleet_rank g = (if fst (fleet_key_of g) = 0 then Fin 0 else Fin 1)" "fst (fleet_key_of g) \<le> 1" for g
    by (simp_all add: fleet_rank_def fleet_key_of_def split: option.splits)
  have "fleet_key_of b < fleet_key_of a \<longleftrightarrow>
      fst (fleet_key_of b) < fst (fleet_key_of a)
      \<or> (fst (fleet_key_of b) = fst (fleet_key_of a) \<and> snd (fleet_key_of b) < snd (fleet_key_of a))"
    by (auto simp: less_prod_def)
  then show ?thesis
    using r(2) [of a] r(2) [of b] fleet_age_difference [OF assms]
    by (auto simp: compareFleetTriage_def r(1) num_or_def small_differences)
qed

section \<open>Properties\<close>

text \<open>
  C15: the triage order. For valid dates both worklists come out as permutations sorted by the
  contract's order: persistent codes first, oldest first within a class, never-cycled entries
  last; entries that tie keep their order.
\<close>

theorem triage_sorted:
  assumes "\<forall>e\<in>set es. esc_dated e" "\<forall>g\<in>set gs. fleet_dated g"
  shows "mset (sortEscalationsByTriage es) = mset es
     \<and> sorted_wrt (\<lambda>a b. esc_key a \<le> esc_key b) (sortEscalationsByTriage es)
     \<and> filter (\<lambda>e. esc_key e = k) (sortEscalationsByTriage es) = filter (\<lambda>e. esc_key e = k) es
     \<and> mset (js_sort compareFleetTriage gs) = mset gs
     \<and> sorted_wrt (\<lambda>a b. fleet_key_of a \<le> fleet_key_of b) (js_sort compareFleetTriage gs)
     \<and> filter (\<lambda>g. fleet_key_of g = j) (js_sort compareFleetTriage gs) = filter (\<lambda>g. fleet_key_of g = j) gs"
proof -
  have e: "sortEscalationsByTriage es = sort_key esc_key es"
    unfolding sortEscalationsByTriage_def using assms(1) by (intro js_sort_sort_key compareEscalations_key) auto
  have g: "js_sort compareFleetTriage gs = sort_key fleet_key_of gs"
    using assms(2) by (intro js_sort_sort_key compareFleetTriage_key) auto
  have "sorted (map esc_key (sort_key esc_key es))" "sorted (map fleet_key_of (sort_key fleet_key_of gs))"
    by simp_all
  then show ?thesis unfolding e g by (simp add: sorted_map sort_key_stable)
qed

abbreviation example_escalation :: "reason_class \<Rightarrow> int \<Rightarrow> escalation" where
  "example_escalation c t \<equiv> \<lparr>escalation.ident = ''e'', greenhouseId = ''gh-a'', optimizerRunId = ''r'', reasonCode = InputStale,
     reasonClass = c, createdAt = Some t, message = None, resolution = None\<rparr>"

theorem triage_sorted_witness:
  "sorted_wrt (\<lambda>a b. esc_key a \<le> esc_key b)
     (sortEscalationsByTriage [example_escalation Transient 1, example_escalation Persistent 5])"
proof -
  have "\<forall>e\<in>set [example_escalation Transient 1, example_escalation Persistent 5]. esc_dated e"
    by (simp add: esc_dated_def valid_ms_def)
  from triage_sorted [OF this, of "[]"] show ?thesis by simp
qed

text \<open>
  The pipeline tracker. It always has the six stages in order; either all are idle, or
  there is one stage before which every node is done and after which every node is pending,
  active exactly when the cycle is in flight; a message sits only on that stage, and only
  when the cycle is settled without having been applied.
\<close>

theorem pipeline_track:
  "let ns = pipelineStages entry cs msg;
       inFl = (case entry of Some g \<Rightarrow> fleet_optimizer_greenhouse.inFlight g | None \<Rightarrow> False) in
   map pn_stage ns = [Ingest, QualityGate, Forecast, Plan, Constrain, Publish]
   \<and> ((\<forall>n\<in>set ns. pn_state n = NodeIdle \<and> pn_message n = None)
      \<or> (\<exists>k<6. (\<forall>i<k. pn_state (ns ! i) = NodeDone) \<and> (\<forall>i<6. k < i \<longrightarrow> pn_state (ns ! i) = NodePending)
           \<and> (pn_state (ns ! k) = NodeActive \<longleftrightarrow> inFl)
           \<and> (pn_state (ns ! k) = NodeDone \<longleftrightarrow> \<not> inFl \<and> outcome_is Applied cs)
           \<and> (\<forall>i<6. pn_message (ns ! i) \<noteq> None \<longrightarrow> i = k \<and> \<not> inFl \<and> \<not> outcome_is Applied cs)))"
proof -
  let ?ns = "pipelineStages entry cs msg"
  let ?in = "case entry of Some g \<Rightarrow> fleet_optimizer_greenhouse.inFlight g | None \<Rightarrow> False"
  have idle: "map pn_stage idleTrack = [Ingest, QualityGate, Forecast, Plan, Constrain, Publish]"
    "\<forall>n\<in>set idleTrack. pn_state n = NodeIdle \<and> pn_message n = None"
    by (simp_all add: idleTrack_def CYCLE_STAGES_def)
  have index: "STAGE_INDEX st < 6" for st
    by (cases st) (simp_all add: STAGE_INDEX_def CYCLE_STAGES_def map_from_def upt_rec)
  define placed where "placed = (\<lambda>st. map (\<lambda>(i, sl, lab).
          let x = (if i < STAGE_INDEX st then NodeDone else if i > STAGE_INDEX st then NodePending
                   else if \<not> ?in \<and> outcome_is Applied cs then NodeDone
                   else if ?in then NodeActive else if outcome_is Failed cs then NodeFailed
                   else if outcome_is Held cs then NodeHeld else NodeUnchanged)
          in \<lparr>pn_stage = sl, pn_label = lab, pn_state = x,
              pn_message = (if i = STAGE_INDEX st \<and> x \<in> {NodeFailed, NodeHeld, NodeUnchanged} then msg else None)\<rparr>)
        (enumerate 0 CYCLE_STAGES))"
  have "?ns = idleTrack \<or> (\<exists>st. ?ns = placed st)"
  proof (cases "\<not> ?in \<and> \<not> is_outcome cs")
    case True
    then show ?thesis by (simp add: pipelineStages_def Let_def)
  next
    case False
    show ?thesis
    proof (cases "case (case entry of Some g \<Rightarrow> fleet_optimizer_greenhouse.currentStage g | None \<Rightarrow> None) of
        Some st \<Rightarrow> Some st
      | None \<Rightarrow> (case cs of OutcomeCard st (Some r) \<Rightarrow> Some (STAGE_FOR_REASON_CODE r) | _ \<Rightarrow> None)")
      case None
      show ?thesis unfolding pipelineStages_def Let_def if_not_P [OF False] None option.case by blast
    next
      case (Some st)
      show ?thesis unfolding pipelineStages_def Let_def if_not_P [OF False] Some option.case placed_def by blast
    qed
  qed
  then consider "?ns = idleTrack" | st where "?ns = placed st" by blast
  then show ?thesis
  proof cases
    case 1
    with idle show ?thesis by (simp add: Let_def)
  next
    case (2 st)
    define k where "k = STAGE_INDEX st"
    define x where "x = (\<lambda>i. if i < k then NodeDone else if i > k then NodePending
                   else if \<not> ?in \<and> outcome_is Applied cs then NodeDone
                   else if ?in then NodeActive else if outcome_is Failed cs then NodeFailed
                   else if outcome_is Held cs then NodeHeld else NodeUnchanged)"
    have len: "length (enumerate 0 CYCLE_STAGES) = 6" by (simp add: CYCLE_STAGES_def)
    have ns: "?ns = map (\<lambda>(i, sl, lab). \<lparr>pn_stage = sl, pn_label = lab, pn_state = x i,
              pn_message = (if i = k \<and> x i \<in> {NodeFailed, NodeHeld, NodeUnchanged} then msg else None)\<rparr>)
        (enumerate 0 CYCLE_STAGES)"
      unfolding 2 placed_def k_def x_def Let_def ..
    have nth: "pn_state (?ns ! i) = x i"
      "pn_message (?ns ! i) = (if i = k \<and> x i \<in> {NodeFailed, NodeHeld, NodeUnchanged} then msg else None)" if "i < 6" for i
      using that len unfolding ns by (simp_all add: nth_enumerate_eq split: prod.splits)
    have stages: "map pn_stage ?ns = [Ingest, QualityGate, Forecast, Plan, Constrain, Publish]"
      unfolding ns by (simp add: CYCLE_STAGES_def)
    have k: "k < 6" using index by (simp add: k_def)
    have "(\<forall>i<k. pn_state (?ns ! i) = NodeDone) \<and> (\<forall>i<6. k < i \<longrightarrow> pn_state (?ns ! i) = NodePending)
           \<and> (pn_state (?ns ! k) = NodeActive \<longleftrightarrow> ?in)
           \<and> (pn_state (?ns ! k) = NodeDone \<longleftrightarrow> \<not> ?in \<and> outcome_is Applied cs)
           \<and> (\<forall>i<6. pn_message (?ns ! i) \<noteq> None \<longrightarrow> i = k \<and> \<not> ?in \<and> \<not> outcome_is Applied cs)"
      using k by (auto simp: nth x_def split: if_splits)
    with stages k show ?thesis unfolding Let_def by blast
  qed
qed

theorem pipeline_track_witness:
  "map pn_stage (pipelineStages None (OutcomeCard Held (Some LowConfidence)) (Some ''low''))
     = [Ingest, QualityGate, Forecast, Plan, Constrain, Publish]
   \<and> pn_message (pipelineStages None (OutcomeCard Held (Some LowConfidence)) (Some ''low'') ! 4) = Some ''low''"
proof
  show "map pn_stage (pipelineStages None (OutcomeCard Held (Some LowConfidence)) (Some ''low''))
     = [Ingest, QualityGate, Forecast, Plan, Constrain, Publish]"
    using pipeline_track [of None "OutcomeCard Held (Some LowConfidence)" "Some ''low''"] unfolding Let_def by blast
qed code_simp

text \<open>
  The near-bound flag never misses. For ordered finite bounds every proposed value at or
  beyond either bound is flagged, whatever the rounding of the margin; and a value is only
  compared with a bound that exists.
\<close>

theorem near_bound_complete:
  assumes "is_double lo" "is_double hi" "lo \<le> hi" "is_double v" "v \<le> lo \<or> hi \<le> v"
  shows "isNearBound (Fin v) \<lparr>field_bound.min_v = Fin lo, max_v = Fin hi\<rparr>"
proof -
  let ?r = "fl (hi - lo)"
  have r: "num_sub (Fin hi) (Fin lo) = ?r" by (simp add: num_sub_def)
  have r0: "num_le (Fin 0) ?r" using fl_mono [of 0 "hi - lo"] assms(3) by simp
  have f: "num_le (Fin 0) (fl (1 / 20))" "fl (1 / 20) \<noteq> PosInf"
    using fl_mono [of 0 "1 / 20"] fl_mono [of "1 / 20" 1] by (auto simp: fl_double)
  then obtain q where q: "fl (1 / 20) = Fin q" "0 \<le> q" by (cases "fl (1 / 20)") auto
  show ?thesis
  proof (cases "num_le ?r (Fin 0)")
    case True
    then show ?thesis using assms(5) by (auto simp: isNearBound_def Let_def r)
  next
    case False
    define m where "m = num_mul ?r NEAR_BOUND_FRACTION"
    have m: "num_le (Fin 0) m"
    proof (cases ?r)
      case (Fin x)
      then show ?thesis using r0 q fl_mono [of 0 "x * q"] by (simp add: m_def NEAR_BOUND_FRACTION_def)
    next
      case PosInf
      have "num_le (fl (1 / 32)) (fl (1 / 20))" by (rule fl_mono) simp
      moreover have "fl (1 / 32) = Fin (1 / 32)" using is_double_dyadic [of 1 5] by simp
      ultimately have "0 < q" using q by simp
      with PosInf q show ?thesis by (simp add: m_def NEAR_BOUND_FRACTION_def)
    qed (use r0 in auto)
    have lower: "num_le (Fin lo) (num_add (Fin lo) m)" by (rule num_add_nonneg [OF m assms(1)])
    have upper: "num_le (num_sub (Fin hi) m) (Fin hi)"
    proof (cases m)
      case (Fin y)
      then have "num_le (fl (hi - y)) (fl hi)" using m by (intro fl_mono) simp
      with Fin assms(2) show ?thesis by (simp add: num_sub_def)
    qed (use m in \<open>auto simp: num_sub_def\<close>)
    have "num_le (Fin v) (num_add (Fin lo) m) \<or> num_le (num_sub (Fin hi) m) (Fin v)"
      using assms(5)
    proof
      assume "v \<le> lo"
      then have "num_le (Fin v) (Fin lo)" by simp
      then show ?thesis using lower num_le_trans by blast
    next
      assume "hi \<le> v"
      then have "num_le (Fin hi) (Fin v)" by simp
      then show ?thesis using upper num_le_trans by blast
    qed
    with False show ?thesis by (simp add: isNearBound_def Let_def r m_def)
  qed
qed

theorem near_bound_complete_witness:
  "isNearBound (Fin 30) \<lparr>field_bound.min_v = Fin 10, max_v = Fin 30\<rparr>"
  by (rule near_bound_complete) simp_all

end
