(* ===== verification/Rest_Readers.thy ===== *)
theory Rest_Readers
  imports Frames Profile_Codec Optimizer_Wire
begin

text \<open>
  The REST side of \<open>z.infer\<close>: a reader for every REST and optimizer shape of
  \<open>api/schemas.ts\<close>, from the data its schema returns to the wire record. A reader of an object
  reads the declared fields in order, so that \<open>reads\<close> of theory \<open>Frames\<close> is proved for each of
  them by resolution with the rules \<open>fits\<close>.
\<close>

section \<open>Reading objects\<close>

definition rd_field :: "string \<Rightarrow> (jsval \<Rightarrow> 'a option) \<Rightarrow> jsval \<Rightarrow> 'a option" where
  "rd_field k r v = r (jprop v k)"

fun rd_nullish :: "(jsval \<Rightarrow> 'a option) \<Rightarrow> jsval \<Rightarrow> 'a js_opt option" where
  "rd_nullish r v = (if v = JUndef then Some Undefined else if v = JNull then Some Null else map_option Given (r v))"

fun rd_record :: "(jsval \<Rightarrow> 'a option) \<Rightarrow> jsval \<Rightarrow> (string \<rightharpoonup> 'a) option" where
  "rd_record r (JObj ps) = map_option map_of (option_list (map (\<lambda>(k, x). map_option (Pair k) (r x)) ps))"
| "rd_record r _ = None"

text \<open>\<open>fits fs g\<close>: \<open>g\<close> reads every parsed object with the declared fields \<open>fs\<close>.\<close>

definition fits :: "(string \<times> zod) list \<Rightarrow> (jsval \<Rightarrow> 'a option) \<Rightarrow> bool" where
  "fits fs g \<longleftrightarrow> (\<forall>strict v. conforms (ZObject strict fs) v \<longrightarrow> (\<exists>x. g (project (ZObject strict fs) v) = Some x))"

lemma fits_ret: "fits fs (\<lambda>v. Some c)"
  by (simp add: fits_def)

lemma fits_bind:
  assumes "distinct (map fst fs)" "map_of fs k = Some s" "reads r s" "\<And>x. fits fs (\<lambda>v. h x v)"
  shows "fits fs (\<lambda>v. Option.bind (rd_field k r v) (\<lambda>x. h x v))"
  unfolding fits_def
proof (intro allI impI)
  fix strict v assume c: "conforms (ZObject strict fs) v"
  obtain x where "r (jprop (project (ZObject strict fs) v) k) = Some x"
    using reads_field [OF c assms(1-3)] by blast
  moreover obtain y where "h x (project (ZObject strict fs) v) = Some y"
    using assms(4) [of x] c unfolding fits_def by blast
  ultimately show "\<exists>z. Option.bind (rd_field k r (project (ZObject strict fs) v))
      (\<lambda>x. h x (project (ZObject strict fs) v)) = Some z"
    by (simp add: rd_field_def)
qed

lemma reads_object: "fits fs g \<Longrightarrow> reads g (ZObject strict fs)"
  by (simp add: fits_def reads_def del: project.simps conforms.simps)

lemma reads_nullish [reads_intros]:
  "reads r s \<Longrightarrow> reads (rd_nullish r) (ZOptional (ZNullable s))"
  by (auto simp: reads_def)

lemma reads_nullish_of [reads_intros]: "reads r s \<Longrightarrow> reads (rd_nullish r) (nullish_of s)"
  unfolding nullish_of_def by (rule reads_nullish)

lemma reads_default [reads_intros]: "reads rd_bool (ZDefault ZBoolean (JBool b))"
  by (auto simp: reads_def split: jsval.splits)

lemma reads_record [reads_intros]: "reads r s \<Longrightarrow> reads (rd_record r) (ZRecord s)"
proof -
  assume r: "reads r s"
  have "\<exists>ys. option_list (map (\<lambda>kx. case kx of (k, x) \<Rightarrow> map_option (Pair k) (r (project s x))) ps) = Some ys"
    if "\<forall>x\<in>set (map snd ps). conforms s x" for ps
    using that readsD [OF r] by (intro option_list_total) fastforce
  then show ?thesis by (auto simp: reads_def comp_def case_prod_beta' split: jsval.splits)
qed

lemmas enum_schema_defs =
  metricSchema_def connectivitySchema_def eventKindSchema_def eventSeveritySchema_def
  analyticsIntervalSchema_def actuatorNameSchema_def optimizerOutcomeStatusSchema_def
  optimizerProviderSchema_def reasonCodeSchema_def reasonClassSchema_def cycleStageSchema_def
  degradedReasonSchema_def optimizerServiceStatusSchema_def backendRoleSchema_def
  escalationResolutionSchema_def

lemma reads_schemas [reads_intros]:
  "reads (rd_enum metric_table) metricSchema"
  "reads (rd_enum connectivity_table) connectivitySchema"
  "reads (rd_enum event_kind_table) eventKindSchema"
  "reads (rd_enum event_severity_table) eventSeveritySchema"
  "reads (rd_enum analytics_interval_table) analyticsIntervalSchema"
  "reads (rd_enum actuator_name_table) actuatorNameSchema"
  "reads (rd_enum optimizer_outcome_status_table) optimizerOutcomeStatusSchema"
  "reads (rd_enum optimizer_provider_table) optimizerProviderSchema"
  "reads (rd_enum reason_code_table) reasonCodeSchema"
  "reads (rd_enum reason_class_table) reasonClassSchema"
  "reads (rd_enum cycle_stage_table) cycleStageSchema"
  "reads (rd_enum degraded_reason_table) degradedReasonSchema"
  "reads (rd_enum optimizer_service_status_table) optimizerServiceStatusSchema"
  "reads (rd_enum backend_role_table) backendRoleSchema"
  "reads (rd_enum escalation_resolution_table) escalationResolutionSchema"
  unfolding enum_schema_defs by (rule reads_z_enum)+

lemma reads_alert_enums [reads_intros]:
  "reads (rd_enum event_kind_table) (ZEnum [''fault'', ''interlock''])"
  "reads (rd_enum event_severity_table) (ZEnum [''warning'', ''critical''])"
  by (auto intro!: reads_enum simp: event_kind_table_def event_severity_table_def)

lemma reads_primitives [reads_intros]:
  "reads rd_str timeOfDay" "reads rd_str schedule" "reads rd_num time_scale_range" "reads rd_num count_schema"
  unfolding timeOfDay_def schedule_def time_scale_range_def count_schema_def by (intro reads_intros)+

section \<open>Greenhouse shapes\<close>

definition read_zone_targets :: "jsval \<Rightarrow> wire_zone_targets option" where
  "read_zone_targets v = do {
     x0 \<leftarrow> rd_field ''zone_id'' rd_str v;
     x1 \<leftarrow> rd_field ''moisture_low_threshold'' rd_num v;
     x2 \<leftarrow> rd_field ''moisture_high_threshold'' rd_num v;
     x3 \<leftarrow> rd_field ''drain_period_secs'' rd_num v;
     x4 \<leftarrow> rd_field ''schedule'' rd_str v;
     Some \<lparr>wire_zone_targets.zone_id = x0, moisture_low_threshold = x1, moisture_high_threshold
           = x2, drain_period_secs = x3, sched = x4\<rparr> }"

definition read_zone_status :: "jsval \<Rightarrow> wire_zone_status option" where
  "read_zone_status v = do {
     x0 \<leftarrow> rd_field ''zone_id'' rd_str v;
     x1 \<leftarrow> rd_field ''soil_moisture_vwc'' (rd_nullable rd_num) v;
     x2 \<leftarrow> rd_field ''irrigating'' rd_bool v;
     x3 \<leftarrow> rd_field ''faulted'' rd_bool v;
     x4 \<leftarrow> rd_field ''last_cycle_ts'' (rd_nullable rd_str) v;
     Some \<lparr>wire_zone_status.zone_id = x0, soil_moisture_vwc = x1, irrigating = x2, faulted = x3,
           last_cycle_ts = x4\<rparr> }"

definition read_setpoints :: "jsval \<Rightarrow> wire_setpoints option" where
  "read_setpoints v = do {
     x0 \<leftarrow> rd_field ''temperature_day_c'' rd_num v;
     x1 \<leftarrow> rd_field ''temperature_night_c'' rd_num v;
     x2 \<leftarrow> rd_field ''day_start'' rd_str v;
     x3 \<leftarrow> rd_field ''day_end'' rd_str v;
     x4 \<leftarrow> rd_field ''humidity_low_pct'' rd_num v;
     x5 \<leftarrow> rd_field ''humidity_high_pct'' rd_num v;
     x6 \<leftarrow> rd_field ''humidity_deadband_pct'' rd_num v;
     x7 \<leftarrow> rd_field ''co2_target_ppm'' rd_num v;
     x8 \<leftarrow> rd_field ''co2_vent_interlock_threshold_pct'' rd_num v;
     x9 \<leftarrow> rd_field ''vpd_target_kpa'' rd_num v;
     x10 \<leftarrow> rd_field ''dli_target_mol'' rd_num v;
     x11 \<leftarrow> rd_field ''zones'' (rd_list read_zone_targets) v;
     Some \<lparr>wire_setpoints.temperature_day_c = x0, temperature_night_c = x1, day_start = x2,
           day_end = x3, humidity_low_pct = x4, humidity_high_pct = x5, humidity_deadband_pct =
           x6, co2_target_ppm = x7, co2_vent_interlock_threshold_pct = x8, vpd_target_kpa = x9,
           dli_target_mol = x10, zones = x11\<rparr> }"

definition read_setpoints_patch :: "jsval \<Rightarrow> wire_setpoints_patch option" where
  "read_setpoints_patch v = do {
     x0 \<leftarrow> rd_field ''temperature_day_c'' (rd_optional rd_num) v;
     x1 \<leftarrow> rd_field ''temperature_night_c'' (rd_optional rd_num) v;
     x2 \<leftarrow> rd_field ''day_start'' (rd_optional rd_str) v;
     x3 \<leftarrow> rd_field ''day_end'' (rd_optional rd_str) v;
     x4 \<leftarrow> rd_field ''humidity_low_pct'' (rd_optional rd_num) v;
     x5 \<leftarrow> rd_field ''humidity_high_pct'' (rd_optional rd_num) v;
     x6 \<leftarrow> rd_field ''humidity_deadband_pct'' (rd_optional rd_num) v;
     x7 \<leftarrow> rd_field ''co2_target_ppm'' (rd_optional rd_num) v;
     x8 \<leftarrow> rd_field ''co2_vent_interlock_threshold_pct'' (rd_optional rd_num) v;
     x9 \<leftarrow> rd_field ''vpd_target_kpa'' (rd_optional rd_num) v;
     x10 \<leftarrow> rd_field ''dli_target_mol'' (rd_optional rd_num) v;
     x11 \<leftarrow> rd_field ''zones'' (rd_optional (rd_list read_zone_targets)) v;
     Some \<lparr>wire_setpoints_patch.temperature_day_c = x0, temperature_night_c = x1, day_start =
           x2, day_end = x3, humidity_low_pct = x4, humidity_high_pct = x5,
           humidity_deadband_pct = x6, co2_target_ppm = x7, co2_vent_interlock_threshold_pct =
           x8, vpd_target_kpa = x9, dli_target_mol = x10, zones = x11\<rparr> }"

definition read_climate :: "jsval \<Rightarrow> wire_climate option" where
  "read_climate v = do {
     x0 \<leftarrow> rd_field ''temperature'' (rd_nullish rd_num) v;
     x1 \<leftarrow> rd_field ''humidity'' (rd_nullish rd_num) v;
     x2 \<leftarrow> rd_field ''co2'' (rd_nullish rd_num) v;
     x3 \<leftarrow> rd_field ''dli'' (rd_nullish rd_num) v;
     Some \<lparr>wire_climate.temperature = x0, humidity = x1, co2 = x2, dli = x3\<rparr> }"

definition read_greenhouse_summary :: "jsval \<Rightarrow> wire_greenhouse_summary option" where
  "read_greenhouse_summary v = do {
     x0 \<leftarrow> rd_field ''id'' rd_str v;
     x1 \<leftarrow> rd_field ''display_name'' rd_str v;
     x2 \<leftarrow> rd_field ''crop'' (rd_nullable rd_str) v;
     x3 \<leftarrow> rd_field ''status'' (rd_enum connectivity_table) v;
     x4 \<leftarrow> rd_field ''drift'' rd_bool v;
     x5 \<leftarrow> rd_field ''time_scale'' (rd_nullish rd_num) v;
     x6 \<leftarrow> rd_field ''climate'' (rd_optional read_climate) v;
     Some \<lparr>wire_greenhouse_summary.ident = x0, display_name = x1, crop = x2, status = x3, drift
           = x4, time_scale = x5, climate = x6\<rparr> }"

definition read_greenhouse_detail :: "jsval \<Rightarrow> wire_greenhouse_detail option" where
  "read_greenhouse_detail v = do {
     x0 \<leftarrow> rd_field ''id'' rd_str v;
     x1 \<leftarrow> rd_field ''display_name'' rd_str v;
     x2 \<leftarrow> rd_field ''crop'' (rd_nullable rd_str) v;
     x3 \<leftarrow> rd_field ''status'' (rd_enum connectivity_table) v;
     x4 \<leftarrow> rd_field ''drift'' rd_bool v;
     x5 \<leftarrow> rd_field ''time_scale'' (rd_nullish rd_num) v;
     x6 \<leftarrow> rd_field ''setpoints'' read_setpoints v;
     x7 \<leftarrow> rd_field ''zone_status'' (rd_list read_zone_status) v;
     Some \<lparr>wire_greenhouse_detail.ident = x0, display_name = x1, crop = x2, status = x3, drift =
           x4, time_scale = x5, setpoints = x6, zone_status = x7\<rparr> }"

definition read_reading :: "jsval \<Rightarrow> wire_reading option" where
  "read_reading v = do {
     x0 \<leftarrow> rd_field ''value'' rd_num v;
     x1 \<leftarrow> rd_field ''ts'' rd_str v;
     Some \<lparr>wire_reading.val = x0, ts = x1\<rparr> }"

definition read_telemetry_series :: "jsval \<Rightarrow> wire_telemetry_series option" where
  "read_telemetry_series v = do {
     x0 \<leftarrow> rd_field ''metric'' (rd_enum metric_table) v;
     x1 \<leftarrow> rd_field ''zone_id'' (rd_nullable rd_str) v;
     x2 \<leftarrow> rd_field ''readings'' (rd_list read_reading) v;
     Some \<lparr>wire_telemetry_series.metric = x0, zone_id = x1, readings = x2\<rparr> }"

definition read_actuator_state :: "jsval \<Rightarrow> wire_actuator_state option" where
  "read_actuator_state v = do {
     x0 \<leftarrow> rd_field ''actuator'' (rd_enum actuator_name_table) v;
     x1 \<leftarrow> rd_field ''zone_id'' (rd_nullable rd_str) v;
     x2 \<leftarrow> rd_field ''commanded'' rd_num v;
     x3 \<leftarrow> rd_field ''observed'' (rd_nullable rd_num) v;
     x4 \<leftarrow> rd_field ''ts'' rd_str v;
     Some \<lparr>wire_actuator_state.actuator = x0, zone_id = x1, commanded = x2, observed = x3, ts =
           x4\<rparr> }"

definition read_telemetry_range :: "jsval \<Rightarrow> wire_telemetry_range option" where
  "read_telemetry_range v = do {
     x0 \<leftarrow> rd_field ''greenhouse_id'' rd_str v;
     x1 \<leftarrow> rd_field ''from'' rd_str v;
     x2 \<leftarrow> rd_field ''to'' rd_str v;
     x3 \<leftarrow> rd_field ''series'' (rd_list read_telemetry_series) v;
     x4 \<leftarrow> rd_field ''actuators'' (rd_list read_actuator_state) v;
     Some \<lparr>wire_telemetry_range.greenhouse_id = x0, from_ts = x1, to_ts = x2, series = x3,
           actuators = x4\<rparr> }"

definition read_fleet_sparkline_series :: "jsval \<Rightarrow> wire_fleet_sparkline_series option" where
  "read_fleet_sparkline_series v = do {
     x0 \<leftarrow> rd_field ''greenhouse_id'' rd_str v;
     x1 \<leftarrow> rd_field ''readings'' (rd_list read_reading) v;
     Some \<lparr>wire_fleet_sparkline_series.greenhouse_id = x0, readings = x1\<rparr> }"

definition read_fleet_sparklines :: "jsval \<Rightarrow> wire_fleet_sparklines option" where
  "read_fleet_sparklines v = do {
     x0 \<leftarrow> rd_field ''from'' rd_str v;
     x1 \<leftarrow> rd_field ''to'' rd_str v;
     x2 \<leftarrow> rd_field ''metric'' (rd_enum metric_table) v;
     x3 \<leftarrow> rd_field ''series'' (rd_list read_fleet_sparkline_series) v;
     Some \<lparr>wire_fleet_sparklines.from_ts = x0, to_ts = x1, metric = x2, series = x3\<rparr> }"

definition read_analytics_bucket :: "jsval \<Rightarrow> wire_analytics_bucket option" where
  "read_analytics_bucket v = do {
     x0 \<leftarrow> rd_field ''bucket_start'' rd_str v;
     x1 \<leftarrow> rd_field ''min'' rd_num v;
     x2 \<leftarrow> rd_field ''max'' rd_num v;
     x3 \<leftarrow> rd_field ''avg'' rd_num v;
     x4 \<leftarrow> rd_field ''count'' rd_num v;
     Some \<lparr>wire_analytics_bucket.bucket_start = x0, min_v = x1, max_v = x2, avg = x3, count_v =
           x4\<rparr> }"

definition read_analytics_series :: "jsval \<Rightarrow> wire_analytics_series option" where
  "read_analytics_series v = do {
     x0 \<leftarrow> rd_field ''metric'' (rd_enum metric_table) v;
     x1 \<leftarrow> rd_field ''zone_id'' (rd_nullable rd_str) v;
     x2 \<leftarrow> rd_field ''buckets'' (rd_list read_analytics_bucket) v;
     Some \<lparr>wire_analytics_series.metric = x0, zone_id = x1, buckets = x2\<rparr> }"

definition read_analytics_response :: "jsval \<Rightarrow> wire_analytics_response option" where
  "read_analytics_response v = do {
     x0 \<leftarrow> rd_field ''greenhouse_id'' rd_str v;
     x1 \<leftarrow> rd_field ''from'' rd_str v;
     x2 \<leftarrow> rd_field ''to'' rd_str v;
     x3 \<leftarrow> rd_field ''interval'' (rd_enum analytics_interval_table) v;
     x4 \<leftarrow> rd_field ''series'' (rd_list read_analytics_series) v;
     Some \<lparr>wire_analytics_response.greenhouse_id = x0, from_ts = x1, to_ts = x2, interval = x3,
           series = x4\<rparr> }"

definition read_event_entry :: "jsval \<Rightarrow> wire_event_entry option" where
  "read_event_entry v = do {
     x0 \<leftarrow> rd_field ''greenhouse_id'' rd_str v;
     x1 \<leftarrow> rd_field ''ts'' rd_str v;
     x2 \<leftarrow> rd_field ''kind'' (rd_enum event_kind_table) v;
     x3 \<leftarrow> rd_field ''severity'' (rd_enum event_severity_table) v;
     x4 \<leftarrow> rd_field ''message'' rd_str v;
     x5 \<leftarrow> rd_field ''source'' (rd_optional rd_str) v;
     Some \<lparr>wire_event_entry.greenhouse_id = x0, ts = x1, kind = x2, severity = x3, message = x4,
           source = x5\<rparr> }"

definition read_active_alert :: "jsval \<Rightarrow> wire_active_alert option" where
  "read_active_alert v = do {
     x0 \<leftarrow> rd_field ''greenhouse_id'' rd_str v;
     x1 \<leftarrow> rd_field ''component'' rd_str v;
     x2 \<leftarrow> rd_field ''zone_id'' (rd_nullable rd_str) v;
     x3 \<leftarrow> rd_field ''fault_type'' rd_str v;
     x4 \<leftarrow> rd_field ''kind'' (rd_enum event_kind_table) v;
     x5 \<leftarrow> rd_field ''severity'' (rd_enum event_severity_table) v;
     x6 \<leftarrow> rd_field ''since'' rd_str v;
     Some \<lparr>wire_active_alert.greenhouse_id = x0, component = x1, zone_id = x2, fault_type = x3,
           kind = x4, severity = x5, since = x6\<rparr> }"

definition read_time_scale :: "jsval \<Rightarrow> wire_time_scale option" where
  "read_time_scale v = do {
     x0 \<leftarrow> rd_field ''scale'' rd_num v;
     x1 \<leftarrow> rd_field ''tick_index'' rd_num v;
     x2 \<leftarrow> rd_field ''updated_at'' rd_str v;
     Some \<lparr>wire_time_scale.scale = x0, tick_index = x1, updated_at = x2\<rparr> }"

definition read_time_scale_outcome :: "jsval \<Rightarrow> wire_time_scale_outcome option" where
  "read_time_scale_outcome v = do {
     x0 \<leftarrow> rd_field ''greenhouse_id'' rd_str v;
     x1 \<leftarrow> rd_field ''applied'' rd_bool v;
     x2 \<leftarrow> rd_field ''scale'' (rd_nullable rd_num) v;
     x3 \<leftarrow> rd_field ''detail'' (rd_nullable rd_str) v;
     Some \<lparr>wire_time_scale_outcome.greenhouse_id = x0, applied = x1, scale = x2, detail = x3\<rparr> }"

definition read_fleet_time_scale_result :: "jsval \<Rightarrow> wire_fleet_time_scale_result option" where
  "read_fleet_time_scale_result v = do {
     x0 \<leftarrow> rd_field ''requested_scale'' rd_num v;
     x1 \<leftarrow> rd_field ''results'' (rd_list read_time_scale_outcome) v;
     Some \<lparr>wire_fleet_time_scale_result.requested_scale = x0, results = x1\<rparr> }"

text \<open>The readers fit the schemas.\<close>

lemma reads_zone_targets [reads_intros]: "reads read_zone_targets wireZoneTargets"
  unfolding wireZoneTargets_def read_zone_targets_def
  by (rule reads_object) (rule fits_ret | rule fits_bind, simp, simp, (rule reads_intros)+)+

lemma reads_zone_status [reads_intros]: "reads read_zone_status (wireZoneStatus dp)"
  unfolding wireZoneStatus_def read_zone_status_def
  by (rule reads_object) (rule fits_ret | rule fits_bind, simp, simp, (rule reads_intros)+)+

lemma reads_setpoints [reads_intros]: "reads read_setpoints wireSetpoints"
  unfolding wireSetpoints_def read_setpoints_def
  by (rule reads_object) (rule fits_ret | rule fits_bind, simp, simp, (rule reads_intros)+)+

lemma reads_setpoints_patch [reads_intros]: "reads read_setpoints_patch wireSetpointsPatch"
  unfolding wireSetpointsPatch_def wireSetpoints_def read_setpoints_patch_def z_partial.simps list.map case_prod_conv
  by (rule reads_checks, rule reads_object)
    (rule fits_ret | rule fits_bind, simp, simp, (rule reads_intros)+)+

lemma reads_climate [reads_intros]: "reads read_climate wireClimate"
  unfolding wireClimate_def read_climate_def z_partial.simps list.map case_prod_conv
  by (rule reads_object) (rule fits_ret | rule fits_bind, simp, simp, (rule reads_intros)+)+

lemma reads_greenhouse_summary [reads_intros]: "reads read_greenhouse_summary wireGreenhouseSummary"
  unfolding wireGreenhouseSummary_def read_greenhouse_summary_def
  by (rule reads_object) (rule fits_ret | rule fits_bind, simp, simp, (rule reads_intros)+)+

lemma reads_greenhouse_detail [reads_intros]: "reads read_greenhouse_detail (wireGreenhouseDetail dp)"
  unfolding wireGreenhouseDetail_def read_greenhouse_detail_def
  by (rule reads_object) (rule fits_ret | rule fits_bind, simp, simp, (rule reads_intros)+)+

lemma reads_reading [reads_intros]: "reads read_reading (wireReading dp)"
  unfolding wireReading_def read_reading_def
  by (rule reads_object) (rule fits_ret | rule fits_bind, simp, simp, (rule reads_intros)+)+

lemma reads_telemetry_series [reads_intros]: "reads read_telemetry_series (wireTelemetrySeries dp)"
  unfolding wireTelemetrySeries_def read_telemetry_series_def
  by (rule reads_object) (rule fits_ret | rule fits_bind, simp, simp, (rule reads_intros)+)+

lemma reads_actuator_state [reads_intros]: "reads read_actuator_state (wireActuatorState dp)"
  unfolding wireActuatorState_def read_actuator_state_def
  by (rule reads_object) (rule fits_ret | rule fits_bind, simp, simp, (rule reads_intros)+)+

lemma reads_telemetry_range [reads_intros]: "reads read_telemetry_range (wireTelemetryRange dp)"
  unfolding wireTelemetryRange_def read_telemetry_range_def
  by (rule reads_object) (rule fits_ret | rule fits_bind, simp, simp, (rule reads_intros)+)+

lemma reads_fleet_sparkline_series [reads_intros]: "reads read_fleet_sparkline_series (wireFleetSparklineSeries dp)"
  unfolding wireFleetSparklineSeries_def read_fleet_sparkline_series_def
  by (rule reads_object) (rule fits_ret | rule fits_bind, simp, simp, (rule reads_intros)+)+

lemma reads_fleet_sparklines [reads_intros]: "reads read_fleet_sparklines (wireFleetSparklines dp)"
  unfolding wireFleetSparklines_def read_fleet_sparklines_def
  by (rule reads_object) (rule fits_ret | rule fits_bind, simp, simp, (rule reads_intros)+)+

lemma reads_analytics_bucket [reads_intros]: "reads read_analytics_bucket (wireAnalyticsBucket dp)"
  unfolding wireAnalyticsBucket_def read_analytics_bucket_def
  by (rule reads_object) (rule fits_ret | rule fits_bind, simp, simp, (rule reads_intros)+)+

lemma reads_analytics_series [reads_intros]: "reads read_analytics_series (wireAnalyticsSeries dp)"
  unfolding wireAnalyticsSeries_def read_analytics_series_def
  by (rule reads_object) (rule fits_ret | rule fits_bind, simp, simp, (rule reads_intros)+)+

lemma reads_analytics_response [reads_intros]: "reads read_analytics_response (wireAnalyticsResponse dp)"
  unfolding wireAnalyticsResponse_def read_analytics_response_def
  by (rule reads_object) (rule fits_ret | rule fits_bind, simp, simp, (rule reads_intros)+)+

lemma reads_event_entry [reads_intros]: "reads read_event_entry (wireEventEntry dp)"
  unfolding wireEventEntry_def read_event_entry_def
  by (rule reads_object) (rule fits_ret | rule fits_bind, simp, simp, (rule reads_intros)+)+

lemma reads_active_alert [reads_intros]: "reads read_active_alert (wireActiveAlert dp)"
  unfolding wireActiveAlert_def read_active_alert_def
  by (rule reads_object) (rule fits_ret | rule fits_bind, simp, simp, (rule reads_intros)+)+

lemma reads_time_scale [reads_intros]: "reads read_time_scale (wireTimeScale dp)"
  unfolding wireTimeScale_def read_time_scale_def
  by (rule reads_object) (rule fits_ret | rule fits_bind, simp, simp, (rule reads_intros)+)+

lemma reads_time_scale_outcome [reads_intros]: "reads read_time_scale_outcome (ZObject False [(''greenhouse_id'', slug), (''applied'', ZBoolean), (''scale'', ZNullable time_scale_range), (''detail'', ZNullable ZString)])"
  unfolding read_time_scale_outcome_def
  by (rule reads_object) (rule fits_ret | rule fits_bind, simp, simp, (rule reads_intros)+)+

lemma reads_fleet_time_scale_result [reads_intros]: "reads read_fleet_time_scale_result wireFleetTimeScaleResult"
  unfolding wireFleetTimeScaleResult_def read_fleet_time_scale_result_def
  by (rule reads_object) (rule fits_ret | rule fits_bind, simp, simp, (rule reads_intros)+)+

section \<open>Crop profiles\<close>

definition read_bound :: "jsval \<Rightarrow> bound option" where
  "read_bound v = do {
     x0 \<leftarrow> rd_field ''min'' rd_num v;
     x1 \<leftarrow> rd_field ''max'' rd_num v;
     Some \<lparr>bound.min_v = x0, max_v = x1\<rparr> }"

text \<open>The optional bounds under a list of keys; the other keys of the object are not read.\<close>

fun read_bounds :: "string list \<Rightarrow> jsval \<Rightarrow> (string \<rightharpoonup> bound) option" where
  "read_bounds [] v = Some Map.empty"
| "read_bounds (k # ks) v = do {
     b \<leftarrow> rd_field k (rd_optional read_bound) v;
     m \<leftarrow> read_bounds ks v;
     Some (case b of None \<Rightarrow> m | Some x \<Rightarrow> m(k \<mapsto> x)) }"

definition read_stage_bounds :: "jsval \<Rightarrow> wire_stage_bounds option" where
  "read_stage_bounds v = do {
     m \<leftarrow> read_bounds (map snd BOUND_KEYS) v;
     z \<leftarrow> rd_field ''zones'' (rd_optional (read_bounds (map snd ZONE_BOUND_KEYS))) v;
     Some \<lparr>wire_stage_bounds.scalars = m, zones = z\<rparr> }"

definition read_profile_stage :: "jsval \<Rightarrow> wire_profile_stage option" where
  "read_profile_stage v = do {
     x0 \<leftarrow> rd_field ''stage'' rd_str v;
     x1 \<leftarrow> rd_field ''targets'' read_setpoints v;
     x2 \<leftarrow> rd_field ''bounds'' (rd_optional read_stage_bounds) v;
     Some \<lparr>wire_profile_stage.stage = x0, targets = x1, bounds = x2\<rparr> }"

definition read_crop_profile :: "jsval \<Rightarrow> wire_crop_profile option" where
  "read_crop_profile v = do {
     x0 \<leftarrow> rd_field ''id'' rd_str v;
     x1 \<leftarrow> rd_field ''name'' rd_str v;
     x2 \<leftarrow> rd_field ''crop'' rd_str v;
     x3 \<leftarrow> rd_field ''stages'' (rd_list read_profile_stage) v;
     Some \<lparr>wire_crop_profile.ident = x0, name = x1, crop = x2, stages = x3\<rparr> }"

definition read_assignment :: "jsval \<Rightarrow> wire_assignment option" where
  "read_assignment v = do {
     x0 \<leftarrow> rd_field ''greenhouse_id'' rd_str v;
     x1 \<leftarrow> rd_field ''profile_id'' rd_str v;
     x2 \<leftarrow> rd_field ''stage'' rd_str v;
     Some \<lparr>wire_assignment.greenhouse_id = x0, profile_id = x1, stage = x2\<rparr> }"

lemma reads_bound [reads_intros]: "reads read_bound wireBound"
  unfolding wireBound_def read_bound_def
  by (rule reads_object) (rule fits_ret | rule fits_bind, simp, simp, (rule reads_intros)+)+

lemma fits_bounds:
  assumes "distinct (map fst fs)" "\<forall>k\<in>set ks. map_of fs k = Some (ZOptional wireBound)"
  shows "fits fs (read_bounds ks)"
  using assms(2)
proof (induction ks)
  case Nil
  then show ?case by (simp add: fits_def)
next
  case (Cons k ks)
  have "fits fs (\<lambda>v. Option.bind (read_bounds ks v) (\<lambda>m. Some (case b of None \<Rightarrow> m | Some x \<Rightarrow> m(k \<mapsto> x))))" for b
    using Cons by (fastforce simp: fits_def)
  moreover have "read_bounds (k # ks) = (\<lambda>v. Option.bind (rd_field k (rd_optional read_bound) v) (\<lambda>b.
      Option.bind (read_bounds ks v) (\<lambda>m. Some (case b of None \<Rightarrow> m | Some x \<Rightarrow> m(k \<mapsto> x)))))"
    by (simp add: fun_eq_iff)
  ultimately show ?case
    using Cons.prems fits_bind [OF assms(1), of k "ZOptional wireBound" "rd_optional read_bound"
        "\<lambda>b v. Option.bind (read_bounds ks v) (\<lambda>m. Some (case b of None \<Rightarrow> m | Some x \<Rightarrow> m(k \<mapsto> x)))"]
    by (simp add: reads_bound reads_optional)
qed

lemma reads_zone_bounds [reads_intros]: "reads (read_bounds (map snd ZONE_BOUND_KEYS)) wireZoneBounds"
  unfolding wireZoneBounds_def by (rule reads_object, rule fits_bounds) (simp_all add: ZONE_BOUND_KEYS_def)

lemma fits_then:
  assumes "fits fs g" "\<And>x. fits fs (\<lambda>v. h x v)"
  shows "fits fs (\<lambda>v. Option.bind (g v) (\<lambda>x. h x v))"
  unfolding fits_def
proof (intro allI impI)
  fix strict v assume c: "conforms (ZObject strict fs) v"
  obtain x where "g (project (ZObject strict fs) v) = Some x" using assms(1) c unfolding fits_def by blast
  moreover obtain y where "h x (project (ZObject strict fs) v) = Some y"
    using assms(2) [of x] c unfolding fits_def by blast
  ultimately show "\<exists>z. Option.bind (g (project (ZObject strict fs) v)) (\<lambda>x. h x (project (ZObject strict fs) v)) = Some z"
    by simp
qed

lemma reads_stage_bounds [reads_intros]: "reads read_stage_bounds wireStageBounds"
  unfolding wireStageBounds_def read_stage_bounds_def
proof (rule reads_object, rule fits_then)
  show "fits [(''temperature_day_c'', ZOptional wireBound), (''temperature_night_c'', ZOptional wireBound),
      (''humidity_low_pct'', ZOptional wireBound), (''humidity_high_pct'', ZOptional wireBound),
      (''humidity_deadband_pct'', ZOptional wireBound), (''co2_target_ppm'', ZOptional wireBound),
      (''co2_vent_interlock_threshold_pct'', ZOptional wireBound), (''vpd_target_kpa'', ZOptional wireBound),
      (''dli_target_mol'', ZOptional wireBound), (''zones'', ZOptional wireZoneBounds)]
     (read_bounds (map snd BOUND_KEYS))"
    by (rule fits_bounds) (simp_all add: BOUND_KEYS_def)
qed (rule fits_ret | rule fits_bind, simp, simp, (rule reads_intros)+)+

lemma reads_profile_stage [reads_intros]: "reads read_profile_stage wireProfileStage"
  unfolding wireProfileStage_def read_profile_stage_def
  by (rule reads_object) (rule fits_ret | rule fits_bind, simp, simp, (rule reads_intros)+)+

lemma reads_crop_profile [reads_intros]: "reads read_crop_profile wireCropProfile"
  unfolding wireCropProfile_def read_crop_profile_def
  by (rule reads_object) (rule fits_ret | rule fits_bind, simp, simp, (rule reads_intros)+)+

lemma reads_assignment [reads_intros]: "reads read_assignment wireAssignment"
  unfolding wireAssignment_def read_assignment_def
  by (rule reads_object) (rule fits_ret | rule fits_bind, simp, simp, (rule reads_intros)+)+

section \<open>Optimizer shapes\<close>

definition read_optimizer_outcome :: "jsval \<Rightarrow> wire_optimizer_outcome option" where
  "read_optimizer_outcome v = do {
     x0 \<leftarrow> rd_field ''status'' (rd_enum optimizer_outcome_status_table) v;
     x1 \<leftarrow> rd_field ''reason_code'' (rd_nullish (rd_enum reason_code_table)) v;
     x2 \<leftarrow> rd_field ''message'' (rd_nullish rd_str) v;
     Some \<lparr>wire_optimizer_outcome.status = x0, reason_code = x1, message = x2\<rparr> }"

definition read_optimizer_backend :: "jsval \<Rightarrow> wire_optimizer_backend option" where
  "read_optimizer_backend v = do {
     x0 \<leftarrow> rd_field ''provider'' (rd_enum optimizer_provider_table) v;
     x1 \<leftarrow> rd_field ''model'' rd_str v;
     x2 \<leftarrow> rd_field ''prompt_version'' rd_str v;
     x3 \<leftarrow> rd_field ''role'' (rd_enum backend_role_table) v;
     Some \<lparr>wire_optimizer_backend.provider = x0, model = x1, prompt_version = x2, role = x3\<rparr> }"

definition read_objective_scores :: "jsval \<Rightarrow> optimizer_objective_scores option" where
  "read_objective_scores v = do {
     x0 \<leftarrow> rd_field ''anticipation'' rd_num v;
     x1 \<leftarrow> rd_field ''coupling'' rd_num v;
     x2 \<leftarrow> rd_field ''efficiency'' rd_num v;
     Some \<lparr>optimizer_objective_scores.anticipation = x0, coupling = x1, efficiency = x2\<rparr> }"

definition read_optimizer_plan_body :: "jsval \<Rightarrow> wire_optimizer_plan_body option" where
  "read_optimizer_plan_body v = do {
     x0 \<leftarrow> rd_field ''confidence'' rd_num v;
     x1 \<leftarrow> rd_field ''explanation'' rd_str v;
     x2 \<leftarrow> rd_field ''immediate_setpoints'' read_setpoints_patch v;
     x3 \<leftarrow> rd_field ''objective_scores'' (rd_optional read_objective_scores) v;
     Some \<lparr>wire_optimizer_plan_body.confidence = x0, explanation = x1, immediate_setpoints = x2,
           objective_scores = x3\<rparr> }"

definition read_optimizer_horizon :: "jsval \<Rightarrow> wire_optimizer_horizon option" where
  "read_optimizer_horizon v = do {
     x0 \<leftarrow> rd_field ''start'' rd_str v;
     x1 \<leftarrow> rd_field ''end'' rd_str v;
     Some \<lparr>wire_optimizer_horizon.start_ts = x0, end_ts = x1\<rparr> }"

definition read_optimizer_plan_view :: "jsval \<Rightarrow> wire_optimizer_plan_view option" where
  "read_optimizer_plan_view v = do {
     x0 \<leftarrow> rd_field ''optimizer_run_id'' rd_str v;
     x1 \<leftarrow> rd_field ''greenhouse_id'' rd_str v;
     x2 \<leftarrow> rd_field ''created_at'' rd_str v;
     x3 \<leftarrow> rd_field ''horizon'' read_optimizer_horizon v;
     x4 \<leftarrow> rd_field ''backend'' read_optimizer_backend v;
     x5 \<leftarrow> rd_field ''outcome'' read_optimizer_outcome v;
     x6 \<leftarrow> rd_field ''plan'' (rd_nullable read_optimizer_plan_body) v;
     Some \<lparr>wire_optimizer_plan_view.optimizer_run_id = x0, greenhouse_id = x1, created_at = x2,
           horizon = x3, backend = x4, outcome = x5, plan = x6\<rparr> }"

definition read_field_bound :: "jsval \<Rightarrow> field_bound option" where
  "read_field_bound v = do {
     x0 \<leftarrow> rd_field ''min'' rd_num v;
     x1 \<leftarrow> rd_field ''max'' rd_num v;
     Some \<lparr>field_bound.min_v = x0, max_v = x1\<rparr> }"

definition read_setpoint_diff :: "jsval \<Rightarrow> wire_setpoint_diff option" where
  "read_setpoint_diff v = do {
     x0 \<leftarrow> rd_field ''proposed'' read_setpoints_patch v;
     x1 \<leftarrow> rd_field ''current'' read_setpoints v;
     x2 \<leftarrow> rd_field ''bounds'' (rd_record read_field_bound) v;
     Some \<lparr>wire_setpoint_diff.proposed = x0, current = x1, bounds = x2\<rparr> }"

definition read_optimizer_plan_detail :: "jsval \<Rightarrow> wire_optimizer_plan_detail option" where
  "read_optimizer_plan_detail v = do {
     x0 \<leftarrow> rd_field ''plan'' read_optimizer_plan_view v;
     x1 \<leftarrow> rd_field ''diff'' (rd_nullable read_setpoint_diff) v;
     Some \<lparr>wire_optimizer_plan_detail.plan = x0, diff = x1\<rparr> }"

definition read_escalation :: "jsval \<Rightarrow> wire_escalation option" where
  "read_escalation v = do {
     x0 \<leftarrow> rd_field ''id'' rd_str v;
     x1 \<leftarrow> rd_field ''greenhouse_id'' rd_str v;
     x2 \<leftarrow> rd_field ''optimizer_run_id'' rd_str v;
     x3 \<leftarrow> rd_field ''reason_code'' (rd_enum reason_code_table) v;
     x4 \<leftarrow> rd_field ''reason_class'' (rd_enum reason_class_table) v;
     x5 \<leftarrow> rd_field ''created_at'' rd_str v;
     x6 \<leftarrow> rd_field ''message'' (rd_nullish rd_str) v;
     x7 \<leftarrow> rd_field ''resolution'' (rd_nullish (rd_enum escalation_resolution_table)) v;
     Some \<lparr>wire_escalation.ident = x0, greenhouse_id = x1, optimizer_run_id = x2, reason_code =
           x3, reason_class = x4, created_at = x5, message = x6, resolution = x7\<rparr> }"

definition read_fleet_optimizer_greenhouse :: "jsval \<Rightarrow> wire_fleet_optimizer_greenhouse option" where
  "read_fleet_optimizer_greenhouse v = do {
     x0 \<leftarrow> rd_field ''greenhouse_id'' rd_str v;
     x1 \<leftarrow> rd_field ''status'' (rd_nullable (rd_enum optimizer_outcome_status_table)) v;
     x2 \<leftarrow> rd_field ''reason_code'' (rd_nullish (rd_enum reason_code_table)) v;
     x3 \<leftarrow> rd_field ''message'' (rd_nullish rd_str) v;
     x4 \<leftarrow> rd_field ''enabled'' rd_bool v;
     x5 \<leftarrow> rd_field ''created_at'' (rd_nullable rd_str) v;
     x6 \<leftarrow> rd_field ''in_flight'' rd_bool v;
     x7 \<leftarrow> rd_field ''current_stage'' (rd_nullable (rd_enum cycle_stage_table)) v;
     Some \<lparr>wire_fleet_optimizer_greenhouse.greenhouse_id = x0, status = x1, reason_code = x2,
           message = x3, enabled = x4, created_at = x5, in_flight = x6, current_stage = x7\<rparr> }"

definition read_outcome_counts :: "jsval \<Rightarrow> outcome_counts option" where
  "read_outcome_counts v = do {
     x0 \<leftarrow> rd_field ''applied'' rd_num v;
     x1 \<leftarrow> rd_field ''unchanged'' rd_num v;
     x2 \<leftarrow> rd_field ''held'' rd_num v;
     x3 \<leftarrow> rd_field ''failed'' rd_num v;
     Some \<lparr>outcome_counts.applied = x0, unchanged = x1, held = x2, failed = x3\<rparr> }"

definition read_fleet_optimizer_rollup :: "jsval \<Rightarrow> wire_fleet_optimizer_rollup option" where
  "read_fleet_optimizer_rollup v = do {
     x0 \<leftarrow> rd_field ''backlog'' rd_num v;
     x1 \<leftarrow> rd_field ''by_outcome'' read_outcome_counts v;
     x2 \<leftarrow> rd_field ''oldest_open_age_secs'' (rd_nullable rd_num) v;
     Some \<lparr>wire_fleet_optimizer_rollup.backlog = x0, by_outcome = x1, oldest_open_age_secs = x2\<rparr> }"

definition read_fleet_optimizer_summary :: "jsval \<Rightarrow> wire_fleet_optimizer_summary option" where
  "read_fleet_optimizer_summary v = do {
     x0 \<leftarrow> rd_field ''greenhouses'' (rd_list read_fleet_optimizer_greenhouse) v;
     x1 \<leftarrow> rd_field ''rollup'' read_fleet_optimizer_rollup v;
     Some \<lparr>wire_fleet_optimizer_summary.greenhouses = x0, rollup = x1\<rparr> }"

definition read_model_state :: "jsval \<Rightarrow> wire_model_state option" where
  "read_model_state v = do {
     x0 \<leftarrow> rd_field ''provider'' (rd_enum optimizer_provider_table) v;
     x1 \<leftarrow> rd_field ''model'' rd_str v;
     x2 \<leftarrow> rd_field ''prompt_version'' rd_str v;
     x3 \<leftarrow> rd_field ''role'' (rd_enum backend_role_table) v;
     x4 \<leftarrow> rd_field ''available_models'' (rd_list rd_str) v;
     Some \<lparr>wire_model_state.provider = x0, model = x1, prompt_version = x2, role = x3,
           available_models = x4\<rparr> }"

definition read_enable_state :: "jsval \<Rightarrow> wire_enable_state option" where
  "read_enable_state v = do {
     x0 \<leftarrow> rd_field ''enabled'' rd_bool v;
     Some \<lparr>wire_enable_state.enabled = x0\<rparr> }"

definition read_greenhouse_enable_state :: "jsval \<Rightarrow> wire_greenhouse_enable_state option" where
  "read_greenhouse_enable_state v = do {
     x0 \<leftarrow> rd_field ''greenhouse_id'' rd_str v;
     x1 \<leftarrow> rd_field ''enabled'' rd_bool v;
     Some \<lparr>wire_greenhouse_enable_state.greenhouse_id = x0, enabled = x1\<rparr> }"

definition read_optimizer_status :: "jsval \<Rightarrow> wire_optimizer_status option" where
  "read_optimizer_status v = do {
     x0 \<leftarrow> rd_field ''status'' (rd_enum optimizer_service_status_table) v;
     x1 \<leftarrow> rd_field ''degraded_reason'' (rd_nullish (rd_enum degraded_reason_table)) v;
     x2 \<leftarrow> rd_field ''enabled'' rd_bool v;
     x3 \<leftarrow> rd_field ''read_only_reason'' (rd_nullish rd_str) v;
     x4 \<leftarrow> rd_field ''last_successful_cycle_at'' (rd_nullable rd_str) v;
     x5 \<leftarrow> rd_field ''cadence_secs'' rd_num v;
     Some \<lparr>wire_optimizer_status.status = x0, degraded_reason = x1, enabled = x2,
           read_only_reason = x3, last_successful_cycle_at = x4, cadence_secs = x5\<rparr> }"

definition read_cycle_accepted :: "jsval \<Rightarrow> wire_cycle_accepted option" where
  "read_cycle_accepted v = do {
     x0 \<leftarrow> rd_field ''optimizer_run_id'' rd_str v;
     x1 \<leftarrow> rd_field ''greenhouse_id'' rd_str v;
     Some \<lparr>wire_cycle_accepted.optimizer_run_id = x0, greenhouse_id = x1\<rparr> }"

lemma reads_optimizer_outcome [reads_intros]: "reads read_optimizer_outcome wireOptimizerOutcome"
  unfolding wireOptimizerOutcome_def read_optimizer_outcome_def
  by (rule reads_object) (rule fits_ret | rule fits_bind, simp, simp, (rule reads_intros)+)+

lemma reads_optimizer_backend [reads_intros]: "reads read_optimizer_backend wireOptimizerBackend"
  unfolding wireOptimizerBackend_def read_optimizer_backend_def
  by (rule reads_object) (rule fits_ret | rule fits_bind, simp, simp, (rule reads_intros)+)+

lemma reads_objective_scores [reads_intros]: "reads read_objective_scores wireOptimizerObjectiveScores"
  unfolding wireOptimizerObjectiveScores_def read_objective_scores_def
  by (rule reads_object) (rule fits_ret | rule fits_bind, simp, simp, (rule reads_intros)+)+

lemma reads_optimizer_plan_body [reads_intros]: "reads read_optimizer_plan_body wireOptimizerPlanBody"
  unfolding wireOptimizerPlanBody_def read_optimizer_plan_body_def
  by (rule reads_object) (rule fits_ret | rule fits_bind, simp, simp, (rule reads_intros)+)+

lemma reads_optimizer_horizon [reads_intros]: "reads read_optimizer_horizon (wireOptimizerHorizon dp)"
  unfolding wireOptimizerHorizon_def read_optimizer_horizon_def
  by (rule reads_object) (rule fits_ret | rule fits_bind, simp, simp, (rule reads_intros)+)+

lemma reads_optimizer_plan_view [reads_intros]: "reads read_optimizer_plan_view (wireOptimizerPlanView dp)"
  unfolding wireOptimizerPlanView_def read_optimizer_plan_view_def
  by (rule reads_object) (rule fits_ret | rule fits_bind, simp, simp, (rule reads_intros)+)+

lemma reads_field_bound [reads_intros]: "reads read_field_bound wireFieldBound"
  unfolding wireFieldBound_def read_field_bound_def
  by (rule reads_object) (rule fits_ret | rule fits_bind, simp, simp, (rule reads_intros)+)+

lemma reads_setpoint_diff [reads_intros]: "reads read_setpoint_diff wireSetpointDiff"
  unfolding wireSetpointDiff_def read_setpoint_diff_def
  by (rule reads_object) (rule fits_ret | rule fits_bind, simp, simp, (rule reads_intros)+)+

lemma reads_optimizer_plan_detail [reads_intros]: "reads read_optimizer_plan_detail (wireOptimizerPlanDetail dp)"
  unfolding wireOptimizerPlanDetail_def read_optimizer_plan_detail_def
  by (rule reads_object) (rule fits_ret | rule fits_bind, simp, simp, (rule reads_intros)+)+

lemma reads_escalation [reads_intros]: "reads read_escalation (wireEscalation dp)"
  unfolding wireEscalation_def read_escalation_def
  by (rule reads_object) (rule fits_ret | rule fits_bind, simp, simp, (rule reads_intros)+)+

lemma reads_fleet_optimizer_greenhouse [reads_intros]: "reads read_fleet_optimizer_greenhouse (wireFleetOptimizerGreenhouse dp)"
  unfolding wireFleetOptimizerGreenhouse_def read_fleet_optimizer_greenhouse_def
  by (rule reads_object) (rule fits_ret | rule fits_bind, simp, simp, (rule reads_intros)+)+

lemma reads_outcome_counts [reads_intros]: "reads read_outcome_counts (ZObject False [(''applied'', count_schema), (''unchanged'', count_schema), (''held'', count_schema), (''failed'', count_schema)])"
  unfolding read_outcome_counts_def
  by (rule reads_object) (rule fits_ret | rule fits_bind, simp, simp, (rule reads_intros)+)+

lemma reads_fleet_optimizer_rollup [reads_intros]: "reads read_fleet_optimizer_rollup wireFleetOptimizerRollup"
  unfolding wireFleetOptimizerRollup_def read_fleet_optimizer_rollup_def
  by (rule reads_object) (rule fits_ret | rule fits_bind, simp, simp, (rule reads_intros)+)+

lemma reads_fleet_optimizer_summary [reads_intros]: "reads read_fleet_optimizer_summary (wireFleetOptimizerSummary dp)"
  unfolding wireFleetOptimizerSummary_def read_fleet_optimizer_summary_def
  by (rule reads_object) (rule fits_ret | rule fits_bind, simp, simp, (rule reads_intros)+)+

lemma reads_model_state [reads_intros]: "reads read_model_state wireModelState"
  unfolding wireModelState_def read_model_state_def
  by (rule reads_object) (rule fits_ret | rule fits_bind, simp, simp, (rule reads_intros)+)+

lemma reads_enable_state [reads_intros]: "reads read_enable_state wireEnableState"
  unfolding wireEnableState_def read_enable_state_def
  by (rule reads_object) (rule fits_ret | rule fits_bind, simp, simp, (rule reads_intros)+)+

lemma reads_greenhouse_enable_state [reads_intros]: "reads read_greenhouse_enable_state wireGreenhouseEnableState"
  unfolding wireGreenhouseEnableState_def read_greenhouse_enable_state_def
  by (rule reads_object) (rule fits_ret | rule fits_bind, simp, simp, (rule reads_intros)+)+

lemma reads_optimizer_status [reads_intros]: "reads read_optimizer_status (wireOptimizerStatus dp)"
  unfolding wireOptimizerStatus_def read_optimizer_status_def
  by (rule reads_object) (rule fits_ret | rule fits_bind, simp, simp, (rule reads_intros)+)+

lemma reads_cycle_accepted [reads_intros]: "reads read_cycle_accepted wireCycleAccepted"
  unfolding wireCycleAccepted_def read_cycle_accepted_def
  by (rule reads_object) (rule fits_ret | rule fits_bind, simp, simp, (rule reads_intros)+)+

end
