(* ===== verification/Rest_Bodies.thy ===== *)
theory Rest_Bodies
  imports Rest_Readers
begin

text \<open>
  Request bodies. \<open>JSON.stringify\<close> of a wire object of \<open>api/schemas.ts\<close> is the dynamically
  typed object itself without its undefined fields; \<open>json_*\<close> builds it, fields in the order of
  the encoder. Reading a body back with the reader of its shape gives the wire object, also
  after a schema has parsed it, so that what the platform echoes is what the form sent.
\<close>

section \<open>Bodies\<close>

definition json_field :: "string \<Rightarrow> ('a \<Rightarrow> jsval) \<Rightarrow> 'a option \<Rightarrow> (string \<times> jsval) list" where
  "json_field k f x = (case x of None \<Rightarrow> [] | Some y \<Rightarrow> [(k, f y)])"

text \<open>\<open>JSON.stringify\<close> writes a number that is not finite as null.\<close>

fun json_num :: "js_num \<Rightarrow> jsval" where
  "json_num (Fin x) = JNum (Fin x)"
| "json_num _ = JNull"

definition json_list :: "('a \<Rightarrow> jsval) \<Rightarrow> 'a list \<Rightarrow> jsval" where
  "json_list f xs = JArr (map f xs)"

definition json_zone_targets :: "wire_zone_targets \<Rightarrow> jsval" where
  "json_zone_targets z = JObj
     [(''zone_id'', JStr (wire_zone_targets.zone_id z)),
      (''moisture_low_threshold'', json_num (moisture_low_threshold z)),
      (''moisture_high_threshold'', json_num (moisture_high_threshold z)),
      (''drain_period_secs'', json_num (drain_period_secs z)),
      (''schedule'', JStr (wire_zone_targets.sched z))]"

definition json_setpoints :: "wire_setpoints \<Rightarrow> jsval" where
  "json_setpoints w = JObj
     [(''temperature_day_c'', json_num (wire_setpoints.temperature_day_c w)),
      (''temperature_night_c'', json_num (wire_setpoints.temperature_night_c w)),
      (''day_start'', JStr (wire_setpoints.day_start w)),
      (''day_end'', JStr (wire_setpoints.day_end w)),
      (''humidity_low_pct'', json_num (wire_setpoints.humidity_low_pct w)),
      (''humidity_high_pct'', json_num (wire_setpoints.humidity_high_pct w)),
      (''humidity_deadband_pct'', json_num (wire_setpoints.humidity_deadband_pct w)),
      (''co2_target_ppm'', json_num (wire_setpoints.co2_target_ppm w)),
      (''co2_vent_interlock_threshold_pct'', json_num (wire_setpoints.co2_vent_interlock_threshold_pct w)),
      (''vpd_target_kpa'', json_num (wire_setpoints.vpd_target_kpa w)),
      (''dli_target_mol'', json_num (wire_setpoints.dli_target_mol w)),
      (''zones'', json_list json_zone_targets (wire_setpoints.zones w))]"

definition json_setpoints_patch :: "wire_setpoints_patch \<Rightarrow> jsval" where
  "json_setpoints_patch w = JObj
     (json_field ''temperature_day_c'' json_num (wire_setpoints_patch.temperature_day_c w)
      @ json_field ''temperature_night_c'' json_num (wire_setpoints_patch.temperature_night_c w)
      @ json_field ''day_start'' JStr (wire_setpoints_patch.day_start w)
      @ json_field ''day_end'' JStr (wire_setpoints_patch.day_end w)
      @ json_field ''humidity_low_pct'' json_num (wire_setpoints_patch.humidity_low_pct w)
      @ json_field ''humidity_high_pct'' json_num (wire_setpoints_patch.humidity_high_pct w)
      @ json_field ''humidity_deadband_pct'' json_num (wire_setpoints_patch.humidity_deadband_pct w)
      @ json_field ''co2_target_ppm'' json_num (wire_setpoints_patch.co2_target_ppm w)
      @ json_field ''co2_vent_interlock_threshold_pct'' json_num (wire_setpoints_patch.co2_vent_interlock_threshold_pct w)
      @ json_field ''vpd_target_kpa'' json_num (wire_setpoints_patch.vpd_target_kpa w)
      @ json_field ''dli_target_mol'' json_num (wire_setpoints_patch.dli_target_mol w)
      @ json_field ''zones'' (json_list json_zone_targets) (wire_setpoints_patch.zones w))"

text \<open>\<open>crop\<close> is never undefined after the encoder, but null when there is none.\<close>

definition json_crop :: "string js_opt \<Rightarrow> (string \<times> jsval) list" where
  "json_crop c = (case c of Undefined \<Rightarrow> [] | Null \<Rightarrow> [(''crop'', JNull)] | Given s \<Rightarrow> [(''crop'', JStr s)])"

definition json_registration :: "wire_greenhouse_registration \<Rightarrow> jsval" where
  "json_registration w = JObj
     ([(''id'', JStr (wire_greenhouse_registration.ident w)),
       (''display_name'', JStr (wire_greenhouse_registration.display_name w))]
      @ json_crop (wire_greenhouse_registration.crop w)
      @ [(''controller'', JObj
           [(''rest_base_url'', JStr (rest_base_url (wire_greenhouse_registration.controller w))),
            (''mqtt_topic_root'', JStr (mqtt_topic_root (wire_greenhouse_registration.controller w)))])])"

definition json_bound :: "bound \<Rightarrow> jsval" where
  "json_bound b = JObj [(''min'', json_num (bound.min_v b)), (''max'', json_num (bound.max_v b))]"

fun json_bounds :: "string list \<Rightarrow> (string \<rightharpoonup> bound) \<Rightarrow> (string \<times> jsval) list" where
  "json_bounds [] m = []"
| "json_bounds (k # ks) m = json_field k json_bound (m k) @ json_bounds ks m"

definition json_zone_bounds :: "wire_zone_bounds \<Rightarrow> jsval" where
  "json_zone_bounds m = JObj (json_bounds (map snd ZONE_BOUND_KEYS) m)"

definition json_stage_bounds :: "wire_stage_bounds \<Rightarrow> jsval" where
  "json_stage_bounds w = JObj
     (json_bounds (map snd BOUND_KEYS) (wire_stage_bounds.scalars w)
      @ json_field ''zones'' json_zone_bounds (wire_stage_bounds.zones w))"

definition json_profile_stage :: "wire_profile_stage \<Rightarrow> jsval" where
  "json_profile_stage w = JObj
     ([(''stage'', JStr (wire_profile_stage.stage w)),
       (''targets'', json_setpoints (wire_profile_stage.targets w))]
      @ json_field ''bounds'' json_stage_bounds (wire_profile_stage.bounds w))"

definition json_crop_profile :: "wire_crop_profile \<Rightarrow> jsval" where
  "json_crop_profile w = JObj
     [(''id'', JStr (wire_crop_profile.ident w)),
      (''name'', JStr (wire_crop_profile.name w)),
      (''crop'', JStr (wire_crop_profile.crop w)),
      (''stages'', json_list json_profile_stage (wire_crop_profile.stages w))]"

definition json_crop_profile_patch :: "wire_crop_profile_patch \<Rightarrow> jsval" where
  "json_crop_profile_patch w = JObj
     [(''name'', JStr (wire_crop_profile_patch.name w)),
      (''crop'', JStr (wire_crop_profile_patch.crop w)),
      (''stages'', json_list json_profile_stage (wire_crop_profile_patch.stages w))]"

definition json_assignment_input :: "wire_assignment_input \<Rightarrow> jsval" where
  "json_assignment_input w = JObj
     [(''profile_id'', JStr (wire_assignment_input.profile_id w)),
      (''stage'', JStr (wire_assignment_input.stage w))]"

section \<open>Readers that a schema does not disturb\<close>

text \<open>
  \<open>stable r s\<close>: parsing with the schema \<open>s\<close> leaves what \<open>r\<close> reads as it was. This holds of
  every schema without a default.
\<close>

definition stable :: "(jsval \<Rightarrow> 'a option) \<Rightarrow> zod \<Rightarrow> bool" where
  "stable r s \<longleftrightarrow> (\<forall>v. r (project s v) = r v)"

named_theorems stable_intros "readers undisturbed by a schema"

lemma stable_basic [stable_intros]: "stable r ZString" "stable r ZNumber" "stable r ZBoolean"
  by (simp_all add: stable_def)

lemma stable_checks [stable_intros]:
  "stable r s \<Longrightarrow> stable r (ZCheck s p)" "stable r s \<Longrightarrow> stable r (ZMin s lo)"
  "stable r s \<Longrightarrow> stable r (ZMax s hi)" "stable r s \<Longrightarrow> stable r (ZInt s)"
  "stable r s \<Longrightarrow> stable r (ZRefine s q)" "stable r s \<Longrightarrow> stable r (ZNonEmpty s)"
  by (simp_all add: stable_def)

lemma stable_primitives [stable_intros]:
  "stable r slug" "stable r timeOfDay" "stable r schedule" "stable r (z_range lo hi)"
  unfolding slug_def timeOfDay_def schedule_def z_range_def by (intro stable_intros)+

lemma stable_list [stable_intros]: "stable r s \<Longrightarrow> stable (rd_list r) (ZArray s)"
  by (auto simp: stable_def comp_def split: jsval.splits)

text \<open>An object reader is undisturbed when it reads declared fields by undisturbed readers.\<close>

definition steady :: "(string \<times> zod) list \<Rightarrow> (jsval \<Rightarrow> 'a option) \<Rightarrow> bool" where
  "steady fs g \<longleftrightarrow> (\<forall>strict v. g (project (ZObject strict fs) v) = g v)"

lemma steady_ret: "steady fs (\<lambda>v. Some c)"
  by (simp add: steady_def)

lemma steady_field:
  assumes "distinct (map fst fs)" "map_of fs k = Some s" "stable r s"
  shows "steady fs (rd_field k r)"
  using assms(3) unfolding steady_def rd_field_def stable_def by (simp only: jprop_project [OF assms(1,2)]) simp

lemma steady_then:
  assumes "steady fs g" "\<And>x. steady fs (\<lambda>v. h x v)"
  shows "steady fs (\<lambda>v. Option.bind (g v) (\<lambda>x. h x v))"
  using assms unfolding steady_def by (simp del: project.simps cong: bind_option_cong)

lemma steady_bind:
  assumes "distinct (map fst fs)" "map_of fs k = Some s" "stable r s" "\<And>x. steady fs (\<lambda>v. h x v)"
  shows "steady fs (\<lambda>v. Option.bind (rd_field k r v) (\<lambda>x. h x v))"
  by (rule steady_then [OF steady_field [OF assms(1-3)] assms(4)])

lemma stable_object: "steady fs g \<Longrightarrow> stable g (ZObject strict fs)"
  by (simp add: steady_def stable_def del: project.simps)

text \<open>An optional field: no present value of the shapes here projects to undefined.\<close>

definition never_undef :: "zod \<Rightarrow> bool" where
  "never_undef s \<longleftrightarrow> (\<forall>v. v \<noteq> JUndef \<longrightarrow> project s v \<noteq> JUndef)"

lemma never_undef_object: "never_undef (ZObject strict fs)"
  by (simp add: never_undef_def)

lemma stable_optional: "stable r s \<Longrightarrow> never_undef s \<Longrightarrow> stable (rd_optional r) (ZOptional s)"
  by (auto simp: stable_def never_undef_def)

lemma stable_zone_targets [stable_intros]: "stable read_zone_targets wireZoneTargets"
  unfolding wireZoneTargets_def read_zone_targets_def
  by (rule stable_object) (rule steady_ret | rule steady_bind, simp, simp, (rule stable_intros)+)+

lemma stable_setpoints [stable_intros]: "stable read_setpoints wireSetpoints"
  unfolding wireSetpoints_def read_setpoints_def
  by (rule stable_object) (rule steady_ret | rule steady_bind, simp, simp, (rule stable_intros)+)+

lemma stable_bound [stable_intros]: "stable (rd_optional read_bound) (ZOptional wireBound)"
  unfolding wireBound_def read_bound_def
  by (rule stable_optional [OF stable_object never_undef_object])
    (rule steady_ret | rule steady_bind, simp, simp, (rule stable_intros)+)+

lemma steady_bounds:
  assumes "distinct (map fst fs)" "\<forall>k\<in>set ks. map_of fs k = Some (ZOptional wireBound)"
  shows "steady fs (read_bounds ks)"
  using assms(2)
proof (induction ks)
  case Nil
  then show ?case by (simp add: steady_def)
next
  case (Cons k ks)
  moreover have "read_bounds (k # ks) = (\<lambda>v. Option.bind (rd_field k (rd_optional read_bound) v) (\<lambda>b.
      Option.bind (read_bounds ks v) (\<lambda>m. Some (case b of None \<Rightarrow> m | Some x \<Rightarrow> m(k \<mapsto> x)))))"
    by (simp add: fun_eq_iff)
  moreover have "steady fs (\<lambda>v. Option.bind (read_bounds ks v) (\<lambda>m. Some (c m)))"
    if "steady fs (read_bounds ks)" for c :: "_ \<Rightarrow> string \<rightharpoonup> bound"
    by (rule steady_then [OF that steady_ret])
  ultimately show ?case
    using steady_bind [OF assms(1) _ stable_bound, of k "\<lambda>b v. Option.bind (read_bounds ks v)
        (\<lambda>m. Some (case b of None \<Rightarrow> m | Some x \<Rightarrow> m(k \<mapsto> x)))"] by simp
qed

lemma stable_zone_bounds [stable_intros]:
  "stable (rd_optional (read_bounds (map snd ZONE_BOUND_KEYS))) (ZOptional wireZoneBounds)"
  unfolding wireZoneBounds_def
  by (rule stable_optional [OF stable_object never_undef_object], rule steady_bounds)
    (simp_all add: ZONE_BOUND_KEYS_def)

lemma stable_stage_bounds [stable_intros]:
  "stable (rd_optional read_stage_bounds) (ZOptional wireStageBounds)"
  unfolding wireStageBounds_def read_stage_bounds_def
proof (rule stable_optional [OF stable_object never_undef_object], rule steady_then)
  show "steady [(''temperature_day_c'', ZOptional wireBound), (''temperature_night_c'', ZOptional wireBound),
      (''humidity_low_pct'', ZOptional wireBound), (''humidity_high_pct'', ZOptional wireBound),
      (''humidity_deadband_pct'', ZOptional wireBound), (''co2_target_ppm'', ZOptional wireBound),
      (''co2_vent_interlock_threshold_pct'', ZOptional wireBound), (''vpd_target_kpa'', ZOptional wireBound),
      (''dli_target_mol'', ZOptional wireBound), (''zones'', ZOptional wireZoneBounds)]
     (read_bounds (map snd BOUND_KEYS))"
    by (rule steady_bounds) (simp_all add: BOUND_KEYS_def)
qed (rule steady_ret | rule steady_bind, simp, simp, (rule stable_intros)+)+

lemma stable_profile_stage [stable_intros]: "stable read_profile_stage wireProfileStage"
  unfolding wireProfileStage_def read_profile_stage_def
  by (rule stable_object) (rule steady_ret | rule steady_bind, simp, simp, (rule stable_intros)+)+

lemma stable_crop_profile: "stable read_crop_profile wireCropProfile"
  unfolding wireCropProfile_def read_crop_profile_def
  by (rule stable_object) (rule steady_ret | rule steady_bind, simp, simp, (rule stable_intros)+)+

section \<open>Reading a body back\<close>

text \<open>
  A body reads as the object it was built from, if it reads at all: a number that is not finite
  was written as null and does not.
\<close>

definition reads_back :: "(jsval \<Rightarrow> 'a option) \<Rightarrow> ('a \<Rightarrow> jsval) \<Rightarrow> 'a \<Rightarrow> bool" where
  "reads_back r f w \<longleftrightarrow> (\<forall>y. r (f w) = Some y \<longrightarrow> y = w)"

lemma reads_backD: "reads_back r f w \<Longrightarrow> r (f w) = Some y \<Longrightarrow> y = w"
  by (simp add: reads_back_def)

lemma rd_num_json [simp]: "rd_num (json_num x) = Some y \<longleftrightarrow> y = x \<and> is_finite x"
  by (cases x) auto

lemma json_num_defined [simp]: "json_num x \<noteq> JUndef"
  by (cases x) auto

lemma reads_back_list:
  assumes "\<And>x. x \<in> set xs \<Longrightarrow> reads_back r f x"
  shows "reads_back (rd_list r) (json_list f) xs"
proof -
  have "map (r \<circ> f) xs = map Some ys \<Longrightarrow> ys = xs" for ys
    using assms
  proof (induction xs arbitrary: ys)
    case (Cons x xs)
    then show ?case by (cases ys) (auto dest: reads_backD)
  qed simp
  then show ?thesis by (simp add: reads_back_def json_list_def option_list_eq_Some_iff)
qed

lemma map_of_json_field [simp]:
  "map_of (json_field k f x) k' = (if k' = k then map_option f x else None)"
  by (simp add: json_field_def split: option.splits)

lemma reads_back_zone_targets: "reads_back read_zone_targets json_zone_targets z"
  by (auto simp: reads_back_def read_zone_targets_def json_zone_targets_def rd_field_def bind_eq_Some_conv)

lemma reads_back_zones: "reads_back (rd_list read_zone_targets) (json_list json_zone_targets) zs"
  by (rule reads_back_list) (rule reads_back_zone_targets)

lemma reads_back_setpoints: "reads_back read_setpoints json_setpoints w"
  by (auto simp: reads_back_def read_setpoints_def json_setpoints_def rd_field_def bind_eq_Some_conv
      simp del: rd_list.simps dest: reads_backD [OF reads_back_zones])

lemma reads_back_bound: "reads_back read_bound json_bound b"
  by (auto simp: reads_back_def read_bound_def json_bound_def rd_field_def bind_eq_Some_conv)

lemma defined_bodies [simp]:
  "json_bound b \<noteq> JUndef" "json_zone_bounds m \<noteq> JUndef" "json_stage_bounds w \<noteq> JUndef"
  by (simp_all add: json_bound_def json_zone_bounds_def json_stage_bounds_def)

text \<open>An optional field.\<close>

lemma rd_optional_json:
  assumes "\<And>y. reads_back r f y" "\<And>y. f y \<noteq> JUndef"
    and "rd_optional r (case x of None \<Rightarrow> JUndef | Some y \<Rightarrow> f y) = Some z"
  shows "z = x"
  using assms(3) by (cases x) (auto simp: assms(2) dest: reads_backD [OF assms(1)])

lemma map_of_json_bounds:
  "map_of (json_bounds ks m) k = (if k \<in> set ks then map_option json_bound (m k) else None)"
  by (induction ks) (auto simp: map_add_def split: option.splits)

lemma read_json_bounds:
  assumes "\<And>k. k \<in> set ks \<Longrightarrow> jprop v k = (case m k of None \<Rightarrow> JUndef | Some b \<Rightarrow> json_bound b)"
    and "read_bounds ks v = Some n"
  shows "n = m |` set ks"
  using assms
proof (induction ks arbitrary: n)
  case Nil
  then show ?case by simp
next
  case (Cons k ks)
  then obtain b n' where b: "rd_field k (rd_optional read_bound) v = Some b" and n': "read_bounds ks v = Some n'"
    and n: "n = (case b of None \<Rightarrow> n' | Some x \<Rightarrow> n'(k \<mapsto> x))"
    by (auto simp: bind_eq_Some_conv)
  have "b = m k"
    using b Cons.prems(1) [of k] rd_optional_json [OF reads_back_bound, of "m k" b] by (simp add: rd_field_def)
  moreover have "n' = m |` set ks" using Cons.IH [OF _ n'] Cons.prems(1) by simp
  ultimately show ?case
    using n by (auto simp: restrict_map_def fun_eq_iff split: option.splits)
qed

lemma restrict_to_dom: "dom m \<subseteq> A \<Longrightarrow> m |` A = m"
  unfolding restrict_map_def fun_eq_iff by (metis domIff subsetD)

lemma reads_back_zone_bounds:
  assumes "dom m \<subseteq> set (map snd ZONE_BOUND_KEYS)"
  shows "reads_back (read_bounds (map snd ZONE_BOUND_KEYS)) json_zone_bounds m"
proof -
  have "n = m |` set (map snd ZONE_BOUND_KEYS)"
    if "read_bounds (map snd ZONE_BOUND_KEYS) (json_zone_bounds m) = Some n" for n
    using _ that
    by (rule read_json_bounds)
      (simp add: json_zone_bounds_def map_of_json_bounds del: set_map split: option.splits)
  with restrict_to_dom [OF assms] show ?thesis by (simp add: reads_back_def)
qed

text \<open>An envelope that uses only the declared keys.\<close>

definition declared_bounds :: "wire_stage_bounds \<Rightarrow> bool" where
  "declared_bounds w \<longleftrightarrow> dom (wire_stage_bounds.scalars w) \<subseteq> set (map snd BOUND_KEYS)
     \<and> (\<forall>z. wire_stage_bounds.zones w = Some z \<longrightarrow> dom z \<subseteq> set (map snd ZONE_BOUND_KEYS))"

lemma zones_not_bound_key: "''zones'' \<notin> set (map snd BOUND_KEYS)"
  by (simp add: BOUND_KEYS_def)

lemma reads_back_stage_bounds:
  assumes "declared_bounds w"
  shows "reads_back read_stage_bounds json_stage_bounds w"
proof -
  let ?v = "json_stage_bounds w"
  have scalars: "m = wire_stage_bounds.scalars w" if "read_bounds (map snd BOUND_KEYS) ?v = Some m" for m
  proof -
    have "m = wire_stage_bounds.scalars w |` set (map snd BOUND_KEYS)"
    proof (rule read_json_bounds [OF _ that])
      fix k assume k: "k \<in> set (map snd BOUND_KEYS)"
      with zones_not_bound_key have "k \<noteq> ''zones''" by blast
      with k show "jprop ?v k = (case wire_stage_bounds.scalars w k of None \<Rightarrow> JUndef | Some b \<Rightarrow> json_bound b)"
        by (simp add: json_stage_bounds_def map_of_json_bounds map_add_def del: set_map split: option.splits)
    qed
    with assms show ?thesis by (simp add: declared_bounds_def restrict_to_dom del: set_map)
  qed
  have "jprop ?v ''zones'' = (case wire_stage_bounds.zones w of None \<Rightarrow> JUndef | Some z \<Rightarrow> json_zone_bounds z)"
    using zones_not_bound_key
    by (simp add: json_stage_bounds_def map_of_json_bounds map_add_def del: set_map split: option.splits)
  then have zones: "z = wire_stage_bounds.zones w"
    if "rd_field ''zones'' (rd_optional (read_bounds (map snd ZONE_BOUND_KEYS))) ?v = Some z" for z
    using that assms reads_back_zone_bounds
    by (cases "wire_stage_bounds.zones w") (auto simp: rd_field_def declared_bounds_def simp del: set_map dest!: reads_backD [rotated])
  show ?thesis
    unfolding reads_back_def
    by (auto simp: read_stage_bounds_def bind_eq_Some_conv intro!: wire_stage_bounds.equality dest: scalars zones)
qed

lemma reads_back_profile_stage:
  assumes "\<And>b. wire_profile_stage.bounds w = Some b \<Longrightarrow> declared_bounds b"
  shows "reads_back read_profile_stage json_profile_stage w"
proof -
  have targets: "t = wire_profile_stage.targets w" if "read_setpoints (json_setpoints (wire_profile_stage.targets w)) = Some t" for t
    using reads_backD [OF reads_back_setpoints that] .
  have bounds: "z = b" if "wire_profile_stage.bounds w = Some b" "read_stage_bounds (json_stage_bounds b) = Some z" for b z
    using reads_backD [OF reads_back_stage_bounds [OF assms [OF that(1)]] that(2)] .
  show ?thesis
    unfolding reads_back_def
    by (cases "wire_profile_stage.bounds w")
      (auto simp: read_profile_stage_def json_profile_stage_def rd_field_def json_field_def
        bind_eq_Some_conv intro!: wire_profile_stage.equality dest: targets bounds)
qed

lemma reads_back_crop_profile:
  assumes "\<And>s b. s \<in> set (wire_crop_profile.stages w) \<Longrightarrow> wire_profile_stage.bounds s = Some b \<Longrightarrow> declared_bounds b"
  shows "reads_back read_crop_profile json_crop_profile w"
proof -
  have "reads_back (rd_list read_profile_stage) (json_list json_profile_stage) (wire_crop_profile.stages w)"
    using assms by (intro reads_back_list reads_back_profile_stage)
  then show ?thesis
    by (auto simp: reads_back_def read_crop_profile_def json_crop_profile_def rd_field_def bind_eq_Some_conv
        simp del: rd_list.simps)
qed

text \<open>What the encoders produce uses only the declared keys.\<close>

lemma dom_copy_bounds: "dom (copy_bounds ks m acc) \<subseteq> set (map snd ks) \<union> dom acc"
proof
  fix b assume "b \<in> dom (copy_bounds ks m acc)"
  then show "b \<in> set (map snd ks) \<union> dom acc"
    using copy_bounds_notin [of b ks m acc] by (cases "b \<in> snd ` set ks") (auto simp: dom_def)
qed

lemma declared_toWire: "declared_bounds (toWireStageBounds b)"
proof -
  have s: "dom (copy_bounds BOUND_KEYS m Map.empty) \<subseteq> set (map snd BOUND_KEYS)" for m
    using dom_copy_bounds [of BOUND_KEYS m Map.empty] by simp
  have z: "dom (copy_bounds ZONE_BOUND_KEYS n Map.empty) \<subseteq> set (map snd ZONE_BOUND_KEYS)" for n
    using dom_copy_bounds [of ZONE_BOUND_KEYS n Map.empty] by simp
  show ?thesis
    unfolding declared_bounds_def toWireStageBounds_def toWireZoneBounds_def
    using s z by (cases "stage_bounds.zones b") simp_all
qed

text \<open>A valid body, parsed by the schema, is the profile it was made from.\<close>

lemma crop_profile_body_read:
  assumes "conforms wireCropProfile (json_crop_profile (toWireCropProfile p))"
  shows "map_option toCropProfile
      (read_crop_profile (project wireCropProfile (json_crop_profile (toWireCropProfile p)))) = Some p"
proof -
  let ?v = "json_crop_profile (toWireCropProfile p)"
  obtain w where w: "read_crop_profile (project wireCropProfile ?v) = Some w"
    using readsD [OF reads_crop_profile assms] by blast
  then have "read_crop_profile ?v = Some w" using stable_crop_profile by (simp add: stable_def)
  moreover have "reads_back read_crop_profile json_crop_profile (toWireCropProfile p)"
    by (rule reads_back_crop_profile) (auto simp: toWireCropProfile_def toWireProfileStage_def declared_toWire)
  ultimately have "w = toWireCropProfile p" by (rule reads_backD [rotated])
  with w show ?thesis by (simp add: toCropProfile_def toWireCropProfile_def comp_def)
qed

end
