(* ===== verification/Query_Hooks.thy ===== *)
theory Query_Hooks
  imports Rest_Bodies Query_Cache Api_Client Stream_Client
begin

text \<open>
  The read side of \<open>api/queries/*.ts\<close>: one constant per query hook, with the options it hands to
  the query client, and the query function that fetches, validates and adapts. A hook is a
  record: the key, the path below \<open>/api\<close>, the schema, the typed reading followed by the adapter,
  whether it is enabled, whether failures are retried by the client's default policy, the poll
  interval as a function of the cached data (milliseconds), and the period of the timer of its
  own that refetches its key, which the live-patched queries use instead of the client's.
\<close>

section \<open>Query strings\<close>

text \<open>
  \<open>URLSearchParams\<close>: \<open>set\<close> replaces the first pair of the name and drops the others, and the
  form serializer percent-encodes every byte but letters, digits and \<open>*-._\<close>, a space as plus.
\<close>

type_synonym search_params = "(string \<times> string) list"

fun search_set :: "string \<Rightarrow> string \<Rightarrow> search_params \<Rightarrow> search_params" where
  "search_set k v [] = [(k, v)]"
| "search_set k v ((k', v') # ps) =
     (if k' = k then (k, v) # filter (\<lambda>p. fst p \<noteq> k) ps else (k', v') # search_set k v ps)"

definition form_safe :: "char \<Rightarrow> bool" where
  "form_safe c \<longleftrightarrow> lower_or_digit c \<or> char_in CHR ''A'' CHR ''Z'' c \<or> c \<in> set ''*-._''"

definition hex_digit :: "nat \<Rightarrow> char" where
  "hex_digit n = char_of (if n < 10 then 48 + n else 55 + n)"

definition form_byte :: "char \<Rightarrow> string" where
  "form_byte c =
     (if form_safe c then [c] else if c = CHR '' '' then ''+''
      else [CHR ''%'', hex_digit (of_char c div 16), hex_digit (of_char c mod 16)])"

definition form_encode :: "string \<Rightarrow> string" where
  "form_encode s = concat (map form_byte s)"

definition search_string :: "search_params \<Rightarrow> string" where
  "search_string ps = join_with ''&'' (map (\<lambda>(k, v). form_encode k @ ''='' @ form_encode v) ps)"

definition with_query :: "search_params \<Rightarrow> string" where
  "with_query ps = (let encoded = search_string ps in if encoded \<noteq> [] then ''?'' @ encoded else [])"

text \<open>The helper \<open>query\<close> the query files share: undefined values are left out.\<close>

definition query :: "(string \<times> string option) list \<Rightarrow> string" where
  "query params = with_query
     (fold (\<lambda>(k, v) acc. case v of None \<Rightarrow> acc | Some x \<Rightarrow> search_set k x acc) params [])"

text \<open>The one of the active alerts leaves out every falsy value.\<close>

definition truthy_set :: "string \<Rightarrow> string option \<Rightarrow> search_params \<Rightarrow> search_params" where
  "truthy_set k v ps = (case v of None \<Rightarrow> ps | Some x \<Rightarrow> if x = [] then ps else search_set k x ps)"

text \<open>The literal of an enum value.\<close>

definition literal :: "(string \<times> 'a) list \<Rightarrow> 'a \<Rightarrow> string" where
  "literal table x = (case find (\<lambda>p. snd p = x) table of Some p \<Rightarrow> fst p | None \<Rightarrow> [])"

definition scope_query :: "event_scope \<Rightarrow> string" where
  "scope_query sc = with_query
     (truthy_set ''severity'' (map_option (literal event_severity_table) (sc_severity sc))
       (truthy_set ''kind'' (map_option (literal event_kind_table) (sc_kind sc))
         (truthy_set ''greenhouse_id'' (sc_greenhouseId sc) [])))"

section \<open>Hooks\<close>

record query_opts =
  q_key :: query_key
  q_path :: string
  q_schema :: zod
  q_view :: "jsval \<Rightarrow> query_data option"
  q_enabled :: bool
  q_retry :: bool
  q_interval :: "query_data option \<Rightarrow> int option"
  q_timer :: "int option"

definition basic_query :: "query_key \<Rightarrow> string \<Rightarrow> zod \<Rightarrow> (jsval \<Rightarrow> query_data option) \<Rightarrow> query_opts" where
  "basic_query k path schema view =
     \<lparr>q_key = k, q_path = path, q_schema = schema, q_view = view, q_enabled = True, q_retry = True,
      q_interval = (\<lambda>_. None), q_timer = None\<rparr>"

definition viewed :: "(jsval \<Rightarrow> 'w option) \<Rightarrow> ('w \<Rightarrow> 'v) \<Rightarrow> ('v \<Rightarrow> query_data) \<Rightarrow> jsval \<Rightarrow> query_data option" where
  "viewed r f c v = map_option (\<lambda>w. c (f w)) (r v)"

subsection \<open>Fleet and greenhouses\<close>

definition FLEET_POLL_BASE_MS :: int where "FLEET_POLL_BASE_MS = 60 * 1000"
definition FLEET_POLL_STEP_2_MS :: int where "FLEET_POLL_STEP_2_MS = 2 * 60 * 1000"
definition FLEET_POLL_STEP_3_MS :: int where "FLEET_POLL_STEP_3_MS = 5 * 60 * 1000"

definition fleetPollIntervalMs :: "bool \<Rightarrow> nat \<Rightarrow> int" where
  "fleetPollIntervalMs streamDegraded consecutiveFailures =
     (let escalated =
        (if consecutiveFailures \<ge> 2 then FLEET_POLL_STEP_3_MS
         else if consecutiveFailures = 1 then FLEET_POLL_STEP_2_MS
         else FLEET_POLL_BASE_MS)
      in if streamDegraded then max escalated FLEET_POLL_STEP_2_MS else escalated)"

definition isStreamDegraded :: "ws_connection_state \<Rightarrow> bool" where
  "isStreamDegraded connectionState \<longleftrightarrow> connectionState = WsReconnecting \<or> connectionState = WsClosed"

definition fleetStaleNotice :: "bool \<Rightarrow> bool \<Rightarrow> string option" where
  "fleetStaleNotice streamDegraded isError =
     (if isError then Some (''Couldn't refresh charts '' @ [CHR 0xE2, CHR 0x80, CHR 0x94] @ '' showing the last known data.'')
      else if streamDegraded then Some (''Live stream degraded '' @ [CHR 0xE2, CHR 0x80, CHR 0x94] @ '' charts may be stale.'')
      else None)"

text \<open>
  The effect of \<open>useFleetSparklines\<close> that runs once per settled fetch, on the failure tally.
\<close>

definition tally_failures :: "bool \<Rightarrow> bool \<Rightarrow> nat \<Rightarrow> nat" where
  "tally_failures isError isSuccess n = (if isError then n + 1 else if isSuccess then 0 else n)"

definition useFleet :: query_opts where
  "useFleet = (basic_query fleet_key ''/greenhouses'' wireFleet
     (viewed (rd_list read_greenhouse_summary) (map toGreenhouseSummary) FleetData))
     \<lparr>q_timer := Some FLEET_POLL_BASE_MS\<rparr>"

definition useGreenhouse :: "date_parser \<Rightarrow> string \<Rightarrow> query_opts" where
  "useGreenhouse dp i = (basic_query (greenhouse_key i) (''/greenhouses/'' @ i) (wireGreenhouseDetail dp)
     (viewed read_greenhouse_detail (toGreenhouseDetail dp) DetailData))
     \<lparr>q_enabled := i \<noteq> [], q_timer := (if i = [] then None else Some FLEET_POLL_BASE_MS)\<rparr>"

definition useFleetSparklines :: "date_parser \<Rightarrow> ws_connection_state \<Rightarrow> nat \<Rightarrow> string \<Rightarrow> query_opts" where
  "useFleetSparklines dp connectionState failures window =
     (basic_query (fleetSparklines_key window) (''/greenhouses/sparklines'' @ query [(''window'', Some window)])
       (wireFleetSparklines dp) (viewed read_fleet_sparklines (toFleetSparklines dp) SparklineData))
     \<lparr>q_retry := False, q_interval := (\<lambda>_. Some (fleetPollIntervalMs (isStreamDegraded connectionState) failures))\<rparr>"

subsection \<open>History, events and alerts\<close>

definition useTelemetry :: "date_parser \<Rightarrow> string \<Rightarrow> string \<Rightarrow> query_opts" where
  "useTelemetry dp i window =
     (basic_query (telemetry_key i window)
       (''/greenhouses/'' @ i @ ''/telemetry'' @ query [(''window'', Some window)])
       (wireTelemetryRange dp) (viewed read_telemetry_range (toTelemetryRange dp) TelemetryData))
     \<lparr>q_enabled := i \<noteq> []\<rparr>"

definition useAnalytics :: "date_parser \<Rightarrow> string \<Rightarrow> string \<Rightarrow> analytics_interval \<Rightarrow> metric option \<Rightarrow> query_opts" where
  "useAnalytics dp i window intv mtr =
     (basic_query (analytics_key i window intv)
       (''/greenhouses/'' @ i @ ''/analytics''
         @ query [(''window'', Some window), (''interval'', Some (literal analytics_interval_table intv)),
                  (''metric'', map_option (literal metric_table) mtr)])
       (wireAnalyticsResponse dp) (viewed read_analytics_response (toAnalyticsResponse dp) AnalyticsData))
     \<lparr>q_enabled := i \<noteq> []\<rparr>"

definition useEvents :: "date_parser \<Rightarrow> event_scope \<Rightarrow> query_opts" where
  "useEvents dp sc =
     basic_query (events_key sc)
       (''/events'' @ query [(''greenhouse_id'', sc_greenhouseId sc),
          (''kind'', map_option (literal event_kind_table) (sc_kind sc)),
          (''severity'', map_option (literal event_severity_table) (sc_severity sc))])
       (wireEventFeed dp) (viewed (rd_list read_event_entry) (map (toEventEntry dp)) EventsData)"

definition useActiveAlerts :: "date_parser \<Rightarrow> event_scope \<Rightarrow> query_opts" where
  "useActiveAlerts dp sc =
     basic_query (activeAlerts_key sc) (''/active-alerts'' @ scope_query sc) (wireActiveAlertFeed dp)
       (viewed (rd_list read_active_alert) (map (toActiveAlert dp)) AlertsData)"

subsection \<open>Profiles\<close>

definition useProfiles :: query_opts where
  "useProfiles = basic_query profiles_key ''/profiles'' wireProfileLibrary
     (viewed (rd_list read_crop_profile) (map toCropProfile) ProfilesData)"

definition useProfile :: "string \<Rightarrow> query_opts" where
  "useProfile i = (basic_query (profile_key i) (''/profiles/'' @ i) wireCropProfile
     (viewed read_crop_profile toCropProfile ProfileData))\<lparr>q_enabled := i \<noteq> []\<rparr>"

definition useAssignment :: "string \<Rightarrow> query_opts" where
  "useAssignment i = (basic_query (assignment_key i) (''/greenhouses/'' @ i @ ''/assignment'') wireAssignment
     (viewed read_assignment toAssignment AssignmentData))\<lparr>q_enabled := i \<noteq> [], q_retry := False\<rparr>"

subsection \<open>Optimizer\<close>

definition OPTIMIZER_POLL_MS :: int where "OPTIMIZER_POLL_MS = 15 * 1000"
definition OPTIMIZER_ACTIVE_POLL_MS :: int where "OPTIMIZER_ACTIVE_POLL_MS = 2500"

definition polled :: "(query_data option \<Rightarrow> int) \<Rightarrow> query_opts \<Rightarrow> query_opts" where
  "polled f q = q\<lparr>q_retry := False, q_interval := (\<lambda>d. Some (f d))\<rparr>"

definition useOptimizerStatus :: "date_parser \<Rightarrow> query_opts" where
  "useOptimizerStatus dp = polled (\<lambda>_. OPTIMIZER_POLL_MS)
     (basic_query optimizerStatus_key ''/optimizer/status'' (wireOptimizerStatus dp)
       (viewed read_optimizer_status (toOptimizerStatus dp) OptStatusData))"

fun any_in_flight :: "query_data option \<Rightarrow> bool" where
  "any_in_flight (Some (OptFleetData s)) = (\<exists>g\<in>set (fleet_optimizer_summary.greenhouses s). inFlight g)"
| "any_in_flight _ = False"

definition useOptimizerFleet :: "date_parser \<Rightarrow> query_opts" where
  "useOptimizerFleet dp =
     polled (\<lambda>d. if any_in_flight d then OPTIMIZER_ACTIVE_POLL_MS else OPTIMIZER_POLL_MS)
       (basic_query optimizerFleet_key ''/optimizer/fleet'' (wireFleetOptimizerSummary dp)
         (viewed read_fleet_optimizer_summary (toFleetOptimizerSummary dp) OptFleetData))"

definition useOptimizerEscalations :: "date_parser \<Rightarrow> query_opts" where
  "useOptimizerEscalations dp = polled (\<lambda>_. OPTIMIZER_POLL_MS)
     (basic_query optimizerEscalations_key ''/optimizer/escalations'' (wireEscalationList dp)
       (viewed (rd_list read_escalation) (map (toEscalation dp)) OptEscalationsData))"

definition useOptimizerModel :: query_opts where
  "useOptimizerModel = polled (\<lambda>_. OPTIMIZER_POLL_MS)
     (basic_query optimizerModel_key ''/optimizer/model'' wireModelState
       (viewed read_model_state toModelState OptModelData))"

definition useOptimizerEnabled :: query_opts where
  "useOptimizerEnabled = polled (\<lambda>_. OPTIMIZER_POLL_MS)
     (basic_query optimizerEnabled_key ''/optimizer/enabled'' wireEnableState
       (viewed read_enable_state toEnableState OptEnabledData))"

definition useOptimizerPlan :: "date_parser \<Rightarrow> string \<Rightarrow> query_opts" where
  "useOptimizerPlan dp i =
     polled (\<lambda>d. if d = None then OPTIMIZER_ACTIVE_POLL_MS else OPTIMIZER_POLL_MS)
       ((basic_query (optimizerPlan_key i) (''/optimizer/greenhouses/'' @ i @ ''/plan'') (wireOptimizerPlanDetail dp)
         (viewed read_optimizer_plan_detail (toOptimizerPlanDetail dp) OptPlanData))\<lparr>q_enabled := i \<noteq> []\<rparr>)"

definition useGreenhouseOptimizerEnabled :: "string \<Rightarrow> query_opts" where
  "useGreenhouseOptimizerEnabled i =
     polled (\<lambda>_. OPTIMIZER_POLL_MS)
       ((basic_query (optimizerGreenhouseEnabled_key i) (''/optimizer/greenhouses/'' @ i @ ''/enabled'')
         wireGreenhouseEnableState
         (viewed read_greenhouse_enable_state toGreenhouseEnableState OptGreenhouseEnabledData))\<lparr>q_enabled := i \<noteq> []\<rparr>)"

section \<open>Fetching\<close>

text \<open>
  The query function: fetch and validate, then read and adapt. Data the reading does not
  understand would be a type error of the adapter, here a foreign exception.
\<close>

definition query_fn ::
    "schema_parser \<Rightarrow> browser_fetch \<Rightarrow> string \<Rightarrow> query_opts \<Rightarrow> auth_module \<Rightarrow> (thrown + query_data) \<times> auth_module" where
  "query_fn sp fetch base q m =
     (case api_get sp fetch base (q_path q) (q_schema q) m of
        (Inl e, m1) \<Rightarrow> (Inl (ApiError e), m1)
      | (Inr v, m1) \<Rightarrow> (case q_view q v of Some d \<Rightarrow> (Inr d, m1) | None \<Rightarrow> (Inl OtherThrown, m1)))"

definition query_retry :: "query_opts \<Rightarrow> nat \<Rightarrow> thrown \<Rightarrow> bool" where
  "query_retry q failureCount err \<longleftrightarrow> q_retry q \<and> shouldRetryQuery failureCount err"

text \<open>The queries of the program, as it calls the hooks.\<close>

inductive spa_query :: "date_parser \<Rightarrow> query_opts \<Rightarrow> bool" for dp where
  "spa_query dp useFleet"
| "spa_query dp (useGreenhouse dp i)"
| "spa_query dp (useFleetSparklines dp conn failures w)"
| "spa_query dp (useTelemetry dp i w)"
| "spa_query dp (useAnalytics dp i w n None)"
| "spa_query dp (useEvents dp sc)"
| "spa_query dp (useActiveAlerts dp sc)"
| "spa_query dp useProfiles"
| "spa_query dp (useProfile i)"
| "spa_query dp (useAssignment i)"
| "spa_query dp (useOptimizerStatus dp)"
| "spa_query dp (useOptimizerFleet dp)"
| "spa_query dp (useOptimizerEscalations dp)"
| "spa_query dp useOptimizerModel"
| "spa_query dp useOptimizerEnabled"
| "spa_query dp (useOptimizerPlan dp i)"
| "spa_query dp (useGreenhouseOptimizerEnabled i)"

lemmas hook_defs =
  useFleet_def useGreenhouse_def useFleetSparklines_def useTelemetry_def useAnalytics_def useEvents_def
  useActiveAlerts_def useProfiles_def useProfile_def useAssignment_def useOptimizerStatus_def
  useOptimizerFleet_def useOptimizerEscalations_def useOptimizerModel_def useOptimizerEnabled_def
  useOptimizerPlan_def useGreenhouseOptimizerEnabled_def polled_def basic_query_def

lemma viewed_reads:
  "reads r s \<Longrightarrow> conforms s v \<Longrightarrow> \<exists>w. viewed r f c (project s v) = Some (c (f w))"
  using readsD [of r s v] by (auto simp: viewed_def)

lemma reads_feeds [reads_intros]:
  "reads (rd_list read_greenhouse_summary) wireFleet"
  "reads (rd_list read_event_entry) (wireEventFeed dp)"
  "reads (rd_list read_active_alert) (wireActiveAlertFeed dp)"
  "reads (rd_list read_crop_profile) wireProfileLibrary"
  "reads (rd_list read_escalation) (wireEscalationList dp)"
  unfolding wireFleet_def wireEventFeed_def wireActiveAlertFeed_def wireProfileLibrary_def wireEscalationList_def
  by (intro reads_intros)+

lemma hook_view:
  assumes "reads r s" "\<And>w. key_typed k (c (f w))" "conforms s v"
  shows "\<exists>d. viewed r f c (project s v) = Some d \<and> key_typed k d"
  using viewed_reads [OF assms(1,3), of f c] assms(2) by blast

lemma spa_query_typed:
  assumes "spa_query dp q" "conforms (q_schema q) v"
  shows "\<exists>d. q_view q (project (q_schema q) v) = Some d \<and> key_typed (q_key q) d"
  using assms
  by (cases rule: spa_query.cases)
    (simp_all only: hook_defs query_opts.simps, (rule hook_view, rule reads_intros; simp add: key_defs)+)

text \<open>The keys of the queries are prefix-free, so an invalidation reaches one entry.\<close>

lemma spa_query_prefix_same:
  assumes "spa_query dp q" "spa_query dp q'" "prefix (q_key q) (q_key q')"
  shows "q_key q = q_key q' \<and> q_path q = q_path q' \<and> q_schema q = q_schema q' \<and> q_view q = q_view q' \<and> q_enabled q = q_enabled q'"
  using assms
  by (cases rule: spa_query.cases; cases rule: spa_query.cases [OF assms(2)])
    (simp_all add: hook_defs key_defs)

lemmas spa_query_prefix_free = spa_query_prefix_same [THEN conjunct1]

lemma tally_run:
  "fold (\<lambda>failed. tally_failures failed (\<not> failed)) outcomes n
   = length (takeWhile id (rev outcomes)) + (if list_all id outcomes then n else 0)"
proof (induction outcomes rule: rev_induct)
  case (snoc x xs)
  then show ?case by (auto simp: tally_failures_def list_all_iff takeWhile_append takeWhile_eq_all_conv)
qed simp

section \<open>Properties\<close>

text \<open>
  C16: every query of the program answers with typed data. A response that conforms to the query's
  schema yields the adapted data, of the type its key owns; every other outcome is an API error,
  and the adapters never throw.
\<close>

theorem query_answers_typed:
  assumes "zod_package sp" "spa_query dp q"
  shows "let req = build_request base (q_path q) GET None m; res = fst (query_fn sp fetch base q m);
             good = (\<lambda>v. \<exists>r. fetch req = Response r \<and> response_ok r \<and> rs_json r = Some v \<and> conforms (q_schema q) v)
         in (\<forall>v. good v \<longrightarrow> (\<exists>d. res = Inr d \<and> q_view q (project (q_schema q) v) = Some d \<and> key_typed (q_key q) d))
          \<and> ((\<nexists>v. good v) \<longrightarrow> (\<exists>e. res = Inl (ApiError e)))"
proof -
  note accepts = zod_package.accepts [OF assms(1)] and rejects = zod_package.rejects [OF assms(1), of "q_schema q"]
  show ?thesis
  proof (cases "\<exists>r v. fetch (build_request base (q_path q) GET None m) = Response r \<and> response_ok r
      \<and> rs_json r = Some v \<and> conforms (q_schema q) v")
    case True
    then obtain r v where r: "fetch (build_request base (q_path q) GET None m) = Response r" "response_ok r"
      "rs_json r = Some v" "conforms (q_schema q) v" by blast
    obtain d where d: "q_view q (project (q_schema q) v) = Some d" "key_typed (q_key q) d"
      using spa_query_typed [OF assms(2) r(4)] by blast
    have "fst (query_fn sp fetch base q m) = Inr d"
      using r d by (simp add: query_fn_def api_get_def requestJson_def rawFetch_def accepts)
    with r d show ?thesis by (auto simp: Let_def)
  next
    case False
    then have "\<exists>e. fst (query_fn sp fetch base q m) = Inl (ApiError e)"
      using rejects
      by (fastforce simp: query_fn_def api_get_def requestJson_def rawFetch_def Let_def
          split: fetch_result.splits option.splits sum.splits)
    with False show ?thesis by (auto simp: Let_def)
  qed
qed

theorem query_answers_typed_witness:
  "fst (query_fn reference_parse (\<lambda>_. Response \<lparr>rs_status = 200, rs_json = Some (JObj [(''enabled'', JBool True)])\<rparr>)
      [] useOptimizerEnabled \<lparr>accessToken = None, unauthorizedHandler = False, unauthorizedCalls = 0\<rparr>)
   = Inr (OptEnabledData \<lparr>enable_state.enabled = True\<rparr>)"
  using query_answers_typed [OF ref.zod_package_axioms, of _ useOptimizerEnabled "[]"
      "\<lparr>accessToken = None, unauthorizedHandler = False, unauthorizedCalls = 0\<rparr>"
      "\<lambda>_. Response \<lparr>rs_status = 200, rs_json = Some (JObj [(''enabled'', JBool True)])\<rparr>", OF spa_query.intros(15)]
  by (simp add: Let_def response_ok_def useOptimizerEnabled_def polled_def basic_query_def wireEnableState_def
      viewed_def read_enable_state_def rd_field_def toEnableState_def)

text \<open>
  C17: a cache entry holds the answer of one request. Two queries of the program with the same
  key fetch the same path and read it the same way. The key of the analytics hook leaves out
  its metric, so two calls for different metrics would share an entry though they fetch
  different paths; the program never passes one.
\<close>

theorem query_key_determines_request:
  "(\<forall>q q'. spa_query dp q \<and> spa_query dp q' \<and> q_key q = q_key q'
      \<longrightarrow> q_path q = q_path q' \<and> q_schema q = q_schema q' \<and> q_view q = q_view q' \<and> q_enabled q = q_enabled q')
   \<and> q_key (useAnalytics dp i w n (Some Humidity)) = q_key (useAnalytics dp i w n None)
   \<and> q_path (useAnalytics dp i w n (Some Humidity)) \<noteq> q_path (useAnalytics dp i w n None)"
proof (intro conjI allI impI)
  fix q q' assume q: "spa_query dp q \<and> spa_query dp q' \<and> q_key q = q_key q'"
  then have "spa_query dp q" "spa_query dp q'" "q_key q = q_key q'" by simp_all
  then have "q_path q = q_path q' \<and> q_schema q = q_schema q' \<and> q_view q = q_view q' \<and> q_enabled q = q_enabled q'"
    using spa_query_prefix_same by (metis prefix_order.refl)
  then show "q_path q = q_path q'" "q_schema q = q_schema q'" "q_view q = q_view q'" "q_enabled q = q_enabled q'"
    by simp_all
qed (simp_all add: useAnalytics_def basic_query_def query_def with_query_def search_string_def Let_def
      form_encode_def form_byte_def form_safe_def lower_or_digit_def literal_def metric_table_def)

theorem query_key_determines_request_witness:
  "q_path (useFleetSparklines (\<lambda>_. None) WsOpen 0 ''1h'') = q_path (useFleetSparklines (\<lambda>_. None) WsReconnecting 3 ''1h'')"
  using query_key_determines_request [of "\<lambda>_. None" "''gh-1''" "''1h''" OneHour]
    spa_query.intros(3) [of "\<lambda>_. None" WsOpen 0 "''1h''"] spa_query.intros(3) [of "\<lambda>_. None" WsReconnecting 3 "''1h''"]
  by (simp add: useFleetSparklines_def basic_query_def)

text \<open>
  The fleet poll backs off. After any sequence of settled fetches the tally is the number of
  failures since the last success, and the interval is one minute without one, two after the
  first and five from the second on, but at least two while the stream is degraded; polling
  never stops.
\<close>

theorem fleet_poll_backoff:
  "let n = fold (\<lambda>failed. tally_failures failed (\<not> failed)) outcomes 0;
       ms = fleetPollIntervalMs (isStreamDegraded conn) n
   in n = length (takeWhile id (rev outcomes))
    \<and> ms = max (if isStreamDegraded conn then 120000 else 60000) (if n = 0 then 60000 else if n = 1 then 120000 else 300000)
    \<and> q_interval (useFleetSparklines dp conn n w) d = Some ms \<and> \<not> q_retry (useFleetSparklines dp conn n w)"
proof -
  have n: "fold (\<lambda>failed. tally_failures failed (\<not> failed)) outcomes 0 = length (takeWhile id (rev outcomes))"
    by (simp add: tally_run)
  show ?thesis
    unfolding n Let_def
    by (auto simp: useFleetSparklines_def basic_query_def fleetPollIntervalMs_def FLEET_POLL_BASE_MS_def
      FLEET_POLL_STEP_2_MS_def FLEET_POLL_STEP_3_MS_def simp del: length_0_conv length_greater_0_conv)
qed

end
