(* ===== verification/Query_Mutations.thy ===== *)
theory Query_Mutations
  imports Query_Hooks
begin

text \<open>
  The write side of \<open>api/queries/*.ts\<close>: the mutation hooks. A mutation is a record: method, path,
  body, the schema of the answer (none for a delete), the typed reading with its adapter, and
  the cache effects its \<open>onSuccess\<close> runs in order. Running one performs the request and, only when
  it succeeded, the effects on the query client.
\<close>

section \<open>Cache effects\<close>

datatype cache_effect = Invalidate query_key | Remove query_key

fun apply_effect :: "'c query_client \<Rightarrow> cache_effect \<Rightarrow> 'c \<Rightarrow> 'c" where
  "apply_effect qc (Invalidate k) c = invalidateQueries qc k c"
| "apply_effect qc (Remove k) c = removeQueries qc k c"

definition apply_effects :: "'c query_client \<Rightarrow> cache_effect list \<Rightarrow> 'c \<Rightarrow> 'c" where
  "apply_effects qc es c = fold (apply_effect qc) es c"

fun effect_key :: "cache_effect \<Rightarrow> query_key" where
  "effect_key (Invalidate k) = k"
| "effect_key (Remove k) = k"

fun is_remove :: "cache_effect \<Rightarrow> bool" where
  "is_remove (Remove k) = True"
| "is_remove (Invalidate k) = False"

section \<open>Mutations\<close>

record 'd mutation =
  mu_method :: http_method
  mu_path :: string
  mu_body :: "jsval option"
  mu_schema :: "zod option"
  mu_view :: "jsval \<Rightarrow> 'd option"
  mu_effects :: "'d \<Rightarrow> cache_effect list"

definition mutation_fn ::
    "schema_parser \<Rightarrow> browser_fetch \<Rightarrow> string \<Rightarrow> 'd mutation \<Rightarrow> auth_module \<Rightarrow> (thrown + 'd) \<times> auth_module" where
  "mutation_fn sp fetch base mu m =
     (case mu_schema mu of
        None \<Rightarrow>
          (case api_delete sp fetch base (mu_path mu) m of
             (Inl e, m1) \<Rightarrow> (Inl (ApiError e), m1)
           | (Inr u, m1) \<Rightarrow> (case mu_view mu JUndef of Some d \<Rightarrow> (Inr d, m1) | None \<Rightarrow> (Inl OtherThrown, m1)))
      | Some schema \<Rightarrow>
          (case requestJson sp fetch base (mu_path mu) schema (mu_method mu) (mu_body mu) m of
             (Inl e, m1) \<Rightarrow> (Inl (ApiError e), m1)
           | (Inr v, m1) \<Rightarrow> (case mu_view mu v of Some d \<Rightarrow> (Inr d, m1) | None \<Rightarrow> (Inl OtherThrown, m1))))"

definition mutate ::
    "schema_parser \<Rightarrow> browser_fetch \<Rightarrow> string \<Rightarrow> 'c query_client \<Rightarrow> 'd mutation \<Rightarrow> auth_module \<Rightarrow> 'c
       \<Rightarrow> (thrown + 'd) \<times> auth_module \<times> 'c" where
  "mutate sp fetch base qc mu m c =
     (case mutation_fn sp fetch base mu m of
        (Inl e, m1) \<Rightarrow> (Inl e, m1, c)
      | (Inr d, m1) \<Rightarrow> (Inr d, m1, apply_effects qc (mu_effects mu d) c))"

definition reading_view :: "(jsval \<Rightarrow> 'w option) \<Rightarrow> ('w \<Rightarrow> 'v) \<Rightarrow> jsval \<Rightarrow> 'v option" where
  "reading_view r f v = map_option f (r v)"

definition write_call ::
    "http_method \<Rightarrow> string \<Rightarrow> jsval \<Rightarrow> zod \<Rightarrow> (jsval \<Rightarrow> 'd option) \<Rightarrow> ('d \<Rightarrow> cache_effect list) \<Rightarrow> 'd mutation" where
  "write_call meth path body schema view effs =
     \<lparr>mu_method = meth, mu_path = path, mu_body = Some body, mu_schema = Some schema, mu_view = view, mu_effects = effs\<rparr>"

definition delete_call :: "string \<Rightarrow> cache_effect list \<Rightarrow> unit mutation" where
  "delete_call path effs =
     \<lparr>mu_method = DELETE, mu_path = path, mu_body = None, mu_schema = None, mu_view = (\<lambda>_. Some ()), mu_effects = (\<lambda>_. effs)\<rparr>"

subsection \<open>Greenhouses\<close>

definition useRegisterGreenhouse :: "greenhouse_registration_input \<Rightarrow> greenhouse_summary mutation" where
  "useRegisterGreenhouse input =
     write_call POST ''/greenhouses'' (json_registration (toWireRegistration input)) wireGreenhouseSummary
       (reading_view read_greenhouse_summary toGreenhouseSummary) (\<lambda>_. [Invalidate fleet_key])"

definition useRetireGreenhouse :: "string \<Rightarrow> unit mutation" where
  "useRetireGreenhouse i = delete_call (''/greenhouses/'' @ i) [Remove (greenhouse_key i), Invalidate fleet_key]"

definition useSetpointEdit :: "string \<Rightarrow> setpoints_patch \<Rightarrow> setpoints mutation" where
  "useSetpointEdit i patch =
     write_call PATCH (''/greenhouses/'' @ i @ ''/setpoints'') (json_setpoints_patch (toWireSetpointsPatch patch))
       wireSetpoints (reading_view read_setpoints toSetpoints)
       (\<lambda>_. [Invalidate (greenhouse_key i), Invalidate fleet_key])"

subsection \<open>Profiles\<close>

definition useCreateProfile :: "crop_profile \<Rightarrow> crop_profile mutation" where
  "useCreateProfile profile =
     write_call POST ''/profiles'' (json_crop_profile (toWireCropProfile profile)) wireCropProfile
       (reading_view read_crop_profile toCropProfile) (\<lambda>_. [Invalidate profiles_key])"

definition useUpdateProfile :: "crop_profile \<Rightarrow> crop_profile mutation" where
  "useUpdateProfile profile =
     write_call PATCH (''/profiles/'' @ crop_profile.ident profile)
       (json_crop_profile_patch (toWireCropProfilePatch profile)) wireCropProfile
       (reading_view read_crop_profile toCropProfile)
       (\<lambda>p. [Invalidate (profile_key (crop_profile.ident p)), Invalidate profiles_key])"

definition useDeleteProfile :: "string \<Rightarrow> unit mutation" where
  "useDeleteProfile i = delete_call (''/profiles/'' @ i) [Remove (profile_key i), Invalidate profiles_key]"

definition useSetAssignment :: "string \<Rightarrow> assignment_input \<Rightarrow> assignment mutation" where
  "useSetAssignment i input =
     write_call PUT (''/greenhouses/'' @ i @ ''/assignment'') (json_assignment_input (toWireAssignmentInput input))
       wireAssignment (reading_view read_assignment toAssignment)
       (\<lambda>_. [Invalidate (assignment_key i), Invalidate (greenhouse_key i), Invalidate fleet_key])"

subsection \<open>Simulation time scale\<close>

definition scale_body :: "js_num \<Rightarrow> jsval" where
  "scale_body s = JObj [(''scale'', json_num s)]"

definition useSetTimeScale :: "date_parser \<Rightarrow> string \<Rightarrow> js_num \<Rightarrow> time_scale_state mutation" where
  "useSetTimeScale dp i s =
     write_call PATCH (''/greenhouses/'' @ i @ ''/sim/time-scale'') (scale_body s) (wireTimeScale dp)
       (reading_view read_time_scale (toTimeScale dp))
       (\<lambda>_. [Invalidate (greenhouse_key i), Invalidate fleet_key])"

definition useSetFleetTimeScale :: "js_num \<Rightarrow> fleet_time_scale_result mutation" where
  "useSetFleetTimeScale s =
     write_call PATCH ''/sim/time-scale'' (scale_body s) wireFleetTimeScaleResult
       (reading_view read_fleet_time_scale_result toFleetTimeScaleResult) (\<lambda>_. [Invalidate fleet_key])"

subsection \<open>Optimizer\<close>

definition reason_field :: "string option \<Rightarrow> (string \<times> jsval) list" where
  "reason_field reason = json_field ''reason'' JStr reason"

definition useResolveEscalation :: "date_parser \<Rightarrow> string \<Rightarrow> string option \<Rightarrow> escalation mutation" where
  "useResolveEscalation dp escalationId reason =
     write_call POST (''/optimizer/escalations/'' @ escalationId @ ''/resolve'') (JObj (reason_field reason))
       (wireEscalation dp) (reading_view read_escalation (toEscalation dp))
       (\<lambda>_. [Invalidate optimizerEscalations_key, Invalidate optimizerFleet_key])"

definition useSetOptimizerModel :: "string \<Rightarrow> string option \<Rightarrow> model_state mutation" where
  "useSetOptimizerModel mdl reason =
     write_call POST ''/optimizer/model'' (JObj ((''model'', JStr mdl) # reason_field reason)) wireModelState
       (reading_view read_model_state toModelState) (\<lambda>_. [Invalidate optimizerModel_key])"

definition useSetOptimizerEnabled :: "bool \<Rightarrow> string option \<Rightarrow> enable_state mutation" where
  "useSetOptimizerEnabled b reason =
     write_call POST ''/optimizer/enabled'' (JObj ((''enabled'', JBool b) # reason_field reason)) wireEnableState
       (reading_view read_enable_state toEnableState)
       (\<lambda>_. [Invalidate optimizerEnabled_key, Invalidate optimizerStatus_key, Invalidate optimizerFleet_key])"

definition useTriggerOptimizerCycle :: "string \<Rightarrow> string option \<Rightarrow> cycle_accepted mutation" where
  "useTriggerOptimizerCycle i reason =
     write_call POST (''/optimizer/greenhouses/'' @ i @ ''/cycles'') (JObj (reason_field reason)) wireCycleAccepted
       (reading_view read_cycle_accepted toCycleAccepted)
       (\<lambda>_. [Invalidate (optimizerPlan_key i), Invalidate optimizerEscalations_key, Invalidate optimizerFleet_key])"

definition useSetGreenhouseOptimizerEnabled :: "string \<Rightarrow> bool \<Rightarrow> string option \<Rightarrow> greenhouse_enable_state mutation" where
  "useSetGreenhouseOptimizerEnabled i b reason =
     write_call POST (''/optimizer/greenhouses/'' @ i @ ''/enabled'')
       (JObj ((''enabled'', JBool b) # reason_field reason)) wireGreenhouseEnableState
       (reading_view read_greenhouse_enable_state toGreenhouseEnableState)
       (\<lambda>_. [Invalidate (optimizerGreenhouseEnabled_key i), Invalidate optimizerFleet_key])"

lemmas mutation_defs =
  useRegisterGreenhouse_def useRetireGreenhouse_def useSetpointEdit_def useCreateProfile_def useUpdateProfile_def
  useDeleteProfile_def useSetAssignment_def useSetTimeScale_def useSetFleetTimeScale_def useResolveEscalation_def
  useSetOptimizerModel_def useSetOptimizerEnabled_def useTriggerOptimizerCycle_def
  useSetGreenhouseOptimizerEnabled_def write_call_def delete_call_def

section \<open>What the effects do to the cache\<close>

context query_cache begin

lemma get_effects:
  "getQueryData qc k (apply_effects qc es c) =
     (if \<exists>e\<in>set es. is_remove e \<and> prefix (effect_key e) k then None else getQueryData qc k c)"
  unfolding apply_effects_def
proof (induction es arbitrary: c)
  case (Cons e es)
  then show ?case by (cases e) (auto simp: get_invalidate get_remove)
qed simp

lemma cached_effects:
  assumes "\<forall>e\<in>set es. is_remove e \<longrightarrow> \<not> prefix (effect_key e) k"
  shows "k \<in> set (findAll qc [] (apply_effects qc es c)) \<longleftrightarrow> k \<in> set (findAll qc [] c)"
  using assms unfolding apply_effects_def
proof (induction es arbitrary: c)
  case (Cons e es)
  then show ?case by (cases e) (auto simp: find_invalidate find_remove)
qed simp

lemma invalidated_effects:
  assumes "\<forall>e\<in>set es. is_remove e \<longrightarrow> \<not> prefix (effect_key e) k"
  shows "isInvalidated qc k (apply_effects qc es c) \<longleftrightarrow>
     isInvalidated qc k c \<or> (k \<in> set (findAll qc [] c) \<and> (\<exists>e\<in>set es. \<not> is_remove e \<and> prefix (effect_key e) k))"
  using assms unfolding apply_effects_def
proof (induction es arbitrary: c)
  case (Cons e es)
  show ?case
  proof (cases e)
    case (Invalidate p)
    with Cons show ?thesis by (auto simp: invalidated find_invalidate)
  next
    case (Remove p)
    with Cons.prems have "\<not> prefix p k" by auto
    with Remove Cons show ?thesis by (auto simp: invalidated_remove find_remove)
  qed
qed simp

end

text \<open>Every effect names the key of a query of the program.\<close>

definition targets_queries :: "date_parser \<Rightarrow> cache_effect list \<Rightarrow> bool" where
  "targets_queries dp es \<longleftrightarrow> (\<forall>e\<in>set es. \<exists>q. spa_query dp q \<and> effect_key e = q_key q)"

lemma query_keys:
  "\<exists>q. spa_query dp q \<and> fleet_key = q_key q"
  "\<exists>q. spa_query dp q \<and> greenhouse_key i = q_key q"
  "\<exists>q. spa_query dp q \<and> profiles_key = q_key q"
  "\<exists>q. spa_query dp q \<and> profile_key i = q_key q"
  "\<exists>q. spa_query dp q \<and> assignment_key i = q_key q"
  "\<exists>q. spa_query dp q \<and> optimizerStatus_key = q_key q"
  "\<exists>q. spa_query dp q \<and> optimizerFleet_key = q_key q"
  "\<exists>q. spa_query dp q \<and> optimizerEscalations_key = q_key q"
  "\<exists>q. spa_query dp q \<and> optimizerModel_key = q_key q"
  "\<exists>q. spa_query dp q \<and> optimizerEnabled_key = q_key q"
  "\<exists>q. spa_query dp q \<and> optimizerPlan_key i = q_key q"
  "\<exists>q. spa_query dp q \<and> optimizerGreenhouseEnabled_key i = q_key q"
  by (rule exI, rule conjI, rule spa_query.intros, simp add: hook_defs)+

lemma mutations_target_queries:
  "targets_queries dp (mu_effects (useRegisterGreenhouse input) d1)"
  "targets_queries dp (mu_effects (useRetireGreenhouse i) d2)"
  "targets_queries dp (mu_effects (useSetpointEdit i patch) d3)"
  "targets_queries dp (mu_effects (useCreateProfile p) d4)"
  "targets_queries dp (mu_effects (useUpdateProfile p) d4)"
  "targets_queries dp (mu_effects (useDeleteProfile i) d2)"
  "targets_queries dp (mu_effects (useSetAssignment i a) d5)"
  "targets_queries dp (mu_effects (useSetTimeScale dp i s) d6)"
  "targets_queries dp (mu_effects (useSetFleetTimeScale s) d7)"
  "targets_queries dp (mu_effects (useResolveEscalation dp i reason) d8)"
  "targets_queries dp (mu_effects (useSetOptimizerModel i reason) d9)"
  "targets_queries dp (mu_effects (useSetOptimizerEnabled b reason) d10)"
  "targets_queries dp (mu_effects (useTriggerOptimizerCycle i reason) d11)"
  "targets_queries dp (mu_effects (useSetGreenhouseOptimizerEnabled i b reason) d12)"
  by (simp_all add: targets_queries_def mutation_defs query_keys)

lemma targets_exact:
  assumes "targets_queries dp es" "spa_query dp q" "e \<in> set es"
  shows "prefix (effect_key e) (q_key q) \<longleftrightarrow> effect_key e = q_key q"
proof -
  obtain q' where q': "spa_query dp q'" "effect_key e = q_key q'"
    using assms(1,3) by (auto simp: targets_queries_def)
  with spa_query_prefix_free [OF q'(1) assms(2)] show ?thesis by auto
qed

lemma targets_named:
  assumes "targets_queries dp es" "spa_query dp q"
  shows "(\<exists>e\<in>set es. is_remove e \<and> prefix (effect_key e) (q_key q)) \<longleftrightarrow> Remove (q_key q) \<in> set es"
    and "(\<exists>e\<in>set es. \<not> is_remove e \<and> prefix (effect_key e) (q_key q)) \<longleftrightarrow> Invalidate (q_key q) \<in> set es"
proof -
  have "is_remove e \<and> effect_key e = k \<longleftrightarrow> e = Remove k" "\<not> is_remove e \<and> effect_key e = k \<longleftrightarrow> e = Invalidate k" for e k
    by (cases e; auto)+
  then show "(\<exists>e\<in>set es. is_remove e \<and> prefix (effect_key e) (q_key q)) \<longleftrightarrow> Remove (q_key q) \<in> set es"
    "(\<exists>e\<in>set es. \<not> is_remove e \<and> prefix (effect_key e) (q_key q)) \<longleftrightarrow> Invalidate (q_key q) \<in> set es"
    using targets_exact [OF assms] by metis+
qed

section \<open>Properties\<close>

text \<open>
  What a mutation that removes the data of some keys and invalidates others does to the cache
  entry of the query with key \<open>k\<close>: nothing when it failed. When it succeeded with \<open>d\<close>, the data
  is gone exactly when \<open>k\<close> is among the removed keys and is the old data otherwise, and an entry
  that is kept is invalidated exactly when it was before, or is cached and among the keys to
  invalidate.
\<close>

definition refreshes ::
    "'c query_client \<Rightarrow> 'c \<Rightarrow> query_key \<Rightarrow> query_key list \<Rightarrow> ('d \<Rightarrow> query_key list)
       \<Rightarrow> (thrown + 'd) \<times> auth_module \<times> 'c \<Rightarrow> bool" where
  "refreshes qc c k removed stale out = (case out of
      (Inl e, m', c') \<Rightarrow> c' = c
    | (Inr d, m', c') \<Rightarrow>
        getQueryData qc k c' = (if k \<in> set removed then None else getQueryData qc k c)
      \<and> (k \<in> set removed \<or>
          (isInvalidated qc k c' \<longleftrightarrow> isInvalidated qc k c \<or> (k \<in> set (findAll qc [] c) \<and> k \<in> set (stale d)))))"

lemma mutation_refreshes:
  assumes "query_cache qc" "spa_query dp q" "\<And>d. targets_queries dp (mu_effects mu d)"
    and removed: "\<And>d k. Remove k \<in> set (mu_effects mu d) \<longleftrightarrow> k \<in> set removed"
    and stale: "\<And>d k. Invalidate k \<in> set (mu_effects mu d) \<longleftrightarrow> k \<in> set (stale d)"
  shows "refreshes qc c (q_key q) removed stale (mutate sp fetch base qc mu m c)"
proof -
  note get = query_cache.get_effects [OF assms(1)] and inv = query_cache.invalidated_effects [OF assms(1)]
  show ?thesis
  proof (cases "mutation_fn sp fetch base mu m")
    case (Pair r m')
    show ?thesis
    proof (cases r)
      case (Inl e)
      with Pair show ?thesis by (simp add: mutate_def refreshes_def)
    next
      case (Inr d)
      note targets = targets_named [OF assms(3) [of d] assms(2)]
      have "\<forall>e\<in>set (mu_effects mu d). is_remove e \<longrightarrow> \<not> prefix (effect_key e) (q_key q)"
        if "q_key q \<notin> set removed"
        using that targets(1) removed by blast
      with Pair Inr show ?thesis by (auto simp: refreshes_def mutate_def get inv targets removed stale)
    qed
  qed
qed

text \<open>
  C18: each of the fourteen mutations refreshes exactly the queries its change makes stale. A
  failed mutation leaves the cache alone; a successful one removes and newly invalidates just
  the keys listed here for it, and every other query of the program keeps its data and its
  freshness. The key of an updated profile is the id the platform answered.
\<close>

theorem mutation_refresh_exact:
  assumes "query_cache qc" "spa_query dp q"
  shows "refreshes qc c (q_key q) [] (\<lambda>_. [[KStr ''fleet'']])
        (mutate sp fetch base qc (useRegisterGreenhouse input) m c)
    \<and> refreshes qc c (q_key q) [[KStr ''greenhouse'', KStr i]] (\<lambda>_. [[KStr ''fleet'']])
        (mutate sp fetch base qc (useRetireGreenhouse i) m c)
    \<and> refreshes qc c (q_key q) [] (\<lambda>_. [[KStr ''greenhouse'', KStr i], [KStr ''fleet'']])
        (mutate sp fetch base qc (useSetpointEdit i patch) m c)
    \<and> refreshes qc c (q_key q) [] (\<lambda>_. [[KStr ''profiles'']])
        (mutate sp fetch base qc (useCreateProfile p) m c)
    \<and> refreshes qc c (q_key q) [] (\<lambda>saved. [[KStr ''profile'', KStr (crop_profile.ident saved)], [KStr ''profiles'']])
        (mutate sp fetch base qc (useUpdateProfile p) m c)
    \<and> refreshes qc c (q_key q) [[KStr ''profile'', KStr i]] (\<lambda>_. [[KStr ''profiles'']])
        (mutate sp fetch base qc (useDeleteProfile i) m c)
    \<and> refreshes qc c (q_key q) [] (\<lambda>_. [[KStr ''assignment'', KStr i], [KStr ''greenhouse'', KStr i], [KStr ''fleet'']])
        (mutate sp fetch base qc (useSetAssignment i a) m c)
    \<and> refreshes qc c (q_key q) [] (\<lambda>_. [[KStr ''greenhouse'', KStr i], [KStr ''fleet'']])
        (mutate sp fetch base qc (useSetTimeScale dp i s) m c)
    \<and> refreshes qc c (q_key q) [] (\<lambda>_. [[KStr ''fleet'']])
        (mutate sp fetch base qc (useSetFleetTimeScale s) m c)
    \<and> refreshes qc c (q_key q) [] (\<lambda>_. [[KStr ''optimizer-escalations''], [KStr ''optimizer-fleet'']])
        (mutate sp fetch base qc (useResolveEscalation dp i reason) m c)
    \<and> refreshes qc c (q_key q) [] (\<lambda>_. [[KStr ''optimizer-model'']])
        (mutate sp fetch base qc (useSetOptimizerModel i reason) m c)
    \<and> refreshes qc c (q_key q) [] (\<lambda>_. [[KStr ''optimizer-enabled''], [KStr ''optimizer-status''], [KStr ''optimizer-fleet'']])
        (mutate sp fetch base qc (useSetOptimizerEnabled b reason) m c)
    \<and> refreshes qc c (q_key q) [] (\<lambda>_. [[KStr ''optimizer-plan'', KStr i], [KStr ''optimizer-escalations''], [KStr ''optimizer-fleet'']])
        (mutate sp fetch base qc (useTriggerOptimizerCycle i reason) m c)
    \<and> refreshes qc c (q_key q) [] (\<lambda>_. [[KStr ''optimizer-greenhouse-enabled'', KStr i], [KStr ''optimizer-fleet'']])
        (mutate sp fetch base qc (useSetGreenhouseOptimizerEnabled i b reason) m c)"
proof (intro conjI)
  note refresh = mutation_refreshes [OF assms]
  show "refreshes qc c (q_key q) [] (\<lambda>_. [[KStr ''fleet'']])
        (mutate sp fetch base qc (useRegisterGreenhouse input) m c)"
    by (rule refresh [OF mutations_target_queries(1)]; simp add: mutation_defs key_defs)
  show "refreshes qc c (q_key q) [[KStr ''greenhouse'', KStr i]] (\<lambda>_. [[KStr ''fleet'']])
        (mutate sp fetch base qc (useRetireGreenhouse i) m c)"
    by (rule refresh [OF mutations_target_queries(2)]; simp add: mutation_defs key_defs)
  show "refreshes qc c (q_key q) [] (\<lambda>_. [[KStr ''greenhouse'', KStr i], [KStr ''fleet'']])
        (mutate sp fetch base qc (useSetpointEdit i patch) m c)"
    by (rule refresh [OF mutations_target_queries(3)]; simp add: mutation_defs key_defs)
  show "refreshes qc c (q_key q) [] (\<lambda>_. [[KStr ''profiles'']])
        (mutate sp fetch base qc (useCreateProfile p) m c)"
    by (rule refresh [OF mutations_target_queries(4)]; simp add: mutation_defs key_defs)
  show "refreshes qc c (q_key q) [] (\<lambda>saved. [[KStr ''profile'', KStr (crop_profile.ident saved)], [KStr ''profiles'']])
        (mutate sp fetch base qc (useUpdateProfile p) m c)"
    by (rule refresh [OF mutations_target_queries(5)]; simp add: mutation_defs key_defs)
  show "refreshes qc c (q_key q) [[KStr ''profile'', KStr i]] (\<lambda>_. [[KStr ''profiles'']])
        (mutate sp fetch base qc (useDeleteProfile i) m c)"
    by (rule refresh [OF mutations_target_queries(6)]; simp add: mutation_defs key_defs)
  show "refreshes qc c (q_key q) [] (\<lambda>_. [[KStr ''assignment'', KStr i], [KStr ''greenhouse'', KStr i], [KStr ''fleet'']])
        (mutate sp fetch base qc (useSetAssignment i a) m c)"
    by (rule refresh [OF mutations_target_queries(7)]; simp add: mutation_defs key_defs)
  show "refreshes qc c (q_key q) [] (\<lambda>_. [[KStr ''greenhouse'', KStr i], [KStr ''fleet'']])
        (mutate sp fetch base qc (useSetTimeScale dp i s) m c)"
    by (rule refresh [OF mutations_target_queries(8)]; simp add: mutation_defs key_defs)
  show "refreshes qc c (q_key q) [] (\<lambda>_. [[KStr ''fleet'']])
        (mutate sp fetch base qc (useSetFleetTimeScale s) m c)"
    by (rule refresh [OF mutations_target_queries(9)]; simp add: mutation_defs key_defs)
  show "refreshes qc c (q_key q) [] (\<lambda>_. [[KStr ''optimizer-escalations''], [KStr ''optimizer-fleet'']])
        (mutate sp fetch base qc (useResolveEscalation dp i reason) m c)"
    by (rule refresh [OF mutations_target_queries(10)]; simp add: mutation_defs key_defs)
  show "refreshes qc c (q_key q) [] (\<lambda>_. [[KStr ''optimizer-model'']])
        (mutate sp fetch base qc (useSetOptimizerModel i reason) m c)"
    by (rule refresh [OF mutations_target_queries(11)]; simp add: mutation_defs key_defs)
  show "refreshes qc c (q_key q) [] (\<lambda>_. [[KStr ''optimizer-enabled''], [KStr ''optimizer-status''], [KStr ''optimizer-fleet'']])
        (mutate sp fetch base qc (useSetOptimizerEnabled b reason) m c)"
    by (rule refresh [OF mutations_target_queries(12)]; simp add: mutation_defs key_defs)
  show "refreshes qc c (q_key q) [] (\<lambda>_. [[KStr ''optimizer-plan'', KStr i], [KStr ''optimizer-escalations''], [KStr ''optimizer-fleet'']])
        (mutate sp fetch base qc (useTriggerOptimizerCycle i reason) m c)"
    by (rule refresh [OF mutations_target_queries(13)]; simp add: mutation_defs key_defs)
  show "refreshes qc c (q_key q) [] (\<lambda>_. [[KStr ''optimizer-greenhouse-enabled'', KStr i], [KStr ''optimizer-fleet'']])
        (mutate sp fetch base qc (useSetGreenhouseOptimizerEnabled i b reason) m c)"
    by (rule refresh [OF mutations_target_queries(14)]; simp add: mutation_defs key_defs)
qed

theorem mutation_refresh_exact_witness:
  "case mutate reference_parse (\<lambda>_. Response \<lparr>rs_status = 204, rs_json = None\<rparr>) [] ref_client (useRetireGreenhouse ''gh-1'')
      \<lparr>accessToken = None, unauthorizedHandler = False, unauthorizedCalls = 0\<rparr>
      [(fleet_key, \<lparr>ce_data = None, ce_invalidated = False\<rparr>)] of
      (Inl e, m', c') \<Rightarrow> False
    | (Inr d, m', c') \<Rightarrow> isInvalidated ref_client fleet_key c'"
proof -
  let ?out = "mutate reference_parse (\<lambda>_. Response \<lparr>rs_status = 204, rs_json = None\<rparr>) [] ref_client (useRetireGreenhouse ''gh-1'')
      \<lparr>accessToken = None, unauthorizedHandler = False, unauthorizedCalls = 0\<rparr>
      [(fleet_key, \<lparr>ce_data = None, ce_invalidated = False\<rparr>)]"
  have "refreshes ref_client [(fleet_key, \<lparr>ce_data = None, ce_invalidated = False\<rparr>)] (q_key useFleet)
      [[KStr ''greenhouse'', KStr ''gh-1'']] (\<lambda>_. [[KStr ''fleet'']]) ?out"
    by (rule mutation_refresh_exact [OF ref_cache.query_cache_axioms spa_query.intros(1) [of "\<lambda>_. None"],
        THEN conjunct2, THEN conjunct1])
  then show ?thesis
    by (auto simp: refreshes_def mutate_def mutation_fn_def api_delete_def rawFetch_def response_ok_def useRetireGreenhouse_def
        delete_call_def useFleet_def basic_query_def ref_client_def ref_find_def key_defs)
qed

text \<open>
  C19: saving a profile loses nothing. When the platform answers a create request with the body
  it was sent, and that body is valid, the mutation returns the very profile the form had,
  crop-safe envelopes included.
\<close>

theorem profile_save_roundtrip:
  assumes "zod_package sp"
    and "conforms wireCropProfile (json_crop_profile (toWireCropProfile p))"
    and "\<And>rq. fetch rq = Response \<lparr>rs_status = 201, rs_json = rq_body rq\<rparr>"
  shows "fst (mutation_fn sp fetch base (useCreateProfile p) m) = Inr p"
proof -
  let ?v = "json_crop_profile (toWireCropProfile p)"
  have "sp wireCropProfile ?v = Inr (project wireCropProfile ?v)"
    by (rule zod_package.accepts [OF assms(1,2)])
  moreover have "reading_view read_crop_profile toCropProfile (project wireCropProfile ?v) = Some p"
    unfolding reading_view_def by (rule crop_profile_body_read [OF assms(2)])
  ultimately show ?thesis
    by (simp add: mutation_fn_def useCreateProfile_def write_call_def requestJson_def rawFetch_def assms(3)
        response_ok_def build_request_def Let_def)
qed

definition example_profile :: crop_profile where
  "example_profile = \<lparr>crop_profile.ident = ''basil'', name = ''Basil'', crop = ''basil'', stages = [
     \<lparr>profile_stage.stage = ''veg'',
      targets = \<lparr>setpoints.temperatureDayC = Fin 24, temperatureNightC = Fin 19, dayStart = ''06:00'', dayEnd = ''22:00'',
        humidityLowPct = Fin 50, humidityHighPct = Fin 70, humidityDeadbandPct = Fin 4, co2TargetPpm = Fin 900,
        co2VentInterlockThresholdPct = Fin 15, vpdTargetKpa = Fin 1, dliTargetMol = Fin 17, zones = []\<rparr>,
      bounds = Some \<lparr>stage_bounds.scalars = [TemperatureDayC \<mapsto> \<lparr>bound.min_v = Fin 20, max_v = Fin 28\<rparr>], zones = None\<rparr>\<rparr>]\<rparr>"

lemma example_profile_valid: "conforms wireCropProfile (json_crop_profile (toWireCropProfile example_profile))"
  by (simp add: example_profile_def toWireCropProfile_def toWireProfileStage_def toWireStageBounds_def BOUND_KEYS_def
      json_crop_profile_def json_profile_stage_def json_stage_bounds_def json_setpoints_def json_list_def json_field_def
      json_bound_def toWireSetpoints_def wireCropProfile_def wireProfileStage_def wireSetpoints_def wireStageBounds_def
      wireBound_def slug_def is_slug_def lower_or_digit_def timeOfDay_def char_in_def z_range_def)

theorem profile_save_roundtrip_witness:
  "fst (mutation_fn reference_parse (\<lambda>rq. Response \<lparr>rs_status = 201, rs_json = rq_body rq\<rparr>) []
     (useCreateProfile example_profile) \<lparr>accessToken = None, unauthorizedHandler = False, unauthorizedCalls = 0\<rparr>)
   = Inr example_profile"
  by (rule profile_save_roundtrip [OF ref.zod_package_axioms example_profile_valid]) simp

end
