(* ===== verification/Profile_Form.thy ===== *)
theory Profile_Form
  imports Query_Mutations Toasts Machines
begin

text \<open>
  The crop-profile editor (\<open>features/profiles/ProfileEditForm.tsx\<close>): the field tables, the seeding
  of crop-safe envelopes, and the form as a state machine. The state is the component's hooks
  (fields, stages, the form error), whether the mutation is pending, and its effects on the
  surroundings: the profiles handed to the mutation, the toasts pushed and whether the dialog was
  closed. An event is a change handler, the submit, or the mutation settling. The text of a number
  in a message is the parameter \<open>ns\<close>; the numeric inputs hand over \<open>Number(value)\<close>.
\<close>

section \<open>Fields\<close>

record 'k bound_field =
  bf_key :: 'k
  bf_label :: string
  bf_step :: string
  bf_min :: js_num
  bf_max :: js_num
  bf_margin :: js_num

definition deg_c :: string where "deg_c = [CHR 0xC2, CHR 0xB0, CHR ''C'']"
definition middle_dot :: string where "middle_dot = [CHR 0xC2, CHR 0xB7]"
definition less_eq_sign :: string where "less_eq_sign = [CHR 0xE2, CHR 0x89, CHR 0xA4]"
definition sub_two :: string where "sub_two = [CHR 0xE2, CHR 0x82, CHR 0x82]"

definition bound_field :: "'k \<Rightarrow> string \<Rightarrow> string \<Rightarrow> js_num \<Rightarrow> js_num \<Rightarrow> js_num \<Rightarrow> 'k bound_field" where
  "bound_field k label step lo hi margin =
     \<lparr>bf_key = k, bf_label = label, bf_step = step, bf_min = lo, bf_max = hi, bf_margin = margin\<rparr>"

definition SCALARS :: "scalar_setpoint_key bound_field list" where
  "SCALARS =
     [bound_field TemperatureDayC (''Day temp ('' @ deg_c @ '')'') ''0.1'' (Fin (- 20)) (Fin 60) (Fin 3),
      bound_field TemperatureNightC (''Night temp ('' @ deg_c @ '')'') ''0.1'' (Fin (- 20)) (Fin 60) (Fin 3),
      bound_field HumidityLowPct ''Humidity low (%RH)'' ''1'' (Fin 0) (Fin 100) (Fin 5),
      bound_field HumidityHighPct ''Humidity high (%RH)'' ''1'' (Fin 0) (Fin 100) (Fin 5),
      bound_field HumidityDeadbandPct ''Humidity deadband (%RH)'' ''1'' (Fin 0) (Fin 50) (Fin 2),
      bound_field Co2TargetPpm (''CO'' @ sub_two @ '' target (ppm)'') ''1'' (Fin 0) (Fin 5000) (Fin 150),
      bound_field Co2VentInterlockThresholdPct (''CO'' @ sub_two @ '' vent interlock (%)'') ''1'' (Fin 0) (Fin 100) (Fin 5),
      bound_field VpdTargetKpa ''VPD target (kPa)'' ''0.1'' (Fin 0) PosInf (fl (1/5)),
      bound_field DliTargetMol ''DLI target (mol)'' ''0.1'' (Fin 0) PosInf (Fin 3)]"

definition ZONE_BOUND_FIELDS :: "zone_bound_key bound_field list" where
  "ZONE_BOUND_FIELDS =
     [bound_field MoistureLowThreshold ''Moisture low (VWC)'' ''0.01'' (Fin 0) (Fin 1) (fl (1/10)),
      bound_field MoistureHighThreshold ''Moisture high (VWC)'' ''0.01'' (Fin 0) (Fin 1) (fl (1/10)),
      bound_field DrainPeriodSecs ''Drain period (s)'' ''1'' (Fin 0) PosInf (Fin 120)]"

text \<open>\<open>targets[key]\<close> and \<open>zone[key]\<close>, read and written.\<close>

fun target_of :: "scalar_setpoint_key \<Rightarrow> setpoints \<Rightarrow> js_num" where
  "target_of TemperatureDayC t = setpoints.temperatureDayC t"
| "target_of TemperatureNightC t = setpoints.temperatureNightC t"
| "target_of HumidityLowPct t = setpoints.humidityLowPct t"
| "target_of HumidityHighPct t = setpoints.humidityHighPct t"
| "target_of HumidityDeadbandPct t = setpoints.humidityDeadbandPct t"
| "target_of Co2TargetPpm t = setpoints.co2TargetPpm t"
| "target_of Co2VentInterlockThresholdPct t = setpoints.co2VentInterlockThresholdPct t"
| "target_of VpdTargetKpa t = setpoints.vpdTargetKpa t"
| "target_of DliTargetMol t = setpoints.dliTargetMol t"

fun with_target :: "scalar_setpoint_key \<Rightarrow> js_num \<Rightarrow> setpoints \<Rightarrow> setpoints" where
  "with_target TemperatureDayC v t = t\<lparr>setpoints.temperatureDayC := v\<rparr>"
| "with_target TemperatureNightC v t = t\<lparr>setpoints.temperatureNightC := v\<rparr>"
| "with_target HumidityLowPct v t = t\<lparr>setpoints.humidityLowPct := v\<rparr>"
| "with_target HumidityHighPct v t = t\<lparr>setpoints.humidityHighPct := v\<rparr>"
| "with_target HumidityDeadbandPct v t = t\<lparr>setpoints.humidityDeadbandPct := v\<rparr>"
| "with_target Co2TargetPpm v t = t\<lparr>setpoints.co2TargetPpm := v\<rparr>"
| "with_target Co2VentInterlockThresholdPct v t = t\<lparr>setpoints.co2VentInterlockThresholdPct := v\<rparr>"
| "with_target VpdTargetKpa v t = t\<lparr>setpoints.vpdTargetKpa := v\<rparr>"
| "with_target DliTargetMol v t = t\<lparr>setpoints.dliTargetMol := v\<rparr>"

fun zone_target_of :: "zone_bound_key \<Rightarrow> zone_targets \<Rightarrow> js_num" where
  "zone_target_of MoistureLowThreshold z = moistureLowThreshold z"
| "zone_target_of MoistureHighThreshold z = moistureHighThreshold z"
| "zone_target_of DrainPeriodSecs z = drainPeriodSecs z"

section \<open>Seeding the envelope\<close>

definition round2 :: "js_num \<Rightarrow> js_num" where
  "round2 v = num_div (math_round (num_mul v (Fin 100))) (Fin 100)"

definition defaultBound :: "scalar_setpoint_key bound_field \<Rightarrow> js_num \<Rightarrow> bound" where
  "defaultBound fld target =
     \<lparr>bound.min_v = round2 (math_max (bf_min fld) (num_sub target (bf_margin fld))),
      max_v = round2 (math_min (bf_max fld) (num_add target (bf_margin fld)))\<rparr>"

definition defaultZoneBound :: "zone_bound_key bound_field \<Rightarrow> zone_targets list \<Rightarrow> bound" where
  "defaultZoneBound fld zs =
     (let vs = map (zone_target_of (bf_key fld)) zs
      in \<lparr>bound.min_v = round2 (math_max (bf_min fld) (num_sub (min_of vs) (bf_margin fld))),
          max_v = round2 (math_min (bf_max fld) (num_add (max_of vs) (bf_margin fld)))\<rparr>)"

definition seedZoneBounds :: "zone_targets list \<Rightarrow> zone_bounds option \<Rightarrow> zone_bounds option" where
  "seedZoneBounds zs existing =
     (if zs = [] then None
      else Some (foldl (\<lambda>b fld. b(bf_key fld \<mapsto>
             (case Option.bind existing (\<lambda>e. e (bf_key fld)) of
                Some x \<Rightarrow> x | None \<Rightarrow> defaultZoneBound fld zs))) Map.empty ZONE_BOUND_FIELDS))"

definition fullBounds :: "setpoints \<Rightarrow> stage_bounds option \<Rightarrow> stage_bounds" where
  "fullBounds t existing =
     \<lparr>stage_bounds.scalars = foldl (\<lambda>b fld. b(bf_key fld \<mapsto>
         (case Option.bind existing (\<lambda>e. stage_bounds.scalars e (bf_key fld)) of
            Some x \<Rightarrow> x | None \<Rightarrow> defaultBound fld (target_of (bf_key fld) t)))) Map.empty SCALARS,
      zones = seedZoneBounds (setpoints.zones t) (Option.bind existing stage_bounds.zones)\<rparr>"

definition defaultTargets :: setpoints where
  "defaultTargets =
     \<lparr>setpoints.temperatureDayC = Fin 22, temperatureNightC = Fin 18, dayStart = ''06:00'', dayEnd = ''20:00'',
      humidityLowPct = Fin 50, humidityHighPct = Fin 80, humidityDeadbandPct = Fin 5, co2TargetPpm = Fin 800,
      co2VentInterlockThresholdPct = Fin 20, vpdTargetKpa = Fin 1, dliTargetMol = Fin 15, zones = []\<rparr>"

definition defaultZone :: zone_targets where
  "defaultZone = \<lparr>zone_targets.zoneId = [], moistureLowThreshold = fl (3/10), moistureHighThreshold = fl (6/10),
      drainPeriodSecs = Fin 600, sched = ''06:00''\<rparr>"

section \<open>Checking on submit\<close>

text \<open>The first error of a list of checks.\<close>

fun first_error :: "string option list \<Rightarrow> string option" where
  "first_error [] = None"
| "first_error (Some e # es) = Some e"
| "first_error (None # es) = first_error es"

definition range_text :: "(js_num \<Rightarrow> string) \<Rightarrow> js_num \<Rightarrow> bound \<Rightarrow> string" where
  "range_text ns target b = ''target '' @ ns target @ '' is outside its crop-safe range ['' @ ns (bound.min_v b)
     @ '', '' @ ns (bound.max_v b) @ ''].''"

definition outside :: "js_num \<Rightarrow> bound \<Rightarrow> bool" where
  "outside target b \<longleftrightarrow> num_lt target (bound.min_v b) \<or> num_gt target (bound.max_v b)"

definition scalar_error :: "(js_num \<Rightarrow> string) \<Rightarrow> profile_stage \<Rightarrow> scalar_setpoint_key bound_field \<Rightarrow> string option" where
  "scalar_error ns st fld =
     (case Option.bind (profile_stage.bounds st) (\<lambda>b. stage_bounds.scalars b (bf_key fld)) of
        None \<Rightarrow> None
      | Some b \<Rightarrow>
          (let prefix = profile_stage.stage st @ '' '' @ middle_dot @ '' '' @ bf_label fld @ '': '';
               target = target_of (bf_key fld) (profile_stage.targets st)
           in if num_gt (bound.min_v b) (bound.max_v b)
              then Some (prefix @ ''crop-safe min must be '' @ less_eq_sign @ '' max.'')
              else if outside target b then Some (prefix @ range_text ns target b)
              else None))"

definition zone_error ::
    "(js_num \<Rightarrow> string) \<Rightarrow> profile_stage \<Rightarrow> zone_bounds \<Rightarrow> zone_bound_key bound_field \<Rightarrow> string option" where
  "zone_error ns st zb fld =
     (case zb (bf_key fld) of
        None \<Rightarrow> None
      | Some b \<Rightarrow>
          (let prefix = profile_stage.stage st @ '' '' @ middle_dot @ '' zone '' @ bf_label fld @ '': ''
           in if num_gt (bound.min_v b) (bound.max_v b)
              then Some (prefix @ ''crop-safe min must be '' @ less_eq_sign @ '' max.'')
              else first_error (map (\<lambda>z. let target = zone_target_of (bf_key fld) z in
                     if outside target b
                     then Some (prefix @ (if zone_targets.zoneId z \<noteq> [] then zone_targets.zoneId z else ''a zone'')
                                @ [CHR 0x27] @ ''s '' @ range_text ns target b)
                     else None) (setpoints.zones (profile_stage.targets st)))))"

definition stage_errors :: "(js_num \<Rightarrow> string) \<Rightarrow> profile_stage \<Rightarrow> string option list" where
  "stage_errors ns st =
     map (scalar_error ns st) SCALARS
     @ (case Option.bind (profile_stage.bounds st) stage_bounds.zones of
          None \<Rightarrow> []
        | Some zb \<Rightarrow> map (zone_error ns st zb) ZONE_BOUND_FIELDS)"

definition submit_error :: "(js_num \<Rightarrow> string) \<Rightarrow> bool \<Rightarrow> string \<Rightarrow> string \<Rightarrow> string \<Rightarrow> profile_stage list \<Rightarrow> string option" where
  "submit_error ns isEdit i nm crp sts =
     (if \<not> isEdit \<and> \<not> is_slug i then Some ''Profile id must be a lowercase kebab slug (e.g. lettuce).''
      else if trim nm = [] \<or> trim crp = [] then Some ''Name and crop are required.''
      else if sts = [] \<or> (\<exists>st\<in>set sts. trim (profile_stage.stage st) = []) then Some ''Every stage needs a non-empty name.''
      else first_error (concat (map (stage_errors ns) sts)))"

section \<open>The form\<close>

record profile_form =
  pf_edit :: bool
  pf_id :: string
  pf_name :: string
  pf_crop :: string
  pf_stages :: "profile_stage list"
  pf_error :: "string option"
  pf_pending :: bool
  pf_sent :: "crop_profile list"
  pf_toasts :: "toast_input list"
  pf_closed :: bool

definition with_envelope :: "profile_stage \<Rightarrow> profile_stage" where
  "with_envelope st = st\<lparr>profile_stage.bounds := Some (fullBounds (profile_stage.targets st) (profile_stage.bounds st))\<rparr>"

definition ProfileEditForm :: "crop_profile option \<Rightarrow> profile_form" where
  "ProfileEditForm existing =
     \<lparr>pf_edit = (existing \<noteq> None),
      pf_id = (case existing of Some p \<Rightarrow> crop_profile.ident p | None \<Rightarrow> []),
      pf_name = (case existing of Some p \<Rightarrow> crop_profile.name p | None \<Rightarrow> []),
      pf_crop = (case existing of Some p \<Rightarrow> crop_profile.crop p | None \<Rightarrow> []),
      pf_stages = map with_envelope (case existing of Some p \<Rightarrow> crop_profile.stages p
        | None \<Rightarrow> [\<lparr>profile_stage.stage = ''vegetative'', targets = defaultTargets, bounds = None\<rparr>]),
      pf_error = None, pf_pending = False, pf_sent = [], pf_toasts = [], pf_closed = False\<rparr>"

text \<open>\<open>prev.map((stage, i) => i === index ? f stage : stage)\<close>\<close>

definition update_at :: "nat \<Rightarrow> ('a \<Rightarrow> 'a) \<Rightarrow> 'a list \<Rightarrow> 'a list" where
  "update_at n f xs = (case drop n xs of [] \<Rightarrow> xs | x # rest \<Rightarrow> take n xs @ f x # rest)"

text \<open>\<open>prev.filter((_, i) => i !== index)\<close>\<close>

definition remove_at :: "nat \<Rightarrow> 'a list \<Rightarrow> 'a list" where
  "remove_at n xs = take n xs @ drop (Suc n) xs"

datatype edge = MinEdge | MaxEdge

fun with_edge :: "edge \<Rightarrow> js_num \<Rightarrow> bound \<Rightarrow> bound" where
  "with_edge MinEdge v b = b\<lparr>bound.min_v := v\<rparr>"
| "with_edge MaxEdge v b = b\<lparr>bound.max_v := v\<rparr>"

definition spread_bounds :: "stage_bounds option \<Rightarrow> stage_bounds" where
  "spread_bounds b = (case b of Some x \<Rightarrow> x | None \<Rightarrow> \<lparr>stage_bounds.scalars = Map.empty, zones = None\<rparr>)"

definition setTarget :: "scalar_setpoint_key \<Rightarrow> js_num \<Rightarrow> profile_stage \<Rightarrow> profile_stage" where
  "setTarget k v st = st\<lparr>profile_stage.targets := with_target k v (profile_stage.targets st)\<rparr>"

definition setBound :: "scalar_setpoint_key \<Rightarrow> edge \<Rightarrow> js_num \<Rightarrow> profile_stage \<Rightarrow> profile_stage" where
  "setBound k ed v st =
     (let b = spread_bounds (profile_stage.bounds st);
          cur = (case stage_bounds.scalars b k of Some x \<Rightarrow> x | None \<Rightarrow> \<lparr>bound.min_v = v, max_v = v\<rparr>)
      in st\<lparr>profile_stage.bounds := Some (b\<lparr>stage_bounds.scalars := (stage_bounds.scalars b)(k \<mapsto> with_edge ed v cur)\<rparr>)\<rparr>)"

definition setZoneBound :: "zone_bound_key \<Rightarrow> edge \<Rightarrow> js_num \<Rightarrow> profile_stage \<Rightarrow> profile_stage" where
  "setZoneBound k ed v st =
     (let b = spread_bounds (profile_stage.bounds st);
          zs = (case stage_bounds.zones b of Some z \<Rightarrow> z | None \<Rightarrow> Map.empty);
          cur = (case zs k of Some x \<Rightarrow> x | None \<Rightarrow> \<lparr>bound.min_v = v, max_v = v\<rparr>)
      in st\<lparr>profile_stage.bounds := Some (b\<lparr>stage_bounds.zones := Some (zs(k \<mapsto> with_edge ed v cur))\<rparr>)\<rparr>)"

definition setZones :: "zone_targets list \<Rightarrow> profile_stage \<Rightarrow> profile_stage" where
  "setZones zs st =
     (let b = spread_bounds (profile_stage.bounds st)
      in st\<lparr>profile_stage.targets := (profile_stage.targets st)\<lparr>setpoints.zones := zs\<rparr>,
           profile_stage.bounds := Some (b\<lparr>stage_bounds.zones := seedZoneBounds zs (stage_bounds.zones b)\<rparr>)\<rparr>)"

definition new_stage :: profile_stage where
  "new_stage = \<lparr>profile_stage.stage = [], targets = defaultTargets, bounds = Some (fullBounds defaultTargets None)\<rparr>"

text \<open>The fields of a zone row.\<close>

datatype zone_change = ZoneId string | ZoneSchedule string | ZoneLow js_num | ZoneHigh js_num | ZoneDrain js_num

fun setZone :: "zone_change \<Rightarrow> zone_targets \<Rightarrow> zone_targets" where
  "setZone (ZoneId s) z = z\<lparr>zone_targets.zoneId := s\<rparr>"
| "setZone (ZoneSchedule s) z = z\<lparr>zone_targets.sched := s\<rparr>"
| "setZone (ZoneLow v) z = z\<lparr>moistureLowThreshold := v\<rparr>"
| "setZone (ZoneHigh v) z = z\<lparr>moistureHighThreshold := v\<rparr>"
| "setZone (ZoneDrain v) z = z\<lparr>drainPeriodSecs := v\<rparr>"

section \<open>Events\<close>

datatype form_event =
    EditId string | EditName string | EditCrop string
  | RenameStage nat string | EditDayStart nat string | EditDayEnd nat string
  | EditTarget nat scalar_setpoint_key js_num
  | EditBound nat scalar_setpoint_key edge js_num
  | EditZoneBound nat zone_bound_key edge js_num
  | EditZone nat nat zone_change | RemoveZone nat nat | AddZone nat
  | RemoveStage nat | AddStage
  | Submit | Saved crop_profile | SaveFailed thrown | Cancel

definition edit_stage :: "nat \<Rightarrow> (profile_stage \<Rightarrow> profile_stage) \<Rightarrow> profile_form \<Rightarrow> profile_form" where
  "edit_stage n g f = f\<lparr>pf_stages := update_at n g (pf_stages f)\<rparr>"

definition edit_zones :: "(zone_targets list \<Rightarrow> zone_targets list) \<Rightarrow> profile_stage \<Rightarrow> profile_stage" where
  "edit_zones g st = setZones (g (setpoints.zones (profile_stage.targets st))) st"

definition submit :: "(js_num \<Rightarrow> string) \<Rightarrow> profile_form \<Rightarrow> profile_form" where
  "submit ns f =
     (case submit_error ns (pf_edit f) (pf_id f) (pf_name f) (pf_crop f) (pf_stages f) of
        Some e \<Rightarrow> f\<lparr>pf_error := Some e\<rparr>
      | None \<Rightarrow> f\<lparr>pf_error := None, pf_pending := True,
          pf_sent := pf_sent f @ [\<lparr>crop_profile.ident = pf_id f, name = pf_name f, crop = pf_crop f, stages = pf_stages f\<rparr>]\<rparr>)"

text \<open>\<open>other\<close> is the text for an exception that is not an \<open>ApiError\<close>: its message, or "Save failed".\<close>

definition save_error_text :: "string \<Rightarrow> thrown \<Rightarrow> string" where
  "save_error_text other e = (case e of
      ApiError x \<Rightarrow>
        (case ae_validation x of
           Some d \<Rightarrow> if ae_kind x = ValidationErr then vd_field d @ '': '' @ vd_bound d else ae_message x
         | None \<Rightarrow> ae_message x)
    | OtherThrown \<Rightarrow> other)"

definition save_toast :: "bool \<Rightarrow> string \<Rightarrow> toast_input" where
  "save_toast isEdit nm = \<lparr>ti_variant = Some SuccessToast, ti_title = (if isEdit then ''Profile updated'' else ''Profile created''),
     ti_message = Some nm, ti_durationMs = None\<rparr>"

text \<open>
  The step of an event. The callbacks of a save speak of the profile it sent. The id field is disabled while editing, a zone envelope is only shown
  for a stage with zones, a stage can only be removed beside another, and the buttons are
  disabled while the mutation is pending.
\<close>

fun form_step :: "(js_num \<Rightarrow> string) \<Rightarrow> string \<Rightarrow> form_event \<Rightarrow> profile_form \<Rightarrow> profile_form" where
  "form_step ns other (EditId s) f = (if pf_edit f then f else f\<lparr>pf_id := s\<rparr>)"
| "form_step ns other (EditName s) f = f\<lparr>pf_name := s\<rparr>"
| "form_step ns other (EditCrop s) f = f\<lparr>pf_crop := s\<rparr>"
| "form_step ns other (RenameStage n s) f = edit_stage n (\<lambda>st. st\<lparr>profile_stage.stage := s\<rparr>) f"
| "form_step ns other (EditDayStart n s) f =
     edit_stage n (\<lambda>st. st\<lparr>profile_stage.targets := (profile_stage.targets st)\<lparr>setpoints.dayStart := s\<rparr>\<rparr>) f"
| "form_step ns other (EditDayEnd n s) f =
     edit_stage n (\<lambda>st. st\<lparr>profile_stage.targets := (profile_stage.targets st)\<lparr>setpoints.dayEnd := s\<rparr>\<rparr>) f"
| "form_step ns other (EditTarget n k v) f = edit_stage n (setTarget k v) f"
| "form_step ns other (EditBound n k ed v) f = edit_stage n (setBound k ed v) f"
| "form_step ns other (EditZoneBound n k ed v) f =
     edit_stage n (\<lambda>st. if setpoints.zones (profile_stage.targets st) = [] then st else setZoneBound k ed v st) f"
| "form_step ns other (EditZone n j c) f = edit_stage n (edit_zones (update_at j (setZone c))) f"
| "form_step ns other (RemoveZone n j) f = edit_stage n (edit_zones (remove_at j)) f"
| "form_step ns other (AddZone n) f = edit_stage n (edit_zones (\<lambda>zs. zs @ [defaultZone])) f"
| "form_step ns other (RemoveStage n) f =
     (if length (pf_stages f) > 1 then f\<lparr>pf_stages := remove_at n (pf_stages f)\<rparr> else f)"
| "form_step ns other AddStage f = f\<lparr>pf_stages := pf_stages f @ [new_stage]\<rparr>"
| "form_step ns other Submit f = (if pf_pending f then f else submit ns f)"
| "form_step ns other (Saved p) f =
     (if pf_pending f
      then f\<lparr>pf_pending := False, pf_toasts := pf_toasts f @ [save_toast (pf_edit f) (crop_profile.name (last (pf_sent f)))], pf_closed := True\<rparr>
      else f)"
| "form_step ns other (SaveFailed e) f =
     (if pf_pending f then f\<lparr>pf_pending := False, pf_error := Some (save_error_text other e)\<rparr> else f)"
| "form_step ns other Cancel f = (if pf_pending f then f else f\<lparr>pf_closed := True\<rparr>)"

definition form_run :: "(js_num \<Rightarrow> string) \<Rightarrow> string \<Rightarrow> form_event list \<Rightarrow> profile_form \<Rightarrow> profile_form" where
  "form_run ns other evs f = fold (form_step ns other) evs f"

section \<open>The rows of a stage\<close>

text \<open>A row of the envelope table; a bound's input is empty (\<open>?? ""\<close>) where there is none.\<close>

record 'k bound_row =
  br_field :: "'k bound_field"
  br_target :: "js_num option"
  br_min :: "js_num option"
  br_max :: "js_num option"

definition scalar_rows :: "profile_stage \<Rightarrow> scalar_setpoint_key bound_row list" where
  "scalar_rows st = map (\<lambda>fld.
     let b = Option.bind (profile_stage.bounds st) (\<lambda>e. stage_bounds.scalars e (bf_key fld))
     in \<lparr>br_field = fld, br_target = Some (target_of (bf_key fld) (profile_stage.targets st)),
         br_min = map_option bound.min_v b, br_max = map_option bound.max_v b\<rparr>) SCALARS"

definition zone_rows :: "profile_stage \<Rightarrow> zone_bound_key bound_row list" where
  "zone_rows st =
     (if setpoints.zones (profile_stage.targets st) = [] then []
      else map (\<lambda>fld.
        let b = Option.bind (Option.bind (profile_stage.bounds st) stage_bounds.zones) (\<lambda>z. z (bf_key fld))
        in \<lparr>br_field = fld, br_target = None, br_min = map_option bound.min_v b, br_max = map_option bound.max_v b\<rparr>)
        ZONE_BOUND_FIELDS)"

text \<open>The buttons: Cancel and Save are disabled while the save is pending.\<close>

definition save_label :: "profile_form \<Rightarrow> string" where
  "save_label f = (if pf_pending f then ''Saving'' @ [CHR 0xE2, CHR 0x80, CHR 0xA6]
     else if pf_edit f then ''Save changes'' else ''Create profile'')"

definition removable :: "profile_form \<Rightarrow> bool" where
  "removable f \<longleftrightarrow> length (pf_stages f) > 1"

section \<open>The editor manages a complete envelope\<close>

definition complete_zones :: "zone_targets list \<Rightarrow> zone_bounds option \<Rightarrow> bool" where
  "complete_zones zs zb = (case zb of None \<Rightarrow> zs = [] | Some z \<Rightarrow> zs \<noteq> [] \<and> (\<forall>k. z k \<noteq> None))"

definition complete_stage :: "profile_stage \<Rightarrow> bool" where
  "complete_stage st = (case profile_stage.bounds st of
      None \<Rightarrow> False
    | Some b \<Rightarrow> (\<forall>k. stage_bounds.scalars b k \<noteq> None)
        \<and> complete_zones (setpoints.zones (profile_stage.targets st)) (stage_bounds.zones b))"

lemma zone_fields: "k \<in> bf_key ` set ZONE_BOUND_FIELDS"
  by (cases k) (simp_all add: ZONE_BOUND_FIELDS_def bound_field_def)

lemma scalar_fields: "k \<in> bf_key ` set SCALARS"
  by (cases k) (simp_all add: SCALARS_def bound_field_def)

lemma foldl_update_lookup:
  assumes "distinct (map bf_key fs)"
  shows "foldl (\<lambda>b fld. b(bf_key fld \<mapsto> g fld)) m fs k
     = (case find (\<lambda>fld. bf_key fld = k) fs of Some fld \<Rightarrow> Some (g fld) | None \<Rightarrow> m k)"
  using assms
proof (induction fs arbitrary: m)
  case (Cons x fs)
  have "find (\<lambda>fld. bf_key fld = k) fs = None" if "bf_key x = k"
    using that Cons.prems by (simp add: find_eq_None_iff) (metis image_eqI)
  with Cons show ?case by auto
qed simp

lemma field_tables_distinct: "distinct (map bf_key SCALARS)" "distinct (map bf_key ZONE_BOUND_FIELDS)"
  by (simp_all add: SCALARS_def ZONE_BOUND_FIELDS_def bound_field_def)

lemma find_table:
  assumes "distinct (map bf_key fs)" "fld \<in> set fs"
  shows "find (\<lambda>x. bf_key x = bf_key fld) fs = Some fld"
  using assms by (induction fs) auto

lemma seedZoneBounds_lookup:
  assumes "zs \<noteq> []" "fld \<in> set ZONE_BOUND_FIELDS"
  shows "\<exists>z. seedZoneBounds zs e = Some z
     \<and> z (bf_key fld) = Some (case Option.bind e (\<lambda>e. e (bf_key fld)) of Some x \<Rightarrow> x | None \<Rightarrow> defaultZoneBound fld zs)"
  using assms by (simp add: seedZoneBounds_def foldl_update_lookup [OF field_tables_distinct(2)]
      find_table [OF field_tables_distinct(2)])

lemma fullBounds_lookup:
  assumes "fld \<in> set SCALARS"
  shows "stage_bounds.scalars (fullBounds t e) (bf_key fld)
     = Some (case Option.bind e (\<lambda>e. stage_bounds.scalars e (bf_key fld)) of Some x \<Rightarrow> x
             | None \<Rightarrow> defaultBound fld (target_of (bf_key fld) t))"
  using assms by (simp add: fullBounds_def foldl_update_lookup [OF field_tables_distinct(1)]
      find_table [OF field_tables_distinct(1)])

lemma complete_seed: "complete_zones zs (seedZoneBounds zs e)"
proof (cases "zs = []")
  case False
  have "\<exists>z. seedZoneBounds zs e = Some z \<and> z k \<noteq> None" for k
  proof -
    obtain fld where "fld \<in> set ZONE_BOUND_FIELDS" "k = bf_key fld" using zone_fields [of k] by auto
    with seedZoneBounds_lookup [OF False, of fld e] show ?thesis by auto
  qed
  then obtain z where z: "seedZoneBounds zs e = Some z" and "\<And>k. z k \<noteq> None" by (metis option.inject)
  with False show ?thesis by (simp add: complete_zones_def)
qed (simp add: complete_zones_def seedZoneBounds_def)

lemma complete_with_envelope: "complete_stage (with_envelope st)"
proof -
  have "stage_bounds.scalars (fullBounds t e) k \<noteq> None" for t e k
    using scalar_fields [of k] fullBounds_lookup [of _ t e] by auto
  moreover have "complete_zones (setpoints.zones t) (stage_bounds.zones (fullBounds t e))" for t e
    by (simp add: fullBounds_def complete_seed)
  ultimately show ?thesis by (simp add: complete_stage_def with_envelope_def)
qed

lemma complete_new_stage: "complete_stage new_stage"
  using complete_with_envelope [of "\<lparr>profile_stage.stage = [], targets = defaultTargets, bounds = None\<rparr>"]
  by (simp add: new_stage_def with_envelope_def)

lemma zones_with_target [simp]: "setpoints.zones (with_target k v t) = setpoints.zones t"
  by (cases k) simp_all

lemma complete_setTarget: "complete_stage st \<Longrightarrow> complete_stage (setTarget k v st)"
  by (simp add: complete_stage_def setTarget_def split: option.splits)

lemma complete_setBound: "complete_stage st \<Longrightarrow> complete_stage (setBound k ed v st)"
  by (auto simp: complete_stage_def setBound_def spread_bounds_def Let_def split: option.splits)

lemma complete_setZoneBound: "complete_stage st \<Longrightarrow> setpoints.zones (profile_stage.targets st) \<noteq> []
    \<Longrightarrow> complete_stage (setZoneBound k ed v st)"
  by (auto simp: complete_stage_def setZoneBound_def complete_zones_def spread_bounds_def Let_def split: option.splits)

lemma complete_setZones: "complete_stage st \<Longrightarrow> complete_stage (setZones zs st)"
  by (auto simp: complete_stage_def setZones_def spread_bounds_def Let_def complete_seed split: option.splits)

lemma complete_untouched:
  "complete_stage (st\<lparr>profile_stage.stage := s\<rparr>) \<longleftrightarrow> complete_stage st"
  "complete_stage (st\<lparr>profile_stage.targets := (profile_stage.targets st)\<lparr>setpoints.dayStart := s\<rparr>\<rparr>) \<longleftrightarrow> complete_stage st"
  "complete_stage (st\<lparr>profile_stage.targets := (profile_stage.targets st)\<lparr>setpoints.dayEnd := s\<rparr>\<rparr>) \<longleftrightarrow> complete_stage st"
  by (simp_all add: complete_stage_def split: option.splits)

lemma set_update_at: "x \<in> set (update_at n g xs) \<Longrightarrow> x \<in> set xs \<or> (\<exists>y\<in>set xs. x = g y)"
  by (auto simp: update_at_def split: list.splits dest: in_set_takeD in_set_dropD)
     (metis in_set_dropD list.set_intros(1), metis in_set_dropD list.set_intros(2))

lemma set_remove_at: "set (remove_at n xs) \<subseteq> set xs"
  by (auto simp: remove_at_def dest: in_set_takeD in_set_dropD)

lemma complete_update:
  assumes "\<forall>st\<in>set sts. complete_stage st" "\<And>st. complete_stage st \<Longrightarrow> complete_stage (g st)"
  shows "\<forall>st\<in>set (update_at n g sts). complete_stage st"
  using set_update_at [of _ n g sts] assms by blast

lemma complete_step:
  assumes "\<forall>st\<in>set (pf_stages f). complete_stage st"
  shows "\<forall>st\<in>set (pf_stages (form_step ns other ev f)). complete_stage st"
proof -
  have edit: "\<forall>st\<in>set (pf_stages (edit_stage n g f)). complete_stage st"
    if "\<And>st. complete_stage st \<Longrightarrow> complete_stage (g st)" for n g
    using complete_update [OF assms that] by (simp add: edit_stage_def)
  show ?thesis
  proof (cases ev)
    case (EditZoneBound n k ed v)
    show ?thesis unfolding EditZoneBound form_step.simps by (rule edit) (auto simp: complete_setZoneBound)
  next
    case (EditTarget n k v)
    show ?thesis unfolding EditTarget form_step.simps by (rule edit) (rule complete_setTarget)
  next
    case (EditBound n k ed v)
    show ?thesis unfolding EditBound form_step.simps by (rule edit) (rule complete_setBound)
  next
    case (RemoveStage n)
    then show ?thesis using assms set_remove_at [of n "pf_stages f"] by auto
  next
    case AddStage
    then show ?thesis using assms complete_new_stage by simp
  next
    case Submit
    then show ?thesis using assms by (simp add: submit_def split: option.splits)
  next
    case (RenameStage n t)
    show ?thesis unfolding RenameStage form_step.simps by (rule edit) (simp add: complete_untouched)
  next
    case (EditDayStart n t)
    show ?thesis unfolding EditDayStart form_step.simps by (rule edit) (simp add: complete_untouched)
  next
    case (EditDayEnd n t)
    show ?thesis unfolding EditDayEnd form_step.simps by (rule edit) (simp add: complete_untouched)
  next
    case (EditZone n j c)
    show ?thesis unfolding EditZone form_step.simps by (rule edit) (simp add: edit_zones_def complete_setZones)
  next
    case (RemoveZone n j)
    show ?thesis unfolding RemoveZone form_step.simps by (rule edit) (simp add: edit_zones_def complete_setZones)
  next
    case (AddZone n)
    show ?thesis unfolding AddZone form_step.simps by (rule edit) (simp add: edit_zones_def complete_setZones)
  qed (use assms in simp_all)
qed

text \<open>What a checked profile promises of its stages.\<close>

definition safe_bound :: "js_num \<Rightarrow> bound option \<Rightarrow> bool" where
  "safe_bound target b = (case b of None \<Rightarrow> False
     | Some x \<Rightarrow> \<not> num_gt (bound.min_v x) (bound.max_v x)
         \<and> \<not> num_lt target (bound.min_v x) \<and> \<not> num_gt target (bound.max_v x))"

definition safe_stage :: "profile_stage \<Rightarrow> bool" where
  "safe_stage st = (case profile_stage.bounds st of None \<Rightarrow> False
     | Some b \<Rightarrow> (\<forall>k. safe_bound (target_of k (profile_stage.targets st)) (stage_bounds.scalars b k))
        \<and> (\<forall>z\<in>set (setpoints.zones (profile_stage.targets st)). \<forall>k.
             safe_bound (zone_target_of k z) (Option.bind (stage_bounds.zones b) (\<lambda>zb. zb k))))"

lemma first_error_None: "first_error es = None \<longleftrightarrow> (\<forall>e\<in>set es. e = None)"
  by (induction es rule: first_error.induct) auto

lemma safe_checked_stage:
  assumes complete: "complete_stage st" and none: "\<forall>e\<in>set (stage_errors ns st). e = None"
  shows "safe_stage st"
proof -
  obtain b where b: "profile_stage.bounds st = Some b" "\<And>k. stage_bounds.scalars b k \<noteq> None"
    and zs: "complete_zones (setpoints.zones (profile_stage.targets st)) (stage_bounds.zones b)"
    using complete by (auto simp: complete_stage_def split: option.splits)
  have scalar: "safe_bound (target_of k (profile_stage.targets st)) (stage_bounds.scalars b k)" for k
  proof -
    obtain fld where fld: "fld \<in> set SCALARS" "bf_key fld = k" using scalar_fields [of k] by auto
    have "scalar_error ns st fld = None" using none fld(1) by (simp add: stage_errors_def)
    moreover obtain x where "stage_bounds.scalars b k = Some x" using b(2) [of k] by blast
    ultimately show ?thesis
      using b(1) fld(2) by (auto simp: scalar_error_def safe_bound_def outside_def Let_def split: if_splits)
  qed
  have zone: "safe_bound (zone_target_of k z) (Option.bind (stage_bounds.zones b) (\<lambda>zb. zb k))"
    if z: "z \<in> set (setpoints.zones (profile_stage.targets st))" for z k
  proof -
    obtain zb where zb: "stage_bounds.zones b = Some zb" "\<And>k. zb k \<noteq> None"
      using zs z by (auto simp: complete_zones_def split: option.splits)
    obtain fld where fld: "fld \<in> set ZONE_BOUND_FIELDS" "bf_key fld = k" using zone_fields [of k] by auto
    have "zone_error ns st zb fld = None" using none fld(1) zb(1) b(1) by (simp add: stage_errors_def)
    moreover obtain x where "zb k = Some x" using zb(2) [of k] by blast
    ultimately show ?thesis
      using zb(1) fld(2) z by (auto simp: zone_error_def safe_bound_def outside_def Let_def first_error_None split: if_splits)
  qed
  show ?thesis using b(1) scalar zone by (simp add: safe_stage_def)
qed

definition checked_profile :: "bool \<Rightarrow> crop_profile \<Rightarrow> bool" where
  "checked_profile isEdit p \<longleftrightarrow> (isEdit \<or> is_slug (crop_profile.ident p)) \<and> trim (crop_profile.name p) \<noteq> []
     \<and> trim (crop_profile.crop p) \<noteq> [] \<and> crop_profile.stages p \<noteq> []
     \<and> (\<forall>st\<in>set (crop_profile.stages p). trim (profile_stage.stage st) \<noteq> [] \<and> safe_stage st)"

lemma submit_checked:
  assumes "\<forall>st\<in>set sts. complete_stage st" "submit_error ns e i nm crp sts = None"
  shows "checked_profile e \<lparr>crop_profile.ident = i, name = nm, crop = crp, stages = sts\<rparr>"
  using assms safe_checked_stage [of _ ns]
  by (auto simp: submit_error_def checked_profile_def first_error_None split: if_splits)

lemma form_step_frame [simp]:
  "pf_edit (form_step ns other ev f) = pf_edit f"
  by (cases ev) (simp_all add: edit_stage_def submit_def split: option.splits)

lemma form_id_fixed: "pf_edit f \<Longrightarrow> pf_id (form_step ns other ev f) = pf_id f"
  by (cases ev) (simp_all add: edit_stage_def submit_def split: option.splits)

lemma form_sent_step:
  "pf_sent (form_step ns other ev f) = pf_sent f @
     (if ev = Submit \<and> \<not> pf_pending f \<and> submit_error ns (pf_edit f) (pf_id f) (pf_name f) (pf_crop f) (pf_stages f) = None
      then [\<lparr>crop_profile.ident = pf_id f, name = pf_name f, crop = pf_crop f, stages = pf_stages f\<rparr>] else [])"
  by (cases ev) (simp_all add: edit_stage_def submit_def split: option.splits)

text \<open>The invariant of the form, over any events.\<close>

definition form_inv :: "crop_profile option \<Rightarrow> profile_form \<Rightarrow> bool" where
  "form_inv existing f \<longleftrightarrow> pf_edit f = (existing \<noteq> None)
     \<and> (\<forall>p. existing = Some p \<longrightarrow> pf_id f = crop_profile.ident p
          \<and> (\<forall>q\<in>set (pf_sent f). crop_profile.ident q = crop_profile.ident p))
     \<and> (\<forall>st\<in>set (pf_stages f). complete_stage st)
     \<and> (\<forall>q\<in>set (pf_sent f). checked_profile (existing \<noteq> None) q)"

lemma form_inv_init: "form_inv existing (ProfileEditForm existing)"
  by (auto simp: form_inv_def ProfileEditForm_def complete_with_envelope)

lemma form_inv_step:
  assumes inv: "form_inv existing f"
  shows "form_inv existing (form_step ns other ev f)"
proof -
  have complete: "\<forall>st\<in>set (pf_stages f). complete_stage st" and ed: "pf_edit f = (existing \<noteq> None)"
    and sent: "\<forall>q\<in>set (pf_sent f). checked_profile (existing \<noteq> None) q"
    and ident: "\<And>p. existing = Some p \<Longrightarrow> pf_id f = crop_profile.ident p
       \<and> (\<forall>q\<in>set (pf_sent f). crop_profile.ident q = crop_profile.ident p)"
    using inv by (simp_all add: form_inv_def)
  let ?new = "\<lparr>crop_profile.ident = pf_id f, name = pf_name f, crop = pf_crop f, stages = pf_stages f\<rparr>"
  have new: "checked_profile (existing \<noteq> None) ?new"
    if "submit_error ns (pf_edit f) (pf_id f) (pf_name f) (pf_crop f) (pf_stages f) = None"
    using submit_checked [OF complete that] ed by simp
  have "\<forall>q\<in>set (pf_sent (form_step ns other ev f)). checked_profile (existing \<noteq> None) q"
    using sent new unfolding form_sent_step by auto
  moreover have "pf_id (form_step ns other ev f) = crop_profile.ident p
      \<and> (\<forall>q\<in>set (pf_sent (form_step ns other ev f)). crop_profile.ident q = crop_profile.ident p)"
    if "existing = Some p" for p
    using ident [OF that] form_id_fixed [of f ns other ev] ed that unfolding form_sent_step by auto
  moreover have "pf_edit (form_step ns other ev f) = (existing \<noteq> None)" using ed by simp
  ultimately show ?thesis
    using complete_step [OF complete, of ns other ev] unfolding form_inv_def by blast
qed

interpretation profile_machine: event_machine "form_step ns other" "form_inv existing" for ns other existing
  by unfold_locales (rule form_inv_step)

lemma form_inv_run: "form_inv existing f \<Longrightarrow> form_inv existing (form_run ns other evs f)"
  unfolding form_run_def by (rule profile_machine.run_holds)

section \<open>A seeded envelope contains its target\<close>

lemma round2_int: "\<bar>i\<bar> \<le> 1000000 \<Longrightarrow> round2 (Fin (of_int i)) = Fin (of_int i)"
proof -
  assume i: "\<bar>i\<bar> \<le> 1000000"
  have "fl (of_int i * 100) = Fin (of_int (i * 100))"
    using fl_int [of "i * 100"] i by simp
  moreover have "\<lfloor>of_int (i * 100) + 1 / 2 :: rat\<rfloor> = i * 100" by (rule floor_unique) simp_all
  moreover have "fl (of_int (i * 100) / 100) = Fin (of_int i)"
    using fl_int [of i] i by simp
  ultimately show ?thesis by (simp add: round2_def del: of_int_mult)
qed

lemma round2_near:
  assumes "\<bar>y\<bar> \<le> 2000000"
  shows "\<exists>z. round2 (Fin y) = Fin z \<and> \<bar>z - y\<bar> \<le> 1 / 100"
proof -
  have "\<bar>y * 100\<bar> < 2 powi 28" using assms by (simp add: power_int_def abs_mult)
  from fl_near [OF this] obtain r where r: "fl (y * 100) = Fin r" "\<bar>r - y * 100\<bar> \<le> 2 powi (28 - 54)" by auto
  have small: "(2 powi (28 - 54) :: rat) \<le> 1 / 100" "(2 powi (23 - 54) :: rat) \<le> 1 / 1000"
    by (simp_all add: power_int_def power_divide)
  define n where "n = \<lfloor>r + 1 / 2\<rfloor>"
  have n: "\<bar>of_int n - r\<bar> \<le> 1 / 2" unfolding n_def by linarith
  have near: "\<bar>of_int n - y * 100\<bar> \<le> 51 / 100" using n r(2) small(1) by linarith
  then have "\<bar>of_int n / 100 - y\<bar> \<le> 51 / 10000" by (simp add: abs_le_iff field_simps)
  moreover from this assms have "\<bar>of_int n / 100\<bar> < (8388608 :: rat)" by linarith
  then have "\<bar>of_int n / 100\<bar> < (2 powi 23 :: rat)" by (simp add: power_int_def del: abs_divide)
  from fl_near [OF this] obtain z where z: "fl (of_int n / 100) = Fin z" "\<bar>z - of_int n / 100\<bar> \<le> 2 powi (23 - 54)" by auto
  ultimately have "\<bar>z - y\<bar> \<le> 1 / 100" using small(2) by linarith
  with r(1) z(1) show ?thesis by (auto simp: round2_def n_def)
qed

text \<open>An edge seeded at a distance from the target, clamped by a bound of the field.\<close>

lemma seeded_min:
  assumes "lo = Fin (of_int i)" "\<bar>i\<bar> \<le> 1000000" "of_int i \<le> x" "\<bar>v\<bar> \<le> 2000000" "v \<le> x - 1 / 20"
  shows "\<exists>z. round2 (math_max lo (Fin v)) = Fin z \<and> z \<le> x"
proof -
  obtain z where "round2 (Fin v) = Fin z" "\<bar>z - v\<bar> \<le> 1 / 100" using round2_near [OF assms(4)] by blast
  moreover from this(2) assms(5) have "z \<le> x" by linarith
  ultimately show ?thesis using round2_int [OF assms(2)] assms(1,3) by auto
qed

lemma seeded_max:
  assumes "hi = PosInf \<or> (\<exists>i. hi = Fin (of_int i) \<and> \<bar>i\<bar> \<le> 1000000 \<and> x \<le> of_int i)" "\<bar>v\<bar> \<le> 2000000" "x + 1 / 20 \<le> v"
  shows "\<exists>z. round2 (math_min hi (Fin v)) = Fin z \<and> x \<le> z"
proof -
  obtain z where "round2 (Fin v) = Fin z" "\<bar>z - v\<bar> \<le> 1 / 100" using round2_near [OF assms(2)] by blast
  moreover from this(2) assms(3) have "x \<le> z" by linarith
  ultimately show ?thesis using round2_int assms(1) by auto
qed

lemma shifted_near:
  assumes "\<bar>x\<bar> \<le> 1000000" "1 / 15 \<le> m" "m \<le> 1000"
  shows "\<exists>v. num_sub (Fin x) (Fin m) = Fin v \<and> \<bar>v\<bar> \<le> 2000000 \<and> v \<le> x - 1 / 20"
    and "\<exists>v. num_add (Fin x) (Fin m) = Fin v \<and> \<bar>v\<bar> \<le> 2000000 \<and> x + 1 / 20 \<le> v"
proof -
  have small: "(2 powi (21 - 54) :: rat) \<le> 1 / 1000" by (simp add: power_int_def power_divide)
  have p: "(2 powi 21 :: rat) = 2097152" by (simp add: power_int_def)
  have "\<bar>x + - m\<bar> < 2 powi 21" "\<bar>x + m\<bar> < 2 powi 21" unfolding p using assms by linarith+
  from fl_near [OF this(1)] fl_near [OF this(2)]
  obtain v w where v: "fl (x + - m) = Fin v" "\<bar>v - (x + - m)\<bar> \<le> 2 powi (21 - 54)"
    and w: "fl (x + m) = Fin w" "\<bar>w - (x + m)\<bar> \<le> 2 powi (21 - 54)" by auto
  have "\<bar>v\<bar> \<le> 2000000" "v \<le> x - 1 / 20" "\<bar>w\<bar> \<le> 2000000" "x + 1 / 20 \<le> w"
    using v(2) w(2) small assms by linarith+
  then show "\<exists>v. num_sub (Fin x) (Fin m) = Fin v \<and> \<bar>v\<bar> \<le> 2000000 \<and> v \<le> x - 1 / 20"
    "\<exists>v. num_add (Fin x) (Fin m) = Fin v \<and> \<bar>v\<bar> \<le> 2000000 \<and> x + 1 / 20 \<le> v"
    using v(1) w(1) by (simp_all add: num_sub_def)
qed

text \<open>Every field's bounds are whole numbers or infinite, and its margin is large enough.\<close>

definition plain_field :: "'k bound_field \<Rightarrow> bool" where
  "plain_field fld \<longleftrightarrow> (\<exists>i. bf_min fld = Fin (of_int i) \<and> \<bar>i\<bar> \<le> 1000000)
     \<and> (bf_max fld = PosInf \<or> (\<exists>i. bf_max fld = Fin (of_int i) \<and> \<bar>i\<bar> \<le> 1000000))
     \<and> (\<exists>m. bf_margin fld = Fin m \<and> 1 / 15 \<le> m \<and> m \<le> 1000)"

lemma margins: "\<exists>m. fl (1/5) = Fin m \<and> 1 / 15 \<le> m \<and> m \<le> 1000" "\<exists>m. fl (1/10) = Fin m \<and> 1 / 15 \<le> m \<and> m \<le> 1000"
proof -
  have small: "(2 powi (0 - 54) :: rat) \<le> 1 / 100" by (simp add: power_int_def power_divide)
  obtain a b where a: "fl (1/5) = Fin a" "\<bar>a - 1/5\<bar> \<le> 2 powi (0 - 54)" and b: "fl (1/10) = Fin b" "\<bar>b - 1/10\<bar> \<le> 2 powi (0 - 54)"
    using fl_near [of "1/5" 0] fl_near [of "1/10" 0] by auto
  have "1 / 15 \<le> a \<and> a \<le> 1000" "1 / 15 \<le> b \<and> b \<le> 1000" using a(2) b(2) small by linarith+
  with a(1) b(1) show "\<exists>m. fl (1/5) = Fin m \<and> 1 / 15 \<le> m \<and> m \<le> 1000"
    "\<exists>m. fl (1/10) = Fin m \<and> 1 / 15 \<le> m \<and> m \<le> 1000" by blast+
qed

lemma whole: "\<exists>i. Fin (numeral n) = Fin (of_int i) \<and> \<bar>i\<bar> \<le> 1000000" if "numeral n \<le> (1000000 :: int)"
  using that by (intro exI [of _ "numeral n"]) simp

lemma plain_fields: "fld \<in> set SCALARS \<Longrightarrow> plain_field fld" "z \<in> set ZONE_BOUND_FIELDS \<Longrightarrow> plain_field z"
proof -
  have w: "\<exists>i. (Fin 0) = Fin (of_int i) \<and> \<bar>i\<bar> \<le> 1000000" "\<exists>i. (Fin 1) = Fin (of_int i) \<and> \<bar>i\<bar> \<le> 1000000"
    "\<exists>i. (Fin (- 20)) = Fin (of_int i) \<and> \<bar>i\<bar> \<le> 1000000"
    by (rule exI [of _ 0], simp, rule exI [of _ 1], simp, rule exI [of _ "- 20"], simp)
  have m: "\<exists>m. Fin (numeral n) = Fin m \<and> 1 / 15 \<le> m \<and> m \<le> 1000" if "numeral n \<le> (1000 :: rat)" for n
    using that by (intro exI [of _ "numeral n"]) (simp add: order_trans [of "1/15" 1])
  show "fld \<in> set SCALARS \<Longrightarrow> plain_field fld" "z \<in> set ZONE_BOUND_FIELDS \<Longrightarrow> plain_field z"
    using margins
    by (auto simp add: SCALARS_def ZONE_BOUND_FIELDS_def bound_field_def plain_field_def w whole m
        simp del: js_num.inject divide_le_eq_numeral1 le_divide_eq_numeral1 divide_le_eq)
qed

text \<open>A target within its field's physical range, of moderate size.\<close>

definition in_range :: "'k bound_field \<Rightarrow> js_num \<Rightarrow> bool" where
  "in_range fld t \<longleftrightarrow> num_le (bf_min fld) t \<and> num_le t (bf_max fld) \<and> num_le t (Fin 1000000)"

lemma in_range_Fin:
  assumes "plain_field fld" "in_range fld t"
  obtains x where "t = Fin x" "\<bar>x\<bar> \<le> 1000000"
proof -
  obtain i where i: "bf_min fld = Fin (of_int i)" "\<bar>i\<bar> \<le> 1000000" using assms(1) by (auto simp: plain_field_def)
  obtain x where x: "t = Fin x" "of_int i \<le> x" "x \<le> 1000000" using assms(2) i(1) by (cases t) (auto simp: in_range_def)
  have "- 1000000 \<le> i" using i(2) by linarith
  then have "(of_int (- 1000000) :: rat) \<le> of_int i" by (simp only: of_int_le_iff)
  with x have "\<bar>x\<bar> \<le> 1000000" by simp
  with x(1) that show ?thesis by blast
qed

lemma seeded_edges:
  assumes "plain_field fld" "in_range fld t" "in_range fld u"
  shows "\<exists>z. round2 (math_max (bf_min fld) (num_sub t (bf_margin fld))) = Fin z \<and> num_le (Fin z) t"
    and "\<exists>z. round2 (math_min (bf_max fld) (num_add u (bf_margin fld))) = Fin z \<and> num_le u (Fin z)"
proof -
  obtain x y where x: "t = Fin x" "\<bar>x\<bar> \<le> 1000000" and y: "u = Fin y" "\<bar>y\<bar> \<le> 1000000"
    by (rule in_range_Fin [OF assms(1,2)], rule in_range_Fin [OF assms(1,3)])
  obtain i where i: "bf_min fld = Fin (of_int i)" "\<bar>i\<bar> \<le> 1000000" using assms(1) by (auto simp: plain_field_def)
  obtain m where m: "bf_margin fld = Fin m" "1 / 15 \<le> m" "m \<le> 1000" using assms(1) by (auto simp: plain_field_def)
  have ix: "of_int i \<le> x" using assms(2) i(1) x(1) by (simp add: in_range_def)
  have hi: "bf_max fld = PosInf \<or> (\<exists>i. bf_max fld = Fin (of_int i) \<and> \<bar>i\<bar> \<le> 1000000 \<and> y \<le> of_int i)"
    using assms(1,3) y(1) by (auto simp: plain_field_def in_range_def)
  obtain v where v: "num_sub (Fin x) (Fin m) = Fin v" "\<bar>v\<bar> \<le> 2000000" "v \<le> x - 1 / 20"
    using shifted_near(1) [OF x(2) m(2,3)] by blast
  show "\<exists>z. round2 (math_max (bf_min fld) (num_sub t (bf_margin fld))) = Fin z \<and> num_le (Fin z) t"
    using seeded_min [OF i(1,2) ix v(2,3)] unfolding x(1) m(1) v(1) by simp
  obtain w where w: "num_add (Fin y) (Fin m) = Fin w" "\<bar>w\<bar> \<le> 2000000" "y + 1 / 20 \<le> w"
    using shifted_near(2) [OF y(2) m(2,3)] by blast
  show "\<exists>z. round2 (math_min (bf_max fld) (num_add u (bf_margin fld))) = Fin z \<and> num_le u (Fin z)"
    using seeded_max [OF hi w(2,3)] unfolding y(1) m(1) w(1) by simp
qed

lemma not_outsideI:
  assumes "bound.min_v b = Fin x" "bound.max_v b = Fin y" "num_le (Fin x) t" "num_le t (Fin y)"
  shows "\<not> outside t b" "\<not> num_gt (bound.min_v b) (bound.max_v b)"
  using assms by (cases t; auto simp: outside_def)+

lemma defaultBound_contains:
  assumes "fld \<in> set SCALARS" "in_range fld t"
  shows "\<not> outside t (defaultBound fld t)" "\<not> num_gt (bound.min_v (defaultBound fld t)) (bound.max_v (defaultBound fld t))"
  using seeded_edges [OF plain_fields(1) [OF assms(1)] assms(2,2)] not_outsideI [of "defaultBound fld t" _ _ t]
  by (auto simp: defaultBound_def)

lemma defaultZoneBound_contains:
  assumes "fld \<in> set ZONE_BOUND_FIELDS" "z \<in> set zs" "\<forall>z\<in>set zs. in_range fld (zone_target_of (bf_key fld) z)"
  shows "\<not> outside (zone_target_of (bf_key fld) z) (defaultZoneBound fld zs)"
    "\<not> num_gt (bound.min_v (defaultZoneBound fld zs)) (bound.max_v (defaultZoneBound fld zs))"
proof -
  let ?vs = "map (zone_target_of (bf_key fld)) zs" and ?v = "zone_target_of (bf_key fld) z"
  have v: "?v \<in> set ?vs" using assms(2) by simp
  have range: "in_range fld v" if "v \<in> set ?vs" for v using assms(3) that by auto
  have nan: "\<forall>v\<in>set ?vs. v \<noteq> NaN" using range by (metis in_range_def num_le_not_NaN)
  note ends = min_of_le [OF v nan]
  obtain x y where x: "bound.min_v (defaultZoneBound fld zs) = Fin x" "num_le (Fin x) (min_of ?vs)"
    and y: "bound.max_v (defaultZoneBound fld zs) = Fin y" "num_le (max_of ?vs) (Fin y)"
    using seeded_edges [OF plain_fields(2) [OF assms(1)] range [OF ends(2)] range [OF ends(4)]]
    by (auto simp: defaultZoneBound_def Let_def)
  have "num_le (Fin x) ?v" "num_le ?v (Fin y)"
    using num_le_trans [OF x(2) ends(1)] num_le_trans [OF ends(3) y(2)] .
  from not_outsideI [OF x(1) y(1) this]
  show "\<not> outside ?v (defaultZoneBound fld zs)"
    "\<not> num_gt (bound.min_v (defaultZoneBound fld zs)) (bound.max_v (defaultZoneBound fld zs))" .
qed

lemma first_error_all_None: "(\<And>e. e \<in> set es \<Longrightarrow> e = None) \<Longrightarrow> first_error es = None"
  by (simp add: first_error_None)

lemma seeded_stage_passes:
  assumes "profile_stage.bounds st = None"
    and "\<forall>fld\<in>set SCALARS. in_range fld (target_of (bf_key fld) (profile_stage.targets st))"
    and "\<forall>z\<in>set (setpoints.zones (profile_stage.targets st)). \<forall>fld\<in>set ZONE_BOUND_FIELDS. in_range fld (zone_target_of (bf_key fld) z)"
    and "e \<in> set (stage_errors ns (with_envelope st))"
  shows "e = None"
proof -
  let ?t = "profile_stage.targets st" and ?st = "with_envelope st"
  have b: "profile_stage.bounds ?st = Some (fullBounds ?t None)" "profile_stage.targets ?st = ?t"
    using assms(1) by (simp_all add: with_envelope_def)
  have scalar: "scalar_error ns ?st fld = None" if "fld \<in> set SCALARS" for fld
    using defaultBound_contains [OF that] assms(2) that fullBounds_lookup [OF that, of ?t None]
    by (simp add: scalar_error_def b Let_def)
  have zone: "zone_error ns ?st zb fld = None"
    if zb: "stage_bounds.zones (fullBounds ?t None) = Some zb" and fld: "fld \<in> set ZONE_BOUND_FIELDS" for zb fld
  proof -
    have seed: "seedZoneBounds (setpoints.zones ?t) None = Some zb" using zb by (simp add: fullBounds_def)
    then have ne: "setpoints.zones ?t \<noteq> []" by (auto simp: seedZoneBounds_def)
    have look: "zb (bf_key fld) = Some (defaultZoneBound fld (setpoints.zones ?t))"
      using seedZoneBounds_lookup [OF ne fld, of None] seed by simp
    have range: "\<forall>z\<in>set (setpoints.zones ?t). in_range fld (zone_target_of (bf_key fld) z)" using assms(3) fld by blast
    obtain z where "z \<in> set (setpoints.zones ?t)" using ne by (cases "setpoints.zones ?t") auto
    then have "\<not> num_gt (bound.min_v (defaultZoneBound fld (setpoints.zones ?t))) (bound.max_v (defaultZoneBound fld (setpoints.zones ?t)))"
      using defaultZoneBound_contains(2) [OF fld _ range] by blast
    then show ?thesis
      using look defaultZoneBound_contains(1) [OF fld _ range]
      by (auto simp: zone_error_def b Let_def intro!: first_error_all_None)
  qed
  show ?thesis using assms(4) scalar zone b by (auto simp: stage_errors_def split: option.splits)
qed

text \<open>Every input of a complete stage's table is populated.\<close>

lemma rows_populated:
  assumes "complete_stage st"
  shows "r \<in> set (scalar_rows st) \<Longrightarrow> br_min r \<noteq> None \<and> br_max r \<noteq> None"
    and "q \<in> set (zone_rows st) \<Longrightarrow> br_min q \<noteq> None \<and> br_max q \<noteq> None"
  using assms
  by (auto simp: scalar_rows_def zone_rows_def complete_stage_def complete_zones_def Let_def
      split: option.splits if_splits)

section \<open>Properties\<close>

text \<open>
  C20: whatever the operator does with the editor, a profile it sends was checked: its name, crop
  and stage names are not blank, a new profile's id is a slug and an edited one's is the
  original, every target of every stage has an envelope with its minimum not above its maximum
  and lies inside it, and so does every zone's.
\<close>

theorem sent_profiles_checked:
  "let f = form_run ns other evs (ProfileEditForm existing)
   in \<forall>q\<in>set (pf_sent f). checked_profile (existing \<noteq> None) q
        \<and> (case existing of Some p \<Rightarrow> crop_profile.ident q = crop_profile.ident p | None \<Rightarrow> is_slug (crop_profile.ident q))"
proof -
  let ?f = "form_run ns other evs (ProfileEditForm existing)"
  have "form_inv existing ?f" by (rule form_inv_run [OF form_inv_init])
  then have "\<forall>q\<in>set (pf_sent ?f). checked_profile (existing \<noteq> None) q"
    "\<And>p. existing = Some p \<Longrightarrow> \<forall>q\<in>set (pf_sent ?f). crop_profile.ident q = crop_profile.ident p"
    unfolding form_inv_def by blast+
  moreover have "is_slug (crop_profile.ident q)" if "checked_profile False q" for q
    using that by (simp add: checked_profile_def)
  ultimately show ?thesis unfolding Let_def by (cases existing) auto
qed

theorem sent_profiles_checked_witness:
  "\<exists>q. pf_sent (form_run (\<lambda>_. []) [] [EditId ''basil'', EditName ''Basil'', EditCrop ''basil'', Submit] (ProfileEditForm None)) = [q]
     \<and> checked_profile False q"
proof -
  let ?st = "\<lparr>profile_stage.stage = ''vegetative'', targets = defaultTargets, bounds = None\<rparr>"
  have "first_error (stage_errors (\<lambda>_. []) (with_envelope ?st)) = None"
    by (rule first_error_all_None, rule seeded_stage_passes [of ?st])
      (simp_all add: SCALARS_def bound_field_def in_range_def defaultTargets_def)
  then have "submit_error (\<lambda>_. []) False ''basil'' ''Basil'' ''basil'' [with_envelope ?st] = None"
    by (simp add: submit_error_def is_slug_def lower_or_digit_def trim_def is_space_def with_envelope_def)
  then have "pf_sent (form_run (\<lambda>_. []) [] [EditId ''basil'', EditName ''Basil'', EditCrop ''basil'', Submit] (ProfileEditForm None))
      = [\<lparr>crop_profile.ident = ''basil'', name = ''Basil'', crop = ''basil'', stages = [with_envelope ?st]\<rparr>]"
    by (simp add: form_run_def ProfileEditForm_def submit_def)
  with sent_profiles_checked [of "\<lambda>_. []" "[]" "[EditId ''basil'', EditName ''Basil'', EditCrop ''basil'', Submit]" None]
  show ?thesis by (simp add: Let_def)
qed

text \<open>
  C21: seeding an envelope never stands in the way. Opening the editor on a profile without
  envelopes whose targets are in their fields' physical ranges (and at most a million), with
  names that are not blank, and submitting at once sends the profile: its targets unchanged,
  every stage with a complete envelope.
\<close>

theorem seeded_profile_submits:
  assumes "trim (crop_profile.name p) \<noteq> []" "trim (crop_profile.crop p) \<noteq> []" "crop_profile.stages p \<noteq> []"
    and "\<forall>st\<in>set (crop_profile.stages p). trim (profile_stage.stage st) \<noteq> [] \<and> profile_stage.bounds st = None
      \<and> (\<forall>fld\<in>set SCALARS. in_range fld (target_of (bf_key fld) (profile_stage.targets st)))
      \<and> (\<forall>z\<in>set (setpoints.zones (profile_stage.targets st)). \<forall>fld\<in>set ZONE_BOUND_FIELDS.
           in_range fld (zone_target_of (bf_key fld) z))"
  shows "let f = form_run ns other [Submit] (ProfileEditForm (Some p))
     in pf_sent f = [p\<lparr>crop_profile.stages := map with_envelope (crop_profile.stages p)\<rparr>] \<and> pf_pending f \<and> pf_error f = None
        \<and> (\<forall>st\<in>set (crop_profile.stages p). profile_stage.targets (with_envelope st) = profile_stage.targets st
              \<and> complete_stage (with_envelope st))"
proof -
  have "first_error (concat (map (stage_errors ns) (map with_envelope (crop_profile.stages p)))) = None"
    using seeded_stage_passes [of _ _ ns] assms(4) by (intro first_error_all_None) auto
  then have "submit_error ns True (crop_profile.ident p) (crop_profile.name p) (crop_profile.crop p)
      (map with_envelope (crop_profile.stages p)) = None"
    using assms by (simp add: submit_error_def with_envelope_def)
  then show ?thesis
    by (simp add: Let_def form_run_def ProfileEditForm_def submit_def complete_with_envelope)
      (simp add: with_envelope_def)
qed

lemma example_thirds: "num_le (Fin 0) (fl (3/10))" "num_le (fl (3/10)) (Fin 1)" "num_le (fl (3/10)) (Fin 1000000)"
  "num_le (Fin 0) (fl (3/5))" "num_le (fl (3/5)) (Fin 1)" "num_le (fl (3/5)) (Fin 1000000)"
proof -
  have "num_le (fl 0) (fl (3/10))" "num_le (fl (3/10)) (fl 1)" "num_le (fl 0) (fl (3/5))" "num_le (fl (3/5)) (fl 1)"
    by (rule fl_mono, simp)+
  moreover have "num_le (Fin 1) (Fin 1000000)" by simp
  ultimately show "num_le (Fin 0) (fl (3/10))" "num_le (fl (3/10)) (Fin 1)" "num_le (fl (3/10)) (Fin 1000000)"
    "num_le (Fin 0) (fl (3/5))" "num_le (fl (3/5)) (Fin 1)" "num_le (fl (3/5)) (Fin 1000000)"
    by (auto intro: num_le_trans)
qed

theorem seeded_profile_submits_witness:
  "let p = \<lparr>crop_profile.ident = ''basil'', name = ''Basil'', crop = ''basil'',
       stages = [\<lparr>profile_stage.stage = ''veg'', targets = defaultTargets\<lparr>setpoints.zones := [defaultZone]\<rparr>, bounds = None\<rparr>]\<rparr>
   in pf_pending (form_run (\<lambda>_. []) [] [Submit] (ProfileEditForm (Some p)))"
  using seeded_profile_submits [of "\<lparr>crop_profile.ident = ''basil'', name = ''Basil'', crop = ''basil'',
       stages = [\<lparr>profile_stage.stage = ''veg'', targets = defaultTargets\<lparr>setpoints.zones := [defaultZone]\<rparr>, bounds = None\<rparr>]\<rparr>"
     "\<lambda>_. []" "[]"]
  by (simp add: Let_def trim_def is_space_def SCALARS_def ZONE_BOUND_FIELDS_def bound_field_def in_range_def
      defaultTargets_def defaultZone_def example_thirds)

end
