(* ===== verification/Setpoint_Form.thy ===== *)
theory Setpoint_Form
  imports Profile_Form Derivations Machines
begin

text \<open>
  The operator's manual setpoint edit (\<open>features/greenhouse/SetpointEditForm.tsx\<close>): the form
  schema with its coercions and refinements, the change summary of the confirmation dialog, and
  the form as a state machine over typing, review, confirmation and the settling of the relay.
  \<open>Number(x)\<close> of an input's value is the parameter \<open>number\<close> and \<open>String(n)\<close> the parameter \<open>ns\<close>.
\<close>

section \<open>The form schema\<close>

text \<open>What the inputs hold: a field's text, or the value it was seeded with.\<close>

record raw_zone =
  rz_zoneId :: string
  rz_low :: jsval
  rz_high :: jsval
  rz_drain :: jsval
  rz_schedule :: string

record raw_setpoints =
  rs_scalar :: "scalar_setpoint_key \<Rightarrow> jsval"
  rs_dayStart :: string
  rs_dayEnd :: string
  rs_zones :: "raw_zone list"

definition coerce_zone :: "(jsval \<Rightarrow> js_num) \<Rightarrow> raw_zone \<Rightarrow> zone_targets" where
  "coerce_zone number z = \<lparr>zone_targets.zoneId = rz_zoneId z, moistureLowThreshold = number (rz_low z),
     moistureHighThreshold = number (rz_high z), drainPeriodSecs = number (rz_drain z), sched = rz_schedule z\<rparr>"

definition coerce_values :: "(jsval \<Rightarrow> js_num) \<Rightarrow> raw_setpoints \<Rightarrow> setpoints" where
  "coerce_values number r =
     \<lparr>setpoints.temperatureDayC = number (rs_scalar r TemperatureDayC),
      temperatureNightC = number (rs_scalar r TemperatureNightC),
      dayStart = rs_dayStart r, dayEnd = rs_dayEnd r,
      humidityLowPct = number (rs_scalar r HumidityLowPct),
      humidityHighPct = number (rs_scalar r HumidityHighPct),
      humidityDeadbandPct = number (rs_scalar r HumidityDeadbandPct),
      co2TargetPpm = number (rs_scalar r Co2TargetPpm),
      co2VentInterlockThresholdPct = number (rs_scalar r Co2VentInterlockThresholdPct),
      vpdTargetKpa = number (rs_scalar r VpdTargetKpa),
      dliTargetMol = number (rs_scalar r DliTargetMol),
      zones = map (coerce_zone number) (rs_zones r)\<rparr>"

text \<open>\<open>z.coerce.number().min(lo).max(hi)\<close> and \<open>.int()\<close>, on the coerced value.\<close>

definition num_within :: "js_num \<Rightarrow> js_num \<Rightarrow> js_num \<Rightarrow> bool" where
  "num_within lo hi x \<longleftrightarrow> x \<noteq> NaN \<and> num_le lo x \<and> num_le x hi"

text \<open>\<open>a > b\<close> on strings: by code units, a proper prefix first.\<close>

fun str_gt :: "string \<Rightarrow> string \<Rightarrow> bool" where
  "str_gt [] b = False"
| "str_gt (c # a) [] = True"
| "str_gt (c # a) (d # b) = ((of_char d :: nat) < of_char c \<or> (c = d \<and> str_gt a b))"

definition zone_issues :: "nat \<Rightarrow> zone_targets \<Rightarrow> string list" where
  "zone_issues i z =
     (let p = ''zones.'' @ nat_string i @ ''.'' in
      (if num_within (Fin 0) (Fin 1) (moistureLowThreshold z) then [] else [p @ ''moistureLowThreshold''])
      @ (if num_within (Fin 0) (Fin 1) (moistureHighThreshold z) then [] else [p @ ''moistureHighThreshold''])
      @ (if num_within (Fin 0) PosInf (drainPeriodSecs z) \<and> is_integer (drainPeriodSecs z) then [] else [p @ ''drainPeriodSecs''])
      @ (if is_schedule (zone_targets.sched z) then [] else [p @ ''schedule''])
      @ (if num_gt (moistureHighThreshold z) (moistureLowThreshold z) then [] else [p @ ''moistureHighThreshold'']))"

text \<open>
  The paths of the issues of a value, the refinements last. zod leaves out the refinements of
  an object some part of which is of the wrong type; which paths fail beside another is not
  used, only whether any does.
\<close>

definition form_issues :: "setpoints \<Rightarrow> string list" where
  "form_issues v =
     (if num_within (Fin (- 20)) (Fin 60) (setpoints.temperatureDayC v) then [] else [''temperatureDayC''])
     @ (if num_within (Fin (- 20)) (Fin 60) (setpoints.temperatureNightC v) then [] else [''temperatureNightC''])
     @ (if is_time_of_day (setpoints.dayStart v) then [] else [''dayStart''])
     @ (if is_time_of_day (setpoints.dayEnd v) then [] else [''dayEnd''])
     @ (if num_within (Fin 0) (Fin 100) (setpoints.humidityLowPct v) then [] else [''humidityLowPct''])
     @ (if num_within (Fin 0) (Fin 100) (setpoints.humidityHighPct v) then [] else [''humidityHighPct''])
     @ (if num_within (Fin 0) (Fin 50) (setpoints.humidityDeadbandPct v) then [] else [''humidityDeadbandPct''])
     @ (if num_within (Fin 0) (Fin 5000) (setpoints.co2TargetPpm v) \<and> is_integer (setpoints.co2TargetPpm v)
        then [] else [''co2TargetPpm''])
     @ (if num_within (Fin 0) (Fin 100) (setpoints.co2VentInterlockThresholdPct v) then [] else [''co2VentInterlockThresholdPct''])
     @ (if num_within (Fin 0) PosInf (setpoints.vpdTargetKpa v) then [] else [''vpdTargetKpa''])
     @ (if num_within (Fin 0) PosInf (setpoints.dliTargetMol v) then [] else [''dliTargetMol''])
     @ concat (map (\<lambda>(i, z). zone_issues i z) (enumerate 0 (setpoints.zones v)))
     @ (if num_gt (setpoints.humidityHighPct v) (setpoints.humidityLowPct v) then [] else [''humidityHighPct''])
     @ (if str_gt (setpoints.dayEnd v) (setpoints.dayStart v) then [] else [''dayEnd''])"

definition formSchema :: "(jsval \<Rightarrow> js_num) \<Rightarrow> raw_setpoints \<Rightarrow> string list + setpoints" where
  "formSchema number r =
     (let v = coerce_values number r; issues = form_issues v
      in if issues = [] then Inr v else Inl issues)"

section \<open>Field tables\<close>

datatype form_path = ScalarPath scalar_setpoint_key | DayStartPath | DayEndPath

record scalar_field =
  sf_name :: scalar_setpoint_key
  sf_label :: string
  sf_unit :: string
  sf_step :: "string option"

definition SCALAR_FIELDS :: "scalar_field list" where
  "SCALAR_FIELDS = map (\<lambda>(n, l, u, s). \<lparr>sf_name = n, sf_label = l, sf_unit = u, sf_step = Some s\<rparr>)
     [(TemperatureDayC, ''Day temperature'', deg_c, ''0.1''),
      (TemperatureNightC, ''Night temperature'', deg_c, ''0.1''),
      (HumidityLowPct, ''Humidity low'', ''%RH'', ''1''),
      (HumidityHighPct, ''Humidity high'', ''%RH'', ''1''),
      (HumidityDeadbandPct, ''Humidity deadband'', ''%RH'', ''1''),
      (Co2TargetPpm, ''CO'' @ sub_two @ '' target'', ''ppm'', ''1''),
      (Co2VentInterlockThresholdPct, ''CO'' @ sub_two @ '' vent interlock'', ''%'', ''1''),
      (VpdTargetKpa, ''VPD target'', ''kPa'', ''0.1''),
      (DliTargetMol, ''DLI target'', ''mol'', ''0.1'')]"

text \<open>
  The lookup is of the own keys; a field named like a property of every object (\<open>constructor\<close>) is
  not among the fields the platform names.
\<close>

definition FIELD_MAP :: "string \<rightharpoonup> form_path" where
  "FIELD_MAP = map_of
     [(''temperature_day_c'', ScalarPath TemperatureDayC),
      (''temperature_night_c'', ScalarPath TemperatureNightC),
      (''day_start'', DayStartPath),
      (''day_end'', DayEndPath),
      (''humidity_low_pct'', ScalarPath HumidityLowPct),
      (''humidity_high_pct'', ScalarPath HumidityHighPct),
      (''humidity_deadband_pct'', ScalarPath HumidityDeadbandPct),
      (''co2_target_ppm'', ScalarPath Co2TargetPpm),
      (''co2_vent_interlock_threshold_pct'', ScalarPath Co2VentInterlockThresholdPct),
      (''vpd_target_kpa'', ScalarPath VpdTargetKpa),
      (''dli_target_mol'', ScalarPath DliTargetMol)]"

definition DIFF_LABELS :: "(form_path \<times> string) list" where
  "DIFF_LABELS = map (\<lambda>f. (ScalarPath (sf_name f), sf_label f)) SCALAR_FIELDS
     @ [(DayStartPath, ''Day start''), (DayEndPath, ''Day end'')]"

section \<open>The change summary\<close>

record change =
  ch_label :: string
  ch_from :: string
  ch_to :: string

text \<open>\<open>String(values[key])\<close>\<close>

fun field_text :: "(js_num \<Rightarrow> string) \<Rightarrow> setpoints \<Rightarrow> form_path \<Rightarrow> string" where
  "field_text ns v (ScalarPath k) = ns (target_of k v)"
| "field_text ns v DayStartPath = setpoints.dayStart v"
| "field_text ns v DayEndPath = setpoints.dayEnd v"

text \<open>The text of the zones is compared by the value it denotes.\<close>

definition json_view_zone :: "zone_targets \<Rightarrow> jsval" where
  "json_view_zone z = JObj
     [(''zoneId'', JStr (zone_targets.zoneId z)),
      (''moistureLowThreshold'', json_num (moistureLowThreshold z)),
      (''moistureHighThreshold'', json_num (moistureHighThreshold z)),
      (''drainPeriodSecs'', json_num (drainPeriodSecs z)),
      (''schedule'', JStr (zone_targets.sched z))]"

definition diffSetpoints :: "(js_num \<Rightarrow> string) \<Rightarrow> setpoints \<Rightarrow> setpoints \<Rightarrow> change list" where
  "diffSetpoints ns original nxt =
     concat (map (\<lambda>(k, label).
        (let before = field_text ns original k; after = field_text ns nxt k in
         if before \<noteq> after then [\<lparr>ch_label = label, ch_from = before, ch_to = after\<rparr>] else [])) DIFF_LABELS)
     @ (if json_list json_view_zone (setpoints.zones original) \<noteq> json_list json_view_zone (setpoints.zones nxt)
        then [\<lparr>ch_label = ''Zone targets'', ch_from = ''current'', ch_to = ''updated''\<rparr>] else [])"

section \<open>The form\<close>

text \<open>
  The state: the snapshot it was last seeded with, the raw inputs, the field errors, the values
  awaiting confirmation, whether the relay is in flight, and what went out: the patches handed
  to the mutation and the toasts.
\<close>

record edit_form =
  ef_id :: string
  ef_snapshot :: setpoints
  ef_raw :: raw_setpoints
  ef_errors :: "string list"
  ef_field_error :: "(form_path \<times> string) option"
  ef_confirm :: "setpoints option"
  ef_busy :: bool
  ef_sent :: "setpoints_patch list"
  ef_notices :: "toast_input list"

text \<open>The default values of the inputs: a number as such.\<close>

definition raw_of :: "setpoints \<Rightarrow> raw_setpoints" where
  "raw_of sp = \<lparr>rs_scalar = (\<lambda>k. JNum (target_of k sp)), rs_dayStart = setpoints.dayStart sp,
     rs_dayEnd = setpoints.dayEnd sp,
     rs_zones = map (\<lambda>z. \<lparr>rz_zoneId = zone_targets.zoneId z, rz_low = JNum (moistureLowThreshold z),
        rz_high = JNum (moistureHighThreshold z), rz_drain = JNum (drainPeriodSecs z), rz_schedule = zone_targets.sched z\<rparr>)
        (setpoints.zones sp)\<rparr>"

text \<open>The form values are handed to the mutation as the patch: every field is present.\<close>

definition patch_of :: "setpoints \<Rightarrow> setpoints_patch" where
  "patch_of v =
     \<lparr>setpoints_patch.temperatureDayC = Some (setpoints.temperatureDayC v),
      temperatureNightC = Some (setpoints.temperatureNightC v),
      dayStart = Some (setpoints.dayStart v), dayEnd = Some (setpoints.dayEnd v),
      humidityLowPct = Some (setpoints.humidityLowPct v), humidityHighPct = Some (setpoints.humidityHighPct v),
      humidityDeadbandPct = Some (setpoints.humidityDeadbandPct v), co2TargetPpm = Some (setpoints.co2TargetPpm v),
      co2VentInterlockThresholdPct = Some (setpoints.co2VentInterlockThresholdPct v),
      vpdTargetKpa = Some (setpoints.vpdTargetKpa v), dliTargetMol = Some (setpoints.dliTargetMol v),
      zones = Some (setpoints.zones v)\<rparr>"

definition mount_edit :: "string \<Rightarrow> setpoints \<Rightarrow> edit_form" where
  "mount_edit i sp = \<lparr>ef_id = i, ef_snapshot = sp, ef_raw = raw_of sp, ef_errors = [], ef_field_error = None,
     ef_confirm = None, ef_busy = False, ef_sent = [], ef_notices = []\<rparr>"

definition notice :: "toast_variant \<Rightarrow> string \<Rightarrow> string \<Rightarrow> toast_input" where
  "notice v title msg = \<lparr>ti_variant = Some v, ti_title = title, ti_message = Some msg, ti_durationMs = None\<rparr>"

definition relay_text :: string where
  "relay_text = ''The edit couldn't be relayed '' @ [CHR 0xE2, CHR 0x80, CHR 0x94] @ '' try again once it reconnects.''"

text \<open>\<open>onError\<close>, after the dialog was closed; \<open>other\<close> is the text for a foreign exception.\<close>

definition edit_failed :: "string \<Rightarrow> thrown \<Rightarrow> edit_form \<Rightarrow> edit_form" where
  "edit_failed other e f =
     (let g = f\<lparr>ef_confirm := None\<rparr>;
          toast = (\<lambda>t m. g\<lparr>ef_notices := ef_notices g @ [notice WarningToast t m]\<rparr>)
      in case e of
        OtherThrown \<Rightarrow> toast ''Edit failed'' other
      | ApiError x \<Rightarrow>
          (case (ae_kind x, ae_validation x) of
             (ValidationErr, Some d) \<Rightarrow>
               (case FIELD_MAP (vd_field d) of
                  Some p \<Rightarrow> g\<lparr>ef_field_error := Some (p, ae_message x)\<rparr>
                | None \<Rightarrow> toast ''Edit rejected'' (ae_message x))
           | (UnavailableErr, _) \<Rightarrow> toast ''Controller unreachable'' relay_text
           | _ \<Rightarrow> toast ''Edit failed'' (ae_message x)))"

datatype edit_event =
    Snapshot setpoints
  | TypeIn raw_setpoints
  | Review
  | CloseDialog
  | Apply
  | Relayed setpoints
  | RelayFailed thrown

text \<open>\<open>offline\<close> and \<open>isOperator\<close> are the props of the moment; the inputs and the buttons follow \<open>disabled\<close>.\<close>

definition edit_disabled :: "bool \<Rightarrow> bool \<Rightarrow> edit_form \<Rightarrow> bool" where
  "edit_disabled offline isOperator f \<longleftrightarrow> offline \<or> ef_busy f \<or> \<not> isOperator"

fun edit_step :: "(jsval \<Rightarrow> js_num) \<Rightarrow> string \<Rightarrow> bool \<Rightarrow> bool \<Rightarrow> edit_event \<Rightarrow> edit_form \<Rightarrow> edit_form" where
  "edit_step number other offline isOperator (Snapshot sp) f =
     f\<lparr>ef_snapshot := sp, ef_raw := raw_of sp, ef_errors := [], ef_field_error := None\<rparr>"
| "edit_step number other offline isOperator (TypeIn r) f =
     (if edit_disabled offline isOperator f then f else f\<lparr>ef_raw := r\<rparr>)"
| "edit_step number other offline isOperator Review f =
     (if edit_disabled offline isOperator f then f
      else case formSchema number (ef_raw f) of
        Inl issues \<Rightarrow> f\<lparr>ef_errors := issues\<rparr>
      | Inr v \<Rightarrow> f\<lparr>ef_errors := [], ef_field_error := None, ef_confirm := Some v\<rparr>)"
| "edit_step number other offline isOperator CloseDialog f = f\<lparr>ef_confirm := None\<rparr>"
| "edit_step number other offline isOperator Apply f =
     (if ef_busy f then f
      else case ef_confirm f of
        None \<Rightarrow> f
      | Some v \<Rightarrow> f\<lparr>ef_busy := True, ef_sent := ef_sent f @ [patch_of v]\<rparr>)"
| "edit_step number other offline isOperator (Relayed sp) f =
     (if ef_busy f
      then f\<lparr>ef_busy := False, ef_confirm := None,
             ef_notices := ef_notices f @ [notice SuccessToast ''Setpoints applied'' (ef_id f)]\<rparr>
      else f)"
| "edit_step number other offline isOperator (RelayFailed e) f =
     (if ef_busy f then edit_failed other e (f\<lparr>ef_busy := False\<rparr>) else f)"

definition edit_run :: "(jsval \<Rightarrow> js_num) \<Rightarrow> string \<Rightarrow> (bool \<times> bool \<times> edit_event) list \<Rightarrow> edit_form \<Rightarrow> edit_form" where
  "edit_run number other evs f = fold (\<lambda>(off, op, ev). edit_step number other off op ev) evs f"

text \<open>What the dialog lists: recomputed from the current snapshot.\<close>

definition dialog_changes :: "(js_num \<Rightarrow> string) \<Rightarrow> edit_form \<Rightarrow> change list" where
  "dialog_changes ns f = (case ef_confirm f of Some v \<Rightarrow> diffSetpoints ns (ef_snapshot f) v | None \<Rightarrow> [])"

text \<open>The note above the fields, and what the dialog shows.\<close>

definition em_dash :: string where "em_dash = [CHR 0xE2, CHR 0x80, CHR 0x94]"

definition form_note :: "bool \<Rightarrow> bool \<Rightarrow> string option" where
  "form_note offline isOperator =
     (if \<not> isOperator then Some (''Read-only '' @ em_dash @ '' the operator role is required to edit setpoints.'')
      else if offline then Some (''Controller offline '' @ em_dash @ '' edits unavailable until it reconnects.'')
      else None)"

record edit_dialog =
  ed_open :: bool
  ed_description :: string
  ed_disabled :: bool
  ed_apply :: string
  ed_body :: "string + change list"

definition edit_dialog_of :: "(js_num \<Rightarrow> string) \<Rightarrow> edit_form \<Rightarrow> edit_dialog" where
  "edit_dialog_of ns f =
     (let changes = dialog_changes ns f in
      \<lparr>ed_open = (ef_confirm f \<noteq> None),
       ed_description = ''These targets will be relayed to '' @ ef_id f @ ''.'',
       ed_disabled = ef_busy f,
       ed_apply = (if ef_busy f then ''Applying'' @ [CHR 0xE2, CHR 0x80, CHR 0xA6] else ''Apply''),
       ed_body = (if changes = [] then Inl ''No changes to apply.'' else Inr changes)\<rparr>)"

section \<open>The form schema is the contract\<close>

text \<open>The relations the platform enforces beyond the schema of the patch.\<close>

definition ordered_setpoints :: "setpoints \<Rightarrow> bool" where
  "ordered_setpoints v \<longleftrightarrow> num_lt (setpoints.humidityLowPct v) (setpoints.humidityHighPct v)
     \<and> minutes_of (setpoints.dayStart v) < minutes_of (setpoints.dayEnd v)
     \<and> (\<forall>z\<in>set (setpoints.zones v). num_lt (moistureLowThreshold z) (moistureHighThreshold z))"

lemma digit_less: "char_in lo hi c \<Longrightarrow> (of_char lo :: nat) \<le> of_char c \<and> (of_char c :: nat) \<le> of_char hi"
  by (simp add: char_in_def)

lemma hhmm_form:
  assumes "is_time_of_day s"
  obtains a b c d where "s = [a, b, CHR '':'', c, d]"
    "48 \<le> (of_char a :: nat)" "(of_char a :: nat) \<le> 50" "48 \<le> (of_char b :: nat)" "(of_char b :: nat) \<le> 57"
    "48 \<le> (of_char c :: nat)" "(of_char c :: nat) \<le> 53" "48 \<le> (of_char d :: nat)" "(of_char d :: nat) \<le> 57"
proof -
  obtain a b x c d where s: "s = [a, b, x, c, d]" using assms by (cases s rule: is_time_of_day.cases) auto
  from assms that [of a b c d] show ?thesis unfolding s by (auto simp: char_in_def)
qed

lemma two_digits:
  fixes a b a' b' :: int
  assumes "0 \<le> b" "b < 10" "0 \<le> b'" "b' < 10"
  shows "10 * a + b < 10 * a' + b' \<longleftrightarrow> a < a' \<or> (a = a' \<and> b < b')"
    and "10 * a + b = 10 * a' + b' \<longleftrightarrow> a = a' \<and> b = b'"
  using assms by (cases a a' rule: linorder_cases; auto)+

lemma hours_minutes:
  fixes h m h' m' :: int
  assumes "0 \<le> m" "m < 60" "0 \<le> m'" "m' < 60"
  shows "h * 60 + m < h' * 60 + m' \<longleftrightarrow> h < h' \<or> (h = h' \<and> m < m')"
  using assms by (cases h h' rule: linorder_cases; auto)

lemma hhmm_order:
  assumes "is_time_of_day s" "is_time_of_day t"
  shows "str_gt t s \<longleftrightarrow> minutes_of s < minutes_of t"
proof -
  obtain a b c d where s: "s = [a, b, CHR '':'', c, d]"
    and sb: "48 \<le> (of_char a :: nat)" "(of_char a :: nat) \<le> 50" "48 \<le> (of_char b :: nat)" "(of_char b :: nat) \<le> 57"
      "48 \<le> (of_char c :: nat)" "(of_char c :: nat) \<le> 53" "48 \<le> (of_char d :: nat)" "(of_char d :: nat) \<le> 57"
    using hhmm_form [OF assms(1)] .
  obtain a' b' c' d' where t: "t = [a', b', CHR '':'', c', d']"
    and tb: "48 \<le> (of_char a' :: nat)" "(of_char a' :: nat) \<le> 50" "48 \<le> (of_char b' :: nat)" "(of_char b' :: nat) \<le> 57"
      "48 \<le> (of_char c' :: nat)" "(of_char c' :: nat) \<le> 53" "48 \<le> (of_char d' :: nat)" "(of_char d' :: nat) \<le> 57"
    using hhmm_form [OF assms(2)] .
  have eq: "x = y \<longleftrightarrow> (of_char x :: nat) = of_char y" for x y :: char by simp
  have "str_gt t s \<longleftrightarrow> (of_char a :: nat) < of_char a' \<or> (of_char a :: nat) = of_char a' \<and>
     ((of_char b :: nat) < of_char b' \<or> (of_char b :: nat) = of_char b' \<and>
      ((of_char c :: nat) < of_char c' \<or> (of_char c :: nat) = of_char c' \<and> (of_char d :: nat) < of_char d'))"
    unfolding s t by (auto simp: eq [of a'] eq [of b'] eq [of c'] eq [of d'] simp del: of_char_eq_iff)
  also have "\<dots> \<longleftrightarrow> minutes_of s < minutes_of t"
  proof -
    let ?A = "digit a" and ?B = "digit b" and ?C = "digit c" and ?D = "digit d"
    let ?A' = "digit a'" and ?B' = "digit b'" and ?C' = "digit c'" and ?D' = "digit d'"
    have r: "0 \<le> ?B" "?B < 10" "0 \<le> ?B'" "?B' < 10" "0 \<le> ?D" "?D < 10" "0 \<le> ?D'" "?D' < 10"
      "0 \<le> 10 * ?C + ?D" "10 * ?C + ?D < 60" "0 \<le> 10 * ?C' + ?D'" "10 * ?C' + ?D' < 60"
      using sb tb by (simp_all add: digit_def)
    have d: "digit x < digit y \<longleftrightarrow> (of_char x :: nat) < of_char y" "digit x = digit y \<longleftrightarrow> (of_char x :: nat) = of_char y" for x y
      by (simp_all add: digit_def)
    show ?thesis
      unfolding s t minutes_of.simps hours_minutes [OF r(9-12)] two_digits [OF r(1-4)] two_digits [OF r(5-8)] d
      by blast
  qed
  finally show ?thesis .
qed

definition zone_ok :: "zone_targets \<Rightarrow> bool" where
  "zone_ok z \<longleftrightarrow> num_within (Fin 0) (Fin 1) (moistureLowThreshold z) \<and> num_within (Fin 0) (Fin 1) (moistureHighThreshold z)
     \<and> num_le (Fin 0) (drainPeriodSecs z) \<and> is_integer (drainPeriodSecs z) \<and> is_schedule (zone_targets.sched z)"

lemma zone_issues_Nil: "zone_issues i z = [] \<longleftrightarrow> zone_ok z \<and> num_gt (moistureHighThreshold z) (moistureLowThreshold z)"
  by (cases "drainPeriodSecs z") (auto simp: zone_issues_def zone_ok_def Let_def num_within_def)

lemma zones_issues_Nil:
  "concat (map (\<lambda>(i, z). zone_issues i z) (enumerate n zs)) = []
   \<longleftrightarrow> (\<forall>z\<in>set zs. zone_ok z \<and> num_gt (moistureHighThreshold z) (moistureLowThreshold z))"
  by (induction zs arbitrary: n) (auto simp: zone_issues_Nil)

definition scalars_ok :: "setpoints \<Rightarrow> bool" where
  "scalars_ok v \<longleftrightarrow>
     num_within (Fin (- 20)) (Fin 60) (setpoints.temperatureDayC v) \<and> num_within (Fin (- 20)) (Fin 60) (setpoints.temperatureNightC v)
     \<and> num_within (Fin 0) (Fin 100) (setpoints.humidityLowPct v) \<and> num_within (Fin 0) (Fin 100) (setpoints.humidityHighPct v)
     \<and> num_within (Fin 0) (Fin 50) (setpoints.humidityDeadbandPct v)
     \<and> num_within (Fin 0) (Fin 5000) (setpoints.co2TargetPpm v) \<and> is_integer (setpoints.co2TargetPpm v)
     \<and> num_within (Fin 0) (Fin 100) (setpoints.co2VentInterlockThresholdPct v)
     \<and> num_le (Fin 0) (setpoints.vpdTargetKpa v) \<and> num_le (Fin 0) (setpoints.dliTargetMol v)"

lemma within_PosInf: "num_within (Fin a) PosInf x \<longleftrightarrow> num_le (Fin a) x"
  by (cases x) (auto simp: num_within_def)

lemma form_issues_Nil:
  "form_issues v = [] \<longleftrightarrow> scalars_ok v \<and> is_time_of_day (setpoints.dayStart v) \<and> is_time_of_day (setpoints.dayEnd v)
     \<and> (\<forall>z\<in>set (setpoints.zones v). zone_ok z) \<and> ordered_setpoints v"
proof -
  have iff: "(if b then [] else [x]) = [] \<longleftrightarrow> b" for b and x :: string by simp
  show ?thesis
    unfolding form_issues_def append_is_Nil_conv iff zones_issues_Nil within_PosInf scalars_ok_def ordered_setpoints_def
    using hhmm_order by blast
qed

text \<open>The wire schema on an encoded number.\<close>

lemma json_num_basics [simp]:
  "json_num x \<noteq> JUndef"
  "(case json_num x of JNum y \<Rightarrow> y \<noteq> NaN | _ \<Rightarrow> False) \<longleftrightarrow> is_finite x"
  "(case json_num x of JNum y \<Rightarrow> is_integer y | _ \<Rightarrow> True) \<longleftrightarrow> (is_finite x \<longrightarrow> is_integer x)"
  "num_at_least lo (json_num x) \<longleftrightarrow> (is_finite x \<longrightarrow> num_le (Fin lo) x)"
  "num_at_most hi (json_num x) \<longleftrightarrow> (is_finite x \<longrightarrow> num_le x (Fin hi))"
  by (cases x; simp)+

lemma num_within_finite: "num_within (Fin lo) (Fin hi) x \<longleftrightarrow> is_finite x \<and> num_le (Fin lo) x \<and> num_le x (Fin hi)"
  by (cases x) (auto simp: num_within_def)

lemma is_integer_finite: "is_integer x \<Longrightarrow> is_finite x"
  by (cases x) auto

lemma conforms_json_str [simp]:
  "conforms slug (JStr t) \<longleftrightarrow> is_slug t" "conforms timeOfDay (JStr t) \<longleftrightarrow> is_time_of_day t"
  "conforms schedule (JStr t) \<longleftrightarrow> is_schedule t"
  by (simp_all add: slug_def timeOfDay_def schedule_def)

lemma conforms_json_zone:
  "conforms wireZoneTargets (json_zone_targets (toWireZoneTargets z)) \<longleftrightarrow> is_slug (zone_targets.zoneId z) \<and> zone_ok z"
  unfolding wireZoneTargets_def json_zone_targets_def toWireZoneTargets_def z_range_def zone_ok_def num_within_finite
  by (auto dest: is_integer_finite)

lemma conforms_json_zones:
  "conforms (ZArray wireZoneTargets) (json_list json_zone_targets (map toWireZoneTargets zs))
   \<longleftrightarrow> (\<forall>z\<in>set zs. is_slug (zone_targets.zoneId z) \<and> zone_ok z)"
  by (auto simp: json_list_def conforms_json_zone)

lemma json_list_defined [simp]: "json_list f xs \<noteq> JUndef"
  by (simp add: json_list_def)

lemma json_patch_of:
  "json_setpoints_patch (toWireSetpointsPatch (patch_of v)) = json_setpoints (toWireSetpoints v)"
  by (simp add: json_setpoints_patch_def json_setpoints_def toWireSetpointsPatch_def toWireSetpoints_def patch_of_def
      json_field_def)

lemma conforms_patch_of_full: "conforms wireSetpointsPatch (json_setpoints w) \<longleftrightarrow> conforms wireSetpoints (json_setpoints w)"
proof -
  have field: "conforms (ZOptional s) (json_num x) = conforms s (json_num x)"
    "conforms (ZOptional s) (JStr t) = conforms s (JStr t)"
    "conforms (ZOptional s) (json_list f xs) = conforms s (json_list f xs)" for s x t f and xs :: "'b list"
    by simp_all
  show ?thesis
    unfolding wireSetpointsPatch_def wireSetpoints_def json_setpoints_def
    by (simp add: field del: conforms.simps(1-17) json_num_basics(2-5))
qed

lemma conforms_wire_setpoints:
  "conforms wireSetpoints (json_setpoints (toWireSetpoints v))
   \<longleftrightarrow> scalars_ok v \<and> is_finite (setpoints.vpdTargetKpa v) \<and> is_finite (setpoints.dliTargetMol v)
     \<and> is_time_of_day (setpoints.dayStart v) \<and> is_time_of_day (setpoints.dayEnd v)
     \<and> (\<forall>z\<in>set (setpoints.zones v). is_slug (zone_targets.zoneId z) \<and> zone_ok z)"
  unfolding wireSetpoints_def json_setpoints_def toWireSetpoints_def z_range_def scalars_ok_def num_within_finite
  by (auto simp: conforms_json_zones simp del: conforms.simps(16) dest: is_integer_finite)

text \<open>
  C22: The form's own schema is the wire contract of the patch plus the ordering relations the
  platform enforces: on values whose zones carry slugs and whose vapour-pressure and light targets
  are finite, the form accepts exactly when the encoded patch body conforms to the PATCH schema and
  low lies below high for humidity, the day and every zone.
\<close>
theorem edit_form_is_contract:
  assumes "\<forall>z\<in>set (setpoints.zones v). is_slug (zone_targets.zoneId z)"
    and "is_finite (setpoints.vpdTargetKpa v)" "is_finite (setpoints.dliTargetMol v)"
  shows "form_issues v = [] \<longleftrightarrow>
     conforms wireSetpointsPatch (json_setpoints_patch (toWireSetpointsPatch (patch_of v))) \<and> ordered_setpoints v"
  unfolding form_issues_Nil json_patch_of conforms_patch_of_full conforms_wire_setpoints using assms by blast

text \<open>\<open>Number('')\<close> is 0: an emptied field that allows 0 passes the schema as 0.\<close>

lemma blank_field_passes:
  assumes "number (JStr []) = Fin 0" "formSchema number s = Inr v" "k = VpdTargetKpa \<or> k = DliTargetMol"
  shows "\<exists>v'. formSchema number (s\<lparr>rs_scalar := (rs_scalar s)(k := JStr [])\<rparr>) = Inr v' \<and> target_of k v' = Fin 0"
proof -
  have "form_issues (coerce_values number s) = []" using assms(2) by (auto simp: formSchema_def Let_def split: if_splits)
  then show ?thesis
    using assms(1,3) by (auto simp: formSchema_def Let_def form_issues_Nil scalars_ok_def ordered_setpoints_def coerce_values_def)
qed

section \<open>The summary lists every difference\<close>

lemma diff_zone_inj:
  assumes "json_list json_view_zone zs = json_list json_view_zone zs'"
    and "\<forall>z\<in>set zs \<union> set zs'. is_finite (moistureLowThreshold z) \<and> is_finite (moistureHighThreshold z) \<and> is_finite (drainPeriodSecs z)"
  shows "zs = zs'"
proof -
  have num: "json_num x = json_num y \<Longrightarrow> is_finite x \<Longrightarrow> is_finite y \<Longrightarrow> x = y" for x y
    by (cases x; cases y) auto
  have maps: "map json_view_zone zs = map json_view_zone zs'" using assms(1) by (simp add: json_list_def)
  then show ?thesis using assms(2)
  proof (induction zs arbitrary: zs')
    case (Cons z zs)
    then obtain z' ws where zs': "zs' = z' # ws" by (cases zs') auto
    have "z = z'" using Cons.prems unfolding zs'
      by (intro zone_targets.equality) (auto simp: json_view_zone_def intro: num)
    then show ?case using Cons unfolding zs' by simp
  qed simp
qed

lemma diff_empty:
  "diffSetpoints ns u v = [] \<longleftrightarrow> (\<forall>k\<in>set (map fst DIFF_LABELS). field_text ns u k = field_text ns v k)
     \<and> json_list json_view_zone (setpoints.zones u) = json_list json_view_zone (setpoints.zones v)"
  by (auto simp: diffSetpoints_def Let_def split: if_splits)

lemma diff_keys: "set (map fst DIFF_LABELS) = insert DayStartPath (insert DayEndPath (range ScalarPath))"
proof -
  have "x \<in> set [TemperatureDayC, TemperatureNightC, HumidityLowPct, HumidityHighPct, HumidityDeadbandPct, Co2TargetPpm,
      Co2VentInterlockThresholdPct, VpdTargetKpa, DliTargetMol]" for x by (cases x) simp_all
  then show ?thesis by (auto simp: DIFF_LABELS_def SCALAR_FIELDS_def image_iff)
qed

lemma setpoints_eq_iff:
  "u = v \<longleftrightarrow> (\<forall>k. target_of k u = target_of k v) \<and> setpoints.dayStart u = setpoints.dayStart v
     \<and> setpoints.dayEnd u = setpoints.dayEnd v \<and> setpoints.zones u = setpoints.zones (v :: setpoints)"
proof (intro iffI; (elim conjE)?)
  assume k: "\<forall>k. target_of k u = target_of k v" and rest: "setpoints.dayStart u = setpoints.dayStart v"
    "setpoints.dayEnd u = setpoints.dayEnd v" "setpoints.zones u = setpoints.zones v"
  have t: "target_of x u = target_of x v" for x using k by simp
  show "u = v"
    using t [of TemperatureDayC] t [of TemperatureNightC] t [of HumidityLowPct] t [of HumidityHighPct]
      t [of HumidityDeadbandPct] t [of Co2TargetPpm] t [of Co2VentInterlockThresholdPct] t [of VpdTargetKpa]
      t [of DliTargetMol] rest
    by (intro setpoints.equality) simp_all
qed simp

text \<open>
  The confirmation dialog says there is nothing to apply exactly when the reviewed values are
  the current setpoints: given that \<open>String\<close> distinguishes numbers and the zones' numbers are finite,
  \<open>diffSetpoints\<close> lists no change iff the two values are equal in every field and zone.
\<close>
theorem no_changes_means_equal:
  assumes "inj ns"
    and "\<forall>z\<in>set (setpoints.zones u) \<union> set (setpoints.zones v).
       is_finite (moistureLowThreshold z) \<and> is_finite (moistureHighThreshold z) \<and> is_finite (drainPeriodSecs z)"
  shows "diffSetpoints ns u v = [] \<longleftrightarrow> u = v"
proof -
  have zones: "json_list json_view_zone (setpoints.zones u) = json_list json_view_zone (setpoints.zones v)
      \<longleftrightarrow> setpoints.zones u = setpoints.zones v"
    using diff_zone_inj [OF _ assms(2)] by auto
  show ?thesis
    unfolding diff_empty diff_keys zones setpoints_eq_iff by (auto simp: inj_eq [OF assms(1)])
qed

section \<open>What is sent was reviewed\<close>

lemma edit_run_snoc:
  "edit_run number other (evs @ [(off, oper, ev)]) f = edit_step number other off oper ev (edit_run number other evs f)"
  by (simp add: edit_run_def)

lemma edit_failed_keeps:
  "ef_confirm (edit_failed other e f) = None" "ef_sent (edit_failed other e f) = ef_sent f"
  "ef_raw (edit_failed other e f) = ef_raw f" "ef_snapshot (edit_failed other e f) = ef_snapshot f"
  "ef_busy (edit_failed other e f) = ef_busy f"
  by (auto simp: edit_failed_def Let_def split: thrown.splits option.splits api_error_kind.splits)

lemma edit_failed_reports:
  "(\<exists>t m. ef_notices (edit_failed other e f) = ef_notices f @ [notice WarningToast t m]
      \<and> ef_field_error (edit_failed other e f) = ef_field_error f)
   \<or> (\<exists>x d k. e = ApiError x \<and> ae_validation x = Some d \<and> FIELD_MAP (vd_field d) = Some k
      \<and> ef_notices (edit_failed other e f) = ef_notices f \<and> ef_field_error (edit_failed other e f) = Some (k, ae_message x))"
proof (cases e)
  case OtherThrown
  then show ?thesis by (auto simp: edit_failed_def)
next
  case (ApiError x)
  show ?thesis
  proof (cases "ae_kind x = ValidationErr \<and> (\<exists>d k. ae_validation x = Some d \<and> FIELD_MAP (vd_field d) = Some k)")
    case True
    then show ?thesis by (auto simp: edit_failed_def ApiError)
  next
    case False
    define warned where "warned = (\<lambda>g. \<exists>t m. g = f\<lparr>ef_confirm := None, ef_notices := ef_notices f @ [notice WarningToast t m]\<rparr>)"
    have w: "warned (f\<lparr>ef_confirm := None, ef_notices := ef_notices f @ [notice WarningToast t m]\<rparr>)" for t m
      unfolding warned_def by blast
    have field: "FIELD_MAP (vd_field d) = None" if "ae_kind x = ValidationErr" "ae_validation x = Some d" for d
      using False that by (cases "FIELD_MAP (vd_field d)") auto
    have "warned (edit_failed other e f)"
      unfolding ApiError edit_failed_def Let_def
      by (simp add: w field split: api_error_kind.split option.split)
    then obtain t m where "edit_failed other e f = f\<lparr>ef_confirm := None, ef_notices := ef_notices f @ [notice WarningToast t m]\<rparr>"
      unfolding warned_def by blast
    then show ?thesis by (intro disjI1 exI [of _ t] exI [of _ m]) simp
  qed
qed

text \<open>The values \<open>v\<close> were accepted by a Review while the form was enabled, some time in \<open>evs\<close>.\<close>

definition reviewed :: "(jsval \<Rightarrow> js_num) \<Rightarrow> string \<Rightarrow> (bool \<times> bool \<times> edit_event) list \<Rightarrow> edit_form \<Rightarrow> setpoints \<Rightarrow> bool" where
  "reviewed number other evs f v \<longleftrightarrow> (\<exists>pre post. evs = pre @ (False, True, Review) # post
     \<and> formSchema number (ef_raw (edit_run number other pre f)) = Inr v)"

lemma reviewed_snoc:
  assumes "reviewed number other evs f v"
  shows "reviewed number other (evs @ [e]) f v"
proof -
  obtain pre post where "evs = pre @ (False, True, Review) # post" and v: "formSchema number (ef_raw (edit_run number other pre f)) = Inr v"
    using assms unfolding reviewed_def by blast
  then have "evs @ [e] = pre @ (False, True, Review) # (post @ [e])" by simp
  with v show ?thesis unfolding reviewed_def by blast
qed

lemma reviewed_now:
  "formSchema number (ef_raw (edit_run number other evs f)) = Inr v \<Longrightarrow> reviewed number other (evs @ [(False, True, Review)]) f v"
  unfolding reviewed_def by blast

lemma edit_step_confirm:
  "ef_confirm (edit_step number other off oper ev f) = Some v \<Longrightarrow>
     ef_confirm f = Some v \<or> (\<not> off \<and> oper \<and> ev = Review \<and> formSchema number (ef_raw f) = Inr v)"
  by (cases ev) (auto simp: edit_disabled_def edit_failed_keeps split: if_splits sum.splits option.splits)

lemma edit_step_sent:
  "ef_sent (edit_step number other off oper ev f) =
     ef_sent f @ (case (ev, ef_busy f, ef_confirm f) of (Apply, False, Some v) \<Rightarrow> [patch_of v] | _ \<Rightarrow> [])"
  by (cases ev) (auto simp: edit_failed_keeps split: sum.splits option.splits)

definition patches_sent :: "bool \<times> bool \<times> edit_event \<Rightarrow> edit_form \<Rightarrow> setpoints_patch list" where
  "patches_sent x f = (case (snd (snd x), ef_busy f, ef_confirm f) of (Apply, False, Some v) \<Rightarrow> [patch_of v] | _ \<Rightarrow> [])"

interpretation edit_machine: sending_machine "\<lambda>(off, op, ev). edit_step number other off op ev" ef_sent patches_sent
  for number other
  by unfold_locales (auto simp: patches_sent_def edit_step_sent split: prod.split)

lemma confirm_reviewed:
  "ef_confirm (edit_run number other evs (mount_edit i sp)) = Some v \<Longrightarrow> reviewed number other evs (mount_edit i sp) v"
proof (induction evs rule: rev_induct)
  case Nil
  then show ?case by (simp add: edit_run_def mount_edit_def)
next
  case (snoc e evs)
  obtain off oper ev where e: "e = (off, oper, ev)" by (cases e)
  from edit_step_confirm [OF snoc.prems [unfolded e edit_run_snoc]] snoc.IH show ?case
    by (auto simp: e intro: reviewed_snoc reviewed_now)
qed

text \<open>
  C23: The form relays only what the operator reviewed: every patch handed to the mutation, over
  any history of typing, snapshots, reviews and settling, was sent by a press of Apply, after a
  Review on a form that was online and in an operator's hands accepted the inputs of that moment;
  the patch is those values with every field present, and they keep low below high throughout.
\<close>
theorem edit_sends_reviewed:
  assumes "p \<in> set (ef_sent (edit_run number other evs (mount_edit i sp)))"
  shows "\<exists>pre mid post off oper v.
     evs = pre @ (False, True, Review) # mid @ (off, oper, Apply) # post
     \<and> formSchema number (ef_raw (edit_run number other pre (mount_edit i sp))) = Inr v
     \<and> p = patch_of v \<and> ordered_setpoints v"
proof -
  have "ef_sent (mount_edit i sp) = []" by (simp add: mount_edit_def)
  then obtain before e rest where evs: "evs = before @ e # rest" and
      p: "p \<in> set (patches_sent e (edit_run number other before (mount_edit i sp)))"
    using edit_machine.sent_cause [of p number other evs "mount_edit i sp"] assms unfolding edit_run_def by auto
  obtain off oper ev where e: "e = (off, oper, ev)" by (cases e)
  have "ev = Apply \<and> (\<exists>v. ef_confirm (edit_run number other before (mount_edit i sp)) = Some v \<and> p = patch_of v)"
    using p unfolding e patches_sent_def
    by (cases ev; cases "ef_busy (edit_run number other before (mount_edit i sp))";
        cases "ef_confirm (edit_run number other before (mount_edit i sp))") auto
  then obtain v where new: "ev = Apply" "ef_confirm (edit_run number other before (mount_edit i sp)) = Some v" "p = patch_of v"
    by blast
  obtain pre mid where before: "before = pre @ (False, True, Review) # mid"
    and v: "formSchema number (ef_raw (edit_run number other pre (mount_edit i sp))) = Inr v"
    using confirm_reviewed [OF new(2)] unfolding reviewed_def by blast
  have "form_issues v = []" using v by (auto simp: formSchema_def Let_def split: if_splits)
  then have "ordered_setpoints v" by (simp add: form_issues_Nil)
  then show ?thesis using evs before v new(1,3) unfolding e by (intro exI conjI) simp_all
qed

text \<open>
  A relay that fails is reported exactly once and costs no input: the dialog closes, the form
  is editable again with what was typed, and either one warning toast is raised or the rejected
  field is marked with the platform's message, the latter only when the platform named a field of
  the form.
\<close>
theorem edit_failure_reported:
  assumes "ef_busy f" and g: "g = edit_step number other off oper (RelayFailed e) f"
  shows "\<not> ef_busy g \<and> ef_confirm g = None \<and> ef_raw g = ef_raw f \<and> ef_sent g = ef_sent f
     \<and> ((\<exists>t m. ef_notices g = ef_notices f @ [notice WarningToast t m] \<and> ef_field_error g = ef_field_error f)
        \<or> (\<exists>x d k. e = ApiError x \<and> ae_validation x = Some d \<and> FIELD_MAP (vd_field d) = Some k
             \<and> ef_notices g = ef_notices f \<and> ef_field_error g = Some (k, ae_message x)))"
proof -
  let ?h = "f\<lparr>ef_busy := False\<rparr>"
  have failed: "edit_failed other e ?h = g" using assms by simp
  show ?thesis
    using edit_failed_reports [of other e ?h] edit_failed_keeps [of other e ?h] unfolding failed by simp
qed

section \<open>On concrete values\<close>

definition example_targets :: setpoints where
  "example_targets = \<lparr>setpoints.temperatureDayC = Fin 24, temperatureNightC = Fin 18, dayStart = ''06:00'', dayEnd = ''20:00'',
     humidityLowPct = Fin 55, humidityHighPct = Fin 75, humidityDeadbandPct = Fin 3, co2TargetPpm = Fin 900,
     co2VentInterlockThresholdPct = Fin 20, vpdTargetKpa = Fin 1, dliTargetMol = Fin 18,
     zones = [\<lparr>zone_targets.zoneId = ''bed-a'', moistureLowThreshold = Fin (1/5), moistureHighThreshold = Fin (2/5),
       drainPeriodSecs = Fin 60, sched = ''06:00,18:00''\<rparr>]\<rparr>"

definition read_number :: "jsval \<Rightarrow> js_num" where
  "read_number v = (case v of JNum x \<Rightarrow> x | _ \<Rightarrow> NaN)"

definition example_edit :: "(bool \<times> bool \<times> edit_event) list" where
  "example_edit = [(False, True, Review), (False, True, Apply)]"

lemma example_edit_sent:
  "ef_sent (edit_run read_number [] example_edit (mount_edit ''gh-a'' example_targets)) = [patch_of example_targets]"
  by code_simp

theorem edit_form_is_contract_witness: "form_issues example_targets = [] \<longleftrightarrow>
     conforms wireSetpointsPatch (json_setpoints_patch (toWireSetpointsPatch (patch_of example_targets)))
     \<and> ordered_setpoints example_targets"
proof (rule edit_form_is_contract)
  show "\<forall>z\<in>set (setpoints.zones example_targets). is_slug (zone_targets.zoneId z)" by code_simp
qed (simp_all add: example_targets_def)

theorem edit_sends_reviewed_witness: "\<exists>pre mid post off oper v.
     example_edit = pre @ (False, True, Review) # mid @ (off, oper, Apply) # post
     \<and> formSchema read_number (ef_raw (edit_run read_number [] pre (mount_edit ''gh-a'' example_targets))) = Inr v
     \<and> patch_of example_targets = patch_of v \<and> ordered_setpoints v"
  by (rule edit_sends_reviewed [of "patch_of example_targets" read_number "[]" example_edit "''gh-a''" example_targets])
    (simp add: example_edit_sent)

text \<open>An injective writing of numbers, in tally digits.\<close>

definition tally :: "js_num \<Rightarrow> string" where
  "tally x = (case x of
     Fin r \<Rightarrow> (let (p, q) = quotient_of r in
       (if p < 0 then ''-'' else []) @ replicate (nat \<bar>p\<bar>) CHR ''1'' @ ''/'' @ replicate (nat q) CHR ''1'')
   | PosInf \<Rightarrow> ''Infinity'' | NegInf \<Rightarrow> ''-Infinity'' | NaN \<Rightarrow> ''NaN'')"

lemma tally_parts:
  assumes "replicate a CHR ''1'' @ CHR ''/'' # xs = replicate a' CHR ''1'' @ CHR ''/'' # xs'"
  shows "a = a' \<and> xs = xs'"
  using assms
proof (induction a arbitrary: a')
  case 0 then show ?case by (cases a') auto
next
  case (Suc a) then show ?case by (cases a') auto
qed

lemma tally_Fin_neq: "tally (Fin r) \<noteq> ''Infinity''" "tally (Fin r) \<noteq> ''-Infinity''" "tally (Fin r) \<noteq> ''NaN''"
proof -
  have c: "CHR ''/'' \<in> set (tally (Fin r))" by (cases "quotient_of r") (simp add: tally_def Let_def)
  show "tally (Fin r) \<noteq> ''Infinity''" "tally (Fin r) \<noteq> ''-Infinity''" "tally (Fin r) \<noteq> ''NaN''"
    by (rule notI, use c in simp)+
qed

lemma inj_tally: "inj tally"
proof (rule injI)
  fix x y assume xy: "tally x = tally y"
  show "x = y"
  proof (cases x; cases y)
    fix r s assume [simp]: "x = Fin r" "y = Fin s"
    obtain p q where r: "quotient_of r = (p, q)" by (cases "quotient_of r")
    obtain p' q' where s: "quotient_of s = (p', q')" by (cases "quotient_of s")
    have q: "0 < q" "0 < q'" using r s by (simp_all add: quotient_of_denom_pos)
    have "(p < 0) = (p' < 0) \<and> nat \<bar>p\<bar> = nat \<bar>p'\<bar> \<and> nat q = nat q'"
    proof -
      let ?t = "\<lambda>p q. replicate (nat \<bar>p\<bar>) CHR ''1'' @ CHR ''/'' # replicate (nat q) CHR ''1''"
      have hd: "hd (?t a b) \<noteq> CHR ''-''" "?t a b \<noteq> []" for a b :: int by (cases "nat \<bar>a\<bar>"; simp)+
      have eq: "(if p < 0 then ''-'' else []) @ ?t p q = (if p' < 0 then ''-'' else []) @ ?t p' q'"
        using xy by (simp add: tally_def r s Let_def)
      have sign: "(p < 0) = (p' < 0)"
        using arg_cong [OF eq, of hd] hd(1) [of p q] hd(1) [of p' q'] by (auto split: if_splits)
      then have "?t p q = ?t p' q'" using eq by simp
      from tally_parts [OF this] sign show ?thesis by (simp add: replicate_eq_replicate)
    qed
    then have "p = p'" "q = q'" using q by linarith+
    then show "x = y" using quotient_of_inject [of r s] r s by simp
  qed (use xy tally_Fin_neq in \<open>auto simp: tally_def [of PosInf] tally_def [of NegInf] tally_def [of NaN] dest: sym\<close>)
qed

theorem no_changes_means_equal_witness: "diffSetpoints tally example_targets example_targets = []"
proof -
  have "\<forall>z\<in>set (setpoints.zones example_targets) \<union> set (setpoints.zones example_targets).
      is_finite (moistureLowThreshold z) \<and> is_finite (moistureHighThreshold z) \<and> is_finite (drainPeriodSecs z)"
    by (simp add: example_targets_def)
  from no_changes_means_equal [OF inj_tally this] show ?thesis by simp
qed

theorem edit_failure_reported_witness:
  "let f = edit_run read_number [] example_edit (mount_edit ''gh-a'' example_targets);
       g = edit_step read_number [] False True (RelayFailed OtherThrown) f
   in \<not> ef_busy g \<and> ef_raw g = ef_raw f \<and> length (ef_notices g) = length (ef_notices f) + 1"
proof -
  let ?f = "edit_run read_number [] example_edit (mount_edit ''gh-a'' example_targets)"
  have "ef_busy ?f" by code_simp
  from edit_failure_reported [OF this refl, of read_number "[]" False True OtherThrown] show ?thesis
    unfolding Let_def by (elim conjE disjE exE) (simp_all del: edit_step.simps)
qed

end
