(* ===== verification/Session.thy ===== *)
theory Session
  imports Api_Client Derivations
begin

text \<open>
  Who is signed in (\<open>features/auth\<close>, \<open>hooks/useRole.ts\<close>): the client-side decoding of the access
  token down to its bytes, the role it gives, the session every write button asks, the token the
  transports read, the reaction to an expired token and the user menu. The OIDC package is not
  modelled: what it reports is the record \<open>oidc_session\<close>. \<open>JSON.parse\<close> is the parameter \<open>jp\<close>.
\<close>

section \<open>Base64\<close>

definition char_code :: "char \<Rightarrow> nat" where
  "char_code c = of_char c"

definition b64_val :: "char \<Rightarrow> nat option" where
  "b64_val c =
     (if char_in CHR ''A'' CHR ''Z'' c then Some (char_code c - 65)
      else if char_in CHR ''a'' CHR ''z'' c then Some (char_code c - 71)
      else if char_in CHR ''0'' CHR ''9'' c then Some (char_code c + 4)
      else if c = CHR ''+'' then Some 62
      else if c = CHR ''/'' then Some 63
      else None)"

text \<open>Each four digits are three bytes; the bits a shorter last group has beyond its bytes are dropped.\<close>

fun b64_bytes :: "nat list \<Rightarrow> string" where
  "b64_bytes (a # b # c # d # r) =
     char_of (a * 4 + b div 16) # char_of (b mod 16 * 16 + c div 4) # char_of (c mod 4 * 64 + d) # b64_bytes r"
| "b64_bytes [a, b, c] = [char_of (a * 4 + b div 16), char_of (b mod 16 * 16 + c div 4)]"
| "b64_bytes [a, b] = [char_of (a * 4 + b div 16)]"
| "b64_bytes _ = []"

text \<open>\<open>atob\<close>; \<open>None\<close> where it throws. A character of its result is a byte.\<close>

definition b64_space :: "char \<Rightarrow> bool" where
  "b64_space c \<longleftrightarrow> c = CHR '' '' \<or> char_code c \<in> {9, 10, 12, 13}"

definition drop_pad :: "string \<Rightarrow> string" where
  "drop_pad s =
     (if length s mod 4 = 0 \<and> s \<noteq> [] \<and> last s = CHR ''=''
      then (if butlast s \<noteq> [] \<and> last (butlast s) = CHR ''='' then butlast (butlast s) else butlast s)
      else s)"

definition atob :: "string \<Rightarrow> string option" where
  "atob s =
     (let t = drop_pad (filter (\<lambda>c. \<not> b64_space c) s)
      in if length t mod 4 = 1 then None else map_option b64_bytes (option_list (map b64_val t)))"

section \<open>UTF-8\<close>

text \<open>
  The decoder of the Encoding standard. A string of the model is the UTF-8 text of a string of the
  program, so decoding keeps well-formed sequences and puts U+FFFD for each maximal broken one.
\<close>

definition utf8_lead :: "nat \<Rightarrow> (nat \<times> nat \<times> nat) option" where
  "utf8_lead b =
     (if b \<le> 127 then Some (0, 0, 0)
      else if 194 \<le> b \<and> b \<le> 223 then Some (1, 128, 191)
      else if b = 224 then Some (2, 160, 191)
      else if b = 237 then Some (2, 128, 159)
      else if 225 \<le> b \<and> b \<le> 239 then Some (2, 128, 191)
      else if b = 240 then Some (3, 144, 191)
      else if 241 \<le> b \<and> b \<le> 243 then Some (3, 128, 191)
      else if b = 244 then Some (3, 128, 143)
      else None)"

definition REPLACEMENT :: string where
  "REPLACEMENT = [CHR 0xEF, CHR 0xBF, CHR 0xBD]"

function utf8_from :: "string \<Rightarrow> nat \<Rightarrow> nat \<Rightarrow> nat \<Rightarrow> string \<Rightarrow> string" where
  "utf8_from seen need lo hi [] = (if need = 0 then [] else REPLACEMENT)"
| "utf8_from seen need lo hi (b # bs) =
     (if need = 0
      then (case utf8_lead (char_code b) of
              None \<Rightarrow> REPLACEMENT @ utf8_from [] 0 0 0 bs
            | Some (n, l, h) \<Rightarrow> if n = 0 then b # utf8_from [] 0 0 0 bs else utf8_from [b] n l h bs)
      else if lo \<le> char_code b \<and> char_code b \<le> hi
      then (if need = 1 then seen @ b # utf8_from [] 0 0 0 bs else utf8_from (seen @ [b]) (need - 1) 128 191 bs)
      else REPLACEMENT @ utf8_from [] 0 0 0 (b # bs))"
  by pat_completeness auto
termination by (relation "measures [\<lambda>(_, _, _, _, bs). length bs, \<lambda>(_, need, _, _, _). need]") auto

definition utf8_decode :: "string \<Rightarrow> string" where
  "utf8_decode s =
     utf8_from [] 0 0 0 (case s of a # b # c # r \<Rightarrow> if [a, b, c] = [CHR 0xEF, CHR 0xBB, CHR 0xBF] then r else s | _ \<Rightarrow> s)"

section \<open>Roles\<close>

definition KEYCLOAK_OPERATOR_ROLE :: string where
  "KEYCLOAK_OPERATOR_ROLE = ''gh-operator''"

datatype platform_role = Viewer | Operator

definition decodeBase64Url :: "string \<Rightarrow> string option" where
  "decodeBase64Url inp =
     (let base64 = map (\<lambda>c. if c = CHR ''-'' then CHR ''+'' else if c = CHR ''_'' then CHR ''/'' else c) inp;
          padded = base64 @ replicate ((length inp + 3) div 4 * 4 - length base64) (CHR ''='')
      in map_option utf8_decode (atob padded))"

fun string_items :: "jsval \<Rightarrow> string list" where
  "string_items (JArr vs) = concat (map (\<lambda>v. case v of JStr s \<Rightarrow> [s] | _ \<Rightarrow> []) vs)"
| "string_items _ = []"

text \<open>A payload of \<open>null\<close> has no properties: the access throws and is caught.\<close>

definition parseRoles :: "(string \<Rightarrow> jsval option) \<Rightarrow> string option \<Rightarrow> string list" where
  "parseRoles jp accessTok =
     (case accessTok of
        None \<Rightarrow> []
      | Some t \<Rightarrow>
          if t = [] then []
          else (let segments = split_on CHR ''.'' t
                in if length segments < 2 then []
                   else (case Option.bind (decodeBase64Url (segments ! 1)) jp of
                           None \<Rightarrow> []
                         | Some payload \<Rightarrow> string_items (jprop (jprop payload ''realm_access'') ''roles''))))"

definition deriveRole :: "string list \<Rightarrow> platform_role" where
  "deriveRole roles = (if KEYCLOAK_OPERATOR_ROLE \<in> set roles then Operator else Viewer)"

section \<open>The session\<close>

record auth_state =
  au_authEnabled :: bool
  au_isAuthenticated :: bool
  au_isLoading :: bool
  au_role :: platform_role
  au_isOperator :: bool
  au_username :: "string option"

definition OPEN_OPERATOR :: auth_state where
  "OPEN_OPERATOR = \<lparr>au_authEnabled = False, au_isAuthenticated = True, au_isLoading = False,
     au_role = Operator, au_isOperator = True, au_username = None\<rparr>"

record oidc_user =
  ou_access_token :: string
  ou_preferred_username :: "string option"
  ou_name :: "string option"
  ou_returnTo :: "string option"

record oidc_session =
  os_isAuthenticated :: bool
  os_isLoading :: bool
  os_user :: "oidc_user option"
  os_error :: "string option"

definition session_token :: "oidc_session \<Rightarrow> string option" where
  "session_token a = map_option ou_access_token (os_user a)"

definition first_given :: "'a option \<Rightarrow> 'a option \<Rightarrow> 'a option" where
  "first_given a b = (case a of Some x \<Rightarrow> Some x | None \<Rightarrow> b)"

definition RoleBridge :: "(string \<Rightarrow> jsval option) \<Rightarrow> oidc_session \<Rightarrow> auth_state" where
  "RoleBridge jp a =
     (let r = deriveRole (parseRoles jp (session_token a))
      in \<lparr>au_authEnabled = True, au_isAuthenticated = os_isAuthenticated a, au_isLoading = os_isLoading a,
          au_role = r, au_isOperator = (r = Operator),
          au_username = Option.bind (os_user a) (\<lambda>u. first_given (ou_preferred_username u) (ou_name u))\<rparr>)"

text \<open>Sign-in is configured by an authority and a client id, both non-empty.\<close>

definition truthy_text :: "string option \<Rightarrow> bool" where
  "truthy_text s \<longleftrightarrow> s \<noteq> None \<and> s \<noteq> Some []"

definition AuthProvider ::
    "(string \<Rightarrow> jsval option) \<Rightarrow> string option \<Rightarrow> string option \<Rightarrow> oidc_session \<Rightarrow> auth_state" where
  "AuthProvider jp AUTHORITY CLIENT_ID a =
     (if truthy_text AUTHORITY \<and> truthy_text CLIENT_ID then RoleBridge jp a else OPEN_OPERATOR)"

definition CALLBACK_PATH :: string where "CALLBACK_PATH = ''/login/callback''"

record oidc_config =
  oc_authority :: string
  oc_client_id :: string
  oc_redirect_uri :: string
  oc_post_logout_redirect_uri :: string
  oc_response_type :: string
  oc_scope :: string
  oc_automaticSilentRenew :: bool

definition auth_config :: "string \<Rightarrow> string \<Rightarrow> string option \<Rightarrow> string \<Rightarrow> oidc_config" where
  "auth_config AUTHORITY CLIENT_ID REDIRECT origin =
     \<lparr>oc_authority = AUTHORITY, oc_client_id = CLIENT_ID,
      oc_redirect_uri = (case REDIRECT of Some r \<Rightarrow> r | None \<Rightarrow> origin @ CALLBACK_PATH),
      oc_post_logout_redirect_uri = origin, oc_response_type = ''code'', oc_scope = ''openid profile email'',
      oc_automaticSilentRenew = True\<rparr>"

text \<open>
  The effects of the bridge: each render hands the token to the transports and registers the
  handler of that token; unmounting unregisters it. The handler bounces a signed-in user to the
  login page, remembering where it was; \<open>None\<close>: it does nothing.
\<close>

definition bridge_effects :: "oidc_session \<Rightarrow> auth_module \<Rightarrow> auth_module" where
  "bridge_effects a m = setUnauthorizedHandler True (setAccessToken (session_token a) m)"

definition bridge_unmount :: "auth_module \<Rightarrow> auth_module" where
  "bridge_unmount m = setUnauthorizedHandler False m"

definition on_unauthorized :: "oidc_session \<Rightarrow> string \<Rightarrow> string \<Rightarrow> string option" where
  "on_unauthorized a pathname srch = (if truthy_text (session_token a) then Some (pathname @ srch) else None)"

section \<open>The landing page and the menu\<close>

text \<open>Where \<open>LoginCallback\<close> navigates to, if it does; \<open>None\<close> for \<open>auth\<close> is the mode without OIDC.\<close>

definition LoginCallback :: "oidc_session option \<Rightarrow> string option" where
  "LoginCallback auth =
     (case auth of
        None \<Rightarrow> Some ''/''
      | Some a \<Rightarrow>
          if os_isAuthenticated a
          then Some (case Option.bind (os_user a) ou_returnTo of Some r \<Rightarrow> r | None \<Rightarrow> ''/'')
          else None)"

definition AuthSplash :: "string option \<Rightarrow> string" where
  "AuthSplash err = (if truthy_text err then ''Sign-in failed: '' @ the err else ''Redirecting to sign in'' @ [CHR 0xE2, CHR 0x80, CHR 0xA6])"

datatype user_menu = NoMenu | SignInButton | SignedIn string string string bool

definition menu_initials :: "string \<Rightarrow> string" where
  "menu_initials name =
     map (\<lambda>part. to_upper (hd part))
       (take 2 (filter (\<lambda>part. part \<noteq> []) (split_runs (\<lambda>c. is_space c \<or> c \<in> {CHR ''.'', CHR ''_'', CHR ''-''}) name)))"

text \<open>The menu as rendered: initials, name, role and whether it is open.\<close>

definition UserMenu :: "auth_state \<Rightarrow> bool \<Rightarrow> user_menu" where
  "UserMenu s opened =
     (if \<not> au_authEnabled s then NoMenu
      else if \<not> au_isAuthenticated s then SignInButton
      else (let name = (case au_username s of Some u \<Rightarrow> u | None \<Rightarrow> ''user'')
            in SignedIn (if menu_initials name = [] then ''U'' else menu_initials name) name
                 (if au_role s = Operator then ''Operator'' else ''Viewer'') opened))"

text \<open>The second component tells whether the sign-out redirect starts.\<close>

datatype menu_event = PressToggle | PointerDown bool | KeyDown string | PressSignOut

fun menu_step :: "menu_event \<Rightarrow> bool \<Rightarrow> bool \<times> bool" where
  "menu_step PressToggle opened = (\<not> opened, False)"
| "menu_step (PointerDown inside) opened = (opened \<and> inside, False)"
| "menu_step (KeyDown key) opened = (opened \<and> key \<noteq> ''Escape'', False)"
| "menu_step PressSignOut opened = (False, opened)"

section \<open>Lemmas: reading back an encoded token\<close>

text \<open>The reference encoder: unpadded base64url (RFC 7515).\<close>

fun b64_digits :: "string \<Rightarrow> nat list" where
  "b64_digits (a # b # c # r) =
     (let x = char_code a; y = char_code b; z = char_code c
      in x div 4 # (x mod 4 * 16 + y div 16) # (y mod 16 * 4 + z div 64) # z mod 64 # b64_digits r)"
| "b64_digits [a, b] = (let x = char_code a; y = char_code b in [x div 4, x mod 4 * 16 + y div 16, y mod 16 * 4])"
| "b64_digits [a] = (let x = char_code a in [x div 4, x mod 4 * 16])"
| "b64_digits [] = []"

definition url_digit :: "nat \<Rightarrow> char" where
  "url_digit d =
     (if d < 26 then char_of (65 + d) else if d < 52 then char_of (71 + d) else if d < 62 then char_of (d - 4)
      else if d = 62 then CHR ''-'' else CHR ''_'')"

definition base64url :: "string \<Rightarrow> string" where
  "base64url s = map url_digit (b64_digits s)"

definition std_char :: "char \<Rightarrow> char" where
  "std_char c = (if c = CHR ''-'' then CHR ''+'' else if c = CHR ''_'' then CHR ''/'' else c)"

lemma char_code_less [simp]: "char_code c < 256"
  unfolding char_code_def by simp

lemma char_of_code [simp]: "char_of (char_code c) = c"
  by (simp add: char_code_def)

lemma char_eq_code: "c = d \<longleftrightarrow> char_code c = char_code d"
  by (simp add: char_code_def)

lemma code_of_char [simp]: "n < 256 \<Longrightarrow> char_code (char_of n) = n"
  by (simp add: char_code_def)

lemma joined_bits:
  "m < n \<Longrightarrow> (k * n + m) div n = k" "m < n \<Longrightarrow> (k * n + m) mod n = (m :: nat)"
  by simp_all

lemma joined_less: "k < a \<Longrightarrow> m < n \<Longrightarrow> k * n + m < a * (n :: nat)"
proof -
  assume "k < a" "m < n"
  then have "k * n + m < Suc k * n" "Suc k * n \<le> a * n" by (simp, intro mult_le_mono1) auto
  then show ?thesis by linarith
qed

lemma code_parts [simp]: "char_code c div 16 < 16" "char_code c div 64 < 4" "char_code c div 4 < 64"
  using char_code_less [of c] by (simp_all add: div_less_iff_less_mult)

lemma b64_bytes_digits: "b64_bytes (b64_digits s) = s"
  by (induction s rule: b64_digits.induct) (simp_all add: Let_def joined_bits)

lemma b64_digits_small: "\<forall>d\<in>set (b64_digits s). d < 64"
proof (induction s rule: b64_digits.induct)
  case (1 a b c r)
  have "char_code a mod 4 * 16 + char_code b div 16 < 4 * 16" "char_code b mod 16 * 4 + char_code c div 64 < 16 * 4"
    by (intro joined_less; simp)+
  with 1 show ?case by (simp add: Let_def)
next
  case (2 a b)
  have "char_code a mod 4 * 16 + char_code b div 16 < 4 * 16" "char_code b mod 16 * 4 + 0 < 16 * 4"
    by (intro joined_less; simp)+
  then show ?case by (simp add: Let_def)
next
  case (3 a)
  have "char_code a mod 4 * 16 + 0 < 4 * 16" by (intro joined_less; simp)
  then show ?case by (simp add: Let_def)
qed simp

lemma b64_digits_length: "length (b64_digits s) mod 4 \<noteq> 1"
  by (induction s rule: b64_digits.induct) (auto simp: Let_def mod_Suc)

lemma url_digit_std:
  assumes "d < 64"
  shows "b64_val (std_char (url_digit d)) = Some d \<and> \<not> b64_space (std_char (url_digit d))
     \<and> std_char (url_digit d) \<noteq> CHR ''='' \<and> url_digit d \<noteq> CHR ''.''"
  using assms unfolding url_digit_def b64_val_def std_char_def b64_space_def char_in_def char_eq_code
  by (auto simp: char_code_def)

lemma drop_pad_padded:
  assumes "CHR ''='' \<notin> set t" "length t mod 4 \<noteq> 1"
  shows "drop_pad (t @ replicate ((length t + 3) div 4 * 4 - length t) CHR ''='') = t"
proof -
  define q where "q = length t div 4"
  have n: "length t = 4 * q + length t mod 4" by (simp add: q_def)
  have last: "t \<noteq> [] \<Longrightarrow> last t \<noteq> CHR ''=''" using assms(1) by (metis last_in_set)
  consider "length t = 4 * q" | "length t = 4 * q + 2" | "length t = 4 * q + 3"
    using assms(2) n by (cases "length t mod 4 = 0"; cases "length t mod 4 = 2") linarith+
  then show ?thesis
  proof cases
    case 1
    then show ?thesis using last by (auto simp: drop_pad_def)
  next
    case 2
    then have k: "(length t + 3) div 4 * 4 - length t = 2" by simp
    then show ?thesis unfolding k using 2 by (simp add: drop_pad_def numeral_2_eq_2 butlast_append)
  next
    case 3
    then have k: "(length t + 3) div 4 * 4 - length t = 1" by simp
    have "t \<noteq> []" using 3 by auto
    then show ?thesis unfolding k using 3 last by (simp add: drop_pad_def)
  qed
qed

lemma decode_base64url: "decodeBase64Url (base64url s) = Some (utf8_decode s)"
proof -
  let ?ds = "b64_digits s" and ?t = "map std_char (base64url s)"
  have d: "\<And>d. d \<in> set ?ds \<Longrightarrow> d < 64" using b64_digits_small by blast
  have t: "?t = map (std_char \<circ> url_digit) ?ds" by (simp add: base64url_def)
  have eq: "CHR ''='' \<notin> set ?t" using url_digit_std [OF d] by (force simp: t)
  have len: "length ?t mod 4 \<noteq> 1" using b64_digits_length [of s] by (simp add: t)
  have vals: "option_list (map b64_val ?t) = Some ?ds"
    using url_digit_std [OF d] by (simp add: t option_list_eq_Some_iff)
  let ?p = "?t @ replicate ((length ?t + 3) div 4 * 4 - length ?t) CHR ''=''"
  have "\<forall>c\<in>set ?t. \<not> b64_space c" using url_digit_std [OF d] by (force simp: t)
  moreover have "\<not> b64_space CHR ''=''" by (simp add: b64_space_def char_code_def)
  ultimately have sp: "filter (\<lambda>c. \<not> b64_space c) ?p = ?p"
    unfolding filter_id_conv by (simp only: set_append set_replicate_conv_if) auto
  have "atob ?p = Some s"
    unfolding atob_def sp drop_pad_padded [OF eq len] Let_def using len vals by (simp add: b64_bytes_digits)
  moreover have "map (\<lambda>c. if c = CHR ''-'' then CHR ''+'' else if c = CHR ''_'' then CHR ''/'' else c) (base64url s) = ?t"
    by (simp add: std_char_def)
  moreover have "length ?t = length (base64url s)" by simp
  ultimately show ?thesis unfolding decodeBase64Url_def Let_def by (simp only: option.map)
qed

lemma utf8_ascii: "\<forall>c\<in>set s. char_code c \<le> 127 \<Longrightarrow> utf8_decode s = s"
proof -
  have "utf8_from [] 0 0 0 s = s" if "\<forall>c\<in>set s. char_code c \<le> 127" for s
    using that by (induction s) (simp_all add: utf8_lead_def)
  moreover have "\<not> char_code (CHR 0xEF) \<le> 127" by (simp add: char_code_def)
  moreover assume "\<forall>c\<in>set s. char_code c \<le> 127"
  ultimately show ?thesis by (auto simp: utf8_decode_def split: list.split)
qed

text \<open>
  C27: the role comes from the token alone. The bytes of any payload survive the encoding in a token
  and the decoding here, whatever the other segments: an operator is exactly a signed-in user whose
  token's payload lists \<open>gh-operator\<close> among its realm roles. Without a token, or with a payload that
  is not base64url or not JSON, the user is a viewer; only a deployment without OIDC makes everyone
  an operator.
\<close>

theorem operator_only_by_token:
  assumes "CHR ''.'' \<notin> set header" "utf8_decode plain = plain" "configured = (truthy_text AUTHORITY \<and> truthy_text CLIENT_ID)"
    and "session_token a = Some (header @ ''.'' @ base64url plain @ CHR ''.'' # signature)"
  shows "parseRoles jp (session_token a)
       = (case jp plain of None \<Rightarrow> [] | Some payload \<Rightarrow> string_items (jprop (jprop payload ''realm_access'') ''roles''))
     \<and> (au_isOperator (AuthProvider jp AUTHORITY CLIENT_ID a) \<longleftrightarrow>
       \<not> configured \<or> (\<exists>payload vs. jp plain = Some payload \<and> jprop (jprop payload ''realm_access'') ''roles'' = JArr vs
          \<and> JStr ''gh-operator'' \<in> set vs))
     \<and> (session_token b = None \<or> session_token b = Some t \<and> (CHR ''.'' \<notin> set t \<or> decodeBase64Url (split_on CHR ''.'' t ! 1) = None)
       \<longrightarrow> (au_isOperator (AuthProvider jp AUTHORITY CLIENT_ID b) \<longleftrightarrow> \<not> configured))"
proof (intro conjI impI)
  have dots: "CHR ''.'' \<notin> set (base64url plain)"
    using url_digit_std b64_digits_small [of plain] by (force simp: base64url_def)
  have segs: "split_on CHR ''.'' (header @ ''.'' @ base64url plain @ CHR ''.'' # signature)
      = header # base64url plain # split_on CHR ''.'' signature"
    using split_on_append [OF assms(1)] split_on_append [OF dots] by simp
  show roles: "parseRoles jp (session_token a)
       = (case jp plain of None \<Rightarrow> [] | Some payload \<Rightarrow> string_items (jprop (jprop payload ''realm_access'') ''roles''))"
    unfolding parseRoles_def assms(4) Let_def segs option.case
    using decode_base64url [of plain] assms(2) by (simp split: option.split)
  have item: "KEYCLOAK_OPERATOR_ROLE \<in> set (string_items v) \<longleftrightarrow> (\<exists>vs. v = JArr vs \<and> JStr ''gh-operator'' \<in> set vs)" for v
  proof -
    have "r \<in> set (case x of JStr s \<Rightarrow> [s] | _ \<Rightarrow> []) \<longleftrightarrow> x = JStr r" for r x by (cases x) auto
    then show ?thesis by (cases v) (auto simp: KEYCLOAK_OPERATOR_ROLE_def)
  qed
  show "au_isOperator (AuthProvider jp AUTHORITY CLIENT_ID a) \<longleftrightarrow>
       \<not> configured \<or> (\<exists>payload vs. jp plain = Some payload \<and> jprop (jprop payload ''realm_access'') ''roles'' = JArr vs
          \<and> JStr ''gh-operator'' \<in> set vs)"
    by (cases "jp plain") (auto simp: AuthProvider_def RoleBridge_def OPEN_OPERATOR_def Let_def deriveRole_def roles item assms(3))
  assume "session_token b = None \<or> session_token b = Some t \<and> (CHR ''.'' \<notin> set t \<or> decodeBase64Url (split_on CHR ''.'' t ! 1) = None)"
  then have "parseRoles jp (session_token b) = []"
    by (auto simp: parseRoles_def split_on_no_sep Let_def)
  then show "au_isOperator (AuthProvider jp AUTHORITY CLIENT_ID b) \<longleftrightarrow> \<not> configured"
    by (simp add: AuthProvider_def RoleBridge_def OPEN_OPERATOR_def Let_def deriveRole_def assms(3))
qed

definition example_session :: "string \<Rightarrow> oidc_session" where
  "example_session t = \<lparr>os_isAuthenticated = True, os_isLoading = False,
     os_user = Some \<lparr>ou_access_token = t, ou_preferred_username = None, ou_name = None, ou_returnTo = None\<rparr>, os_error = None\<rparr>"

theorem operator_only_by_token_witness:
  "au_isOperator (AuthProvider
      (\<lambda>t. if t = ''{}'' then Some (JObj [(''realm_access'', JObj [(''roles'', JArr [JStr ''gh-operator''])])]) else None)
      (Some ''https'') (Some ''console'') (example_session (''e30'' @ ''.'' @ base64url ''{}'' @ CHR ''.'' # ''sig'')))"
proof -
  have "CHR ''.'' \<notin> set ''e30''" by simp
  moreover have "utf8_decode ''{}'' = ''{}''" by (rule utf8_ascii) (simp add: char_code_def)
  moreover have "True = (truthy_text (Some ''https'') \<and> truthy_text (Some ''console''))" by (simp add: truthy_text_def)
  moreover have "session_token (example_session (''e30'' @ ''.'' @ base64url ''{}'' @ CHR ''.'' # ''sig''))
      = Some (''e30'' @ ''.'' @ base64url ''{}'' @ CHR ''.'' # ''sig'')" by (simp add: session_token_def example_session_def)
  ultimately show ?thesis by (simp add: operator_only_by_token [where header = "''e30''" and plain = "''{}''" and signature = "''sig''"])
qed

end
