(* ===== verification/Chart_Scale.thy ===== *)
theory Chart_Scale
  imports Js_Library
begin

text \<open>
  The numbers and labels of the charts: the stacked bands and their tick scales
  (\<open>lib/stackedChart.ts\<close>), the sparkline bounds (\<open>lib/chartScale.ts\<close>), colours (\<open>lib/color.ts\<close>,
  \<open>lib/chartStyle.ts\<close>) and the UTC time labels (\<open>lib/timeFormat.ts\<close>). \<open>Math.log10\<close> and powers
  of ten, whose precision the standard leaves open, are the parameters \<open>log10\<close> and \<open>pow10\<close>
  with the laws of the locale \<open>decimal_math\<close>.
\<close>

section \<open>Decimal text\<close>

text \<open>\<open>x.toFixed(d)\<close>: the decimal with \<open>d\<close> digits nearest to \<open>x\<close>, the larger of two.\<close>

fun toFixed :: "(js_num \<Rightarrow> string) \<Rightarrow> nat \<Rightarrow> js_num \<Rightarrow> string" where
  "toFixed ns d (Fin x) =
     (if \<bar>x\<bar> < 10 ^ 21
      then let n = nat \<lfloor>\<bar>x\<bar> * 10 ^ d + 1/2\<rfloor>
           in (if x < 0 then ''-'' else []) @ nat_string (n div 10 ^ d)
              @ (if d = 0 then [] else CHR ''.'' # pad_start d (nat_string (n mod 10 ^ d)))
      else ns (Fin x))"
| "toFixed ns d x = ns x"

text \<open>The charts' number format.\<close>

definition format_value :: "(js_num \<Rightarrow> string) \<Rightarrow> js_num \<Rightarrow> string" where
  "format_value ns v = (if is_integer v then ns v else toFixed ns 1 v)"

section \<open>Bands\<close>

record band =
  bd_bottom :: js_num
  bd_top :: js_num

record band_scale =
  sc_lo :: js_num
  sc_hi :: js_num
  sc_ticks :: "js_num list"

definition bandFractions :: "nat \<Rightarrow> js_num \<Rightarrow> band list" where
  "bandFractions k gap =
     (if k = 0 then []
      else let n = num_of_int (int k);
               height = num_div (num_sub (Fin 1) (num_mul gap (num_sub n (Fin 1)))) n
           in map (\<lambda>index.
                let top = num_sub (Fin 1) (num_mul (num_of_int (int index)) (num_add height gap))
                in \<lparr>bd_bottom = num_sub top height, bd_top = top\<rparr>) [0..<k])"

section \<open>Tick scales\<close>

definition niceNum :: "(js_num \<Rightarrow> js_num) \<Rightarrow> (js_num \<Rightarrow> js_num) \<Rightarrow> js_num \<Rightarrow> bool \<Rightarrow> js_num" where
  "niceNum log10 pow10 rng rnd =
     (let exponent = math_floor (log10 rng);
          fraction = num_div rng (pow10 exponent);
          niceFraction =
            (if rnd
             then if num_lt fraction (Fin (3/2)) then Fin 1 else if num_lt fraction (Fin 3) then Fin 2
                  else if num_lt fraction (Fin 7) then Fin 5 else Fin 10
             else if num_le fraction (Fin 1) then Fin 1 else if num_le fraction (Fin 2) then Fin 2
                  else if num_le fraction (Fin 5) then Fin 5 else Fin 10)
      in num_mul niceFraction (pow10 exponent))"

text \<open>
  \<open>Number(x.toFixed(d))\<close>: the decimal with \<open>d\<close> digits nearest to \<open>x\<close>, the larger of two in
  magnitude, read back; a number from \<open>10\<^sup>2\<^sup>1\<close> on is written in full.
\<close>

fun to_fixed_back :: "nat \<Rightarrow> js_num \<Rightarrow> js_num" where
  "to_fixed_back d (Fin x) =
     (if \<bar>x\<bar> < 10 ^ 21 then fl (sgn x * of_int \<lfloor>\<bar>x\<bar> * 10 ^ d + 1/2\<rfloor> / 10 ^ d) else Fin x)"
| "to_fixed_back d x = x"

fun math_ceil :: "js_num \<Rightarrow> js_num" where
  "math_ceil (Fin a) = Fin (of_int \<lceil>a\<rceil>)"
| "math_ceil a = a"

text \<open>The digits argument; beyond 100 \<open>toFixed\<close> throws a RangeError.\<close>

fun fraction_digits :: "js_num \<Rightarrow> nat option" where
  "fraction_digits (Fin d) = (if 0 \<le> d \<and> d < 101 then Some (nat \<lfloor>d\<rfloor>) else None)"
| "fraction_digits NaN = Some 0"
| "fraction_digits _ = None"

text \<open>The loop that lists the ticks; it returns no value when it never ends.\<close>

partial_function (option) tick_loop :: "js_num \<Rightarrow> js_num \<Rightarrow> js_num \<Rightarrow> js_num list option" where
  "tick_loop val step limit =
     (if num_le val limit
      then Option.bind (tick_loop (num_add val step) step limit) (\<lambda>vs. Some (val # vs))
      else Some [])"

text \<open>\<open>None\<close> stands for no result: a RangeError or a loop that never ends.\<close>

definition bandScale ::
    "(js_num \<Rightarrow> js_num) \<Rightarrow> (js_num \<Rightarrow> js_num) \<Rightarrow> js_num \<Rightarrow> js_num \<Rightarrow> js_num \<Rightarrow> band_scale option" where
  "bandScale log10 pow10 mn mx maxTicks =
     (if \<not> is_finite mn \<or> \<not> is_finite mx then Some \<lparr>sc_lo = Fin 0, sc_hi = Fin 1, sc_ticks = [Fin 0, Fin 1]\<rparr>
      else
        let flat = num_lt (num_sub mx mn) (fl (1 / 10 ^ 9));
            pad = math_max (num_mul (math_abs mn) (fl (1/20))) (Fin (1/2));
            lo = (if flat then num_sub mn pad else mn);
            hi = (if flat then num_add mx pad else mx);
            step = niceNum log10 pow10 (num_div (num_sub hi lo) (math_max (Fin 1) (num_sub maxTicks (Fin 1)))) True;
            decimals = math_max (Fin 0) (num_neg (math_floor (log10 step)))
        in case fraction_digits decimals of
             None \<Rightarrow> None
           | Some d \<Rightarrow>
               (let niceLo = to_fixed_back d (num_mul (math_floor (num_div lo step)) step);
                    niceHi = to_fixed_back d (num_mul (math_ceil (num_div hi step)) step)
                in Option.bind (tick_loop niceLo step (num_add niceHi (num_mul step (Fin (1/2))))) (\<lambda>vs.
                     Some \<lparr>sc_lo = niceLo, sc_hi = niceHi, sc_ticks = map (to_fixed_back d) vs\<rparr>)))"

definition toBandFraction :: "js_num \<Rightarrow> js_num \<Rightarrow> js_num \<Rightarrow> band \<Rightarrow> js_num" where
  "toBandFraction val lo hi b =
     (let span = num_sub hi lo;
          normalized = (if num_lt span (fl (1 / 10 ^ 9)) then Fin (1/2) else num_div (num_sub val lo) span);
          clamped = math_min (Fin 1) (math_max (Fin 0) normalized)
      in num_add (bd_bottom b) (num_mul clamped (num_sub (bd_top b) (bd_bottom b))))"

section \<open>Sparklines\<close>

definition sparklineBounds :: "js_num \<Rightarrow> js_num \<Rightarrow> js_num \<times> js_num" where
  "sparklineBounds dataMin dataMax =
     (if \<not> is_finite dataMin \<or> \<not> is_finite dataMax then (dataMin, dataMax)
      else let span = num_sub dataMax dataMin;
               pad = (if num_lt span (fl (1 / 10 ^ 9))
                      then math_max (num_mul (math_abs dataMin) (fl (1/20))) (Fin (1/2))
                      else num_mul span (fl (3/20)))
           in (num_sub dataMin pad, num_add dataMax pad))"

section \<open>Time labels\<close>

text \<open>
  \<open>new Date(s * 1000)\<close>: the number of milliseconds is truncated towards zero, and is invalid when
  it is not finite or beyond 8.64e15.
\<close>

fun time_clip :: "js_num \<Rightarrow> ms option" where
  "time_clip (Fin x) = (if \<bar>x\<bar> \<le> 8640000000000000 then Some (if 0 \<le> x then \<lfloor>x\<rfloor> else - \<lfloor>- x\<rfloor>) else None)"
| "time_clip _ = None"

definition date_of_seconds :: "js_num \<Rightarrow> ms option" where
  "date_of_seconds s = time_clip (num_mul s (Fin 1000))"

text \<open>\<open>String(getter()).padStart(2, "0")\<close>\<close>

definition two_digit :: "(ms \<Rightarrow> int) \<Rightarrow> ms option \<Rightarrow> string" where
  "two_digit f t = (case t of None \<Rightarrow> ''NaN'' | Some m \<Rightarrow> pad_start 2 (int_string (f m)))"

definition formatClockTime :: "js_num \<Rightarrow> string" where
  "formatClockTime s = two_digit getUTCHours (date_of_seconds s) @ '':'' @ two_digit getUTCMinutes (date_of_seconds s)"

definition formatClockSeconds :: "js_num \<Rightarrow> string" where
  "formatClockSeconds s = formatClockTime s @ '':'' @ two_digit getUTCSeconds (date_of_seconds s)"

definition MONTHS :: "string list" where
  "MONTHS = [''Jan'', ''Feb'', ''Mar'', ''Apr'', ''May'', ''Jun'', ''Jul'', ''Aug'', ''Sep'', ''Oct'', ''Nov'', ''Dec'']"

definition formatTimestamp :: "js_num \<Rightarrow> string" where
  "formatTimestamp s =
     (case date_of_seconds s of
        None \<Rightarrow> ''undefined NaN''
      | Some m \<Rightarrow> MONTHS ! getUTCMonth m @ '' '' @ int_string (getUTCDate m)) @ '', '' @ formatClockSeconds s"

text \<open>\<open>offset\<close> is \<open>getTimezoneOffset()\<close> of the browser at that instant, in minutes.\<close>

definition utcTzDate :: "(ms \<Rightarrow> int) \<Rightarrow> js_num \<Rightarrow> ms option" where
  "utcTzDate offset s = (case date_of_seconds s of None \<Rightarrow> None | Some m \<Rightarrow> time_clip (num_of_int (m + offset m * 60000)))"

section \<open>Colours\<close>

definition hex_val :: "char \<Rightarrow> nat option" where
  "hex_val c = (let n = of_char c :: nat in
     if 48 \<le> n \<and> n \<le> 57 then Some (n - 48)
     else if 65 \<le> n \<and> n \<le> 70 then Some (n - 55)
     else if 97 \<le> n \<and> n \<le> 102 then Some (n - 87) else None)"

fun hex_prefix :: "string \<Rightarrow> nat list" where
  "hex_prefix [] = []"
| "hex_prefix (c # cs) = (case hex_val c of None \<Rightarrow> [] | Some d \<Rightarrow> d # hex_prefix cs)"

text \<open>\<open>parseInt(s, 16)\<close>: white space, a sign, \<open>0x\<close>, then the longest run of hex digits.\<close>

definition parse_hex :: "string \<Rightarrow> js_num" where
  "parse_hex s =
     (let t = dropWhile is_space s;
          neg = (t \<noteq> [] \<and> hd t = CHR ''-'');
          u = (if t \<noteq> [] \<and> hd t \<in> {CHR ''-'', CHR ''+''} then tl t else t);
          v = (if take 2 u \<in> {''0x'', ''0X''} then drop 2 u else u);
          ds = hex_prefix v
      in if ds = [] then NaN
         else Fin ((if neg then - 1 else 1) * of_nat (fold (\<lambda>d n. 16 * n + d) ds 0)))"

text \<open>\<open>s.replace("#", "")\<close> removes the first; \<open>.\<close> matches all but line ends.\<close>

definition line_end :: "char \<Rightarrow> bool" where
  "line_end c \<longleftrightarrow> c = CHR 0x0A \<or> c = CHR 0x0D"

definition withAlpha :: "(js_num \<Rightarrow> string) \<Rightarrow> string \<Rightarrow> js_num \<Rightarrow> string" where
  "withAlpha ns color alpha =
     (let hex = remove1 (CHR ''#'') color;
          full = (if length hex = 3 then concat (map (\<lambda>c. if line_end c then [c] else [c, c]) hex) else hex)
      in if length full \<noteq> 6 then color
         else ''rgba('' @ ns (parse_hex (take 2 full)) @ '', '' @ ns (parse_hex (take 2 (drop 2 full))) @ '', ''
              @ ns (parse_hex (drop 4 full)) @ '', '' @ ns alpha @ '')'')"

definition FALLBACK_COLOR :: string where "FALLBACK_COLOR = ''#888888''"

definition word_char :: "char \<Rightarrow> bool" where
  "word_char c \<longleftrightarrow> (let n = of_char c :: nat in
     48 \<le> n \<and> n \<le> 57 \<or> 65 \<le> n \<and> n \<le> 90 \<or> 97 \<le> n \<and> n \<le> 122 \<or> n = 95)"

text \<open>\<open>/^var\((--[\w-]+)\)$/\<close>: the name of the token.\<close>

definition css_token :: "string \<Rightarrow> string option" where
  "css_token s =
     (let name = butlast (drop 4 s) in
      if take 4 s = ''var('' \<and> length s > 7 \<and> last s = CHR '')'' \<and> take 2 name = ''--''
         \<and> (\<forall>c\<in>set (drop 2 name). word_char c \<or> c = CHR ''-'')
      then Some name else None)"

text \<open>\<open>computed\<close> reads a property of the document's style; it is absent where there is no document.\<close>

definition resolveColor :: "(string \<Rightarrow> string) option \<Rightarrow> string \<Rightarrow> string" where
  "resolveColor computed s =
     (case css_token s of
        None \<Rightarrow> s
      | Some name \<Rightarrow>
          (case computed of
             None \<Rightarrow> FALLBACK_COLOR
           | Some style \<Rightarrow> if trim (style name) \<noteq> [] then trim (style name) else FALLBACK_COLOR))"

text \<open>The stops of the area fill.\<close>

definition areaFill :: "(js_num \<Rightarrow> string) \<Rightarrow> string \<Rightarrow> (js_num \<times> string) list" where
  "areaFill ns color = [(Fin 0, withAlpha ns color (fl (1/5))), (Fin 1, withAlpha ns color (Fin 0))]"

section \<open>Laws of the decimal functions\<close>

text \<open>
  What the code relies on: the integer part of \<open>Math.log10\<close> is the decimal exponent and powers of
  ten are right, both up to a relative error far coarser than any implementation's.
\<close>

locale decimal_math =
  fixes log10 :: "js_num \<Rightarrow> js_num" and pow10 :: "js_num \<Rightarrow> js_num"
  assumes log10_exponent: "1/1000000000000 \<le> x \<Longrightarrow> x \<le> 1000000000000 \<Longrightarrow>
      \<exists>l. log10 (Fin x) = Fin l \<and> 10 powi \<lfloor>l\<rfloor> \<le> x * (1 + 1/1000) \<and> x \<le> 10 powi (\<lfloor>l\<rfloor> + 1) * (1 + 1/1000)"
    and pow10_near: "\<bar>e\<bar> \<le> 25 \<Longrightarrow>
      \<exists>p. pow10 (Fin (of_int e)) = Fin p \<and> \<bar>p - 10 powi e\<bar> \<le> 10 powi e * (1/1000)"

section \<open>The tick loop ends\<close>

text \<open>One step of the loop makes progress while the value is moderate beside the step.\<close>

lemma tick_progress:
  assumes "\<bar>v\<bar> \<le> 2 ^ 50 * s" "2 powi (- 900) \<le> s" "s \<le> 2 powi 40"
  shows "\<exists>w. num_add (Fin v) (Fin s) = Fin w \<and> v + 3/4 * s \<le> w"
proof -
  have s0: "0 < s" using assms(2) by (metis order_less_le_trans zero_less_numeral zero_less_power_int)
  let ?k = "ilog2 s + 52"
  have lo: "2 powi ilog2 s \<le> s" and hi: "s < 2 powi (ilog2 s + 1)" using ilog2_bounds [OF s0] by blast+
  have "\<bar>v + s\<bar> \<le> 2 ^ 50 * s + s" using assms(1) s0 by linarith
  also have "\<dots> \<le> 2 ^ 51 * s" using s0 by simp
  also have "\<dots> < 2 ^ 51 * 2 powi (ilog2 s + 1)" using hi by (intro mult_strict_left_mono) simp_all
  also have "\<dots> = 2 powi ?k" by (simp add: power_int_add)
  finally have q: "\<bar>v + s\<bar> < 2 powi ?k" .
  have "- 900 < ilog2 s + 1" using powi_less_rat [of "- 900" "ilog2 s + 1"] hi assms(2) by linarith
  moreover have "ilog2 s < 41" using lo assms(3) powi_less_rat [of "ilog2 s" 41] by (simp add: power_int_def)
  ultimately have "- 1021 \<le> ?k" "?k \<le> 100" by linarith+
  from fl_near [OF q this] obtain w where w: "fl (v + s) = Fin w" "\<bar>w - (v + s)\<bar> \<le> 2 powi (?k - 54)" by blast
  have "(2 powi (?k - 54) :: rat) = 2 powi ilog2 s / 4" by (simp add: power_int_diff)
  with lo w(2) have "v + 3/4 * s \<le> w" by linarith
  with w(1) show ?thesis by simp
qed

lemma tick_loop_returns:
  assumes "2 powi (- 900) \<le> s" "s \<le> 2 powi 40" "\<bar>l\<bar> \<le> 2 ^ 50 * s" "- (2 ^ 50 * s) \<le> v" "l - v < of_nat n * (3/4 * s)"
  shows "\<exists>vs. tick_loop (Fin v) (Fin s) (Fin l) = Some vs \<and> length vs \<le> n"
  using assms(4,5)
proof (induction n arbitrary: v)
  case 0
  then show ?case by (subst tick_loop.simps) simp
next
  case (Suc n)
  show ?case
  proof (cases "v \<le> l")
    case False
    then show ?thesis by (subst tick_loop.simps) simp
  next
    case True
    have "\<bar>v\<bar> \<le> 2 ^ 50 * s" using True assms(3) Suc.prems(1) by linarith
    from tick_progress [OF this assms(1,2)] obtain w where w: "num_add (Fin v) (Fin s) = Fin w" "v + 3/4 * s \<le> w" by blast
    have s0: "0 < s" using assms(1) by (metis order_less_le_trans zero_less_numeral zero_less_power_int)
    have "- (2 ^ 50 * s) \<le> w" "l - w < of_nat n * (3/4 * s)"
      using w(2) Suc.prems s0 by (auto simp: algebra_simps)
    from Suc.IH [OF this] obtain vs where vs: "tick_loop (Fin w) (Fin s) (Fin l) = Some vs" "length vs \<le> n" by blast
    have "tick_loop (Fin v) (Fin s) (Fin l) = Some (Fin v # vs)"
      by (subst tick_loop.simps) (simp add: True w(1) vs(1) del: num_add.simps)
    with vs(2) show ?thesis by simp
  qed
qed

text \<open>Where the step is absorbed by the value, the loop never ends.\<close>

lemma tick_loop_stuck:
  assumes "num_add v s = v" "num_le v l"
  shows "tick_loop v s l = None"
proof (cases "tick_loop v s l")
  case (Some vs)
  have "tick_loop v s l = Option.bind (tick_loop v s l) (\<lambda>vs. Some (v # vs))"
    by (subst tick_loop.simps) (simp only: assms if_True)
  then have "vs = v # vs" unfolding Some by simp
  then show ?thesis by (metis not_Cons_self2)
qed

lemma fl_rel:
  assumes "2 powi (- 900) \<le> \<bar>q\<bar>" "\<bar>q\<bar> \<le> 2 powi 90"
  shows "\<exists>r. fl q = Fin r \<and> \<bar>r - q\<bar> \<le> \<bar>q\<bar> * (1/1000000)"
proof -
  have q0: "0 < \<bar>q\<bar>" using assms(1) by (metis order_less_le_trans zero_less_numeral zero_less_power_int)
  note b = ilog2_bounds [OF q0]
  let ?k = "ilog2 \<bar>q\<bar> + 1"
  have "- 900 < ?k" using powi_less_rat [of "- 900" ?k] b(2) assms(1) by linarith
  moreover have "ilog2 \<bar>q\<bar> < 91"
    using b(1) assms(2) powi_less_rat [of "ilog2 \<bar>q\<bar>" 91] by (simp add: power_int_def)
  ultimately have "- 1021 \<le> ?k" "?k \<le> 100" by linarith+
  from fl_near [OF b(2) this] obtain r where r: "fl q = Fin r" "\<bar>r - q\<bar> \<le> 2 powi (?k - 54)" by blast
  have "(2 powi (?k - 54) :: rat) = 2 powi ilog2 \<bar>q\<bar> * 2 powi (- 53)"
    using power_int_add [of "2 :: rat" "ilog2 \<bar>q\<bar>" "- 53"] by (simp add: algebra_simps)
  also have "\<dots> \<le> \<bar>q\<bar> * (1/1000000)" using b(1) q0 by (intro mult_mono) (simp_all add: power_int_def power_divide)
  finally show ?thesis using r by fastforce
qed

text \<open>A moderate exact result moves by less than \<open>10\<^sup>-\<^sup>1\<^sup>1\<close>.\<close>

lemma fl_abs:
  assumes "\<bar>q\<bar> \<le> 65536"
  shows "\<exists>r. fl q = Fin r \<and> \<bar>r - q\<bar> \<le> 1/100000000000"
proof -
  have "\<bar>q\<bar> < 2 powi 17" using assms by (simp add: power_int_def)
  from fl_near [OF this] obtain r where "fl q = Fin r" "\<bar>r - q\<bar> \<le> 2 powi (17 - 54)" by auto
  moreover have "(2 powi (17 - 54) :: rat) \<le> 1/100000000000" by (simp add: power_int_def power_divide)
  ultimately show ?thesis by fastforce
qed

lemma powi_small: "2 powi (- 900) \<le> (1/1000000000000 :: rat)" and powi_big: "(1000000000000 :: rat) \<le> 2 powi 90"
  by (simp_all add: power_int_def power_divide)

lemma snap_near:
  assumes x: "\<bar>x\<bar> \<le> 11000" and s: "1/4000000000 \<le> s" "s \<le> 21000" and d: "1 / 10 ^ d \<le> s * (1001/1000)"
    and n: "\<And>a. \<bar>of_int (n a) - a\<bar> \<le> 1"
  shows "\<exists>a c. num_div (Fin x) (Fin s) = Fin a \<and> to_fixed_back d (num_mul (Fin (of_int (n a))) (Fin s)) = Fin c
     \<and> \<bar>c - x\<bar> \<le> s * (159/100)"
proof -
  have s0: "0 < s" using s(1) by (rule less_le_trans [rotated]) simp
  have "\<bar>x / s\<bar> \<le> 11000 * 4000000000"
  proof -
    have "\<bar>x\<bar> \<le> 11000 * 4000000000 * s" using x s(1) by linarith
    then show ?thesis using s0 by (simp add: abs_divide pos_divide_le_eq)
  qed
  then have "\<bar>x / s\<bar> < 2 powi 46" by (simp add: power_int_def)
  from fl_near [OF this] obtain a where a: "fl (x / s) = Fin a" "\<bar>a - x / s\<bar> \<le> 2 powi (46 - 54)" by auto
  have "(2 powi (46 - 54) :: rat) \<le> 1/200" by (simp add: power_int_def power_divide)
  with a(2) n [of a] have "\<bar>of_int (n a) - x / s\<bar> \<le> 201/200" by linarith
  then have "\<bar>of_int (n a) - x / s\<bar> * s \<le> 201/200 * s" using s0 by (intro mult_right_mono) simp_all
  moreover have "\<bar>of_int (n a) - x / s\<bar> * s = \<bar>of_int (n a) * s - x\<bar>"
    using s0 by (simp add: abs_mult_pos left_diff_distrib)
  ultimately have ns: "\<bar>of_int (n a) * s - x\<bar> \<le> 201/200 * s" by simp
  then have "\<bar>of_int (n a) * s\<bar> \<le> 65536" using x s(2) by linarith
  from fl_abs [OF this] obtain b where b: "fl (of_int (n a) * s) = Fin b" "\<bar>b - of_int (n a) * s\<bar> \<le> 1/100000000000" by blast
  have tiny: "1/100000000000 \<le> s * (4/100)" using s(1) by linarith
  define m where "m = \<lfloor>\<bar>b\<bar> * 10 ^ d + 1/2\<rfloor>"
  have t0: "(0::rat) < 10 ^ d" by simp
  have m: "\<bar>of_int m - \<bar>b\<bar> * 10 ^ d\<bar> \<le> 1/2" unfolding m_def by linarith
  then have "\<bar>of_int m - \<bar>b\<bar> * 10 ^ d\<bar> / 10 ^ d \<le> 1/2 / 10 ^ d" by (intro divide_right_mono) simp_all
  moreover have "of_int m / 10 ^ d - \<bar>b\<bar> = (of_int m - \<bar>b\<bar> * 10 ^ d) / 10 ^ d" by (simp add: field_simps)
  then have "\<bar>of_int m - \<bar>b\<bar> * 10 ^ d\<bar> / 10 ^ d = \<bar>of_int m / 10 ^ d - \<bar>b\<bar>\<bar>" by (simp add: abs_divide)
  ultimately have "\<bar>of_int m / 10 ^ d - \<bar>b\<bar>\<bar> \<le> s * (5005/10000)" using d by simp
  moreover have "\<bar>sgn b * of_int m / 10 ^ d - b\<bar> \<le> \<bar>of_int m / 10 ^ d - \<bar>b\<bar>\<bar>"
    by (cases b "0 :: rat" rule: linorder_cases) auto
  ultimately have g: "\<bar>sgn b * of_int m / 10 ^ d - b\<bar> \<le> s * (5005/10000)" by linarith
  have bb: "\<bar>b\<bar> \<le> 33000" using b(2) ns x s(2) tiny by linarith
  then have "\<bar>sgn b * of_int m / 10 ^ d\<bar> \<le> 65536" using g s(2) by linarith
  from fl_abs [OF this] obtain c where c: "fl (sgn b * of_int m / 10 ^ d) = Fin c"
    "\<bar>c - sgn b * of_int m / 10 ^ d\<bar> \<le> 1/100000000000" by blast
  have "\<bar>b\<bar> < 10 ^ 21" using bb by simp
  then have "to_fixed_back d (num_mul (Fin (of_int (n a))) (Fin s)) = Fin c"
    using b(1) c(1) by (simp add: m_def)
  moreover have "\<bar>c - x\<bar> \<le> s * (159/100)" using ns b(2) g c(2) tiny by linarith
  moreover have "num_div (Fin x) (Fin s) = Fin a" using a(1) s0 by simp
  ultimately show ?thesis by blast
qed

context decimal_math begin

lemma exponent_range:
  assumes "1/10000000000 \<le> x" "x \<le> 100000"
  obtains e where "math_floor (log10 (Fin x)) = Fin (of_int e)" "- 12 \<le> e" "e \<le> 6"
    "10 powi e \<le> x * (1001/1000)" "x \<le> 10 powi e * (1001/100)"
proof -
  have "1/1000000000000 \<le> x" "x \<le> 1000000000000" using assms by linarith+
  from log10_exponent [OF this] obtain l where l: "log10 (Fin x) = Fin l"
    "10 powi \<lfloor>l\<rfloor> \<le> x * (1 + 1/1000)" "x \<le> 10 powi (\<lfloor>l\<rfloor> + 1) * (1 + 1/1000)" by blast
  have mono: "a \<le> b \<Longrightarrow> (10 powi a :: rat) \<le> 10 powi b" for a b by (simp add: power_int_increasing)
  have lo: "- 12 \<le> \<lfloor>l\<rfloor>"
  proof (rule ccontr)
    assume "\<not> - 12 \<le> \<lfloor>l\<rfloor>"
    then have "(10 powi (\<lfloor>l\<rfloor> + 1) :: rat) \<le> 10 powi (- 12)" by (intro mono) linarith
    with l(3) assms(1) show False by (simp add: power_int_def power_divide)
  qed
  have hi: "\<lfloor>l\<rfloor> \<le> 6"
  proof (rule ccontr)
    assume "\<not> \<lfloor>l\<rfloor> \<le> 6"
    then have "(10 powi 7 :: rat) \<le> 10 powi \<lfloor>l\<rfloor>" by (intro mono) linarith
    with l(2) assms(2) show False by (simp add: power_int_def)
  qed
  have "(10 powi (\<lfloor>l\<rfloor> + 1) :: rat) = 10 powi \<lfloor>l\<rfloor> * 10" by (simp add: power_int_add)
  with l lo hi that [of "\<lfloor>l\<rfloor>"] show thesis by simp
qed

lemma niceNum_near:
  assumes "4/10000000000 \<le> x" "x \<le> 12000"
  shows "\<exists>s. niceNum log10 pow10 (Fin x) True = Fin s \<and> x * (65/100) \<le> s \<and> s \<le> x * (17/10)"
proof -
  have "1/10000000000 \<le> x" "x \<le> 100000" using assms by linarith+
  from exponent_range [OF this] obtain e where e: "math_floor (log10 (Fin x)) = Fin (of_int e)" "- 12 \<le> e" "e \<le> 6"
      "10 powi e \<le> x * (1001/1000)" "x \<le> 10 powi e * (1001/100)" .
  obtain p where p: "pow10 (Fin (of_int e)) = Fin p" "\<bar>p - 10 powi e\<bar> \<le> 10 powi e * (1/1000)"
  proof -
    have "\<bar>e\<bar> \<le> 25" using e(2,3) by linarith
    from pow10_near [OF this] show thesis using that by blast
  qed
  define t where "t = (10 powi e :: rat)"
  have t: "0 < t" by (simp add: t_def)
  note p2 = p(2) [folded t_def] and e4 = e(4,5) [folded t_def]
  have p0: "0 < p" and pt: "p \<le> t * (1001/1000)" "t * (999/1000) \<le> p" using p2 t by linarith+
  have q: "\<bar>x / p\<bar> \<le> 65536"
  proof -
    have "\<bar>x\<bar> \<le> 65536 * p" using e4(2) pt(2) t assms(1) by linarith
    then show ?thesis using p0 by (simp add: abs_divide pos_divide_le_eq)
  qed
  from fl_abs [OF q] obtain f where f: "fl (x / p) = Fin f" "\<bar>f - x / p\<bar> \<le> 1/100000000000" by blast
  have step: "\<exists>s. num_mul (Fin c) (Fin p) = Fin s \<and> \<bar>s - c * p\<bar> \<le> c * p * (1/1000000)" if "1 \<le> c" "c \<le> 10" for c
  proof -
    have "1/1000000000000 \<le> p" "p \<le> 20000"
      using e4 pt assms t by linarith+
    then have "1/1000000000000 \<le> c * p" "c * p \<le> 10 * 20000"
      using that p0 mult_mono [of 1 c p p] mult_mono [of c 10 p 20000] by linarith+
    then have "2 powi (- 900) \<le> \<bar>c * p\<bar>" "\<bar>c * p\<bar> \<le> 2 powi 90" "\<bar>c * p\<bar> = c * p"
      using powi_small powi_big by linarith+
    with fl_rel [of "c * p"] show ?thesis by auto
  qed
  have q1: "x = x / p * p" using p0 by simp
  have frac: "f \<le> c \<Longrightarrow> x \<le> (c + 1/1000) * p" "c \<le> f \<Longrightarrow> (c - 1/1000) * p \<le> x" for c
    using mult_right_mono [of "x / p" "c + 1/1000" p] mult_right_mono [of "c - 1/1000" "x / p" p] f(2) p0 q1 by linarith+
  have first: "p \<le> x * (1003/1000)" using e4(1) pt(1) t by linarith
  have last: "x \<le> p * (1003/100)" using e4(2) pt(2) p0 by linarith
  have nn: "niceNum log10 pow10 (Fin x) True =
      num_mul (if f < 3/2 then Fin 1 else if f < 3 then Fin 2 else if f < 7 then Fin 5 else Fin 10) (Fin p)"
    unfolding niceNum_def Let_def e(1) p(1) using f(1) p0 by (simp del: num_mul.simps)
  have scaled: ?thesis
    if h: "niceNum log10 pow10 (Fin x) True = num_mul (Fin c) (Fin p)" "1 \<le> c" "c \<le> 10"
      "x * (66/100) \<le> c * p" "c * p \<le> x * (168/100)" for c
  proof -
    obtain s where s: "num_mul (Fin c) (Fin p) = Fin s" "\<bar>s - c * p\<bar> \<le> c * p * (1/1000000)" using step [OF h(2,3)] by blast
    have "x * (65/100) \<le> s" "s \<le> x * (17/10)" using s(2) h(4,5) assms(1) by linarith+
    with s(1) h(1) show ?thesis by simp
  qed
  consider "f < 3/2" | "3/2 \<le> f" "f < 3" | "3 \<le> f" "f < 7" | "7 \<le> f" by linarith
  then show ?thesis
  proof cases
    case 1
    show ?thesis by (rule scaled [of 1]) (use 1 nn frac(1) [of "3/2"] first p0 in \<open>(simp; fail) | linarith\<close>)+
  next
    case 2
    show ?thesis by (rule scaled [of 2]) (use 2 nn frac(1) [of 3] frac(2) [of "3/2"] p0 in \<open>(simp; fail) | linarith\<close>)+
  next
    case 3
    show ?thesis by (rule scaled [of 5]) (use 3 nn frac(1) [of 7] frac(2) [of 3] p0 in \<open>(simp; fail) | linarith\<close>)+
  next
    case 4
    show ?thesis by (rule scaled [of 10]) (use 4 nn frac(2) [of 7] last p0 in \<open>(simp; fail) | linarith\<close>)+
  qed
qed

lemma digits_of_step:
  assumes "1/4000000000 \<le> s" "s \<le> 21000"
  shows "\<exists>d. fraction_digits (math_max (Fin 0) (num_neg (math_floor (log10 (Fin s))))) = Some d \<and> 1 / 10 ^ d \<le> s * (1001/1000)"
proof -
  have "1/10000000000 \<le> s" "s \<le> 100000" using assms by linarith+
  from exponent_range [OF this] obtain e where e: "math_floor (log10 (Fin s)) = Fin (of_int e)" "- 12 \<le> e" "e \<le> 6"
      "10 powi e \<le> s * (1001/1000)" .
  show ?thesis
  proof (cases "e \<le> 0")
    case True
    define d where "d = nat (- e)"
    have "(10 powi e :: rat) = 1 / 10 ^ d" using True by (simp add: power_int_def d_def power_divide)
    moreover have "d < 101" "of_int (- e) = (of_nat d :: rat)" using e(2) True by (simp_all add: d_def)
    ultimately show ?thesis using e(1,4) True by (intro exI [of _ d]) simp
  next
    case False
    then have "(10 powi 0 :: rat) \<le> 10 powi e" by (intro power_int_increasing) simp_all
    then have "1 \<le> s * (1001/1000)" using e(4) by simp
    then show ?thesis using e(1) False by (intro exI [of _ 0]) simp
  qed
qed

end

text \<open>The domain the scale rounds: the data's own, or widened where it is flat.\<close>

lemma widened_domain:
  assumes "\<bar>x\<bar> \<le> 10000" "\<bar>y\<bar> \<le> 10000" "x \<le> y"
  defines "flat \<equiv> num_lt (num_sub (Fin y) (Fin x)) (fl (1 / 10 ^ 9))"
    and "pad \<equiv> math_max (num_mul (math_abs (Fin x)) (fl (1/20))) (Fin (1/2))"
  shows "\<exists>lo hi D. (if flat then num_sub (Fin x) pad else Fin x) = Fin lo
     \<and> (if flat then num_add (Fin y) pad else Fin y) = Fin hi
     \<and> num_sub (Fin hi) (Fin lo) = Fin D \<and> \<bar>lo\<bar> \<le> 11000 \<and> \<bar>hi\<bar> \<le> 11000
     \<and> 9/10000000000 \<le> D \<and> \<bar>D - (hi - lo)\<bar> \<le> 1/100000000000 \<and> D \<le> 22500"
proof -
  have span: "\<exists>D. num_sub (Fin b) (Fin a) = Fin D \<and> \<bar>D - (b - a)\<bar> \<le> 1/100000000000" if "\<bar>a\<bar> \<le> 11000" "\<bar>b\<bar> \<le> 11000" for a b
  proof -
    have "\<bar>b + - a\<bar> \<le> 65536" using that by linarith
    from fl_abs [OF this] show ?thesis by (simp add: num_sub_def)
  qed
  obtain m where m: "fl (1 / 10 ^ 9) = Fin m" "9/10000000000 \<le> m" "m \<le> 1/2"
    using fl_abs [of "1 / 10 ^ 9"] by fastforce
  obtain D where D: "num_sub (Fin y) (Fin x) = Fin D" "\<bar>D - (y - x)\<bar> \<le> 1/100000000000"
    using span [of x y] assms(1,2) by fastforce
  show ?thesis
  proof (cases flat)
    case False
    then have "m \<le> D" using m(1) D(1) by (simp add: flat_def)
    moreover have "D \<le> 22500" using D(2) assms(1,2) by linarith
    ultimately show ?thesis using False m(2) D assms(1,2) 
      by - (rule exI [of _ x], rule exI [of _ y], rule exI [of _ D], auto)
  next
    case True
    have "D < m" using True m(1) D(1) by (simp add: flat_def)
    then have yx: "y - x \<le> 1" using m(3) D(2) by linarith
    obtain c where c: "fl (1/20) = Fin c" "0 \<le> c" "c \<le> 6/100" using fl_abs [of "1/20"] by fastforce
        have "0 \<le> \<bar>x\<bar> * c" using c(2) by simp
    moreover have "\<bar>x\<bar> * c \<le> 10000 * (6/100)" using mult_mono [of "\<bar>x\<bar>" 10000 c "6/100"] assms(1) c(2,3) by simp
    ultimately have "\<bar>\<bar>x\<bar> * c\<bar> \<le> 65536" "\<bar>x\<bar> * c \<le> 600" by simp_all
    with fl_abs [OF this(1)] obtain q where q: "fl (\<bar>x\<bar> * c) = Fin q" "q \<le> 601" by fastforce
    have "pad = Fin (if q \<le> 1/2 then 1/2 else q)" using q(1) c(1) by (simp add: pad_def)
    moreover have "1/2 \<le> (if q \<le> 1/2 then 1/2 else q)" "(if q \<le> 1/2 then 1/2 else q) \<le> 601" using q(2) by auto
    ultimately obtain p where p: "pad = Fin p" "1/2 \<le> p" "p \<le> 601" by blast
    have "\<bar>x + - p\<bar> \<le> 65536" "\<bar>y + p\<bar> \<le> 65536" using assms(1,2) p(2,3) by linarith+
    from fl_abs [OF this(1)] fl_abs [OF this(2)]
    obtain lo hi where lo: "fl (x + - p) = Fin lo" "\<bar>lo - (x + - p)\<bar> \<le> 1/100000000000"
      and hi: "fl (y + p) = Fin hi" "\<bar>hi - (y + p)\<bar> \<le> 1/100000000000" by blast
    have b: "\<bar>lo\<bar> \<le> 11000" "\<bar>hi\<bar> \<le> 11000" using lo(2) hi(2) assms(1,2) p(2,3) by linarith+
    obtain E where E: "num_sub (Fin hi) (Fin lo) = Fin E" "\<bar>E - (hi - lo)\<bar> \<le> 1/100000000000" using span [OF b] by blast
    have "9/10000000000 \<le> E" "E \<le> 22500" using E(2) lo(2) hi(2) p(2,3) assms(3) yx by linarith+
    with True lo(1) hi(1) b E p(1) show ?thesis 
      by - (rule exI [of _ lo], rule exI [of _ hi], rule exI [of _ E], simp add: num_sub_def)
  qed
qed

lemma tick_bounds:
  fixes s :: rat
  assumes "1/4000000000 \<le> s" "\<bar>lo\<bar> \<le> 11000" "\<bar>hi\<bar> \<le> 11000" "\<bar>c - lo\<bar> \<le> s * (159/100)" "\<bar>C - hi\<bar> \<le> s * (159/100)"
    "\<bar>l - (C + s / 2)\<bar> \<le> s / 10" "hi - lo \<le> s * (320/100)"
  shows "\<bar>l\<bar> \<le> 2 ^ 50 * s" "- (2 ^ 50 * s) \<le> c" "l - c < of_nat 10 * (3/4 * s)"
proof -
  have p: "(2 ^ 50 * s) = 1125899906842624 * s" by simp
  show "\<bar>l\<bar> \<le> 2 ^ 50 * s" "- (2 ^ 50 * s) \<le> c" unfolding p using assms by linarith+
  have n: "of_nat 10 * (3/4 * s) = 15/2 * s" by simp
  show "l - c < of_nat 10 * (3/4 * s)" unfolding n using assms by linarith
qed

section \<open>A reference for the laws\<close>

fun tens :: "nat \<Rightarrow> nat" where
  "tens n = (if n < 10 then 0 else Suc (tens (n div 10)))"

declare tens.simps [simp del]

lemma tens_bounds: "0 < n \<Longrightarrow> 10 ^ tens n \<le> n \<and> n < 10 ^ Suc (tens n)"
proof (induction n rule: tens.induct)
  case (1 n)
  show ?case
  proof (cases "n < 10")
    case True
    then show ?thesis using 1(2) by (simp add: tens.simps [of n])
  next
    case False
    then have "10 ^ tens (n div 10) \<le> n div 10" "n div 10 < 10 ^ Suc (tens (n div 10))"
      using 1 by auto
    moreover have "tens n = Suc (tens (n div 10))" using False by (simp add: tens.simps [of n])
    ultimately show ?thesis
      by (simp add: div_less_iff_less_mult less_eq_div_iff_mult_less_eq mult.commute)
  qed
qed

fun ref_log10 :: "js_num \<Rightarrow> js_num" where
  "ref_log10 (Fin x) =
     (if x \<le> 0 then NaN
      else if 1 \<le> x then num_of_int (int (tens (nat \<lfloor>x\<rfloor>)))
      else num_of_int (- int (Suc (tens (nat \<lfloor>1 / x\<rfloor>)))))"
| "ref_log10 x = x"

fun ref_pow10 :: "js_num \<Rightarrow> js_num" where
  "ref_pow10 (Fin e) = fl (10 powi \<lfloor>e\<rfloor>)"
| "ref_pow10 x = x"

lemma tens_rat:
  assumes "1 \<le> (y :: rat)"
  shows "10 powi int (tens (nat \<lfloor>y\<rfloor>)) \<le> y" "y \<le> 10 powi (int (tens (nat \<lfloor>y\<rfloor>)) + 1)"
proof -
  let ?n = "nat \<lfloor>y\<rfloor>"
  have n: "0 < ?n" "(of_nat ?n :: rat) \<le> y" "y < of_nat ?n + 1" using assms by linarith+
  have "10 ^ tens ?n \<le> ?n" "Suc ?n \<le> 10 ^ Suc (tens ?n)" using tens_bounds [OF n(1)] by simp_all
  then have "(of_nat (10 ^ tens ?n) :: rat) \<le> of_nat ?n" "(of_nat (Suc ?n) :: rat) \<le> of_nat (10 ^ Suc (tens ?n))"
    by (simp_all only: of_nat_le_iff)
  then have "(10 ^ tens ?n :: rat) \<le> of_nat ?n" "(of_nat ?n + 1 :: rat) \<le> 10 ^ Suc (tens ?n)" by simp_all
  moreover have "(10 powi int (tens ?n) :: rat) = 10 ^ tens ?n" "(10 powi (int (tens ?n) + 1) :: rat) = 10 ^ Suc (tens ?n)"
    by (simp_all add: power_int_add)
  ultimately show "10 powi int (tens ?n) \<le> y" "y \<le> 10 powi (int (tens ?n) + 1)" using n(2,3) by linarith+
qed

interpretation ref_decimal: decimal_math ref_log10 ref_pow10
proof
  fix x :: rat assume x: "1/1000000000000 \<le> x" "x \<le> 1000000000000"
  show "\<exists>l. ref_log10 (Fin x) = Fin l \<and> 10 powi \<lfloor>l\<rfloor> \<le> x * (1 + 1/1000) \<and> x \<le> 10 powi (\<lfloor>l\<rfloor> + 1) * (1 + 1/1000)"
  proof (cases "1 \<le> x")
    case True
    let ?t = "int (tens (nat \<lfloor>x\<rfloor>))"
    have more: "y \<le> y * (1 + 1/1000)" if "0 \<le> y" for y :: rat using that by simp
    have "x \<le> x * (1 + 1/1000)" "10 powi (?t + 1) \<le> 10 powi (?t + 1) * (1 + 1/1000 :: rat)"
      by (rule more, use True in simp)+
    then have "10 powi ?t \<le> x * (1 + 1/1000)" "x \<le> 10 powi (?t + 1) * (1 + 1/1000)"
      using tens_rat [OF True] by (blast intro: order_trans)+
    then show ?thesis using True by (intro exI [of _ "of_int ?t"]) (simp add: num_of_int_def)
  next
    case False
    let ?t = "int (tens (nat \<lfloor>1 / x\<rfloor>))"
    have x0: "0 < x" using x(1) by linarith
    have "1 \<le> 1 / x" using False x0 by simp
    note b = tens_rat [OF this]
    have "x * 10 powi ?t \<le> 1" "1 \<le> x * 10 powi (?t + 1)"
      using b x0 by (simp_all add: pos_le_divide_eq pos_divide_le_eq mult.commute)
    moreover have inv: "(10 powi (- k) :: rat) = 1 / 10 powi k" for k by (simp only: power_int_minus_divide)
    ultimately have c: "10 powi (- (?t + 1)) \<le> x" "x \<le> 10 powi (- ?t)"
      unfolding inv by (simp_all add: pos_le_divide_eq pos_divide_le_eq)
    have p: "(0::rat) \<le> 10 powi (- ?t)" by simp
    define k where "k = - (?t + 1)"
    have "10 powi k \<le> x * (1 + 1/1000)" "x \<le> 10 powi (k + 1) * (1 + 1/1000)"
      using c x0 p by (simp_all add: k_def)
    moreover have "ref_log10 (Fin x) = Fin (of_int k)" using False x0 by (simp add: num_of_int_def k_def)
    ultimately show ?thesis by (intro exI [of _ "of_int k"]) (simp only: floor_of_int simp_thms)
  qed
next
  fix e :: int assume e: "\<bar>e\<bar> \<le> 25"
  have "(10 powi (- 25) :: rat) \<le> 10 powi e" "(10 powi e :: rat) \<le> 10 powi 25"
    using e by (intro power_int_increasing; simp)+
  moreover have "(2 powi (- 900) :: rat) \<le> 2 powi (- 90)" by (rule powi_mono_rat) simp
  moreover have "(2 powi (- 90) :: rat) \<le> 10 powi (- 25)" "(10 powi 25 :: rat) \<le> 2 powi 90"
    by (simp_all add: power_int_def power_divide)
  ultimately have "2 powi (- 900) \<le> \<bar>10 powi e :: rat\<bar>" "\<bar>10 powi e :: rat\<bar> \<le> 2 powi 90" by simp_all
  from fl_rel [OF this] obtain r where r: "fl (10 powi e) = Fin r" "\<bar>r - 10 powi e\<bar> \<le> 10 powi e * (1/1000000)" by auto
  have weaken: "a \<le> t * (1/1000)" if "a \<le> t * (1/1000000)" "0 \<le> t" for a t :: rat using that by linarith
  have "\<bar>r - 10 powi e\<bar> \<le> 10 powi e * (1/1000)" by (rule weaken [OF r(2)]) simp
  moreover have "ref_pow10 (Fin (of_int e)) = Fin r" using r(1) by simp
  ultimately show "\<exists>p. ref_pow10 (Fin (of_int e)) = Fin p \<and> \<bar>p - 10 powi e\<bar> \<le> 10 powi e * (1/1000)" by blast
qed

lemma bandScale_terminates:
  assumes dm: "decimal_math log10 pow10" and b: "\<bar>x\<bar> \<le> 10000" "\<bar>y\<bar> \<le> 10000" "x \<le> y"
  shows "\<exists>sc. bandScale log10 pow10 (Fin x) (Fin y) (Fin 3) = Some sc \<and> length (sc_ticks sc) \<le> 10"
proof -
  let ?flat = "num_lt (num_sub (Fin y) (Fin x)) (fl (1 / 10 ^ 9))"
  let ?pad = "math_max (num_mul (math_abs (Fin x)) (fl (1/20))) (Fin (1/2))"
  obtain lo hi D where lo: "(if ?flat then num_sub (Fin x) ?pad else Fin x) = Fin lo"
    and hi: "(if ?flat then num_add (Fin y) ?pad else Fin y) = Fin hi"
    and D: "num_sub (Fin hi) (Fin lo) = Fin D" "9/10000000000 \<le> D" "\<bar>D - (hi - lo)\<bar> \<le> 1/100000000000" "D \<le> 22500"
    and r: "\<bar>lo\<bar> \<le> 11000" "\<bar>hi\<bar> \<le> 11000"
    using widened_domain [OF b] by blast
  have two: "math_max (Fin 1) (num_sub (Fin 3) (Fin 1)) = Fin 2" by (simp add: num_sub_def)
  obtain R where R: "num_div (Fin D) (Fin 2) = Fin R" "\<bar>R - D / 2\<bar> \<le> 1/100000000000"
    using fl_abs [of "D / 2"] D(2,4) by auto
  have Rb: "4/10000000000 \<le> R" "R \<le> 12000" using R(2) D(2,4) by linarith+
  obtain s where s: "niceNum log10 pow10 (Fin R) True = Fin s" "R * (65/100) \<le> s" "s \<le> R * (17/10)"
    using decimal_math.niceNum_near [OF dm Rb] by blast
  have sb: "1/4000000000 \<le> s" "s \<le> 21000" using s(2,3) Rb by linarith+
  obtain d where d: "fraction_digits (math_max (Fin 0) (num_neg (math_floor (log10 (Fin s))))) = Some d" "1 / 10 ^ d \<le> s * (1001/1000)"
    using decimal_math.digits_of_step [OF dm sb] by blast
  have floor_near: "\<bar>of_int \<lfloor>a\<rfloor> - a\<bar> \<le> 1" and ceil_near: "\<bar>of_int \<lceil>a\<rceil> - a\<bar> \<le> 1" for a :: rat by linarith+
  obtain a c where c: "num_div (Fin lo) (Fin s) = Fin a" "to_fixed_back d (num_mul (Fin (of_int \<lfloor>a\<rfloor>)) (Fin s)) = Fin c"
    "\<bar>c - lo\<bar> \<le> s * (159/100)"
    using snap_near [OF r(1) sb d(2), of floor] floor_near by blast
  obtain a' C where C: "num_div (Fin hi) (Fin s) = Fin a'" "to_fixed_back d (num_mul (Fin (of_int \<lceil>a'\<rceil>)) (Fin s)) = Fin C"
    "\<bar>C - hi\<bar> \<le> s * (159/100)"
    using snap_near [OF r(2) sb d(2), of ceiling] ceil_near by blast
  have tiny: "1/100000000000 \<le> s / 25" using sb(1) by linarith
  obtain h where h: "fl (s * (1/2)) = Fin h" "\<bar>h - s * (1/2)\<bar> \<le> 1/100000000000" using fl_abs [of "s * (1/2)"] sb by auto
  have "\<bar>C + h\<bar> \<le> 65536" using C(3) h(2) r(2) sb tiny by linarith
  from fl_abs [OF this] obtain l where l: "fl (C + h) = Fin l" "\<bar>l - (C + h)\<bar> \<le> 1/100000000000" by blast
  have near: "\<bar>l - (C + s / 2)\<bar> \<le> s / 10" using l(2) h(2) tiny by linarith
  have len: "hi - lo \<le> s * (320/100)" using D(3) R(2) s(2) tiny by linarith
  have s1: "2 powi (- 900) \<le> s" using sb(1) powi_small by linarith
  have "(21000 :: rat) \<le> 2 powi 40" by (simp add: power_int_def)
  with sb(2) have "s \<le> 2 powi 40" by linarith
  from tick_loop_returns [OF s1 this tick_bounds [OF sb(1) r c(3) C(3) near len]]
  obtain vs where vs: "tick_loop (Fin c) (Fin s) (Fin l) = Some vs" "length vs \<le> 10" by blast
  have "bandScale log10 pow10 (Fin x) (Fin y) (Fin 3)
      = Some \<lparr>sc_lo = Fin c, sc_hi = Fin C, sc_ticks = map (to_fixed_back d) vs\<rparr>"
    unfolding bandScale_def Let_def lo hi D(1) two R(1) s(1) d(1) c(1) C(1)
    using c(2) C(2) h(1) l(1) vs(1) by (simp del: num_div.simps to_fixed_back.simps)
  with vs(2) show ?thesis by simp
qed

text \<open>Between \<open>2\<^sup>5\<^sup>3\<close> and \<open>2\<^sup>5\<^sup>4\<close> the doubles are the even integers.\<close>

lemma fl_even_integers:
  assumes "9007199254740992 \<le> q" "q < 18014398509481984"
  shows "fl q = Fin (of_int (round_half_even (q / 2)) * 2)"
proof -
  have q0: "0 < q" using assms(1) by linarith
  have p: "(2 powi 53 :: rat) = 9007199254740992" "(2 powi 54 :: rat) = 18014398509481984" by (simp_all add: power_int_def)
  have "ilog2 q < 54" using ilog2_less [OF q0, of 54] assms(2) p(2) by simp
  moreover have "53 < ilog2 q + 1" using powi_less_rat [of 53 "ilog2 q + 1"] ilog2_bounds(2) [OF q0] assms(1) p(1) by linarith
  ultimately have "ilog2 q = 53" by linarith
  then have u: "ulp_exp q = 1" using q0 by (simp add: ulp_exp_def)
  have r: "round53 q = of_int (round_half_even (q / 2)) * 2" using q0 by (simp add: round53_def u)
  have "\<bar>of_int (round_half_even (q / 2)) - q / 2\<bar> \<le> 1/2" by (rule round_half_even_near)
  then have "\<bar>round53 q\<bar> \<le> 36028797018963968" unfolding r using assms by linarith
  also have "\<dots> < (2 ^ 1024 :: rat)" by simp
  finally have "\<bar>round53 q\<bar> < 2 ^ 1024" .
  then show ?thesis by (auto simp: fl_def Let_def r [symmetric])
qed

lemma huge_values:
  "num_sub (Fin (10 ^ 16 + 2)) (Fin (10 ^ 16)) = Fin 2" "\<not> num_lt (Fin 2) (fl (1 / 10 ^ 9))"
  "num_add (Fin (10 ^ 16)) (Fin 1) = Fin (10 ^ 16)"
  "to_fixed_back 0 (num_mul (math_floor (num_div (Fin (10 ^ 16)) (Fin 1))) (Fin 1)) = Fin (10 ^ 16)"
  "num_add (to_fixed_back 0 (num_mul (math_ceil (num_div (Fin (10 ^ 16 + 2)) (Fin 1))) (Fin 1))) (num_mul (Fin 1) (Fin (1/2)))
     = Fin (10 ^ 16 + 2)"
  "num_div (Fin 2) (math_max (Fin 1) (num_sub (Fin 3) (Fin 1))) = Fin 1"
proof -
  obtain m where "fl (1 / 10 ^ 9) = Fin m" "m \<le> 2" using fl_abs [of "1 / 10 ^ 9"] by fastforce
  then show "\<not> num_lt (Fin 2) (fl (1 / 10 ^ 9))" by simp
  have half: "fl (1 / 2) = Fin (1 / 2)" using fl_double is_double_dyadic [of 1 1] by simp
  have f: "\<lfloor>10000000000000001 / 2 :: rat\<rfloor> = 5000000000000000" "\<lfloor>20000000000000005 / 4 :: rat\<rfloor> = 5000000000000001"
    "\<lfloor>20000000000000001 / 2 :: rat\<rfloor> = 10000000000000000" "\<lfloor>20000000000000005 / 2 :: rat\<rfloor> = 10000000000000002"
    by (rule floor_unique; simp)+
  have e: "fl 10000000000000000 = Fin 10000000000000000" "fl 10000000000000001 = Fin 10000000000000000"
    "fl 10000000000000002 = Fin 10000000000000002" "fl (20000000000000005 / 2) = Fin 10000000000000002"
    by (simp_all add: fl_even_integers round_half_even_def Let_def f)
  show "num_add (Fin (10 ^ 16)) (Fin 1) = Fin (10 ^ 16)" "num_sub (Fin (10 ^ 16 + 2)) (Fin (10 ^ 16)) = Fin 2"
    "to_fixed_back 0 (num_mul (math_floor (num_div (Fin (10 ^ 16)) (Fin 1))) (Fin 1)) = Fin (10 ^ 16)"
    "num_div (Fin 2) (math_max (Fin 1) (num_sub (Fin 3) (Fin 1))) = Fin 1"
    by (simp_all add: e f num_sub_def)
  show "num_add (to_fixed_back 0 (num_mul (math_ceil (num_div (Fin (10 ^ 16 + 2)) (Fin 1))) (Fin 1))) (num_mul (Fin 1) (Fin (1/2)))
     = Fin (10 ^ 16 + 2)"
    by (simp add: e f half)
qed

lemma stuck_at_one:
  assumes "log10 (Fin 1) = Fin 0" "pow10 (Fin 0) = Fin 1"
  shows "bandScale log10 pow10 (Fin (10 ^ 16)) (Fin (10 ^ 16 + 2)) (Fin 3) = None"
proof -
  have one: "niceNum log10 pow10 (Fin 1) True = Fin 1"
    by (simp add: niceNum_def assms)
  have zero: "fraction_digits (math_max (Fin 0) (num_neg (math_floor (log10 (Fin 1))))) = Some 0"
    by (simp add: assms)
  have "tick_loop (Fin (10 ^ 16)) (Fin 1) (Fin (10 ^ 16 + 2)) = None"
    by (rule tick_loop_stuck [OF huge_values(3)]) simp
  then show ?thesis
    unfolding bandScale_def Let_def is_finite.simps huge_values(1) if_not_P [OF huge_values(2)] huge_values(6) one zero
      option.case huge_values(4,5) by simp
qed

section \<open>Bands are stacked\<close>

lemma scaled_error:
  fixes u v e c k :: rat
  assumes "\<bar>u - v\<bar> \<le> e" "0 \<le> c" "c \<le> k"
  shows "\<bar>u * c - v * c\<bar> \<le> e * k"
proof -
  have "u * c - v * c = (u - v) * c" by (simp only: left_diff_distrib)
  then have "\<bar>u * c - v * c\<bar> = \<bar>u - v\<bar> * c" using assms(2) by (simp add: abs_mult)
  also have "\<dots> \<le> e * k" using assms by (intro mult_mono) auto
  finally show ?thesis .
qed

lemma fl_chain:
  assumes "\<bar>q - t\<bar> \<le> e" "\<bar>q\<bar> \<le> 65536"
  obtains r where "fl q = Fin r" "\<bar>r - t\<bar> \<le> e + 1/100000000000"
proof -
  obtain r where "fl q = Fin r" "\<bar>r - q\<bar> \<le> 1/100000000000" using fl_abs [OF assms(2)] by blast
  moreover from this(2) have "\<bar>r - t\<bar> \<le> e + 1/100000000000" using assms(1) by linarith
  ultimately show thesis using that by blast
qed

text \<open>For up to 17 bands at the chart's gap.\<close>

lemma bands_stacked:
  assumes "0 < n" "n \<le> 17" "fl (6/100) = Fin g"
  obtains h w where "bandFractions n (Fin g) = map (\<lambda>i.
       let top = num_sub (Fin 1) (num_mul (num_of_int (int i)) (Fin w))
       in \<lparr>bd_bottom = num_sub top (Fin h), bd_top = top\<rparr>) [0..<n]"
    "2/1000 \<le> h" "h \<le> 1" "\<bar>w - (h + 6/100)\<bar> \<le> 3/100000000000" "\<bar>of_nat n * h - (1 - of_nat (n - 1) * (6/100))\<bar> \<le> 1/1000000000"
proof -
  have g: "\<bar>g - 6/100\<bar> \<le> 1/100000000000" using fl_abs [of "6/100"] assms(3) by auto
  define N where "N = (of_nat n :: rat)"
  have n: "1 \<le> N" "N \<le> 17" using assms(1,2) by (simp_all add: N_def Suc_leI)
  have m1: "of_nat (n - 1) * (6/100) = (6/100 * N - 6/100 :: rat)"
    using assms(1) by (simp add: N_def of_nat_diff left_diff_distrib)
  have "is_double (of_int (int n - 1))" by (rule is_double_int) (use assms(2) in simp)
  then have pred: "num_sub (num_of_int (int n)) (Fin 1) = Fin (N - 1)" by (simp add: N_def num_sub_def num_of_int_def)
  define G where "G = g * (N - 1)"
  have G: "\<bar>G - (6/100 * N - 6/100)\<bar> \<le> 16/100000000000"
    using scaled_error [OF g, of "N - 1" 16] n unfolding G_def by (simp add: right_diff_distrib)
  moreover from this have "\<bar>G\<bar> \<le> 65536" using n by linarith
  ultimately obtain a where a: "fl G = Fin a" "\<bar>a - (6/100 * N - 6/100)\<bar> \<le> 16/100000000000 + 1/100000000000"
    by (rule fl_chain)
  have "\<bar>(1 + - a) - (1 - (6/100 * N - 6/100))\<bar> \<le> 17/100000000000" "\<bar>1 + - a\<bar> \<le> 65536" using a(2) n by linarith+
  then obtain b where b: "fl (1 + - a) = Fin b" "\<bar>b - (1 - (6/100 * N - 6/100))\<bar> \<le> 17/100000000000 + 1/100000000000"
    by (rule fl_chain)
  have lo: "39/1000 \<le> b" "b \<le> 1001/1000" using b(2) n by linarith+
  have "b / N \<le> b" "0 \<le> b / N" using lo n by (simp_all add: divide_le_eq mult_left_mono)
  then have "\<bar>b / N\<bar> \<le> 65536" using lo by linarith
  from fl_abs [OF this] obtain h where h: "fl (b / N) = Fin h" "\<bar>h - b / N\<bar> \<le> 1/100000000000" by blast
  have "39/1000 / 17 \<le> b / N" using lo n by (intro frac_le) auto
  then have hb: "2/1000 \<le> h" "h \<le> 101/100" using h(2) lo(2) \<open>b / N \<le> b\<close> by linarith+
  have "\<bar>N * h - b\<bar> \<le> 17 * (1/100000000000)"
    using scaled_error [OF h(2), of N 17] n by (simp add: mult.commute)
  then have total: "\<bar>N * h - (1 - of_nat (n - 1) * (6/100))\<bar> \<le> 1/1000000000" unfolding m1 N_def [symmetric] using b(2) by linarith
  have h1: "h \<le> 1"
  proof (cases "n = 1")
    case True
    then have N: "N = 1" by (simp add: N_def)
    then have "a = 0" using a(1) by (simp add: G_def)
    then have "b = 1" using b(1) by simp
    then show ?thesis using h(1) N by simp
  next
    case False
    then have "2 \<le> N" using assms(1) unfolding N_def by (metis One_nat_def Suc_leI le_neq_implies_less numeral_2_eq_2 of_nat_le_iff of_nat_numeral)
    then have "b / N \<le> b / 2" using lo by (intro divide_left_mono) auto
    then show ?thesis using h(2) lo(2) by linarith
  qed
  have "\<bar>(h + g) - (h + 6/100)\<bar> \<le> 1/100000000000" "\<bar>h + g\<bar> \<le> 65536" using hb g by linarith+
  then obtain w where w: "fl (h + g) = Fin w" "\<bar>w - (h + 6/100)\<bar> \<le> 1/100000000000 + 1/100000000000"
    by (rule fl_chain)
  then have w2: "\<bar>w - (h + 6/100)\<bar> \<le> 3/100000000000" by linarith
  have "bandFractions n (Fin g) = map (\<lambda>i.
       let top = num_sub (Fin 1) (num_mul (num_of_int (int i)) (Fin w))
       in \<lparr>bd_bottom = num_sub top (Fin h), bd_top = top\<rparr>) [0..<n]"
    using assms(1) a(1) b(1) h(1) w(1) n unfolding G_def N_def bandFractions_def Let_def pred
    by (simp add: num_sub_def [of "Fin 1"] num_of_int_def)
  from that [OF this hb(1) h1 w2] total show thesis by (simp only: N_def)
qed

lemma band_position:
  assumes "I \<le> 17" "0 \<le> I" "0 \<le> w" "w \<le> 11/10" "0 \<le> h" "h \<le> 1"
  obtains t b where "num_sub (Fin 1) (num_mul (Fin I) (Fin w)) = Fin t" "num_sub (Fin t) (Fin h) = Fin b"
    "\<bar>t - (1 - I * w)\<bar> \<le> 2/100000000000" "\<bar>b - (t - h)\<bar> \<le> 1/100000000000"
proof -
  have Iw: "0 \<le> I * w" "I * w \<le> 17 * (11/10)" using assms mult_mono [of I 17 w "11/10"] by auto
  then have "\<bar>I * w\<bar> \<le> 65536" by linarith
  from fl_abs [OF this] obtain m where m: "fl (I * w) = Fin m" "\<bar>m - I * w\<bar> \<le> 1/100000000000" by blast
  have "\<bar>(1 + - m) - (1 - I * w)\<bar> \<le> 1/100000000000" "\<bar>1 + - m\<bar> \<le> 65536" using m(2) Iw by linarith+
  then obtain t where t: "fl (1 + - m) = Fin t" "\<bar>t - (1 - I * w)\<bar> \<le> 1/100000000000 + 1/100000000000" by (rule fl_chain)
  have "\<bar>t + - h\<bar> \<le> 65536" using t(2) Iw assms(5,6) by linarith
  from fl_abs [OF this] obtain b where b: "fl (t + - h) = Fin b" "\<bar>b - (t + - h)\<bar> \<le> 1/100000000000" by blast
  show thesis by (rule that [of t b]) (use m(1) t b in \<open>simp_all add: num_sub_def\<close>)
qed

section \<open>Properties\<close>

text \<open>
  C26: The tick scale of a band is found: for finite data within ten thousand, which covers every
  climate metric, \<open>bandScale\<close> returns, with at most ten ticks, whatever the precision of the
  decimal functions. It is not so for every finite input: between \<open>10\<^sup>1\<^sup>6\<close> and
  \<open>10\<^sup>1\<^sup>6 + 2\<close> the step is absorbed by the value and the loop never ends.
\<close>
theorem bandScale_returns:
  assumes "decimal_math log10 pow10"
  shows "(\<forall>x y. \<bar>x\<bar> \<le> 10000 \<and> \<bar>y\<bar> \<le> 10000 \<and> x \<le> y \<longrightarrow>
       (\<exists>sc. bandScale log10 pow10 (Fin x) (Fin y) (Fin 3) = Some sc \<and> length (sc_ticks sc) \<le> 10))
     \<and> (log10 (Fin 1) = Fin 0 \<and> pow10 (Fin 0) = Fin 1 \<longrightarrow>
       bandScale log10 pow10 (Fin (10 ^ 16)) (Fin (10 ^ 16 + 2)) (Fin 3) = None)"
proof (intro conjI impI allI)
  fix x y :: rat assume "\<bar>x\<bar> \<le> 10000 \<and> \<bar>y\<bar> \<le> 10000 \<and> x \<le> y"
  then show "\<exists>sc. bandScale log10 pow10 (Fin x) (Fin y) (Fin 3) = Some sc \<and> length (sc_ticks sc) \<le> 10"
    using bandScale_terminates [OF assms] by blast
next
  assume "log10 (Fin 1) = Fin 0 \<and> pow10 (Fin 0) = Fin 1"
  then show "bandScale log10 pow10 (Fin (10 ^ 16)) (Fin (10 ^ 16 + 2)) (Fin 3) = None"
    using stuck_at_one by blast
qed

theorem bandScale_returns_witness:
  "\<exists>sc. bandScale ref_log10 ref_pow10 (Fin 18) (Fin 24) (Fin 3) = Some sc \<and> length (sc_ticks sc) \<le> 10"
  using bandScale_returns [OF ref_decimal.decimal_math_axioms] by simp

text \<open>
  The bands of the stacked chart are stacked: up to 17 of them, listed from the top, lie in the
  unit scale up to rounding, each has a positive height, and each lies below the earlier ones by
  at least a twentieth of the scale, rounding errors included.
\<close>
theorem chart_bands_disjoint:
  assumes "n \<le> 17" "i < n"
  shows "\<exists>b t. bandFractions n (fl (6/100)) ! i = \<lparr>bd_bottom = Fin b, bd_top = Fin t\<rparr>
     \<and> - (1/100000000) \<le> b \<and> b < t \<and> t \<le> 1 + 1/100000000
     \<and> (\<forall>j<i. \<exists>b'. bd_bottom (bandFractions n (fl (6/100)) ! j) = Fin b' \<and> t + 1/20 \<le> b')"
proof -
  obtain g where g: "fl (6/100) = Fin g" using fl_abs [of "6/100"] by auto
  have n0: "0 < n" using assms(2) by simp
  obtain h w where bands: "bandFractions n (Fin g) = map (\<lambda>i.
       let top = num_sub (Fin 1) (num_mul (num_of_int (int i)) (Fin w))
       in \<lparr>bd_bottom = num_sub top (Fin h), bd_top = top\<rparr>) [0..<n]"
    and h: "2/1000 \<le> h" "h \<le> 1" and w: "\<bar>w - (h + 6/100)\<bar> \<le> 3/100000000000"
    and total: "\<bar>of_nat n * h - (1 - of_nat (n - 1) * (6/100))\<bar> \<le> 1/1000000000"
    using bands_stacked [OF n0 assms(1) g] .
  have w0: "0 \<le> w" "w \<le> 11/10" using w h by linarith+
  define T where "T = (\<lambda>i. num_sub (Fin 1) (num_mul (num_of_int (int i)) (Fin w)))"
  have pos: "\<exists>t b. T j = Fin t \<and> num_sub (Fin t) (Fin h) = Fin b \<and> \<bar>t - (1 - of_nat j * w)\<bar> \<le> 2/100000000000
      \<and> \<bar>b - (t - h)\<bar> \<le> 1/100000000000" if "j < n" for j
  proof -
    have "(of_nat j :: rat) \<le> 17" "0 \<le> (of_nat j :: rat)" "0 \<le> h" using that assms(1) h(1) by (simp_all add: order_trans)
    from band_position [OF this(1,2) w0 this(3) h(2)] show ?thesis by (simp add: T_def num_of_int_def) metis
  qed
  have nth: "bandFractions n (Fin g) ! j = \<lparr>bd_bottom = num_sub (T j) (Fin h), bd_top = T j\<rparr>" if "j < n" for j
    using that by (simp add: bands T_def Let_def)
  obtain t b where tb: "T i = Fin t" "num_sub (Fin t) (Fin h) = Fin b" "\<bar>t - (1 - of_nat i * w)\<bar> \<le> 2/100000000000"
      "\<bar>b - (t - h)\<bar> \<le> 1/100000000000"
    using pos [OF assms(2)] by blast
  define I where "I = (of_nat i * w :: rat)"
  note t = tb(3) [folded I_def]
  have I0: "0 \<le> I" using w0 by (simp add: I_def)
  define L where "L = (of_nat (n - 1) :: rat)"
  have L: "0 \<le> L" "L \<le> 16" "of_nat n * h = L * h + h" using assms(1) n0 by (simp_all add: L_def of_nat_diff algebra_simps)
  have "I \<le> L * w" unfolding I_def L_def using assms(2) w0 by (intro mult_right_mono) simp_all
  moreover have "\<bar>w * L - (h + 6/100) * L\<bar> \<le> 3/100000000000 * 16" by (rule scaled_error [OF w L(1,2)])
  moreover have "(h + 6/100) * L = L * h + L * (6/100)" by (simp add: algebra_simps)
  moreover have "L * w = w * L" by simp
  ultimately have "I + h \<le> 1 + 1/500000000" using total [folded L_def] L(3) by linarith
  then have range: "- (1/100000000) \<le> b" "b < t" "t \<le> 1 + 1/100000000" using t tb(4) I0 h by linarith+
  have "\<exists>b'. bd_bottom (bandFractions n (Fin g) ! j) = Fin b' \<and> t + 1/20 \<le> b'" if j: "j < i" for j
  proof -
    have jn: "j < n" using j assms(2) by simp
    obtain t' b' where tb': "T j = Fin t'" "num_sub (Fin t') (Fin h) = Fin b'" "\<bar>t' - (1 - of_nat j * w)\<bar> \<le> 2/100000000000"
        "\<bar>b' - (t' - h)\<bar> \<le> 1/100000000000"
      using pos [OF jn] by blast
    have "(of_nat j + 1 :: rat) \<le> of_nat i" using j by (metis Suc_leI of_nat_Suc of_nat_le_iff add.commute)
    then have "(of_nat j + 1) * w \<le> I" unfolding I_def using w0(1) by (intro mult_right_mono)
    moreover have "(of_nat j + 1) * w = of_nat j * w + w" by (simp add: algebra_simps)
    ultimately have "t + 1/20 \<le> b'" using tb'(3,4) t w by linarith
    then show ?thesis using nth [OF jn] tb'(1,2) by simp
  qed
  with range nth [OF assms(2)] tb(1,2) show ?thesis unfolding g by simp
qed

theorem chart_bands_disjoint_witness:
  "num_lt (bd_top (bandFractions 4 (fl (6/100)) ! 1)) (bd_bottom (bandFractions 4 (fl (6/100)) ! 0))"
  using chart_bands_disjoint [of 4 1] by fastforce

end
