(* ===== verification/View_Base.thy ===== *)
theory View_Base
  imports Profile_Form Chart_Scale
begin

text \<open>
  What the views share: the state of a query as a component reads it, the texts of buttons and
  failures, URL search parameters, and the string functions of their filters. A view is modelled by
  what it shows and by what its controls do; markup and styling are left out, icons are named by
  the component that draws them. Strings are UTF-8.
\<close>

section \<open>Texts\<close>

definition em_dash :: string where "em_dash = [CHR 0xE2, CHR 0x80, CHR 0x94]"
definition en_dash :: string where "en_dash = [CHR 0xE2, CHR 0x80, CHR 0x93]"
definition ellipsis :: string where "ellipsis = [CHR 0xE2, CHR 0x80, CHR 0xA6]"
definition bullet :: string where "bullet = [CHR 0xE2, CHR 0x80, CHR 0xA2]"
definition times_sign :: string where "times_sign = [CHR 0xC3, CHR 0x97]"

text \<open>\<open>s.toLowerCase()\<close>: letters outside ASCII are left alone.\<close>

definition to_lower :: "string \<Rightarrow> string" where
  "to_lower = map (\<lambda>c. if char_in CHR ''A'' CHR ''Z'' c then char_of ((of_char c :: nat) + 32) else c)"

text \<open>\<open>s.includes(t)\<close>\<close>

fun starts_with :: "string \<Rightarrow> string \<Rightarrow> bool" where
  "starts_with t [] = True"
| "starts_with [] (p # ps) = False"
| "starts_with (c # cs) (p # ps) = (c = p \<and> starts_with cs ps)"

fun has_text :: "string \<Rightarrow> string \<Rightarrow> bool" where
  "has_text [] t = (t = [])"
| "has_text (c # cs) t = (starts_with (c # cs) t \<or> has_text cs t)"

text \<open>
  The default order of \<open>sort()\<close> compares UTF-16 units. On UTF-8 bytes this is the lexicographic
  order in which the lead bytes of the surrogate pairs come before those of U+E000 and above.
\<close>

definition unit_key :: "char \<Rightarrow> nat" where
  "unit_key c = (if c = CHR 0xEE \<or> c = CHR 0xEF then of_char c + 16 else of_char c)"

fun units_le :: "string \<Rightarrow> string \<Rightarrow> bool" where
  "units_le [] t = True"
| "units_le (c # cs) [] = False"
| "units_le (c # cs) (d # ds) = (unit_key c < unit_key d \<or> c = d \<and> units_le cs ds)"

fun insert_text :: "string \<Rightarrow> string list \<Rightarrow> string list" where
  "insert_text s [] = [s]"
| "insert_text s (u # us) = (if units_le s u then s # u # us else u # insert_text s us)"

definition sort_texts :: "string list \<Rightarrow> string list" where
  "sort_texts ss = foldr insert_text ss []"

section \<open>Queries, failures and gates\<close>

record 'a query_view =
  qv_data :: "'a option"
  qv_isLoading :: bool
  qv_isError :: bool
  qv_message :: "string option"

text \<open>\<open>query.data ?? []\<close>\<close>

definition data_or_empty :: "'a list query_view \<Rightarrow> 'a list" where
  "data_or_empty q = (case qv_data q of Some xs \<Rightarrow> xs | None \<Rightarrow> [])"

text \<open>
  \<open>error instanceof Error ? error.message : other\<close>. For an exception that is not an \<open>ApiError\<close> the
  caller passes its message, or the fallback.
\<close>

definition thrown_message :: "string \<Rightarrow> thrown \<Rightarrow> string" where
  "thrown_message other e = (case e of ApiError x \<Rightarrow> ae_message x | OtherThrown \<Rightarrow> other)"

definition toast_of :: "toast_variant \<Rightarrow> string \<Rightarrow> string \<Rightarrow> toast_input" where
  "toast_of v t m = \<lparr>ti_variant = Some v, ti_title = t, ti_message = Some m, ti_durationMs = None\<rparr>"

text \<open>The title of a button the role disables.\<close>

definition operator_only :: "bool \<Rightarrow> string option" where
  "operator_only isOperator = (if isOperator then None else Some ''Operator role required'')"

section \<open>Search parameters\<close>

text \<open>\<open>URLSearchParams\<close>: \<open>get\<close> reads the first pair of a name, \<open>delete\<close> drops every one.\<close>

definition param_get :: "search_params \<Rightarrow> string \<Rightarrow> string option" where
  "param_get ps k = map_of ps k"

definition param_delete :: "string \<Rightarrow> search_params \<Rightarrow> search_params" where
  "param_delete k ps = filter (\<lambda>p. fst p \<noteq> k) ps"

lemma param_get_delete [simp]: "param_get (param_delete k ps) k' = (if k' = k then None else param_get ps k')"
  by (induction ps) (auto simp: param_get_def param_delete_def)

lemma param_get_set [simp]: "param_get (search_set k v ps) k' = (if k' = k then Some v else param_get ps k')"
proof (induction k v ps rule: search_set.induct)
  case (2 k v a b ps)
  then show ?case using param_get_delete [of k ps k'] by (auto simp: param_get_def param_delete_def)
qed (simp add: param_get_def)

lemma starts_with_prefix: "starts_with s t \<longleftrightarrow> (\<exists>u. s = t @ u)"
  by (induction s t rule: starts_with.induct) auto

lemma has_text_infix: "has_text s t \<longleftrightarrow> (\<exists>u v. s = u @ t @ v)"
proof (induction s)
  case (Cons c cs)
  show ?case
  proof
    assume "has_text (c # cs) t"
    then consider "\<exists>v. c # cs = t @ v" | "\<exists>u v. cs = u @ t @ v" using Cons by (auto simp: starts_with_prefix)
    then show "\<exists>u v. c # cs = u @ t @ v" by cases (metis append_Nil, metis append_Cons)
  next
    assume "\<exists>u v. c # cs = u @ t @ v"
    then obtain u v where "c # cs = u @ t @ v" by blast
    then have "starts_with (c # cs) t \<or> (\<exists>u v. cs = u @ t @ v)" by (cases u) (auto simp: starts_with_prefix)
    then show "has_text (c # cs) t" using Cons by auto
  qed
qed simp

lemma set_sort_texts [simp]: "set (sort_texts ss) = set ss"
proof -
  have "set (insert_text s us) = insert s (set us)" for s us by (induction us) auto
  then show ?thesis by (induction ss) (simp_all add: sort_texts_def)
qed

end
