(* ===== verification/Profile_Library.thy ===== *)
theory Profile_Library
  imports View_Base
begin

text \<open>
  The crop-profile library (\<open>features/profiles\<close>): the summaries and target rows of a stage, the three
  panes, \<open>ProfileManagement\<close> as a state machine with its selection effect and its delete dialog, and
  the assignment panel of a greenhouse (\<open>features/greenhouse/ProfileAssignmentPanel.tsx\<close>).
\<close>

section \<open>Stage targets\<close>

definition fmt :: "(js_num \<Rightarrow> string) \<Rightarrow> js_num \<Rightarrow> string" where
  "fmt ns n = ns (round2 n)"

record climate_metric =
  cm_key :: scalar_setpoint_key
  cm_label :: string
  cm_unit :: string
  cm_icon :: string
  cm_colorVar :: string

definition climate_metric_of :: "scalar_setpoint_key \<Rightarrow> string \<Rightarrow> string \<Rightarrow> string \<Rightarrow> string \<Rightarrow> climate_metric" where
  "climate_metric_of k label u icon color = \<lparr>cm_key = k, cm_label = label, cm_unit = u, cm_icon = icon, cm_colorVar = color\<rparr>"

definition CLIMATE_METRICS :: "climate_metric list" where
  "CLIMATE_METRICS =
     [climate_metric_of TemperatureDayC (''Temp '' @ em_dash @ '' day'') deg_c ''ThermometerSun'' ''--chart-temperature'',
      climate_metric_of TemperatureNightC (''Temp '' @ em_dash @ '' night'') deg_c ''ThermometerSnowflake'' ''--chart-temperature'',
      climate_metric_of HumidityLowPct ''Humidity min'' ''% RH'' ''Droplets'' ''--chart-humidity'',
      climate_metric_of HumidityHighPct ''Humidity max'' ''% RH'' ''Droplets'' ''--chart-humidity'',
      climate_metric_of HumidityDeadbandPct ''Humidity deadband'' ''% RH'' ''Droplets'' ''--chart-humidity'',
      climate_metric_of VpdTargetKpa ''VPD target'' ''kPa'' ''Wind'' ''--chart-vpd'',
      climate_metric_of Co2TargetPpm (''CO'' @ sub_two @ '' target'') ''ppm'' ''Cloud'' ''--chart-co2'',
      climate_metric_of Co2VentInterlockThresholdPct (''CO'' @ sub_two @ '' vent interlock'') ''%'' ''Cloud'' ''--chart-co2'',
      climate_metric_of DliTargetMol ''DLI target'' (''mol/m'' @ [CHR 0xC2, CHR 0xB2] @ ''/d'') ''Sun'' ''--chart-par'']"

record climate_target_row =
  cr_key :: scalar_setpoint_key
  cr_label :: string
  cr_value :: string
  cr_unit :: string
  cr_icon :: string
  cr_colorVar :: string
  cr_range :: "string option"

definition climateTargetRows :: "(js_num \<Rightarrow> string) \<Rightarrow> setpoints \<Rightarrow> stage_bounds option \<Rightarrow> climate_target_row list" where
  "climateTargetRows ns t bs =
     map (\<lambda>m. \<lparr>cr_key = cm_key m, cr_label = cm_label m, cr_value = fmt ns (target_of (cm_key m) t), cr_unit = cm_unit m,
          cr_icon = cm_icon m, cr_colorVar = cm_colorVar m,
          cr_range = map_option (\<lambda>b. fmt ns (bound.min_v b) @ en_dash @ fmt ns (bound.max_v b))
            (Option.bind bs (\<lambda>b. stage_bounds.scalars b (cm_key m)))\<rparr>) CLIMATE_METRICS"

definition stageSummary :: "(js_num \<Rightarrow> string) \<Rightarrow> setpoints \<Rightarrow> (string \<times> string) list" where
  "stageSummary ns t =
     [(''Day/Night'', fmt ns (setpoints.temperatureDayC t) @ ''/'' @ fmt ns (setpoints.temperatureNightC t) @ '' '' @ deg_c),
      (''RH'', fmt ns (setpoints.humidityLowPct t) @ en_dash @ fmt ns (setpoints.humidityHighPct t) @ '' %''),
      (''VPD'', fmt ns (setpoints.vpdTargetKpa t) @ '' kPa''),
      (''CO'' @ sub_two, fmt ns (setpoints.co2TargetPpm t) @ '' ppm''),
      (''DLI'', fmt ns (setpoints.dliTargetMol t) @ '' mol'')]"

definition dayWindow :: "setpoints \<Rightarrow> string" where
  "dayWindow t = setpoints.dayStart t @ '' '' @ en_dash @ '' '' @ setpoints.dayEnd t"

text \<open>Each pattern is an alternation of literal texts (\<open>greens?\<close> matches where \<open>green\<close> occurs).\<close>

definition CROP_ICONS :: "(string list \<times> string) list" where
  "CROP_ICONS =
     [([''lettuce'', ''green'', ''spinach'', ''kale'', ''basil'', ''herb'', ''chard'', ''arugula'', ''leaf''], ''LeafyGreen''),
      ([''carrot'', ''radish'', ''beet'', ''turnip'', ''root''], ''Carrot''),
      ([''grape'', ''vine''], ''Grape''),
      ([''wheat'', ''grain'', ''barley'', ''rice'', ''corn'', ''maize'', ''oat''], ''Wheat''),
      ([''strawberr'', ''cherry'', ''berry''], ''Cherry'')]"

definition cropIcon :: "string \<Rightarrow> string" where
  "cropIcon crp =
     (case find (\<lambda>(words, icon). \<exists>w\<in>set words. has_text (to_lower crp) w) CROP_ICONS of
        Some (words, icon) \<Rightarrow> icon
      | None \<Rightarrow> ''Sprout'')"

section \<open>The panes\<close>

datatype targets_tab = ClimateTab | IrrigationTab

datatype targets_body =
    ClimateRows string "climate_target_row list"
  | NoZones
  | ZoneTable "string list list"

text \<open>A stepper shows where its buttons lead; a disabled one leads nowhere.\<close>

record targets_panel =
  tp_stage :: string
  tp_previous :: "nat option"
  tp_next :: "nat option"
  tp_counter :: string
  tp_irrigation_tab :: string
  tp_body :: targets_body

definition zone_row :: "(js_num \<Rightarrow> string) \<Rightarrow> zone_targets \<Rightarrow> string list" where
  "zone_row ns z = [zone_targets.zoneId z, fmt ns (moistureLowThreshold z), fmt ns (moistureHighThreshold z),
     fmt ns (drainPeriodSecs z) @ ''s'', zone_targets.sched z]"

definition StageTargetsPanel :: "(js_num \<Rightarrow> string) \<Rightarrow> targets_tab \<Rightarrow> profile_stage \<Rightarrow> nat \<Rightarrow> nat \<Rightarrow> targets_panel" where
  "StageTargetsPanel ns tab st index stages_n =
     (let zs = setpoints.zones (profile_stage.targets st)
      in \<lparr>tp_stage = profile_stage.stage st,
          tp_previous = (if index = 0 then None else Some (index - 1)),
          tp_next = (if stages_n \<le> index + 1 then None else Some (index + 1)),
          tp_counter = nat_string (index + 1) @ '' / '' @ nat_string stages_n,
          tp_irrigation_tab = ''Irrigation'' @ (if zs = [] then [] else '' ('' @ nat_string (length zs) @ '')''),
          tp_body = (case tab of
              ClimateTab \<Rightarrow> ClimateRows (dayWindow (profile_stage.targets st))
                (climateTargetRows ns (profile_stage.targets st) (profile_stage.bounds st))
            | IrrigationTab \<Rightarrow> if zs = [] then NoZones else ZoneTable (map (zone_row ns) zs))\<rparr>)"

definition stage_count_text :: "crop_profile \<Rightarrow> string" where
  "stage_count_text p =
     (let n = length (crop_profile.stages p) in nat_string n @ (if n = 1 then '' stage'' else '' stages''))"

record stage_item =
  si_number :: nat
  si_stage :: string
  si_window :: string
  si_chips :: "(string \<times> string) list"
  si_selected :: bool

record stages_panel =
  sp_name :: string
  sp_crop :: string
  sp_count :: string
  sp_actions_disabled :: bool
  sp_actions_title :: "string option"
  sp_items :: "stage_item list"

definition ProfileStagesPanel :: "(js_num \<Rightarrow> string) \<Rightarrow> crop_profile \<Rightarrow> nat \<Rightarrow> bool \<Rightarrow> stages_panel" where
  "ProfileStagesPanel ns p sel canEdit =
     \<lparr>sp_name = crop_profile.name p, sp_crop = crop_profile.crop p, sp_count = stage_count_text p,
      sp_actions_disabled = (\<not> canEdit), sp_actions_title = operator_only canEdit,
      sp_items = map (\<lambda>(i, st). \<lparr>si_number = i + 1, si_stage = profile_stage.stage st,
          si_window = dayWindow (profile_stage.targets st), si_chips = stageSummary ns (profile_stage.targets st),
          si_selected = (i = sel)\<rparr>) (enumerate 0 (crop_profile.stages p))\<rparr>"

record library_row =
  lr_id :: string
  lr_icon :: string
  lr_name :: string
  lr_crop :: string
  lr_count :: string
  lr_selected :: bool

definition ProfileList :: "crop_profile list \<Rightarrow> string option \<Rightarrow> library_row list" where
  "ProfileList ps sel =
     map (\<lambda>p. \<lparr>lr_id = crop_profile.ident p, lr_icon = cropIcon (crop_profile.crop p), lr_name = crop_profile.name p,
          lr_crop = crop_profile.crop p, lr_count = stage_count_text p, lr_selected = (Some (crop_profile.ident p) = sel)\<rparr>) ps"

section \<open>ProfileManagement\<close>

datatype editing = NotEditing | NewProfile | EditingProfile crop_profile

record library_view =
  pm_query :: "crop_profile list query_view"
  pm_operator :: bool
  pm_editing :: editing
  pm_deleting :: "crop_profile option"
  pm_search :: string
  pm_cropFilter :: string
  pm_selectedId :: "string option"
  pm_stageIndex :: nat
  pm_removing :: "crop_profile option"
  pm_removed :: "string list"
  pm_toasts :: "toast_input list"

definition library_of :: "library_view \<Rightarrow> crop_profile list" where
  "library_of s = data_or_empty (pm_query s)"

definition crops_of :: "library_view \<Rightarrow> string list" where
  "crops_of s = sort_texts (set_from (map crop_profile.crop (library_of s)))"

definition profile_matches :: "string \<Rightarrow> string \<Rightarrow> crop_profile \<Rightarrow> bool" where
  "profile_matches srch cropFilter p \<longleftrightarrow>
     (let needle = to_lower (trim srch)
      in (needle = [] \<or> has_text (to_lower (crop_profile.name p)) needle \<or> has_text (to_lower (crop_profile.crop p)) needle)
         \<and> (cropFilter = [] \<or> crop_profile.crop p = cropFilter))"

definition filtered_profiles :: "library_view \<Rightarrow> crop_profile list" where
  "filtered_profiles s = filter (profile_matches (pm_search s) (pm_cropFilter s)) (library_of s)"

text \<open>The selection effect; \<open>\<not> selectedProfileId\<close> holds of the empty id too.\<close>

definition keep_selection :: "library_view \<Rightarrow> library_view" where
  "keep_selection s =
     (let f = filtered_profiles s
      in if f = [] then s
         else if pm_selectedId s = None \<or> pm_selectedId s = Some [] \<or> pm_selectedId s \<notin> set (map (Some \<circ> crop_profile.ident) f)
         then s\<lparr>pm_selectedId := Some (crop_profile.ident (hd f)), pm_stageIndex := 0\<rparr>
         else s)"

definition selectedProfile :: "library_view \<Rightarrow> crop_profile option" where
  "selectedProfile s = find (\<lambda>p. Some (crop_profile.ident p) = pm_selectedId s) (filtered_profiles s)"

definition stage_total :: "library_view \<Rightarrow> nat" where
  "stage_total s = (case selectedProfile s of Some p \<Rightarrow> length (crop_profile.stages p) | None \<Rightarrow> 0)"

definition shown_stage :: "library_view \<Rightarrow> nat" where
  "shown_stage s = min (pm_stageIndex s) (stage_total s - 1)"

definition selectedStage :: "library_view \<Rightarrow> profile_stage option" where
  "selectedStage s = Option.bind (selectedProfile s) (\<lambda>p.
     if shown_stage s < length (crop_profile.stages p) then Some (crop_profile.stages p ! shown_stage s) else None)"

text \<open>What is rendered below the toolbar.\<close>

datatype library_body =
    LoadingPanes
  | LoadError "string option"
  | EmptyLibrary
  | Panes "library_row list" "stages_panel option" "targets_panel option"

definition library_body_of :: "(js_num \<Rightarrow> string) \<Rightarrow> targets_tab \<Rightarrow> library_view \<Rightarrow> library_body" where
  "library_body_of ns tab s =
     (if qv_isLoading (pm_query s) then LoadingPanes
      else if qv_isError (pm_query s) then LoadError (qv_message (pm_query s))
      else if library_of s = [] then EmptyLibrary
      else Panes (ProfileList (filtered_profiles s) (map_option crop_profile.ident (selectedProfile s)))
        (map_option (\<lambda>p. ProfileStagesPanel ns p (shown_stage s) (pm_operator s)) (selectedProfile s))
        (map_option (\<lambda>st. StageTargetsPanel ns tab st (shown_stage s) (stage_total s)) (selectedStage s)))"

definition editor_title :: "editing \<Rightarrow> string" where
  "editor_title e = (case e of EditingProfile p \<Rightarrow> ''Edit '' @ crop_profile.name p | _ \<Rightarrow> ''New crop profile'')"

definition delete_description :: "crop_profile option \<Rightarrow> string option" where
  "delete_description p = map_option (\<lambda>p. crop_profile.name p @ '' will be removed from the library.'') p"

definition delete_error_text :: "string \<Rightarrow> thrown \<Rightarrow> string" where
  "delete_error_text other e =
     (case e of
        ApiError x \<Rightarrow> if ae_kind x = ValidationErr
          then ''This profile is assigned to a greenhouse '' @ em_dash @ '' reassign it first.'' else thrown_message other e
      | OtherThrown \<Rightarrow> thrown_message other e)"

datatype library_event =
    Fetched "crop_profile list query_view" | RoleChange bool
  | Search string | FilterCrop string | SelectProfile string | SelectStage nat
  | PressNew | PressEdit | PressDelete | CloseEditor | CloseDelete
  | ConfirmDelete | Deleted | DeleteFailed thrown

text \<open>
  The handlers. A row can only be pressed where it is rendered, and the buttons of a disabled
  control do nothing. The callbacks of a delete speak of the profile it was started for.
\<close>

fun library_handler :: "string \<Rightarrow> library_event \<Rightarrow> library_view \<Rightarrow> library_view" where
  "library_handler other (Fetched q) s = s\<lparr>pm_query := q\<rparr>"
| "library_handler other (RoleChange b) s = s\<lparr>pm_operator := b\<rparr>"
| "library_handler other (Search t) s = s\<lparr>pm_search := t\<rparr>"
| "library_handler other (FilterCrop c) s = s\<lparr>pm_cropFilter := c\<rparr>"
| "library_handler other (SelectProfile i) s =
     (if i \<in> set (map crop_profile.ident (filtered_profiles s)) then s\<lparr>pm_selectedId := Some i, pm_stageIndex := 0\<rparr> else s)"
| "library_handler other (SelectStage n) s = (if n < stage_total s then s\<lparr>pm_stageIndex := n\<rparr> else s)"
| "library_handler other PressNew s = (if pm_operator s then s\<lparr>pm_editing := NewProfile\<rparr> else s)"
| "library_handler other PressEdit s =
     (case selectedProfile s of Some p \<Rightarrow> if pm_operator s then s\<lparr>pm_editing := EditingProfile p\<rparr> else s | None \<Rightarrow> s)"
| "library_handler other PressDelete s =
     (case selectedProfile s of Some p \<Rightarrow> if pm_operator s then s\<lparr>pm_deleting := Some p\<rparr> else s | None \<Rightarrow> s)"
| "library_handler other CloseEditor s = s\<lparr>pm_editing := NotEditing\<rparr>"
| "library_handler other CloseDelete s = s\<lparr>pm_deleting := None\<rparr>"
| "library_handler other ConfirmDelete s =
     (case pm_deleting s of
        Some p \<Rightarrow> if pm_removing s = None
          then s\<lparr>pm_removing := Some p, pm_removed := pm_removed s @ [crop_profile.ident p]\<rparr> else s
      | None \<Rightarrow> s)"
| "library_handler other Deleted s =
     (case pm_removing s of
        Some p \<Rightarrow> s\<lparr>pm_removing := None, pm_deleting := None,
          pm_toasts := pm_toasts s @ [toast_of SuccessToast ''Profile deleted'' (crop_profile.name p)]\<rparr>
      | None \<Rightarrow> s)"
| "library_handler other (DeleteFailed e) s =
     (case pm_removing s of
        Some p \<Rightarrow> s\<lparr>pm_removing := None, pm_deleting := None,
          pm_toasts := pm_toasts s @ [toast_of WarningToast ''Couldn't delete profile'' (delete_error_text other e)]\<rparr>
      | None \<Rightarrow> s)"

text \<open>An event is handled and the component renders; the selection effect runs after the render.\<close>

definition library_step :: "string \<Rightarrow> library_view \<Rightarrow> library_event \<Rightarrow> library_view" where
  "library_step other s e = keep_selection (library_handler other e s)"

definition library_start :: "bool \<Rightarrow> crop_profile list query_view \<Rightarrow> library_view" where
  "library_start isOperator q = keep_selection
     \<lparr>pm_query = q, pm_operator = isOperator, pm_editing = NotEditing, pm_deleting = None, pm_search = [], pm_cropFilter = [],
      pm_selectedId = None, pm_stageIndex = 0, pm_removing = None, pm_removed = [], pm_toasts = []\<rparr>"

definition library_run :: "string \<Rightarrow> bool \<Rightarrow> crop_profile list query_view \<Rightarrow> library_event list \<Rightarrow> library_view" where
  "library_run other isOperator q es = foldl (library_step other) (library_start isOperator q) es"

section \<open>The assignment panel\<close>

record assignment_panel =
  ap_library :: "crop_profile list"
  ap_current :: "assignment option"
  ap_operator :: bool
  ap_profileId :: string
  ap_stage :: string
  ap_pending :: bool
  ap_sent :: "assignment_input list"
  ap_toasts :: "toast_input list"

definition ap_stages :: "assignment_panel \<Rightarrow> profile_stage list" where
  "ap_stages s =
     (case find (\<lambda>p. crop_profile.ident p = ap_profileId s) (ap_library s) of
        Some p \<Rightarrow> crop_profile.stages p
      | None \<Rightarrow> [])"

text \<open>
  One commit: the effects run with the values of its render. The first runs where the assignment or
  the library changed; the second where the stages or the stage did, and does nothing otherwise
  because it has already run for them. Its write comes last.
\<close>

definition seed_selectors :: "assignment_panel \<Rightarrow> assignment_panel" where
  "seed_selectors s =
     (case ap_current s of
        Some a \<Rightarrow> s\<lparr>ap_profileId := assignment.profileId a, ap_stage := assignment.stage a\<rparr>
      | None \<Rightarrow>
          if ap_library s = [] then s
          else s\<lparr>ap_profileId := (if ap_profileId s = [] then crop_profile.ident (hd (ap_library s)) else ap_profileId s)\<rparr>)"

definition commit :: "bool \<Rightarrow> assignment_panel \<Rightarrow> assignment_panel" where
  "commit loaded s =
     (let s1 = (if loaded then seed_selectors s else s)
      in if ap_stages s \<noteq> [] \<and> ap_stage s \<notin> set (map profile_stage.stage (ap_stages s))
         then s1\<lparr>ap_stage := profile_stage.stage (hd (ap_stages s))\<rparr> else s1)"

text \<open>The effects of a commit cause another render until nothing changes: at most two.\<close>

definition settle :: "bool \<Rightarrow> assignment_panel \<Rightarrow> assignment_panel" where
  "settle loaded s = commit False (commit loaded s)"

definition assignment_unchanged :: "assignment_panel \<Rightarrow> bool" where
  "assignment_unchanged s \<longleftrightarrow>
     (case ap_current s of Some a \<Rightarrow> assignment.profileId a = ap_profileId s \<and> assignment.stage a = ap_stage s | None \<Rightarrow> False)"

definition apply_disabled :: "assignment_panel \<Rightarrow> bool" where
  "apply_disabled s \<longleftrightarrow> ap_pending s \<or> assignment_unchanged s \<or> ap_profileId s = [] \<or> ap_stage s = [] \<or> \<not> ap_operator s"

definition assign_error_text :: "string \<Rightarrow> thrown \<Rightarrow> string" where
  "assign_error_text other e =
     (case e of
        ApiError x \<Rightarrow> (case ae_validation x of Some d \<Rightarrow> vd_field d @ '': '' @ vd_bound d | None \<Rightarrow> ae_message x)
      | OtherThrown \<Rightarrow> other)"

datatype panel_event =
    PanelData "crop_profile list" "assignment option" bool
  | PickProfile string | PickStage string | PressApply | Assigned | AssignFailed thrown

fun panel_handler :: "string \<Rightarrow> panel_event \<Rightarrow> assignment_panel \<Rightarrow> assignment_panel" where
  "panel_handler other (PanelData lib cur b) s = s\<lparr>ap_library := lib, ap_current := cur, ap_operator := b\<rparr>"
| "panel_handler other (PickProfile i) s =
     (if i \<in> set (map crop_profile.ident (ap_library s)) then s\<lparr>ap_profileId := i\<rparr> else s)"
| "panel_handler other (PickStage t) s =
     (if t \<in> set (map profile_stage.stage (ap_stages s)) then s\<lparr>ap_stage := t\<rparr> else s)"
| "panel_handler other PressApply s =
     (if ap_library s = [] \<or> apply_disabled s then s
      else s\<lparr>ap_pending := True,
        ap_sent := ap_sent s @ [\<lparr>assignment_input.profileId = ap_profileId s, stage = ap_stage s\<rparr>]\<rparr>)"
| "panel_handler other Assigned s =
     (if ap_pending s
      then s\<lparr>ap_pending := False, ap_toasts := ap_toasts s @ [toast_of SuccessToast ''Profile assigned''
        (assignment_input.profileId (last (ap_sent s)) @ '' - '' @ assignment_input.stage (last (ap_sent s)))]\<rparr>
      else s)"
| "panel_handler other (AssignFailed e) s =
     (if ap_pending s
      then s\<lparr>ap_pending := False, ap_toasts := ap_toasts s @ [toast_of WarningToast ''Couldn't assign profile'' (assign_error_text other e)]\<rparr>
      else s)"

text \<open>The data effect runs only where the fetched values changed.\<close>

definition panel_step :: "string \<Rightarrow> assignment_panel \<Rightarrow> panel_event \<Rightarrow> assignment_panel" where
  "panel_step other s e =
     (let s1 = panel_handler other e s
      in settle (ap_library s1 \<noteq> ap_library s \<or> ap_current s1 \<noteq> ap_current s) s1)"

definition panel_start :: assignment_panel where
  "panel_start = \<lparr>ap_library = [], ap_current = None, ap_operator = False, ap_profileId = [], ap_stage = [],
     ap_pending = False, ap_sent = [], ap_toasts = []\<rparr>"

definition panel_run :: "string \<Rightarrow> panel_event list \<Rightarrow> assignment_panel" where
  "panel_run other es = foldl (panel_step other) panel_start es"

definition panel_text :: "assignment_panel \<Rightarrow> string" where
  "panel_text s = (case ap_current s of
     Some a \<Rightarrow> ''Assigned: '' @ assignment.profileId a @ '' - '' @ assignment.stage a | None \<Rightarrow> ''No profile assigned.'')"

text \<open>
  The two selects, rendered when the library is not empty: the \<open>value\<close> they are given and the
  values of their options. Which option a select shows for a value is up to React.
\<close>

definition profile_select :: "assignment_panel \<Rightarrow> string \<times> string list" where
  "profile_select s = (ap_profileId s, map crop_profile.ident (ap_library s))"

definition stage_select :: "assignment_panel \<Rightarrow> string \<times> string list" where
  "stage_select s = (ap_stage s, map profile_stage.stage (ap_stages s))"

section \<open>Lemmas: the library\<close>

lemma find_member: "\<exists>x\<in>set xs. P x \<Longrightarrow> \<exists>x\<in>set xs. find P xs = Some x \<and> P x"
  by (induction xs) auto

lemma keep_selection_parts [simp]:
  "pm_query (keep_selection s) = pm_query s" "pm_search (keep_selection s) = pm_search s"
  "pm_cropFilter (keep_selection s) = pm_cropFilter s" "filtered_profiles (keep_selection s) = filtered_profiles s"
  by (auto simp: keep_selection_def Let_def filtered_profiles_def library_of_def)

lemma selection_found:
  assumes "filtered_profiles s \<noteq> []"
  shows "\<exists>p\<in>set (filtered_profiles s). selectedProfile (keep_selection s) = Some p"
proof -
  have "\<exists>p\<in>set (filtered_profiles s). Some (crop_profile.ident p) = pm_selectedId (keep_selection s)"
    using assms by (auto simp: keep_selection_def Let_def)
  from find_member [OF this] show ?thesis unfolding selectedProfile_def by auto
qed

lemma selected_stage_shown:
  assumes "selectedProfile s = Some p" "crop_profile.stages p \<noteq> []"
  shows "shown_stage s < length (crop_profile.stages p)" "selectedStage s = Some (crop_profile.stages p ! shown_stage s)"
proof -
  show "shown_stage s < length (crop_profile.stages p)" using assms by (simp add: shown_stage_def stage_total_def min_less_iff_disj)
  then show "selectedStage s = Some (crop_profile.stages p ! shown_stage s)" using assms by (simp add: selectedStage_def)
qed

lemma library_run_settled: "\<exists>s. library_run other isOperator q es = keep_selection s"
  by (cases es rule: rev_cases) (auto simp: library_run_def library_step_def library_start_def)

text \<open>
  C28: the selection of the profile library. Whatever the fetches, searches and presses, as long as
  some profile is visible one of the visible ones is selected, and unless it has no stages one of
  its stages is shown, with a stepper that leads to the neighbouring stages only. A refetch, a
  search or a filter moves the selection and the stage only when it hides the selected profile.
\<close>

theorem profile_selection_valid:
  assumes "s = library_run other isOperator q es"
  shows "(filtered_profiles s \<noteq> [] \<longrightarrow> (\<exists>p\<in>set (filtered_profiles s). selectedProfile s = Some p \<and>
       (crop_profile.stages p \<noteq> [] \<longrightarrow> shown_stage s < length (crop_profile.stages p)
          \<and> selectedStage s = Some (crop_profile.stages p ! shown_stage s)
          \<and> (\<forall>n. tp_previous (StageTargetsPanel ns tab st (shown_stage s) (stage_total s)) = Some n
                \<longleftrightarrow> shown_stage s = n + 1)
          \<and> (\<forall>n. tp_next (StageTargetsPanel ns tab st (shown_stage s) (stage_total s)) = Some n
                \<longleftrightarrow> n = shown_stage s + 1 \<and> n < length (crop_profile.stages p)))))
     \<and> ((e = Search t \<or> e = FilterCrop t \<or> e = Fetched r) \<and> pm_selectedId s = Some i \<and> i \<noteq> []
        \<and> i \<in> crop_profile.ident ` set (filtered_profiles (library_handler other e s))
       \<longrightarrow> pm_selectedId (library_step other s e) = Some i \<and> pm_stageIndex (library_step other s e) = pm_stageIndex s)"
proof (rule conjI; rule impI)
  assume f: "filtered_profiles s \<noteq> []"
  obtain s0 where s0: "s = keep_selection s0" using library_run_settled assms by metis
  with f have "filtered_profiles s0 \<noteq> []" by simp
  from selection_found [OF this] obtain p where p: "p \<in> set (filtered_profiles s)" "selectedProfile s = Some p"
    by (auto simp: s0)
  have total: "stage_total s = length (crop_profile.stages p)" using p(2) by (simp add: stage_total_def)
  have nav: "(\<forall>n. tp_previous (StageTargetsPanel ns tab st k m) = Some n \<longleftrightarrow> k = n + 1)
      \<and> (\<forall>n. tp_next (StageTargetsPanel ns tab st k m) = Some n \<longleftrightarrow> n = k + 1 \<and> n < m)" for k m
    by (auto simp: StageTargetsPanel_def Let_def)
  show "\<exists>p\<in>set (filtered_profiles s). selectedProfile s = Some p \<and>
       (crop_profile.stages p \<noteq> [] \<longrightarrow> shown_stage s < length (crop_profile.stages p)
          \<and> selectedStage s = Some (crop_profile.stages p ! shown_stage s)
          \<and> (\<forall>n. tp_previous (StageTargetsPanel ns tab st (shown_stage s) (stage_total s)) = Some n
                \<longleftrightarrow> shown_stage s = n + 1)
          \<and> (\<forall>n. tp_next (StageTargetsPanel ns tab st (shown_stage s) (stage_total s)) = Some n
                \<longleftrightarrow> n = shown_stage s + 1 \<and> n < length (crop_profile.stages p)))"
    using p selected_stage_shown [OF p(2)] nav unfolding total by blast
next
  assume "(e = Search t \<or> e = FilterCrop t \<or> e = Fetched r) \<and> pm_selectedId s = Some i \<and> i \<noteq> []
    \<and> i \<in> crop_profile.ident ` set (filtered_profiles (library_handler other e s))"
  then have e: "e = Search t \<or> e = FilterCrop t \<or> e = Fetched r" and i: "pm_selectedId s = Some i" "i \<noteq> []"
    and v: "i \<in> crop_profile.ident ` set (filtered_profiles (library_handler other e s))" by blast+
  let ?h = "library_handler other e s"
  have "pm_selectedId ?h = Some i" "pm_stageIndex ?h = pm_stageIndex s" using e i by auto
  with v i(2) show "pm_selectedId (library_step other s e) = Some i \<and> pm_stageIndex (library_step other s e) = pm_stageIndex s"
    by (auto simp: library_step_def keep_selection_def Let_def)
qed

section \<open>Lemmas: the assignment panel\<close>

definition stage_fits :: "assignment_panel \<Rightarrow> bool" where
  "stage_fits s \<longleftrightarrow> ap_stages s = [] \<or> ap_stage s \<in> set (map profile_stage.stage (ap_stages s))"

lemma commit_stages: "ap_stages (commit False s) = ap_stages s"
  by (simp add: commit_def ap_stages_def)

lemma commit_fits: "stage_fits (commit False s)"
  using commit_stages [of s] by (auto simp: stage_fits_def commit_def hd_in_set)

text \<open>The second commit leaves nothing to do: the effects end.\<close>

lemma settle_stable: "commit False (settle loaded s) = settle loaded s"
  using commit_fits [of "commit loaded s"] by (auto simp: settle_def commit_def [of _ "commit False _"] stage_fits_def)

lemma settle_parts [simp]:
  "ap_sent (settle l s) = ap_sent s" "ap_library (settle l s) = ap_library s" "ap_operator (settle l s) = ap_operator s"
proof -
  have "ap_sent (commit l s) = ap_sent s \<and> ap_library (commit l s) = ap_library s \<and> ap_operator (commit l s) = ap_operator s" for l s
    by (simp add: commit_def seed_selectors_def Let_def split: option.split)
  then show "ap_sent (settle l s) = ap_sent s" "ap_library (settle l s) = ap_library s" "ap_operator (settle l s) = ap_operator s"
    by (simp_all add: settle_def)
qed

lemma panel_run_fits: "stage_fits (panel_run other es)"
proof (cases es rule: rev_cases)
  case Nil
  then show ?thesis by (simp add: panel_run_def panel_start_def stage_fits_def ap_stages_def)
next
  case (snoc es' e)
  then show ?thesis by (simp add: panel_run_def panel_step_def Let_def settle_def commit_fits)
qed

lemma sent_by_apply:
  "ap_sent (panel_step other s e) =
     (if e = PressApply \<and> ap_library s \<noteq> [] \<and> \<not> apply_disabled s
      then ap_sent s @ [\<lparr>assignment_input.profileId = ap_profileId s, stage = ap_stage s\<rparr>] else ap_sent s)"
  by (cases e) (auto simp: panel_step_def Let_def)

definition one_stage_profile :: crop_profile where
  "one_stage_profile = \<lparr>crop_profile.ident = ''b'', name = ''Basil'', crop = ''basil'',
     stages = [\<lparr>profile_stage.stage = ''v'', targets = defaultTargets, bounds = None\<rparr>]\<rparr>"

definition bare_profile :: crop_profile where
  "bare_profile = \<lparr>crop_profile.ident = ''a'', name = [], crop = [], stages = []\<rparr>"

text \<open>The selected profile leaves the library, and Apply sends it.\<close>

lemma orphan_assignment_sent:
  "panel_run other [PanelData [bare_profile, one_stage_profile] None True, PickProfile ''b'', PanelData [bare_profile] None True, PressApply]
   = \<lparr>ap_library = [bare_profile], ap_current = None, ap_operator = True, ap_profileId = ''b'', ap_stage = ''v'', ap_pending = True,
      ap_sent = [\<lparr>assignment_input.profileId = ''b'', stage = ''v''\<rparr>], ap_toasts = []\<rparr>"
proof -
  note defs = panel_step_def panel_start_def settle_def commit_def seed_selectors_def ap_stages_def bare_profile_def
    one_stage_profile_def apply_disabled_def assignment_unchanged_def
  let ?s = "\<lambda>lib i t. \<lparr>ap_library = lib, ap_current = None, ap_operator = True, ap_profileId = i, ap_stage = t, ap_pending = False,
      ap_sent = [], ap_toasts = []\<rparr>"
  have 1: "panel_step other panel_start (PanelData [bare_profile, one_stage_profile] None True) = ?s [bare_profile, one_stage_profile] ''a'' []"
    by (simp add: defs)
  have 2: "panel_step other (?s [bare_profile, one_stage_profile] ''a'' []) (PickProfile ''b'') = ?s [bare_profile, one_stage_profile] ''b'' ''v''"
    by (simp add: defs)
  have 3: "panel_step other (?s [bare_profile, one_stage_profile] ''b'' ''v'') (PanelData [bare_profile] None True) = ?s [bare_profile] ''b'' ''v''"
    by (simp add: defs)
  show ?thesis unfolding panel_run_def foldl_Cons foldl_Nil 1 2 3 by (simp add: defs)
qed

text \<open>
  C29: what the assignment panel sends and what it shows. A select shows the option with its
  value where there is one, and otherwise some option or nothing. Whatever happened before, only
  Apply pressed by an operator sends an assignment, one at a time and only one that differs from
  the current assignment. The profile it sends is the one the select shows exactly when it is in
  the library, and the stage it sends is the one shown exactly when that profile has stages. The
  panel does not move off a profile that leaves the library, though: there is a history after which
  Apply sends a profile that is not the one shown, because it no longer exists.
\<close>

theorem assignment_sends_shown:
  assumes select: "\<forall>v opts. (v \<in> set opts \<longrightarrow> shows v opts = Some v) \<and> set_option (shows v opts) \<subseteq> set opts"
    and "s = panel_run other es"
  shows "(ap_sent (panel_step other s e) \<noteq> ap_sent s \<longrightarrow>
       e = PressApply \<and> ap_operator s \<and> \<not> ap_pending s
       \<and> (\<exists>a. ap_sent (panel_step other s e) = ap_sent s @ [a]
          \<and> (\<forall>c. ap_current s = Some c \<longrightarrow> (assignment.profileId c, assignment.stage c) \<noteq> (assignment_input.profileId a, assignment_input.stage a))
          \<and> (case_prod shows (profile_select s) = Some (assignment_input.profileId a)
               \<longleftrightarrow> assignment_input.profileId a \<in> crop_profile.ident ` set (ap_library s))
          \<and> (case_prod shows (stage_select s) = Some (assignment_input.stage a)
               \<longleftrightarrow> (\<exists>p. find (\<lambda>p. crop_profile.ident p = assignment_input.profileId a) (ap_library s) = Some p
                     \<and> crop_profile.stages p \<noteq> []))))
     \<and> (\<exists>es a. ap_sent (panel_run other es) = [a]
         \<and> assignment_input.profileId a \<notin> crop_profile.ident ` set (ap_library (panel_run other es))
         \<and> case_prod shows (profile_select (panel_run other es)) \<noteq> Some (assignment_input.profileId a))"
proof (intro conjI [of "_ \<longrightarrow> _"] impI [of "_ \<noteq> _"])
  have shown: "v \<in> set opts \<Longrightarrow> shows v opts = Some v" "shows v opts = Some w \<Longrightarrow> w \<in> set opts" for v opts w
    using select by fastforce+
  assume "ap_sent (panel_step other s e) \<noteq> ap_sent s"
  then have sent: "e = PressApply" "ap_operator s" "\<not> ap_pending s"
    "ap_sent (panel_step other s e) = ap_sent s @ [\<lparr>assignment_input.profileId = ap_profileId s, stage = ap_stage s\<rparr>]"
    "\<forall>c. ap_current s = Some c \<longrightarrow> (assignment.profileId c, assignment.stage c) \<noteq> (ap_profileId s, ap_stage s)"
    by (auto simp: sent_by_apply apply_disabled_def assignment_unchanged_def split: if_splits)
  have pr: "case_prod shows (profile_select s) = Some (ap_profileId s) \<longleftrightarrow> ap_profileId s \<in> crop_profile.ident ` set (ap_library s)"
    using shown [of "ap_profileId s" "map crop_profile.ident (ap_library s)"] by (auto simp: profile_select_def)
  have "case_prod shows (stage_select s) = Some (ap_stage s) \<longleftrightarrow> ap_stages s \<noteq> []"
    using shown [of "ap_stage s" "map profile_stage.stage (ap_stages s)"] panel_run_fits [of other es]
    unfolding assms(2) [symmetric] stage_fits_def by (auto simp: stage_select_def)
  then have st: "case_prod shows (stage_select s) = Some (ap_stage s)
      \<longleftrightarrow> (\<exists>p. find (\<lambda>p. crop_profile.ident p = ap_profileId s) (ap_library s) = Some p \<and> crop_profile.stages p \<noteq> [])"
    by (auto simp: ap_stages_def split: option.splits)
  show "e = PressApply \<and> ap_operator s \<and> \<not> ap_pending s
       \<and> (\<exists>a. ap_sent (panel_step other s e) = ap_sent s @ [a]
          \<and> (\<forall>c. ap_current s = Some c \<longrightarrow> (assignment.profileId c, assignment.stage c) \<noteq> (assignment_input.profileId a, assignment_input.stage a))
          \<and> (case_prod shows (profile_select s) = Some (assignment_input.profileId a)
               \<longleftrightarrow> assignment_input.profileId a \<in> crop_profile.ident ` set (ap_library s))
          \<and> (case_prod shows (stage_select s) = Some (assignment_input.stage a)
               \<longleftrightarrow> (\<exists>p. find (\<lambda>p. crop_profile.ident p = assignment_input.profileId a) (ap_library s) = Some p
                     \<and> crop_profile.stages p \<noteq> [])))"
    unfolding sent(4)
    by (intro conjI sent(1-3) exI [of _ "\<lparr>assignment_input.profileId = ap_profileId s, stage = ap_stage s\<rparr>"])
      (simp_all only: assignment_input.simps pr st simp_thms, rule sent(5))
next
  have shown: "shows v opts = Some w \<Longrightarrow> w \<in> set opts" for v opts w
    using select by fastforce
  define a where "a = bare_profile"
  let ?es = "[PanelData [a, one_stage_profile] None True, PickProfile ''b'', PanelData [a] None True, PressApply]"
  have run: "ap_sent (panel_run other ?es) = [\<lparr>assignment_input.profileId = ''b'', stage = ''v''\<rparr>]"
    "ap_library (panel_run other ?es) = [a]"
    using orphan_assignment_sent [of other] unfolding a_def by simp_all
  have "case_prod shows (profile_select (panel_run other ?es)) \<noteq> Some ''b''"
  proof
    assume "case_prod shows (profile_select (panel_run other ?es)) = Some ''b''"
    then have "''b'' \<in> set (map crop_profile.ident (ap_library (panel_run other ?es)))"
      by (intro shown) (simp only: profile_select_def prod.case)
    then show False unfolding run(2) by (simp add: a_def bare_profile_def)
  qed
  then show "\<exists>es a. ap_sent (panel_run other es) = [a]
         \<and> assignment_input.profileId a \<notin> crop_profile.ident ` set (ap_library (panel_run other es))
         \<and> case_prod shows (profile_select (panel_run other es)) \<noteq> Some (assignment_input.profileId a)"
    by (intro exI [of _ ?es] exI [of _ "\<lparr>assignment_input.profileId = ''b'', stage = ''v''\<rparr>"] conjI run(1))
      (simp_all only: run(2) assignment_input.simps not_False_eq_True, simp add: a_def bare_profile_def)
qed

text \<open>What browsers do: an unknown value shows the first option.\<close>

definition first_option_shown :: "string \<Rightarrow> string list \<Rightarrow> string option" where
  "first_option_shown v opts = (if v \<in> set opts then Some v else case opts of [] \<Rightarrow> None | w # ws \<Rightarrow> Some w)"

lemma first_option_shown_laws:
  "\<forall>v opts. (v \<in> set opts \<longrightarrow> first_option_shown v opts = Some v) \<and> set_option (first_option_shown v opts) \<subseteq> set opts"
  by (auto simp: first_option_shown_def split: list.splits)

theorem profile_selection_valid_witness:
  "selectedProfile (library_run [] True \<lparr>qv_data = Some [one_stage_profile], qv_isLoading = False, qv_isError = False, qv_message = None\<rparr>
     [Search ''BAS'']) = Some one_stage_profile"
proof -
  let ?q = "\<lparr>qv_data = Some [one_stage_profile], qv_isLoading = False, qv_isError = False, qv_message = None\<rparr>"
  have lower: "to_lower ''BAS'' = ''bas''" "to_lower ''Basil'' = ''basil''" by code_simp+
  have f: "filtered_profiles (library_run [] True ?q [Search ''BAS'']) = [one_stage_profile]"
    by (simp add: library_run_def library_step_def library_start_def filtered_profiles_def library_of_def data_or_empty_def)
       (simp add: profile_matches_def one_stage_profile_def lower trim_def is_space_def)
  from profile_selection_valid [OF refl, of "[]" True ?q "[Search ''BAS'']"] f show ?thesis by simp
qed

theorem assignment_sends_shown_witness:
  "{e. ap_sent (panel_step [] (panel_run [] [PanelData [one_stage_profile] None True]) e) \<noteq> []} \<subseteq> {PressApply}"
proof
  let ?s = "panel_run [] [PanelData [one_stage_profile] None True]"
  fix e assume "e \<in> {e. ap_sent (panel_step [] ?s e) \<noteq> []}"
  moreover have "ap_sent ?s = []" by (simp add: panel_run_def panel_step_def panel_start_def Let_def)
  ultimately have "ap_sent (panel_step [] ?s e) \<noteq> ap_sent ?s" by simp
  from assignment_sends_shown [OF first_option_shown_laws refl, THEN conjunct1, THEN mp, OF this]
  show "e \<in> {PressApply}" by simp
qed

end
