(* ===== verification/Ui_Parts.thy ===== *)
theory Ui_Parts
  imports View_Base Derivations
begin

text \<open>
  The presentational parts the views are built from (\<open>components/ui\<close>): summary tiles, pills, the
  connectivity badge, metric tiles, the event list and the simulation-speed control with the toasts
  of its two users. What toLocaleDateString and toLocaleTimeString write is a parameter.
\<close>

section \<open>Tiles, pills and badges\<close>

text \<open>The value of a tile may carry a unit, which is shown smaller.\<close>

record summary_stat =
  ss_label :: string
  ss_value :: string
  ss_unit :: "string option"
  ss_caption :: string
  ss_icon :: string
  ss_color :: string
  ss_dot :: bool

definition SummaryStat :: "string \<Rightarrow> string \<times> string option \<Rightarrow> string \<Rightarrow> string \<Rightarrow> string \<Rightarrow> bool \<Rightarrow> summary_stat" where
  "SummaryStat label v caption icon color dot =
     \<lparr>ss_label = label, ss_value = fst v, ss_unit = snd v, ss_caption = caption, ss_icon = icon, ss_color = color, ss_dot = dot\<rparr>"

record pill =
  pl_text :: string
  pl_color :: string
  pl_icon :: string
  pl_title :: "string option"

definition pill_of :: "string \<Rightarrow> string \<Rightarrow> string \<Rightarrow> pill" where
  "pill_of t color icon = \<lparr>pl_text = t, pl_color = color, pl_icon = icon, pl_title = None\<rparr>"

text \<open>Label, color, icon of a connectivity, in the badge and in the summary tile.\<close>

fun STATUS_META :: "connectivity \<Rightarrow> string \<times> string \<times> string" where
  "STATUS_META Online = (''Online'', ''var(--color-status-online)'', ''Wifi'')"
| "STATUS_META Degraded = (''Degraded'', ''var(--color-status-degraded)'', ''TriangleAlert'')"
| "STATUS_META Offline = (''Offline'', ''var(--color-status-offline)'', ''WifiOff'')"

definition StatusBadge :: "connectivity \<Rightarrow> bool \<Rightarrow> pill list" where
  "StatusBadge st drifted =
     (case STATUS_META st of (label, color, icon) \<Rightarrow>
        pill_of label color icon # (if drifted then [pill_of ''Drift'' ''var(--color-status-drift)'' []] else []))"

datatype metric_band_state = InBand | Warn | Fault

fun STATE_COLOR :: "metric_band_state \<Rightarrow> string" where
  "STATE_COLOR InBand = ''var(--color-fg-default)''"
| "STATE_COLOR Warn = ''var(--color-warning)''"
| "STATE_COLOR Fault = ''var(--color-fault)''"

record metric_tile =
  mt_label :: string
  mt_text :: string
  mt_unit :: string
  mt_color :: string
  mt_dim :: bool

definition MetricTile :: "(js_num \<Rightarrow> string) \<Rightarrow> string \<Rightarrow> js_num option \<Rightarrow> string \<Rightarrow> metric_band_state \<Rightarrow> bool \<Rightarrow> metric_tile" where
  "MetricTile ns label v un st dimmed =
     \<lparr>mt_label = label, mt_text = (case v of Some x \<Rightarrow> format_value ns x | None \<Rightarrow> em_dash), mt_unit = un,
      mt_color = (if v \<noteq> None then STATE_COLOR st else ''var(--color-fg-subtle)''), mt_dim = dimmed\<rparr>"

section \<open>Event list\<close>

fun SEVERITY_COLOR :: "event_severity \<Rightarrow> string" where
  "SEVERITY_COLOR Info = ''var(--color-info)''"
| "SEVERITY_COLOR Warning = ''var(--color-warning)''"
| "SEVERITY_COLOR Critical = ''var(--color-fault)''"

definition SEVERITY_ORDER :: "event_severity list" where
  "SEVERITY_ORDER = [Critical, Warning, Info]"

text \<open>\<open>s.replace(/_/g, " ")\<close>\<close>

definition spaced :: "string \<Rightarrow> string" where
  "spaced = map (\<lambda>c. if c = CHR ''_'' then CHR '' '' else c)"

record event_row =
  er_date :: string
  er_time :: string
  er_color :: string
  er_message :: string
  er_detail :: string
  er_severity :: string

definition EventRow :: "(date \<Rightarrow> string) \<Rightarrow> (date \<Rightarrow> string) \<Rightarrow> bool \<Rightarrow> event_entry \<Rightarrow> event_row" where
  "EventRow date_text time_text showGreenhouse e =
     \<lparr>er_date = date_text (event_entry.ts e), er_time = time_text (event_entry.ts e),
      er_color = SEVERITY_COLOR (event_entry.severity e), er_message = event_entry.message e,
      er_detail = spaced (literal event_kind_table (event_entry.kind e))
        @ (case event_entry.source e of Some s \<Rightarrow> if s = [] then [] else '' '' @ middle_dot @ '' '' @ s | None \<Rightarrow> [])
        @ (if showGreenhouse then '' '' @ middle_dot @ '' '' @ event_entry.greenhouseId e else []),
      er_severity = literal event_severity_table (event_entry.severity e)\<rparr>"

datatype event_list =
    NoEventsText
  | FlatEvents "event_row list"
  | GroupedEvents "(string \<times> string \<times> event_row list) list"

definition severity_group :: "event_entry list \<Rightarrow> event_severity \<Rightarrow> event_entry list" where
  "severity_group events sev = filter (\<lambda>e. event_entry.severity e = sev) events"

definition EventList :: "(date \<Rightarrow> string) \<Rightarrow> (date \<Rightarrow> string) \<Rightarrow> bool \<Rightarrow> bool \<Rightarrow> event_entry list \<Rightarrow> event_list" where
  "EventList date_text time_text groupBySeverity showGreenhouse events =
     (if events = [] then NoEventsText
      else if \<not> groupBySeverity then FlatEvents (map (EventRow date_text time_text showGreenhouse) events)
      else GroupedEvents (concat (map (\<lambda>sev.
        let g = severity_group events sev
        in if g = [] then []
           else [(literal event_severity_table sev @ '' ('' @ nat_string (length g) @ '')'', SEVERITY_COLOR sev,
                  map (EventRow date_text time_text showGreenhouse) g)]) SEVERITY_ORDER)))"

section \<open>Simulation speed\<close>

definition formatScale :: "(js_num \<Rightarrow> string) \<Rightarrow> js_num \<Rightarrow> string" where
  "formatScale ns s = ns s @ times_sign"

definition TimeScaleIndicator :: "(js_num \<Rightarrow> string) \<Rightarrow> js_num \<Rightarrow> pill" where
  "TimeScaleIndicator ns s =
     \<lparr>pl_text = formatScale ns s, pl_color = ''var(--color-info)'', pl_icon = ''Gauge'', pl_title = Some ''Simulation speed''\<rparr>"

definition OPTIONS :: "js_num list" where
  "OPTIONS = [Fin (1/2), Fin 1, Fin 2, Fin 4, Fin 8]"

record scale_button =
  sb_scale :: js_num
  sb_text :: string
  sb_checked :: bool
  sb_disabled :: bool

definition TimeScaleControl :: "(js_num \<Rightarrow> string) \<Rightarrow> js_num option \<Rightarrow> bool \<Rightarrow> bool \<Rightarrow> scale_button list" where
  "TimeScaleControl ns v waiting disabled =
     map (\<lambda>s. \<lparr>sb_scale = s, sb_text = formatScale ns s, sb_checked = (v = Some s), sb_disabled = (disabled \<or> waiting)\<rparr>) OPTIONS"

definition fleet_scale_toast :: "(js_num \<Rightarrow> string) \<Rightarrow> js_num \<Rightarrow> fleet_time_scale_result \<Rightarrow> toast_input" where
  "fleet_scale_toast ns s r =
     (let skipped = filter (\<lambda>x. \<not> time_scale_outcome.applied x) (fleet_time_scale_result.results r)
      in if skipped \<noteq> []
         then toast_of WarningToast (''Speed set, '' @ nat_string (length skipped) @ '' skipped'')
           (join_with '', '' (map time_scale_outcome.greenhouseId skipped))
         else \<lparr>ti_variant = Some SuccessToast,
           ti_title = ''Fleet speed '' @ [CHR 0xE2, CHR 0x86, CHR 0x92] @ '' '' @ ns s @ times_sign,
           ti_message = None, ti_durationMs = None\<rparr>)"

definition fleet_scale_failed :: "string \<Rightarrow> thrown \<Rightarrow> toast_input" where
  "fleet_scale_failed other e = toast_of WarningToast ''Couldn't set fleet speed'' (thrown_message other e)"

definition greenhouse_scale_failed :: "string \<Rightarrow> thrown \<Rightarrow> toast_input" where
  "greenhouse_scale_failed other e = toast_of WarningToast ''Couldn't change speed'' (thrown_message other e)"

text \<open>A speed control: its mutation, what it sent and the toasts it pushed.\<close>

record scale_control =
  sc_operator :: bool
  sc_pending :: "js_num option"
  sc_sent :: "js_num list"
  sc_toasts :: "toast_input list"

datatype scale_event = PressScale js_num | ScaleSet fleet_time_scale_result | ScaleFailed thrown

fun fleet_scale_step :: "(js_num \<Rightarrow> string) \<Rightarrow> string \<Rightarrow> scale_event \<Rightarrow> scale_control \<Rightarrow> scale_control" where
  "fleet_scale_step ns other (PressScale s) c =
     (if sc_operator c \<and> sc_pending c = None \<and> s \<in> set OPTIONS
      then c\<lparr>sc_pending := Some s, sc_sent := sc_sent c @ [s]\<rparr> else c)"
| "fleet_scale_step ns other (ScaleSet r) c =
     (case sc_pending c of
        Some s \<Rightarrow> c\<lparr>sc_pending := None, sc_toasts := sc_toasts c @ [fleet_scale_toast ns s r]\<rparr>
      | None \<Rightarrow> c)"
| "fleet_scale_step ns other (ScaleFailed e) c =
     (if sc_pending c = None then c
      else c\<lparr>sc_pending := None, sc_toasts := sc_toasts c @ [fleet_scale_failed other e]\<rparr>)"

text \<open>The knob of one greenhouse says nothing on success: the observed speed follows from the stream.\<close>

fun greenhouse_scale_step :: "string \<Rightarrow> scale_event \<Rightarrow> scale_control \<Rightarrow> scale_control" where
  "greenhouse_scale_step other (PressScale s) c =
     (if sc_operator c \<and> sc_pending c = None \<and> s \<in> set OPTIONS
      then c\<lparr>sc_pending := Some s, sc_sent := sc_sent c @ [s]\<rparr> else c)"
| "greenhouse_scale_step other (ScaleSet r) c = c\<lparr>sc_pending := None\<rparr>"
| "greenhouse_scale_step other (ScaleFailed e) c =
     (if sc_pending c = None then c
      else c\<lparr>sc_pending := None, sc_toasts := sc_toasts c @ [greenhouse_scale_failed other e]\<rparr>)"

section \<open>Lemmas\<close>

text \<open>Grouping shows every event once, in its group, and keeps the order inside a group.\<close>

lemma severity_groups_partition:
  "mset (concat (map (severity_group events) SEVERITY_ORDER)) = mset events"
proof (induction events)
  case (Cons e events)
  then show ?case by (cases "event_entry.severity e") (simp_all add: SEVERITY_ORDER_def severity_group_def)
qed (simp add: SEVERITY_ORDER_def severity_group_def)

end
