(* ===== verification/Time_Charts.thy ===== *)
theory Time_Charts
  imports Chart_Scale Derivations Rest_Bodies Machines
begin

text \<open>
  The charts' logic (\<open>components/ui/StackedTimeSeriesChart.tsx\<close>, \<open>components/ui/TimeSeriesChart.tsx\<close>):
  what they hand to the plotting package (rows, series, axes), the hover readout, the text
  summary, and the life of the plot across renders. The package (uPlot) and the canvas are not
  modelled: a plot is what it was given.
\<close>

section \<open>Inputs\<close>

record reference_line =
  rl_label :: string
  rl_value :: js_num
  rl_color :: "string option"

record chart_series =
  cs_label :: string
  cs_color :: string
  cs_points :: "series_point list"

datatype chart_variant = FullChart | SparklineChart | CardChart

record stacked_band =
  sb_key :: string
  sb_label :: string
  sb_unit :: string
  sb_color :: string
  sb_points :: "series_point list"
  sb_references :: "reference_line list option"

definition STACKED_HEIGHT :: js_num where "STACKED_HEIGHT = Fin 400"
definition BAND_GAP :: js_num where "BAND_GAP = fl (6/100)"
definition FULL_HEIGHT :: js_num where "FULL_HEIGHT = Fin 180"
definition SPARKLINE_HEIGHT :: js_num where "SPARKLINE_HEIGHT = Fin 40"

text \<open>\<open>band.references ?? NO_REFERENCES\<close>\<close>

definition references_of :: "stacked_band \<Rightarrow> reference_line list" where
  "references_of b = (case sb_references b of Some rs \<Rightarrow> rs | None \<Rightarrow> [])"

section \<open>Layout and rows of the stacked chart\<close>

record band_layout =
  bl_band :: band
  bl_scale :: band_scale

definition band_domain :: "stacked_band \<Rightarrow> js_num \<times> js_num" where
  "band_domain b =
     (let vs = map pt_v (sb_points b) @ map rl_value (references_of b)
      in if vs = [] then (Fin 0, Fin 1) else (min_of vs, max_of vs))"

text \<open>\<open>None\<close> where the scale of some band is not found (see \<open>bandScale\<close>).\<close>

definition stacked_layout :: "(js_num \<Rightarrow> js_num) \<Rightarrow> (js_num \<Rightarrow> js_num) \<Rightarrow> stacked_band list \<Rightarrow> band_layout list option" where
  "stacked_layout log10 pow10 bands =
     option_list (map (\<lambda>(b, f). map_option (\<lambda>sc. \<lparr>bl_band = f, bl_scale = sc\<rparr>)
        (case band_domain b of (mn, mx) \<Rightarrow> bandScale log10 pow10 mn mx (Fin 3)))
       (zip bands (bandFractions (length bands) BAND_GAP)))"

definition in_band :: "band_layout \<Rightarrow> js_num \<Rightarrow> js_num" where
  "in_band l v = toBandFraction v (sc_lo (bl_scale l)) (sc_hi (bl_scale l)) (bl_band l)"

definition aligned_bands :: "stacked_band list \<Rightarrow> js_num list \<times> js_num option list list" where
  "aligned_bands bands = alignSeries (map sb_points bands)"

type_synonym plot_rows = "js_num list \<times> js_num option list list"

definition stacked_data :: "stacked_band list \<Rightarrow> band_layout list \<Rightarrow> plot_rows" where
  "stacked_data bands layout =
     (case aligned_bands bands of (xs, ys) \<Rightarrow>
        (xs, map (\<lambda>(l, row). map (map_option (in_band l)) row) (zip layout ys)
             @ concat (map (\<lambda>(b, l). map (\<lambda>r. map (\<lambda>_. Some (in_band l (rl_value r))) xs) (references_of b))
                 (zip bands layout))))"

definition line_data :: "chart_series \<Rightarrow> reference_line list \<Rightarrow> plot_rows" where
  "line_data s refs =
     (let xs = map pt_t (cs_points s)
      in (xs, map (\<lambda>p. Some (pt_v p)) (cs_points s) # map (\<lambda>r. map (\<lambda>_. Some (rl_value r)) xs) refs))"

section \<open>When a plot is rebuilt\<close>

text \<open>The structure keys; their JSON texts are compared by the values they denote.\<close>

definition json_opt_str :: "string option \<Rightarrow> jsval" where
  "json_opt_str c = (case c of Some s \<Rightarrow> JStr s | None \<Rightarrow> JNull)"

definition json_reference :: "reference_line \<Rightarrow> jsval" where
  "json_reference r = JArr [JStr (rl_label r), json_opt_str (rl_color r)]"

definition stacked_key :: "string \<Rightarrow> js_num \<Rightarrow> stacked_band list \<Rightarrow> band_layout list \<Rightarrow> jsval" where
  "stacked_key theme height bands layout = JObj
     [(''theme'', JStr theme), (''plotHeight'', json_num height),
      (''bands'', JArr (map (\<lambda>b. JArr [JStr (sb_key b), JStr (sb_label b), JStr (sb_color b), JStr (sb_unit b),
          JArr (map json_reference (references_of b))]) bands)),
      (''scales'', JArr (map (\<lambda>l. JArr [json_num (sc_lo (bl_scale l)), json_num (sc_hi (bl_scale l)),
          JArr (map json_num (sc_ticks (bl_scale l))), json_num (bd_bottom (bl_band l)), json_num (bd_top (bl_band l))]) layout))]"

definition variant_text :: "chart_variant \<Rightarrow> string" where
  "variant_text v = (case v of FullChart \<Rightarrow> ''full'' | SparklineChart \<Rightarrow> ''sparkline'' | CardChart \<Rightarrow> ''card'')"

definition line_key :: "string \<Rightarrow> chart_variant \<Rightarrow> js_num \<Rightarrow> chart_series \<Rightarrow> reference_line list \<Rightarrow> jsval" where
  "line_key theme v height s refs = JObj
     [(''theme'', JStr theme), (''variant'', JStr (variant_text v)), (''plotHeight'', json_num height),
      (''seriesLabel'', JStr (cs_label s)), (''seriesColor'', JStr (cs_color s)),
      (''references'', JArr (map json_reference refs))]"

section \<open>What the plot is given\<close>

record series_config =
  se_label :: string
  se_stroke :: string
  se_width :: rat
  se_dashed :: bool
  se_fill :: "(js_num \<times> string) list"

datatype y_range = YAuto | YUnit | YTight
datatype time_text = ClockSeconds | DateAndTime

record plot_options =
  po_width :: js_num
  po_height :: js_num
  po_cursor :: bool
  po_tooltip :: "time_text option"
  po_yrange :: y_range
  po_padding :: "nat list"
  po_axes :: bool
  po_splits :: "js_num list"
  po_labels :: "string list"
  po_series :: "series_config list"

text \<open>One column of ticks: each band's native ticks in its part of the scale, with their labels.\<close>

definition tick_labels :: "(js_num \<Rightarrow> string) \<Rightarrow> band_layout list \<Rightarrow> (js_num \<times> string) list" where
  "tick_labels ns layout =
     concat (map (\<lambda>l. map (\<lambda>tick. (in_band l tick, format_value ns tick)) (sc_ticks (bl_scale l))) layout)"

definition split_fractions :: "(js_num \<Rightarrow> string) \<Rightarrow> band_layout list \<Rightarrow> js_num list" where
  "split_fractions ns layout = js_sort num_sub (map fst (tick_labels ns layout))"

definition split_labels :: "(js_num \<Rightarrow> string) \<Rightarrow> band_layout list \<Rightarrow> js_num list \<Rightarrow> string list" where
  "split_labels ns layout splits =
     map (\<lambda>x. case map_of (map_from (tick_labels ns layout)) x of Some t \<Rightarrow> t | None \<Rightarrow> []) splits"

definition dashed_series :: "string \<Rightarrow> string \<Rightarrow> series_config" where
  "dashed_series label stroke = \<lparr>se_label = label, se_stroke = stroke, se_width = 1, se_dashed = True, se_fill = []\<rparr>"

definition stacked_series :: "(string \<Rightarrow> string) option \<Rightarrow> stacked_band list \<Rightarrow> series_config list" where
  "stacked_series css bands =
     map (\<lambda>b. \<lparr>se_label = sb_label b, se_stroke = resolveColor css (sb_color b), se_width = 3/2, se_dashed = False, se_fill = []\<rparr>) bands
     @ concat (map (\<lambda>b. map (\<lambda>r.
          dashed_series (sb_label b @ '' '' @ [CHR 0xC2, CHR 0xB7] @ '' '' @ rl_label r)
            (resolveColor css (case rl_color r of Some c \<Rightarrow> c | None \<Rightarrow> ''var(--chart-setpoint)'')))
        (references_of b)) bands)"

definition line_series ::
    "(js_num \<Rightarrow> string) \<Rightarrow> (string \<Rightarrow> string) option \<Rightarrow> chart_variant \<Rightarrow> chart_series \<Rightarrow> reference_line list \<Rightarrow> series_config list" where
  "line_series ns css v s refs =
     (let stroke = resolveColor css (cs_color s)
      in \<lparr>se_label = cs_label s, se_stroke = stroke, se_width = 3/2, se_dashed = False,
          se_fill = (if v = SparklineChart then [] else areaFill ns stroke)\<rparr>
         # map (\<lambda>r. dashed_series (rl_label r)
              (resolveColor css (case rl_color r of Some c \<Rightarrow> c | None \<Rightarrow> ''var(--color-fg-muted)''))) refs)"

text \<open>\<open>container.clientWidth || 600\<close>\<close>

definition width_or :: "js_num \<Rightarrow> js_num \<Rightarrow> js_num" where
  "width_or d w = (if w = Fin 0 \<or> w = NaN then d else w)"

definition stacked_options ::
    "(js_num \<Rightarrow> string) \<Rightarrow> (string \<Rightarrow> string) option \<Rightarrow> js_num \<Rightarrow> js_num \<Rightarrow> stacked_band list \<Rightarrow> band_layout list \<Rightarrow> plot_options" where
  "stacked_options ns css cw height bands layout =
     \<lparr>po_width = width_or (Fin 600) cw, po_height = height, po_cursor = True, po_tooltip = Some DateAndTime,
      po_yrange = YUnit, po_padding = [12, 8, 0, 0], po_axes = True,
      po_splits = split_fractions ns layout, po_labels = split_labels ns layout (split_fractions ns layout),
      po_series = stacked_series css bands\<rparr>"

definition line_options ::
    "(js_num \<Rightarrow> string) \<Rightarrow> (string \<Rightarrow> string) option \<Rightarrow> js_num \<Rightarrow> chart_variant \<Rightarrow> js_num \<Rightarrow> chart_series \<Rightarrow> reference_line list \<Rightarrow> plot_options" where
  "line_options ns css cw v height s refs =
     \<lparr>po_width = width_or (Fin 600) cw, po_height = height, po_cursor = (v \<noteq> SparklineChart),
      po_tooltip = (if v = SparklineChart then None else Some (if v = CardChart then ClockSeconds else DateAndTime)),
      po_yrange = (if v = CardChart then YTight else YAuto),
      po_padding = (if v = FullChart then [8, 8, 0, 0] else [2, 2, 2, 2]), po_axes = (v = FullChart),
      po_splits = [], po_labels = [], po_series = line_series ns css v s refs\<rparr>"

definition line_height :: "chart_variant \<Rightarrow> js_num option \<Rightarrow> js_num" where
  "line_height v h = (case h of Some x \<Rightarrow> x | None \<Rightarrow> if v = SparklineChart then SPARKLINE_HEIGHT else FULL_HEIGHT)"

definition stacked_height :: "js_num option \<Rightarrow> js_num" where
  "stacked_height h = (case h of Some x \<Rightarrow> x | None \<Rightarrow> STACKED_HEIGHT)"

section \<open>Hover readout\<close>

record tooltip_row =
  tt_color :: string
  tt_label :: string
  tt_text :: string

record stacked_tooltip =
  st_header :: string
  st_rows :: "tooltip_row list"
  st_left :: js_num

definition value_text :: "(js_num \<Rightarrow> string) \<Rightarrow> js_num \<Rightarrow> string \<Rightarrow> string" where
  "value_text ns v un = trim (format_value ns v @ '' '' @ un)"

text \<open>Beside the cursor, to its left near the right edge, and never out of the plot on the left.\<close>

definition readout_left :: "js_num \<Rightarrow> js_num \<Rightarrow> js_num \<Rightarrow> js_num" where
  "readout_left overWidth boxWidth cursor =
     (let left = num_add cursor (Fin 12);
          left' = (if num_gt (num_add left boxWidth) overWidth then num_sub (num_sub cursor (Fin 12)) boxWidth else left)
      in math_max (Fin 0) (math_min left' (num_sub overWidth boxWidth)))"

definition cell :: "js_num option list list \<Rightarrow> nat \<Rightarrow> nat \<Rightarrow> js_num option" where
  "cell ys k i = (if k < length ys \<and> i < length (ys ! k) then ys ! k ! i else None)"

definition tooltip_rows :: "(js_num \<Rightarrow> string) \<Rightarrow> stacked_band list \<Rightarrow> js_num option list list \<Rightarrow> nat \<Rightarrow> tooltip_row list" where
  "tooltip_rows ns bands ys i =
     concat (map (\<lambda>(k, b). case cell ys k i of
         None \<Rightarrow> []
       | Some v \<Rightarrow> [\<lparr>tt_color = sb_color b, tt_label = sb_label b, tt_text = value_text ns v (sb_unit b)\<rparr>])
       (enumerate 0 bands))"

text \<open>\<open>idx\<close> is the plot's cursor index; \<open>pos\<close> its \<open>valToPos\<close> on the time axis. \<open>None\<close>: hidden.\<close>

definition stacked_cursor ::
    "(js_num \<Rightarrow> string) \<Rightarrow> (js_num \<Rightarrow> js_num) \<Rightarrow> js_num \<Rightarrow> js_num \<Rightarrow> stacked_band list \<Rightarrow> plot_rows \<Rightarrow> nat option
       \<Rightarrow> stacked_tooltip option" where
  "stacked_cursor ns pos overWidth boxWidth bands al idx =
     (case idx of
        None \<Rightarrow> None
      | Some i \<Rightarrow>
          if length (fst al) \<le> i then None
          else let x = fst al ! i; rows = tooltip_rows ns bands (snd al) i
               in if rows = [] then None
                  else Some \<lparr>st_header = formatTimestamp x, st_rows = rows, st_left = readout_left overWidth boxWidth (pos x)\<rparr>)"

record line_tooltip =
  lt_value :: string
  lt_time :: string
  lt_left :: js_num
  lt_top :: js_num

definition line_cursor ::
    "(js_num \<Rightarrow> string) \<Rightarrow> time_text \<Rightarrow> (js_num \<Rightarrow> js_num) \<Rightarrow> (js_num \<Rightarrow> js_num) \<Rightarrow> js_num \<Rightarrow> js_num \<Rightarrow> string
       \<Rightarrow> plot_rows \<Rightarrow> nat option \<Rightarrow> line_tooltip option" where
  "line_cursor ns tm posX posY overWidth boxWidth un d idx =
     (case idx of
        None \<Rightarrow> None
      | Some i \<Rightarrow>
          if length (fst d) \<le> i then None
          else (case cell (snd d) 0 i of
                  None \<Rightarrow> None
                | Some v \<Rightarrow>
                    let x = fst d ! i; half = num_div boxWidth (Fin 2)
                    in Some \<lparr>lt_value = value_text ns v un,
                         lt_time = (case tm of ClockSeconds \<Rightarrow> formatClockSeconds x | DateAndTime \<Rightarrow> formatTimestamp x),
                         lt_left = math_max half (math_min (posX x) (num_sub overWidth half)),
                         lt_top = posY v\<rparr>))"

section \<open>Text summary and legend\<close>

definition latest_text :: "(js_num \<Rightarrow> string) \<Rightarrow> string \<Rightarrow> string \<Rightarrow> series_point list \<Rightarrow> string" where
  "latest_text ns label un ps =
     (if ps = [] then label @ '': no data in range''
      else trim (label @ '': latest '' @ format_value ns (pt_v (last ps)) @ '' '' @ un))"

definition stacked_summary :: "(js_num \<Rightarrow> string) \<Rightarrow> stacked_band list \<Rightarrow> string" where
  "stacked_summary ns bands = join_with ''; '' (map (\<lambda>b. latest_text ns (sb_label b) (sb_unit b) (sb_points b)) bands)"

definition line_summary :: "(js_num \<Rightarrow> string) \<Rightarrow> chart_series \<Rightarrow> string \<Rightarrow> string" where
  "line_summary ns s un = latest_text ns (cs_label s) un (cs_points s)"

definition has_references :: "stacked_band list \<Rightarrow> bool" where
  "has_references bands \<longleftrightarrow> (\<exists>b\<in>set bands. references_of b \<noteq> [])"

definition legend :: "stacked_band list \<Rightarrow> string list" where
  "legend bands = map (\<lambda>b. sb_label b @ '' ('' @ sb_unit b @ '')'') bands
     @ (if has_references bands then [''Setpoint / Target''] else [])"

section \<open>The life of a plot\<close>

text \<open>
  The component keeps the plot of its last structure key. A render with another key destroys it
  and builds a new one (or none, where there is no canvas or the constructor throws); every
  render hands the current data on; a resize reaches the plot of the moment; unmounting destroys it.
\<close>

record live_plot =
  lp_id :: nat
  lp_key :: jsval
  lp_options :: plot_options
  lp_width :: js_num
  lp_data :: plot_rows

record chart_view =
  cv_key :: "jsval option"
  cv_plot :: "live_plot option"
  cv_alive :: "nat list"
  cv_ready :: bool
  cv_next :: nat
  cv_data :: "plot_rows option"

definition no_chart :: chart_view where
  "no_chart = \<lparr>cv_key = None, cv_plot = None, cv_alive = [], cv_ready = False, cv_next = 0, cv_data = None\<rparr>"

datatype chart_event =
    Render jsval plot_options plot_rows bool bool
  | Resize js_num
  | Unmount

definition destroy_plot :: "chart_view \<Rightarrow> chart_view" where
  "destroy_plot s = (case cv_plot s of
      None \<Rightarrow> s
    | Some p \<Rightarrow> s\<lparr>cv_plot := None, cv_alive := remove1 (lp_id p) (cv_alive s)\<rparr>)"

definition build_plot :: "jsval \<Rightarrow> plot_options \<Rightarrow> plot_rows \<Rightarrow> bool \<Rightarrow> bool \<Rightarrow> chart_view \<Rightarrow> chart_view" where
  "build_plot key opts d canvas throws s =
     (if \<not> canvas \<or> throws then s\<lparr>cv_ready := False\<rparr>
      else s\<lparr>cv_plot := Some \<lparr>lp_id = cv_next s, lp_key = key, lp_options = opts, lp_width = po_width opts, lp_data = d\<rparr>,
             cv_alive := cv_alive s @ [cv_next s], cv_next := Suc (cv_next s), cv_ready := True\<rparr>)"

definition set_data :: "plot_rows \<Rightarrow> chart_view \<Rightarrow> chart_view" where
  "set_data d s = s\<lparr>cv_plot := map_option (\<lambda>p. p\<lparr>lp_data := d\<rparr>) (cv_plot s), cv_data := Some d\<rparr>"

fun chart_step :: "chart_event \<Rightarrow> chart_view \<Rightarrow> chart_view" where
  "chart_step (Render key opts d canvas throws) s =
     set_data d
       (if cv_key s = Some key then s
        else (build_plot key opts d canvas throws (destroy_plot s))\<lparr>cv_key := Some key\<rparr>)"
| "chart_step (Resize w) s =
     s\<lparr>cv_plot := map_option (\<lambda>p. p\<lparr>lp_width := width_or (po_width (lp_options p)) w\<rparr>) (cv_plot s)\<rparr>"
| "chart_step Unmount s = (destroy_plot s)\<lparr>cv_key := None, cv_data := None, cv_ready := False\<rparr>"

definition chart_run :: "chart_event list \<Rightarrow> chart_view" where
  "chart_run evs = fold chart_step evs no_chart"

text \<open>One render of each chart; \<open>None\<close> for a stacked chart whose scales are never found.\<close>

definition line_render ::
    "(js_num \<Rightarrow> string) \<Rightarrow> (string \<Rightarrow> string) option \<Rightarrow> js_num \<Rightarrow> string \<Rightarrow> chart_variant \<Rightarrow> js_num option
       \<Rightarrow> reference_line list \<Rightarrow> bool \<Rightarrow> chart_series \<Rightarrow> chart_event" where
  "line_render ns css cw theme v h refs throws s =
     Render (line_key theme v (line_height v h) s refs) (line_options ns css cw v (line_height v h) s refs)
       (line_data s refs) True throws"

definition stacked_render ::
    "(js_num \<Rightarrow> js_num) \<Rightarrow> (js_num \<Rightarrow> js_num) \<Rightarrow> (js_num \<Rightarrow> string) \<Rightarrow> (string \<Rightarrow> string) option \<Rightarrow> js_num \<Rightarrow> string
       \<Rightarrow> js_num option \<Rightarrow> bool \<Rightarrow> bool \<Rightarrow> stacked_band list \<Rightarrow> chart_event option" where
  "stacked_render log10 pow10 ns css cw theme h canvas throws bands =
     map_option (\<lambda>layout. Render (stacked_key theme (stacked_height h) bands layout)
        (stacked_options ns css cw (stacked_height h) bands layout) (stacked_data bands layout) canvas throws)
       (stacked_layout log10 pow10 bands)"

section \<open>Lemmas: the life of a plot\<close>

definition last_render :: "chart_event list \<Rightarrow> (jsval \<times> plot_rows) option" where
  "last_render evs = fold (\<lambda>e r. case e of Render k opts d canvas throws \<Rightarrow> Some (k, d) | Resize w \<Rightarrow> r | Unmount \<Rightarrow> None) evs None"

lemma chart_run_snoc: "chart_run (evs @ [e]) = chart_step e (chart_run evs)"
  by (simp add: chart_run_def)

lemma last_render_snoc:
  "last_render (evs @ [e]) = (case e of Render k opts d canvas throws \<Rightarrow> Some (k, d) | Resize w \<Rightarrow> last_render evs | Unmount \<Rightarrow> None)"
  by (cases e) (simp_all add: last_render_def)

text \<open>At most one plot, the one the component holds; what it shows is the last render.\<close>

definition chart_ok :: "chart_view \<Rightarrow> bool" where
  "chart_ok s \<longleftrightarrow>
     cv_alive s = map lp_id (case cv_plot s of None \<Rightarrow> [] | Some p \<Rightarrow> [p])
     \<and> cv_ready s = (cv_plot s \<noteq> None)
     \<and> (\<forall>p. cv_plot s = Some p \<longrightarrow> lp_id p < cv_next s \<and> cv_key s = Some (lp_key p) \<and> cv_data s = Some (lp_data p))"

lemmas chart_defs = chart_ok_def set_data_def build_plot_def destroy_plot_def

lemma chart_step_ok: "chart_ok s \<Longrightarrow> chart_ok (chart_step e s)"
  by (cases e) (auto simp: chart_defs split: option.splits)

interpretation chart_machine: started_machine chart_step chart_ok no_chart
  by unfold_locales (rule chart_step_ok, assumption, simp add: no_chart_def chart_ok_def)

lemma chart_run_ok: "chart_ok (chart_run evs)"
  unfolding chart_run_def by (rule chart_machine.reached_holds)

lemma chart_run_last: "(cv_key (chart_run evs), cv_data (chart_run evs)) = (map_option fst (last_render evs), map_option snd (last_render evs))"
proof (induction evs rule: rev_induct)
  case Nil
  then show ?case by (simp add: chart_run_def no_chart_def last_render_def)
next
  case (snoc e evs)
  then show ?case by (cases e) (simp_all add: chart_run_snoc last_render_snoc chart_defs)
qed

lemma same_key_keeps_plot:
  assumes "cv_key s = Some k" "\<forall>e\<in>set evs. e \<noteq> Unmount \<and> (\<forall>k' opts d c t. e = Render k' opts d c t \<longrightarrow> k' = k)"
  shows "cv_key (fold chart_step evs s) = Some k \<and> cv_next (fold chart_step evs s) = cv_next s
       \<and> map_option lp_id (cv_plot (fold chart_step evs s)) = map_option lp_id (cv_plot s)"
  using assms
proof (induction evs arbitrary: s)
  case (Cons e evs)
  have e: "cv_key (chart_step e s) = Some k" "cv_next (chart_step e s) = cv_next s"
    "map_option lp_id (cv_plot (chart_step e s)) = map_option lp_id (cv_plot s)"
    using Cons.prems by (cases e; simp add: set_data_def option.map_comp comp_def)+
  from Cons.IH [OF e(1)] Cons.prems(2) e show ?case by simp
qed simp

lemma line_key_points [simp]: "line_key theme v h (s\<lparr>cs_points := ps\<rparr>) refs = line_key theme v h s refs"
  by (simp add: line_key_def)

text \<open>
  C24: the life of a chart's plot. Whatever the sequence of renders, resizes and unmounts, the
  plots alive are exactly the one the component holds (a rebuilt or unmounted chart leaves none
  behind), the text fallback shows exactly when there is none, and the plot was built for the key
  of the last render and shows its data. Live points reach a line chart without a rebuild: a run
  of renders that differ in their points only builds one plot, which shows the last points.
\<close>

theorem chart_single_plot:
  assumes "pss \<noteq> []"
  shows "cv_alive (chart_run evs) = map lp_id (case cv_plot (chart_run evs) of None \<Rightarrow> [] | Some p \<Rightarrow> [p])
     \<and> (cv_ready (chart_run evs) \<longleftrightarrow> cv_plot (chart_run evs) \<noteq> None)
     \<and> (case cv_plot (chart_run evs) of None \<Rightarrow> True | Some p \<Rightarrow> last_render evs = Some (lp_key p, lp_data p))
     \<and> cv_alive (chart_run (evs @ [Unmount])) = []
     \<and> cv_next (chart_run (evs @ Unmount # map (\<lambda>ps. line_render ns css cw theme v h refs False (s\<lparr>cs_points := ps\<rparr>)) pss))
       = Suc (cv_next (chart_run evs))
     \<and> map_option lp_data (cv_plot (chart_run (evs @ Unmount # map (\<lambda>ps. line_render ns css cw theme v h refs False (s\<lparr>cs_points := ps\<rparr>)) pss)))
       = Some (line_data (s\<lparr>cs_points := last pss\<rparr>) refs)"
proof (intro conjI)
  note ok = chart_run_ok [unfolded chart_ok_def]
  show "cv_alive (chart_run evs) = map lp_id (case cv_plot (chart_run evs) of None \<Rightarrow> [] | Some p \<Rightarrow> [p])"
    "cv_ready (chart_run evs) \<longleftrightarrow> cv_plot (chart_run evs) \<noteq> None"
    using ok by blast+
  show "case cv_plot (chart_run evs) of None \<Rightarrow> True | Some p \<Rightarrow> last_render evs = Some (lp_key p, lp_data p)"
    using ok [of evs] chart_run_last [of evs] by (cases "last_render evs") (auto split: option.splits)
  have un: "cv_plot (chart_run (evs @ [Unmount])) = None" "cv_key (chart_run (evs @ [Unmount])) = None"
    "cv_next (chart_run (evs @ [Unmount])) = cv_next (chart_run evs)"
    by (simp_all add: chart_run_snoc destroy_plot_def split: option.split)
  then show "cv_alive (chart_run (evs @ [Unmount])) = []" using ok [of "evs @ [Unmount]"] by simp
  let ?r = "\<lambda>ps. line_render ns css cw theme v h refs False (s\<lparr>cs_points := ps\<rparr>)"
  let ?all = "evs @ Unmount # map ?r pss"
  obtain ps rest where pss: "pss = ps # rest" using assms by (cases pss) auto
  let ?s1 = "chart_step (?r ps) (chart_run (evs @ [Unmount]))"
  have s1: "cv_key ?s1 = Some (line_key theme v (line_height v h) s refs)" "cv_next ?s1 = Suc (cv_next (chart_run evs))"
    "cv_plot ?s1 \<noteq> None"
    using un by (simp_all add: line_render_def set_data_def build_plot_def destroy_plot_def)
  have run: "chart_run ?all = fold chart_step (map ?r rest) ?s1" by (simp add: chart_run_def pss)
  from same_key_keeps_plot [OF s1(1), of "map ?r rest"]
  have kept: "cv_next (chart_run ?all) = cv_next ?s1" "map_option lp_id (cv_plot (chart_run ?all)) = map_option lp_id (cv_plot ?s1)"
    unfolding run by (auto simp: line_render_def)
  then show "cv_next (chart_run ?all) = Suc (cv_next (chart_run evs))" using s1 by simp
  obtain before final where pl: "pss = before @ [final]" using assms by (cases pss rule: rev_cases) auto
  have "?all = (evs @ Unmount # map ?r before) @ [?r (last pss)]" by (simp add: pl)
  then have "last_render ?all = Some (line_key theme v (line_height v h) s refs, line_data (s\<lparr>cs_points := last pss\<rparr>) refs)"
    by (simp add: last_render_snoc line_render_def del: append_assoc append_Cons)
  moreover obtain p where "cv_plot (chart_run ?all) = Some p" using kept(2) s1(3) by auto
  moreover from this ok [of ?all] have "cv_data (chart_run ?all) = Some (lp_data p)" by blast
  moreover have "cv_data (chart_run ?all) = map_option snd (last_render ?all)"
    using chart_run_last [of ?all] by blast
  ultimately show "map_option lp_data (cv_plot (chart_run ?all)) = Some (line_data (s\<lparr>cs_points := last pss\<rparr>) refs)"
    by (simp only: option.map option.inject snd_conv)
qed

theorem chart_single_plot_witness:
  "cv_next (chart_run [Unmount,
      line_render (\<lambda>_. []) None (Fin 300) ''dark'' CardChart None [] False \<lparr>cs_label = ''a'', cs_color = ''b'', cs_points = [\<lparr>pt_t = Fin 1, pt_v = Fin 2\<rparr>]\<rparr>,
      line_render (\<lambda>_. []) None (Fin 300) ''dark'' CardChart None [] False \<lparr>cs_label = ''a'', cs_color = ''b'', cs_points = []\<rparr>]) = 1"
  using chart_single_plot [of "[[\<lparr>pt_t = Fin 1, pt_v = Fin 2\<rparr>], []]" "[]" "\<lambda>_. []" None "Fin 300" "''dark''" CardChart None "[]"
      "\<lparr>cs_label = ''a'', cs_color = ''b'', cs_points = []\<rparr>"]
  by (simp add: chart_run_def no_chart_def)

section \<open>Lemmas: rows and readout of the stacked chart\<close>

definition value_at :: "stacked_band \<Rightarrow> js_num \<Rightarrow> js_num option" where
  "value_at b x = map_option pt_v (find (\<lambda>p. pt_t p = x) (rev (sb_points b)))"

lemma length_bandFractions [simp]: "length (bandFractions k gap) = k"
  by (simp add: bandFractions_def Let_def)

lemma stacked_layout_length: "stacked_layout log10 pow10 bands = Some layout \<Longrightarrow> length layout = length bands"
  by (auto simp: stacked_layout_def option_list_eq_Some_iff dest!: arg_cong [where f = length])

lemma aligned_correct:
  assumes "\<forall>b\<in>set bands. \<forall>p\<in>set (sb_points b). fin_double (pt_t p)" "aligned_bands bands = (xs, ys)"
  shows "sorted_wrt num_lt xs" "set xs = (\<Union>b\<in>set bands. pt_t ` set (sb_points b))" "length ys = length bands"
    "j < length bands \<Longrightarrow> length (ys ! j) = length xs"
    "j < length bands \<Longrightarrow> i < length xs \<Longrightarrow> ys ! j ! i = value_at (bands ! j) (xs ! i)"
proof -
  have "\<forall>ps\<in>set (map sb_points bands). \<forall>p\<in>set ps. fin_double (pt_t p)" using assms(1) by simp
  from alignSeries_correct [OF this]
  have a: "sorted_wrt num_lt xs \<and> set xs = (\<Union>ps\<in>set (map sb_points bands). pt_t ` set ps)
      \<and> length ys = length bands \<and> (\<forall>j<length bands. length (ys ! j) = length xs
      \<and> (\<forall>i<length xs. ys ! j ! i = map_option pt_v (find (\<lambda>p. pt_t p = xs ! i) (rev (map sb_points bands ! j)))))"
    using assms(2) by (simp add: aligned_bands_def)
  then show "sorted_wrt num_lt xs" "set xs = (\<Union>b\<in>set bands. pt_t ` set (sb_points b))" "length ys = length bands"
    "j < length bands \<Longrightarrow> length (ys ! j) = length xs"
    "j < length bands \<Longrightarrow> i < length xs \<Longrightarrow> ys ! j ! i = value_at (bands ! j) (xs ! i)"
    by (auto simp: value_at_def)
qed

lemma tooltip_rows_values:
  assumes "length ys = length bands" "\<And>j. j < length bands \<Longrightarrow> i < length (ys ! j) \<and> ys ! j ! i = value_at (bands ! j) x"
  shows "tooltip_rows ns bands ys i =
     concat (map (\<lambda>b. case value_at b x of None \<Rightarrow> []
        | Some v \<Rightarrow> [\<lparr>tt_color = sb_color b, tt_label = sb_label b, tt_text = value_text ns v (sb_unit b)\<rparr>]) bands)"
proof -
  have "cell ys k i = value_at b x" if "(k, b) \<in> set (enumerate 0 bands)" for k b
    using that assms by (auto simp: cell_def in_set_enumerate_eq)
  then have "tooltip_rows ns bands ys i = concat (map (\<lambda>b. case value_at b x of None \<Rightarrow> []
        | Some v \<Rightarrow> [\<lparr>tt_color = sb_color b, tt_label = sb_label b, tt_text = value_text ns v (sb_unit b)\<rparr>])
      (map snd (enumerate 0 bands)))"
    unfolding tooltip_rows_def map_map by (intro arg_cong [where f = concat] map_cong) (auto split: option.split)
  then show ?thesis by (simp only: map_snd_enumerate)
qed

text \<open>For plain data every band gets its scale, so the chart renders.\<close>

lemma band_domain_plain:
  assumes "\<forall>v\<in>set (map pt_v (sb_points b) @ map rl_value (references_of b)). \<exists>x. v = Fin x \<and> \<bar>x\<bar> \<le> 10000"
  shows "\<exists>x y. band_domain b = (Fin x, Fin y) \<and> \<bar>x\<bar> \<le> 10000 \<and> \<bar>y\<bar> \<le> 10000 \<and> x \<le> y"
proof (cases "map pt_v (sb_points b) @ map rl_value (references_of b)")
  case Nil
  then show ?thesis by (simp add: band_domain_def)
next
  case (Cons v vs)
  let ?vs = "map pt_v (sb_points b) @ map rl_value (references_of b)"
  have v: "v \<in> set ?vs" unfolding Cons by simp
  have "\<forall>v\<in>set ?vs. v \<noteq> NaN" using assms by auto
  note b = min_of_le [OF v this]
  obtain x y where xy: "min_of ?vs = Fin x" "\<bar>x\<bar> \<le> 10000" "max_of ?vs = Fin y" "\<bar>y\<bar> \<le> 10000"
    using assms b(2,4) by blast
  have "num_le (min_of ?vs) (max_of ?vs)" using b(1,3) by (rule num_le_trans)
  with xy Cons show ?thesis by (simp add: band_domain_def Let_def)
qed

lemma stacked_layout_found:
  assumes "decimal_math log10 pow10"
    and "\<forall>b\<in>set bands. \<forall>v\<in>set (map pt_v (sb_points b) @ map rl_value (references_of b)). \<exists>x. v = Fin x \<and> \<bar>x\<bar> \<le> 10000"
  shows "\<exists>layout. stacked_layout log10 pow10 bands = Some layout"
proof -
  have "\<exists>sc. (case band_domain b of (mn, mx) \<Rightarrow> bandScale log10 pow10 mn mx (Fin 3)) = Some sc" if "b \<in> set bands" for b
    using band_domain_plain [of b] bandScale_terminates [OF assms(1)] assms(2) that by fastforce
  then show ?thesis
    unfolding stacked_layout_def by (intro option_list_total) (auto dest!: set_zip_leftD)
qed

text \<open>A value that is drawn at all is drawn in its band.\<close>

lemma clamp_unit:
  assumes "num_mul (math_min (Fin 1) (math_max (Fin 0) x)) (Fin e) \<noteq> NaN"
  obtains q where "math_min (Fin 1) (math_max (Fin 0) x) = Fin q" "0 \<le> q" "q \<le> 1"
  using assms that by (cases x) (auto split: if_splits)

lemma in_band_range:
  assumes band: "bl_band l = \<lparr>bd_bottom = Fin b, bd_top = Fin t\<rparr>" and "is_double b" "-1 \<le> b" "b < t" "t \<le> 2"
    and y: "in_band l v \<noteq> NaN"
  shows "\<exists>r. in_band l v = Fin r \<and> b \<le> r \<and> r \<le> t + 1/1000000000"
proof -
  define x where "x = (if num_lt (num_sub (sc_hi (bl_scale l)) (sc_lo (bl_scale l))) (fl (1 / 10 ^ 9)) then Fin (1/2)
      else num_div (num_sub v (sc_lo (bl_scale l))) (num_sub (sc_hi (bl_scale l)) (sc_lo (bl_scale l))))"
  have "\<bar>t - b\<bar> \<le> 65536" using assms(3-5) by linarith
  from fl_abs [OF this] obtain e where e: "fl (t - b) = Fin e" "\<bar>e - (t - b)\<bar> \<le> 1/100000000000" by blast
  have e0: "0 \<le> e" using fl_mono [of 0 "t - b"] assms(4) e(1) by simp
  have val: "in_band l v = num_add (Fin b) (num_mul (math_min (Fin 1) (math_max (Fin 0) x)) (Fin e))"
    by (simp add: in_band_def toBandFraction_def Let_def band num_sub_def [of "Fin t"] e(1) x_def)
  then have "num_mul (math_min (Fin 1) (math_max (Fin 0) x)) (Fin e) \<noteq> NaN" using y by auto
  then obtain q where q: "math_min (Fin 1) (math_max (Fin 0) x) = Fin q" "0 \<le> q" "q \<le> 1" by (rule clamp_unit)
  have qe: "0 \<le> q * e" "q * e \<le> e" using q(2,3) e0 by (simp_all add: mult_left_le_one_le)
  then have "\<bar>q * e\<bar> \<le> 65536" using e(2) assms(3-5) by linarith
  from fl_abs [OF this] obtain z where z: "fl (q * e) = Fin z" by blast
  have z0: "0 \<le> z" "z \<le> e"
    using fl_mono [OF qe(1)] fl_mono [OF qe(2)] z fl_Fin_double [OF e(1)] by simp_all
  have "\<bar>b + z\<bar> \<le> 65536" using z0 e(2) assms(3-5) by linarith
  from fl_abs [OF this] obtain r where r: "fl (b + z) = Fin r" "\<bar>r - (b + z)\<bar> \<le> 1/100000000000" by blast
  have "b \<le> r" using fl_mono [of b "b + z"] z0(1) assms(2) r(1) by simp
  moreover have "r \<le> t + 1/1000000000" using r(2) z0(2) e(2) by linarith
  ultimately show ?thesis using val q(1) z r(1) by simp
qed

lemma num_add_double: "num_add x y = Fin r \<Longrightarrow> is_double r"
  by (cases x; cases y) (auto dest: fl_Fin_double)

lemma bandFractions_double: "j < n \<Longrightarrow> bd_bottom (bandFractions n gap ! j) = Fin b \<Longrightarrow> is_double b"
  by (auto simp: bandFractions_def Let_def num_sub_def dest: num_add_double)

text \<open>A larger value is not drawn lower.\<close>

lemma num_div_mono:
  assumes "num_le a b" "num_lt (Fin 0) s" "num_div a s \<noteq> NaN" "num_div b s \<noteq> NaN"
  shows "num_le (num_div a s) (num_div b s)"
  using assms by (cases a; cases b; cases s) (auto intro!: fl_mono divide_right_mono)

lemma clamp_mono:
  "num_le a b \<Longrightarrow> num_le (math_min (Fin 1) (math_max (Fin 0) a)) (math_min (Fin 1) (math_max (Fin 0) b))"
  by (cases a; cases b) auto

lemma in_band_mono:
  assumes band: "bl_band l = \<lparr>bd_bottom = Fin b, bd_top = Fin t\<rparr>" "is_double b" "-1 \<le> b" "b < t" "t \<le> 2"
    and y: "in_band l (Fin v) \<noteq> NaN" "in_band l (Fin w) \<noteq> NaN" and "v \<le> w"
  shows "num_le (in_band l (Fin v)) (in_band l (Fin w))"
proof -
  let ?lo = "sc_lo (bl_scale l)" and ?s = "num_sub (sc_hi (bl_scale l)) (sc_lo (bl_scale l))"
  have "\<bar>t - b\<bar> \<le> 65536" using band(3-5) by linarith
  from fl_abs [OF this] obtain e where e: "fl (t - b) = Fin e" by blast
  have e0: "0 \<le> e" using fl_mono [of 0 "t - b"] band(4) e by simp
  define x where "x = (\<lambda>v. if num_lt ?s (fl (1 / 10 ^ 9)) then Fin (1/2) else num_div (num_sub (Fin v) ?lo) ?s)"
  have val: "in_band l (Fin u) = num_add (Fin b) (num_mul (math_min (Fin 1) (math_max (Fin 0) (x u))) (Fin e))" for u
    by (simp add: in_band_def toBandFraction_def Let_def band num_sub_def [of "Fin t"] e x_def)
  have ok: "num_mul (math_min (Fin 1) (math_max (Fin 0) (x u))) (Fin e) \<noteq> NaN" if "u = v \<or> u = w" for u
    using that y unfolding val by auto
  have num: "x u \<noteq> NaN" if "u = v \<or> u = w" for u
    using ok [OF that] by auto
  have "num_le (x v) (x w)"
  proof (cases "num_lt ?s (fl (1 / 10 ^ 9))")
    case False
    have n: "num_div (num_sub (Fin v) ?lo) ?s \<noteq> NaN" "num_div (num_sub (Fin w) ?lo) ?s \<noteq> NaN"
      using num [of v] num [of w] False by (simp_all add: x_def)
    then have "?s \<noteq> NaN" by (cases "num_sub (Fin v) ?lo") auto
    moreover obtain eps where "fl (1 / 10 ^ 9) = Fin eps" "0 < eps" using fl_abs [of "1 / 10 ^ 9"] by fastforce
    ultimately have pos: "num_lt (Fin 0) ?s" using False by (cases ?s) auto
    have "?lo \<noteq> NaN" using n(1) by (auto simp: num_sub_def)
    then have "num_le (num_sub (Fin v) ?lo) (num_sub (Fin w) ?lo)"
      using assms(8) unfolding num_sub_def by (cases ?lo) (auto intro: fl_mono)
    with pos n False show ?thesis by (simp add: x_def num_div_mono)
  qed (simp add: x_def)
  note c = clamp_mono [OF this]
  obtain p q where pq: "math_min (Fin 1) (math_max (Fin 0) (x v)) = Fin p" "math_min (Fin 1) (math_max (Fin 0) (x w)) = Fin q"
    using clamp_unit [OF ok [of v]] clamp_unit [OF ok [of w]] by metis
  have "p * e \<le> q * e" using c e0 by (simp add: pq mult_right_mono)
  then have "num_le (fl (p * e)) (fl (q * e))" by (rule fl_mono)
  then show ?thesis unfolding val pq by (cases "fl (p * e)"; cases "fl (q * e)") (auto intro: fl_mono)
qed

text \<open>The bands of a layout are those of the unit scale, from the top.\<close>

lemma stacked_layout_band:
  assumes "stacked_layout log10 pow10 bands = Some layout" "j < length bands"
  shows "bl_band (layout ! j) = bandFractions (length bands) BAND_GAP ! j"
proof -
  have "map (\<lambda>(b, f). map_option (\<lambda>sc. \<lparr>bl_band = f, bl_scale = sc\<rparr>)
        (case band_domain b of (mn, mx) \<Rightarrow> bandScale log10 pow10 mn mx (Fin 3)))
       (zip bands (bandFractions (length bands) BAND_GAP)) = map Some layout"
    using assms(1) by (simp add: stacked_layout_def option_list_eq_Some_iff)
  from arg_cong [OF this, of "\<lambda>xs. xs ! j"] show ?thesis
    using assms(2) stacked_layout_length [OF assms(1)] by (auto dest!: arg_cong [of _ "layout ! j" bl_band])
qed

lemma stacked_layout_scale:
  assumes "stacked_layout log10 pow10 bands = Some layout" "j < length bands"
  shows "bandScale log10 pow10
      (if map pt_v (sb_points (bands ! j)) @ map rl_value (references_of (bands ! j)) = [] then Fin 0
       else min_of (map pt_v (sb_points (bands ! j)) @ map rl_value (references_of (bands ! j))))
      (if map pt_v (sb_points (bands ! j)) @ map rl_value (references_of (bands ! j)) = [] then Fin 1
       else max_of (map pt_v (sb_points (bands ! j)) @ map rl_value (references_of (bands ! j)))) (Fin 3)
    = Some (bl_scale (layout ! j))"
proof -
  have "map (\<lambda>(b, f). map_option (\<lambda>sc. \<lparr>bl_band = f, bl_scale = sc\<rparr>)
        (case band_domain b of (mn, mx) \<Rightarrow> bandScale log10 pow10 mn mx (Fin 3)))
       (zip bands (bandFractions (length bands) BAND_GAP)) = map Some layout"
    using assms(1) by (simp add: stacked_layout_def option_list_eq_Some_iff)
  from arg_cong [OF this, of "\<lambda>xs. xs ! j"] show ?thesis
    using assms(2) stacked_layout_length [OF assms(1)]
    by (auto simp: band_domain_def Let_def dest!: arg_cong [of _ "layout ! j" bl_scale] split: if_splits)
qed

lemma bands_apart:
  assumes "stacked_layout log10 pow10 bands = Some layout" "length bands \<le> 17" "k < j" "j < length bands"
    and "in_band (layout ! j) v \<noteq> NaN" "in_band (layout ! k) v' \<noteq> NaN"
  shows "num_lt (in_band (layout ! j) v) (in_band (layout ! k) v')"
proof -
  have k: "k < length bands" using assms(3,4) by simp
  obtain b t where bt: "bl_band (layout ! j) = \<lparr>bd_bottom = Fin b, bd_top = Fin t\<rparr>" "- (1/100000000) \<le> b" "b < t"
      "t \<le> 1 + 1/100000000" "\<forall>j'<j. \<exists>b'. bd_bottom (bandFractions (length bands) (fl (6/100)) ! j') = Fin b' \<and> t + 1/20 \<le> b'"
    using chart_bands_disjoint [OF assms(2,4)] stacked_layout_band [OF assms(1,4)] by (auto simp: BAND_GAP_def)
  obtain b' t' where bt': "bl_band (layout ! k) = \<lparr>bd_bottom = Fin b', bd_top = Fin t'\<rparr>" "- (1/100000000) \<le> b'" "b' < t'"
      "t' \<le> 1 + 1/100000000"
    using chart_bands_disjoint [OF assms(2) k] stacked_layout_band [OF assms(1) k] by (auto simp: BAND_GAP_def)
  have gap: "t + 1/20 \<le> b'"
    using bt(5) assms(3) bt'(1) stacked_layout_band [OF assms(1) k] by (auto simp: BAND_GAP_def)
  have "is_double b" "is_double b'"
    using bandFractions_double [OF assms(4), of BAND_GAP b] bandFractions_double [OF k, of BAND_GAP b'] bt(1) bt'(1)
      stacked_layout_band [OF assms(1,4)] stacked_layout_band [OF assms(1) k] by simp_all
  then obtain r r' where "in_band (layout ! j) v = Fin r" "r \<le> t + 1/1000000000" "in_band (layout ! k) v' = Fin r'" "b' \<le> r'"
    using in_band_range [OF bt(1) _ _ bt(3) _ assms(5)] in_band_range [OF bt'(1) _ _ bt'(3) _ assms(6)] bt bt' by fastforce
  then show ?thesis using gap by simp
qed

lemma bands_monotone:
  assumes "stacked_layout log10 pow10 bands = Some layout" "length bands \<le> 17" "j < length bands" "v \<le> w"
    and "in_band (layout ! j) (Fin v) \<noteq> NaN" "in_band (layout ! j) (Fin w) \<noteq> NaN"
  shows "num_le (in_band (layout ! j) (Fin v)) (in_band (layout ! j) (Fin w))"
proof -
  obtain b t where bt: "bl_band (layout ! j) = \<lparr>bd_bottom = Fin b, bd_top = Fin t\<rparr>" "- (1/100000000) \<le> b" "b < t"
      "t \<le> 1 + 1/100000000"
    using chart_bands_disjoint [OF assms(2,3)] stacked_layout_band [OF assms(1,3)] by (auto simp: BAND_GAP_def)
  have "is_double b"
    using bandFractions_double [OF assms(3), of BAND_GAP b] bt(1) stacked_layout_band [OF assms(1,3)] by simp
  then show ?thesis
    by (rule in_band_mono [OF bt(1) _ _ bt(3) _ assms(5,6,4)]) (use bt in linarith)+
qed

text \<open>The rows in terms of \<open>in_band\<close>.\<close>

lemma stacked_rows:
  assumes times: "\<forall>b\<in>set bands. \<forall>p\<in>set (sb_points b). fin_double (pt_t p)"
    and layout: "stacked_layout log10 pow10 bands = Some layout"
    and rows: "stacked_data bands layout = (xs, rows)"
  shows "sorted_wrt num_lt xs" "set xs = (\<Union>b\<in>set bands. pt_t ` set (sb_points b))"
    "length rows = length (stacked_series css bands)"
    "length rows = length bands + sum_list (map (\<lambda>b. length (references_of b)) bands)"
    "\<forall>row\<in>set rows. length row = length xs"
    "\<forall>j<length bands. \<forall>i<length xs. rows ! j ! i = map_option (in_band (layout ! j)) (value_at (bands ! j) (xs ! i))"
    "drop (length bands) rows = concat (map (\<lambda>(b, l). map (\<lambda>r. replicate (length xs) (Some (in_band l (rl_value r))))
       (references_of b)) (zip bands layout))"
    "\<forall>i<length xs. map_option (\<lambda>t. (st_header t, st_rows t)) (stacked_cursor ns pos ow bw bands (aligned_bands bands) (Some i))
       = Some (formatTimestamp (xs ! i), concat (map (\<lambda>b. case value_at b (xs ! i) of None \<Rightarrow> []
            | Some v \<Rightarrow> [\<lparr>tt_color = sb_color b, tt_label = sb_label b, tt_text = value_text ns v (sb_unit b)\<rparr>]) bands))"
proof -
  obtain ys where al: "aligned_bands bands = (xs, ys)" using rows
    by (cases "aligned_bands bands") (simp add: stacked_data_def)
  note a = aligned_correct [OF times al]
  show "sorted_wrt num_lt xs" "set xs = (\<Union>b\<in>set bands. pt_t ` set (sb_points b))" by (fact a)+
  have ll: "length layout = length bands" by (rule stacked_layout_length [OF layout])
  define refs where "refs = concat (map (\<lambda>(b, l). map (\<lambda>r. map (\<lambda>_. Some (in_band l (rl_value r))) xs) (references_of b)) (zip bands layout))"
  define lines where "lines = map (\<lambda>(l, row). map (map_option (in_band l)) row) (zip layout ys)"
  have rs: "rows = lines @ refs" using rows by (simp add: stacked_data_def al refs_def lines_def)
  have n: "length lines = length bands" using ll a(3) by (simp add: lines_def)
  have "map length (map (\<lambda>(b, l). map (\<lambda>r. map (\<lambda>_. Some (in_band l (rl_value r))) xs) (references_of b)) (zip bands layout))
      = map (\<lambda>b. length (references_of b)) (map fst (zip bands layout))"
    by auto
  then have "length refs = sum_list (map (\<lambda>b. length (references_of b)) bands)"
    by (simp only: refs_def length_concat map_fst_zip ll)
  then show "length rows = length (stacked_series css bands)"
    "length rows = length bands + sum_list (map (\<lambda>b. length (references_of b)) bands)"
    by (simp_all add: rs n stacked_series_def length_concat comp_def)
  have const: "\<exists>y. r = replicate (length xs) (Some y)" if "r \<in> set refs" for r
    using that by (auto simp: refs_def map_replicate_const)
  show "\<forall>row\<in>set rows. length row = length xs"
    using const a(3,4) ll by (fastforce simp: rs lines_def set_zip)
  show "\<forall>j<length bands. \<forall>i<length xs. rows ! j ! i = map_option (in_band (layout ! j)) (value_at (bands ! j) (xs ! i))"
    using a(3-5) ll n by (simp add: rs nth_append lines_def)
  show "drop (length bands) rows = concat (map (\<lambda>(b, l). map (\<lambda>r. replicate (length xs) (Some (in_band l (rl_value r))))
       (references_of b)) (zip bands layout))"
    using n by (simp add: rs refs_def map_replicate_const)
  show "\<forall>i<length xs. map_option (\<lambda>t. (st_header t, st_rows t)) (stacked_cursor ns pos ow bw bands (aligned_bands bands) (Some i))
       = Some (formatTimestamp (xs ! i), concat (map (\<lambda>b. case value_at b (xs ! i) of None \<Rightarrow> []
            | Some v \<Rightarrow> [\<lparr>tt_color = sb_color b, tt_label = sb_label b, tt_text = value_text ns v (sb_unit b)\<rparr>]) bands))"
  proof (intro allI impI)
    fix i assume i: "i < length xs"
    have t: "tooltip_rows ns bands ys i = concat (map (\<lambda>b. case value_at b (xs ! i) of None \<Rightarrow> []
            | Some v \<Rightarrow> [\<lparr>tt_color = sb_color b, tt_label = sb_label b, tt_text = value_text ns v (sb_unit b)\<rparr>]) bands)"
      by (rule tooltip_rows_values) (simp_all add: a i)
    have "xs ! i \<in> (\<Union>b\<in>set bands. pt_t ` set (sb_points b))" using i a(2) by (metis nth_mem)
    then obtain b where "b \<in> set bands" "value_at b (xs ! i) \<noteq> None"
      by (fastforce simp: value_at_def find_None_iff)
    then have "tooltip_rows ns bands ys i \<noteq> []" by (force simp: t)
    then show "map_option (\<lambda>t. (st_header t, st_rows t)) (stacked_cursor ns pos ow bw bands (aligned_bands bands) (Some i))
       = Some (formatTimestamp (xs ! i), concat (map (\<lambda>b. case value_at b (xs ! i) of None \<Rightarrow> []
            | Some v \<Rightarrow> [\<lparr>tt_color = sb_color b, tt_label = sb_label b, tt_text = value_text ns v (sb_unit b)\<rparr>]) bands))"
      using i by (simp add: stacked_cursor_def al t Let_def)
  qed
qed

text \<open>
  C25: what the stacked chart plots and reads out. The time axis is the ascending union of the
  bands' times; there is one row per band and per reference line, each as long as the axis. The scale
  of a band is the one found for the lowest and the highest of its values and references. The cell of a
  band at a time is a gap where the band has no value then, and otherwise the latest value there,
  placed linearly between the ends of the band's scale, clamped to its edges (in the middle where
  the scale is flat); reference values are placed the same way, in constant rows. So with up to
  17 bands, rounding included, a larger value of a band is never drawn lower, and everything drawn in a band lies
  strictly below all that is drawn in the bands listed before it. The readout at a time lists
  exactly the bands that have a value then, in their order, with the native value and never the
  fraction that is plotted.
\<close>

theorem stacked_chart_rows:
  assumes times: "\<forall>b\<in>set bands. \<forall>p\<in>set (sb_points b). fin_double (pt_t p)"
    and layout: "stacked_layout log10 pow10 bands = Some layout"
    and rows: "stacked_data bands layout = (xs, rows)"
  shows "let place = (\<lambda>l v. num_add (bd_bottom (bl_band l)) (num_mul
          (math_min (Fin 1) (math_max (Fin 0)
             (if num_lt (num_sub (sc_hi (bl_scale l)) (sc_lo (bl_scale l))) (fl (1 / 10 ^ 9)) then Fin (1/2)
              else num_div (num_sub v (sc_lo (bl_scale l))) (num_sub (sc_hi (bl_scale l)) (sc_lo (bl_scale l))))))
          (num_sub (bd_top (bl_band l)) (bd_bottom (bl_band l)))));
       refs = (\<lambda>b. case sb_references b of Some rs \<Rightarrow> rs | None \<Rightarrow> [])
     in sorted_wrt num_lt xs \<and> set xs = (\<Union>b\<in>set bands. pt_t ` set (sb_points b))
     \<and> length rows = length (stacked_series css bands)
     \<and> length rows = length bands + sum_list (map (\<lambda>b. length (refs b)) bands)
     \<and> (\<forall>j<length bands. let vs = map pt_v (sb_points (bands ! j)) @ map rl_value (refs (bands ! j)) in
          bandScale log10 pow10 (if vs = [] then Fin 0 else min_of vs) (if vs = [] then Fin 1 else max_of vs) (Fin 3)
            = Some (bl_scale (layout ! j)))
     \<and> (\<forall>row\<in>set rows. length row = length xs)
     \<and> (\<forall>j<length bands. \<forall>i<length xs. rows ! j ! i = map_option (place (layout ! j)) (value_at (bands ! j) (xs ! i)))
     \<and> drop (length bands) rows = concat (map (\<lambda>(b, l). map (\<lambda>r. replicate (length xs) (Some (place l (rl_value r))))
          (refs b)) (zip bands layout))
     \<and> (\<forall>j<length bands. \<forall>v w. length bands \<le> 17 \<and> v \<le> w \<and> place (layout ! j) (Fin v) \<noteq> NaN \<and> place (layout ! j) (Fin w) \<noteq> NaN
          \<longrightarrow> num_le (place (layout ! j) (Fin v)) (place (layout ! j) (Fin w)))
     \<and> (\<forall>j<length bands. \<forall>k<j. \<forall>v w. length bands \<le> 17 \<and> place (layout ! j) v \<noteq> NaN \<and> place (layout ! k) w \<noteq> NaN
          \<longrightarrow> num_lt (place (layout ! j) v) (place (layout ! k) w))
     \<and> (\<forall>i<length xs. map_option (\<lambda>t. (st_header t, st_rows t)) (stacked_cursor ns pos ow bw bands (aligned_bands bands) (Some i))
       = Some (formatTimestamp (xs ! i), concat (map (\<lambda>b. case value_at b (xs ! i) of None \<Rightarrow> []
            | Some v \<Rightarrow> [\<lparr>tt_color = sb_color b, tt_label = sb_label b, tt_text = trim ((if is_integer v then ns v else toFixed ns 1 v) @ '' '' @ sb_unit b)\<rparr>]) bands)))"
proof -
  have place: "num_add (bd_bottom (bl_band l)) (num_mul
          (math_min (Fin 1) (math_max (Fin 0)
             (if num_lt (num_sub (sc_hi (bl_scale l)) (sc_lo (bl_scale l))) (fl (1 / 10 ^ 9)) then Fin (1/2)
              else num_div (num_sub v (sc_lo (bl_scale l))) (num_sub (sc_hi (bl_scale l)) (sc_lo (bl_scale l))))))
          (num_sub (bd_top (bl_band l)) (bd_bottom (bl_band l)))) = in_band l v" for l v
    by (simp add: in_band_def toBandFraction_def Let_def)
  have shown: "trim ((if is_integer v then ns v else toFixed ns 1 v) @ '' '' @ sb_unit b) = value_text ns v (sb_unit b)" for v b
    by (simp add: value_text_def format_value_def)
  show ?thesis
    unfolding Let_def place shown references_of_def [symmetric]
    by (intro conjI stacked_rows [OF times layout rows] stacked_layout_scale [OF layout] allI impI; (elim conjE)?;
        (blast intro: bands_monotone [OF layout] bands_apart [OF layout] stacked_layout_scale [OF layout])?)
qed

definition example_band :: stacked_band where
  "example_band = \<lparr>sb_key = ''t'', sb_label = ''Temp'', sb_unit = ''C'', sb_color = ''red'',
     sb_points = [\<lparr>pt_t = Fin 1, pt_v = Fin 20\<rparr>, \<lparr>pt_t = Fin 2, pt_v = Fin 21\<rparr>],
     sb_references = Some [\<lparr>rl_label = ''Setpoint'', rl_value = Fin 22, rl_color = None\<rparr>]\<rparr>"

theorem stacked_chart_rows_witness:
  "\<exists>layout xs rows. stacked_layout ref_log10 ref_pow10 [example_band] = Some layout
     \<and> stacked_data [example_band] layout = (xs, rows) \<and> set xs = {Fin 1, Fin 2} \<and> length rows = 2"
proof -
  have plain: "\<forall>b\<in>set [example_band]. \<forall>v\<in>set (map pt_v (sb_points b) @ map rl_value (references_of b)).
      \<exists>x. v = Fin x \<and> \<bar>x\<bar> \<le> 10000"
    by (simp add: example_band_def references_of_def)
  obtain layout where l: "stacked_layout ref_log10 ref_pow10 [example_band] = Some layout"
    using stacked_layout_found [OF ref_decimal.decimal_math_axioms plain] by blast
  obtain xs rows where d: "stacked_data [example_band] layout = (xs, rows)" by (cases "stacked_data [example_band] layout")
  have "\<forall>b\<in>set [example_band]. \<forall>p\<in>set (sb_points b). fin_double (pt_t p)"
    by (simp add: example_band_def fin_double_def)
  note s = stacked_chart_rows [OF this l d, of None, unfolded Let_def]
  have "set xs = {Fin 1, Fin 2}" using s [THEN conjunct2, THEN conjunct1] by (simp add: example_band_def)
  moreover have "length rows = 2" using s [THEN conjunct2, THEN conjunct2, THEN conjunct1]
    by (simp add: stacked_series_def example_band_def references_of_def)
  ultimately show ?thesis using l d by blast
qed

end
