(* ===== verification/Detail_View.thy ===== *)
theory Detail_View
  imports Ui_Parts Time_Charts Live_Series Optimizer_Wire
begin

text \<open>
  The detail view of a greenhouse (\<open>features/greenhouse\<close>): the persistent range choice and which
  history it asks for, the joins of history with the live edge, of targets with zone status and of
  commanded with live actuator positions, its summary tiles, moisture table, actuator table, the
  retire dialog, and what the whole view shows in each state of its queries.
\<close>

section \<open>Ranges\<close>

datatype range_key = R15m | R30m | R1h | R6h | R24h

definition RANGE_OPTIONS :: "range_key list" where
  "RANGE_OPTIONS = [R15m, R30m, R1h, R6h, R24h]"

fun range_text :: "range_key \<Rightarrow> string" where
  "range_text R15m = ''15m''"
| "range_text R30m = ''30m''"
| "range_text R1h = ''1h''"
| "range_text R6h = ''6h''"
| "range_text R24h = ''24h''"

fun rangeMs :: "range_key \<Rightarrow> js_num" where
  "rangeMs R15m = Fin (15 * 60 * 1000)"
| "rangeMs R30m = Fin (30 * 60 * 1000)"
| "rangeMs R1h = Fin (60 * 60 * 1000)"
| "rangeMs R6h = Fin (6 * 60 * 60 * 1000)"
| "rangeMs R24h = Fin (24 * 60 * 60 * 1000)"

text \<open>\<open>isRangeKey(value) ? value : \<dots>\<close>\<close>

definition isRangeKey :: "string option \<Rightarrow> range_key option" where
  "isRangeKey v = Option.bind v (\<lambda>s. find (\<lambda>k. range_text k = s) RANGE_OPTIONS)"

text \<open>The local storage; reading or writing may throw.\<close>

record local_storage =
  st_items :: "string \<rightharpoonup> string"
  st_readable :: bool
  st_writable :: bool

definition readStored :: "local_storage \<Rightarrow> string \<Rightarrow> range_key option" where
  "readStored st k = (if st_readable st then isRangeKey (st_items st k) else None)"

definition writeStored :: "string \<Rightarrow> range_key \<Rightarrow> local_storage \<Rightarrow> local_storage" where
  "writeStored k r st = (if st_writable st then st\<lparr>st_items := (st_items st)(k \<mapsto> range_text r)\<rparr> else st)"

text \<open>The value a view reads, and the setter.\<close>

definition usePersistentRange :: "string \<Rightarrow> string \<Rightarrow> search_params \<Rightarrow> local_storage \<Rightarrow> range_key" where
  "usePersistentRange param storageKey ps st =
     (case isRangeKey (param_get ps param) of
        Some r \<Rightarrow> r
      | None \<Rightarrow> (case readStored st storageKey of Some r \<Rightarrow> r | None \<Rightarrow> R1h))"

definition setRange :: "string \<Rightarrow> string \<Rightarrow> range_key \<Rightarrow> search_params \<times> local_storage \<Rightarrow> search_params \<times> local_storage" where
  "setRange param storageKey r s = (search_set param (range_text r) (fst s), writeStored storageKey r (snd s))"

definition RangePicker :: "range_key \<Rightarrow> (range_key \<times> string \<times> bool) list" where
  "RangePicker v = map (\<lambda>r. (r, range_text r, v = r)) RANGE_OPTIONS"

section \<open>History\<close>

definition telemetryReadings :: "telemetry_range option \<Rightarrow> metric \<Rightarrow> string option \<Rightarrow> reading list" where
  "telemetryReadings r m z =
     (case Option.bind r (\<lambda>r. find (\<lambda>e. telemetry_series.metric e = m \<and> telemetry_series.zoneId e = z) (telemetry_range.series r)) of
        Some s \<Rightarrow> telemetry_series.readings s
      | None \<Rightarrow> [])"

definition analyticsReadings :: "analytics_response option \<Rightarrow> metric \<Rightarrow> string option \<Rightarrow> reading list" where
  "analyticsReadings r m z =
     (case Option.bind r (\<lambda>r. find (\<lambda>e. analytics_series.metric e = m \<and> analytics_series.zoneId e = z) (analytics_response.series r)) of
        Some s \<Rightarrow> map (\<lambda>b. \<lparr>reading.val = avg b, ts = bucketStart b\<rparr>) (buckets s)
      | None \<Rightarrow> [])"

section \<open>Actuators\<close>

record actuator_reading =
  ar_actuator :: actuator_name
  ar_commanded :: js_num
  ar_observed :: "js_num option"

definition keep_latest :: "actuator_state \<Rightarrow> (actuator_name \<times> actuator_state) list \<Rightarrow> (actuator_name \<times> actuator_state) list" where
  "keep_latest a m =
     (case map_of m (actuator_state.actuator a) of
        Some prev \<Rightarrow> if num_gt (getTime (actuator_state.ts a)) (getTime (actuator_state.ts prev))
          then AList.update (actuator_state.actuator a) a m else m
      | None \<Rightarrow> AList.update (actuator_state.actuator a) a m)"

definition latestActuators ::
    "actuator_state list option \<Rightarrow> (actuator_name \<times> live_actuator) list \<Rightarrow> actuator_reading list" where
  "latestActuators historical liveMap =
     (let latest = fold keep_latest (case historical of Some h \<Rightarrow> h | None \<Rightarrow> []) [];
          base = fold (\<lambda>(n, a). AList.update n \<lparr>ar_actuator = n, ar_commanded = actuator_state.commanded a,
            ar_observed = actuator_state.observed a\<rparr>) latest [];
          merged = fold (\<lambda>(n, a). AList.update n \<lparr>ar_actuator = n, ar_commanded = lv_commanded a,
            ar_observed = lv_observed a\<rparr>) liveMap base
      in map snd merged)"

fun LABELS :: "actuator_name \<Rightarrow> string" where
  "LABELS Heater = ''Heater''"
| "LABELS Fans = ''Fans''"
| "LABELS RoofVents = ''Roof vents''"
| "LABELS Misters = ''Misters''"
| "LABELS Co2Injector = ''CO'' @ sub_two @ '' injector''"
| "LABELS GrowLights = ''Grow lights''"
| "LABELS ShadeScreen = ''Shade screen''"
| "LABELS IrrigationValve = ''Irrigation valve''"

fun ICONS :: "actuator_name \<Rightarrow> string" where
  "ICONS Heater = ''Flame''"
| "ICONS Fans = ''Fan''"
| "ICONS RoofVents = ''Wind''"
| "ICONS Misters = ''Droplets''"
| "ICONS Co2Injector = ''Cloud''"
| "ICONS GrowLights = ''Lightbulb''"
| "ICONS ShadeScreen = ''Blinds''"
| "ICONS IrrigationValve = ''Droplet''"

definition clamp_percent :: "js_num \<Rightarrow> js_num" where
  "clamp_percent v = math_max (Fin 0) (math_min (Fin 100) v)"

record actuator_row =
  aw_icon :: string
  aw_label :: string
  aw_position :: string
  aw_on :: bool

text \<open>\<open>None\<close>: the text "No actuator data in range."\<close>

definition ActuatorStatePanel :: "(js_num \<Rightarrow> string) \<Rightarrow> actuator_reading list \<Rightarrow> actuator_row list option" where
  "ActuatorStatePanel ns as =
     (if as = [] then None
      else Some (map (\<lambda>a. \<lparr>aw_icon = ICONS (ar_actuator a), aw_label = LABELS (ar_actuator a),
          aw_position = ns (math_round (clamp_percent (ar_commanded a))) @ '' %'',
          aw_on = num_gt (clamp_percent (ar_commanded a)) (Fin 0)\<rparr>) as))"

section \<open>House climate\<close>

record house_metric =
  hm_metric :: metric
  hm_label :: string
  hm_color :: string
  hm_unit :: string

definition super_minus :: "string \<Rightarrow> string" where
  "super_minus dg = [CHR 0xE2, CHR 0x81, CHR 0xBB] @ dg"

definition HOUSE_METRICS :: "house_metric list" where
  "HOUSE_METRICS =
     [\<lparr>hm_metric = Temperature, hm_label = ''Temperature'', hm_color = ''var(--chart-temperature)'', hm_unit = deg_c\<rparr>,
      \<lparr>hm_metric = Humidity, hm_label = ''Humidity'', hm_color = ''var(--chart-humidity)'', hm_unit = ''%RH''\<rparr>,
      \<lparr>hm_metric = Co2, hm_label = ''CO'' @ sub_two, hm_color = ''var(--chart-co2)'', hm_unit = ''ppm''\<rparr>,
      \<lparr>hm_metric = Par, hm_label = ''PAR'', hm_color = ''var(--chart-par)'',
       hm_unit = [CHR 0xC2, CHR 0xB5] @ ''mol'' @ middle_dot @ ''m'' @ super_minus [CHR 0xC2, CHR 0xB2] @ middle_dot
         @ ''s'' @ super_minus [CHR 0xC2, CHR 0xB9]\<rparr>]"

definition plain_reference :: "string \<Rightarrow> js_num \<Rightarrow> reference_line" where
  "plain_reference label v = \<lparr>rl_label = label, rl_value = v, rl_color = None\<rparr>"

fun houseReferences :: "metric \<Rightarrow> setpoints \<Rightarrow> reference_line list" where
  "houseReferences Temperature s =
     [plain_reference ''Day'' (setpoints.temperatureDayC s), plain_reference ''Night'' (setpoints.temperatureNightC s)]"
| "houseReferences Humidity s =
     [plain_reference ''Low'' (setpoints.humidityLowPct s), plain_reference ''High'' (setpoints.humidityHighPct s)]"
| "houseReferences Co2 s = [plain_reference ''Target'' (setpoints.co2TargetPpm s)]"
| "houseReferences _ s = []"

record summary_readings =
  sm_temperature :: "js_num option"
  sm_temperaturePoint :: "series_point option"
  sm_humidity :: "js_num option"
  sm_co2 :: "js_num option"
  sm_vpd :: "js_num option"

definition metricValue :: "js_num option \<Rightarrow> (js_num \<Rightarrow> string) \<Rightarrow> string \<Rightarrow> string \<times> string option" where
  "metricValue v f un = (case v of None \<Rightarrow> (em_dash, None) | Some x \<Rightarrow> (f x, Some un))"

fun day_text :: "day_label \<Rightarrow> string" where
  "day_text Day = ''Day''"
| "day_text Night = ''Night''"

definition whole :: "(js_num \<Rightarrow> string) \<Rightarrow> js_num \<Rightarrow> string" where
  "whole ns v = ns (math_round v)"

definition status_tile :: "connectivity \<Rightarrow> nat \<Rightarrow> summary_stat" where
  "status_tile st faults =
     (case STATUS_META st of (label, color, icon) \<Rightarrow>
        SummaryStat ''Status'' (label, None)
          (nat_string faults @ '' active fault'' @ (if faults = 1 then [] else ''s'')) icon color (st = Degraded))"

definition GreenhouseSummaryBar ::
    "(js_num \<Rightarrow> string) \<Rightarrow> connectivity \<Rightarrow> bool \<Rightarrow> setpoints \<Rightarrow> summary_readings \<Rightarrow> js_num option \<Rightarrow> nat \<Rightarrow> summary_stat list" where
  "GreenhouseSummaryBar ns st drifted sp r dliNow faults =
     (let active = activeTemperatureSetpoint sp (map_option (\<lambda>p. date_of_seconds (pt_t p)) (sm_temperaturePoint r))
      in [SummaryStat ''Temperature'' (metricValue (sm_temperature r) (toFixed ns 1) deg_c)
            (day_text (fst active) @ '' setpoint '' @ format_value ns (snd active)) ''Thermometer'' ''var(--chart-temperature)'' False,
          SummaryStat ''Humidity'' (metricValue (sm_humidity r) (whole ns) ''%'')
            (''Setpoint '' @ format_value ns (setpoints.humidityLowPct sp) @ '' '' @ en_dash @ '' ''
              @ format_value ns (setpoints.humidityHighPct sp)) ''Droplet'' ''var(--chart-humidity)'' False,
          SummaryStat ''VPD'' (metricValue (sm_vpd r) (toFixed ns 2) ''kPa'')
            (''Target '' @ format_value ns (setpoints.vpdTargetKpa sp)) ''Leaf'' ''var(--chart-vpd)'' False,
          SummaryStat (''CO'' @ sub_two) (metricValue (sm_co2 r) (whole ns) ''ppm'')
            (''Target '' @ format_value ns (setpoints.co2TargetPpm sp)) ''Cloud'' ''var(--chart-co2)'' False,
          SummaryStat ''DLI'' (metricValue dliNow (toFixed ns 1) (''mol/m'' @ [CHR 0xC2, CHR 0xB2] @ ''/d''))
            (''Target '' @ format_value ns (setpoints.dliTargetMol sp)) ''Sun'' ''var(--chart-par)'' False,
          status_tile st faults,
          SummaryStat ''Drift'' (if drifted then ''Yes'' else ''No'', None)
            (if drifted then ''Setpoints mismatched'' else ''In sync'') ''Target''
            (if drifted then ''var(--color-status-drift)'' else ''var(--color-fg-subtle)'') drifted])"

section \<open>Soil moisture\<close>

record zone_moisture_row =
  zr_zoneId :: string
  zr_moistureVwc :: "js_num option"
  zr_lowThreshold :: js_num
  zr_highThreshold :: js_num
  zr_lastWatered :: "date option"
  zr_irrigating :: bool
  zr_faulted :: bool
  zr_schedule :: string

definition row_inputs :: "zone_moisture_row \<Rightarrow> zone_moisture_inputs" where
  "row_inputs r = \<lparr>zi_moistureVwc = zr_moistureVwc r, zi_lowThreshold = zr_lowThreshold r,
     zi_highThreshold = zr_highThreshold r, zi_irrigating = zr_irrigating r, zi_faulted = zr_faulted r\<rparr>"

definition asPercent :: "js_num \<Rightarrow> js_num" where
  "asPercent v = math_round (num_mul v (Fin 100))"

text \<open>The gauge: the text, the spans of its fill and the droplet with its colour.\<close>

record moisture_bar =
  mb_text :: string
  mb_spans :: moisture_fill_spans
  mb_droplet :: "(js_num \<times> string) option"

definition MoistureBar :: "(js_num \<Rightarrow> string) \<Rightarrow> zone_moisture_row \<Rightarrow> moisture_bar" where
  "MoistureBar ns r =
     \<lparr>mb_text = (case zr_moistureVwc r of None \<Rightarrow> em_dash | Some v \<Rightarrow> ns (asPercent v) @ '' %''),
      mb_spans = moistureFillSpans (zr_moistureVwc r) (zr_lowThreshold r) (zr_highThreshold r),
      mb_droplet = map_option (\<lambda>p. (p, zm_colorVar (zoneMoistureStatus (row_inputs r)))) (moistureScalePosition (zr_moistureVwc r))\<rparr>"

record moisture_line =
  ml_zone :: string
  ml_bar :: moisture_bar
  ml_range :: string
  ml_watered :: string
  ml_status :: zone_moisture_status

record moisture_panel =
  mp_lines :: "moisture_line list"
  mp_schedules :: string

text \<open>\<open>None\<close>: the text "No irrigation zones configured."\<close>

definition ZoneMoisturePanel ::
    "(js_num \<Rightarrow> string) \<Rightarrow> (date \<Rightarrow> string) \<Rightarrow> (date \<Rightarrow> string) \<Rightarrow> date \<Rightarrow> zone_moisture_row list \<Rightarrow> moisture_panel option" where
  "ZoneMoisturePanel ns time_text date_text now rows =
     (if rows = [] then None
      else Some \<lparr>mp_lines = map (\<lambda>r. \<lparr>ml_zone = formatZoneLabel (zr_zoneId r), ml_bar = MoistureBar ns r,
            ml_range = ns (asPercent (zr_lowThreshold r)) @ '' '' @ en_dash @ '' '' @ ns (asPercent (zr_highThreshold r)) @ '' %'',
            ml_watered = formatLastWatered time_text date_text (zr_lastWatered r) now,
            ml_status = zoneMoistureStatus (row_inputs r)\<rparr>) rows,
          mp_schedules = join_with (''  '' @ bullet @ ''  '') (set_from (map (\<lambda>r. formatSchedule (zr_schedule r)) rows))\<rparr>)"

section \<open>The view\<close>

text \<open>What its hooks hand to one render.\<close>

record detail_inputs =
  di_id :: string
  di_range :: range_key
  di_greenhouse :: "greenhouse_detail query_view"
  di_telemetry :: "telemetry_range option"
  di_analytics :: "analytics_response option"
  di_events :: "event_entry list query_view"
  di_live :: series_map
  di_liveActuators :: "(actuator_name \<times> live_actuator) list"
  di_fleet :: "greenhouse_summary list option"
  di_optimizer :: "optimizer_status option"

definition no_tier_options :: range_tier_options where
  "no_tier_options = \<lparr>rawThresholdMs = None, maxBuckets = None\<rparr>"

definition detail_tier :: "range_key \<Rightarrow> range_tier" where
  "detail_tier r = rangeTierSelection (rangeMs r) no_tier_options"

text \<open>The two history queries it mounts; an empty id disables a query.\<close>

definition detail_queries :: "date_parser \<Rightarrow> string \<Rightarrow> range_key \<Rightarrow> query_opts list" where
  "detail_queries dp i r =
     [useTelemetry dp (if detail_tier r = RawTier then i else []) (range_text r),
      useAnalytics dp (if detail_tier r = RawTier then [] else i) (range_text r)
        (case detail_tier r of AggregateTier k \<Rightarrow> k | RawTier \<Rightarrow> OneHour) None]"

definition history_of :: "detail_inputs \<Rightarrow> metric \<Rightarrow> reading list" where
  "history_of d m = (if detail_tier (di_range d) = RawTier
     then telemetryReadings (di_telemetry d) m None else analyticsReadings (di_analytics d) m None)"

definition live_readings :: "detail_inputs \<Rightarrow> metric \<Rightarrow> reading list" where
  "live_readings d m = (if detail_tier (di_range d) = RawTier
     then (case map_of (di_live d) (liveSeriesKey m None) of Some rs \<Rightarrow> rs | None \<Rightarrow> []) else [])"

definition merged_history :: "detail_inputs \<Rightarrow> metric \<Rightarrow> series_point list" where
  "merged_history d m = mergeReadings (history_of d m) (live_readings d m) (Some (rangeMs (di_range d)))"

definition climateBands :: "detail_inputs \<Rightarrow> setpoints \<Rightarrow> stacked_band list" where
  "climateBands d sp =
     map (\<lambda>h. \<lparr>sb_key = literal metric_table (hm_metric h), sb_label = hm_label h, sb_unit = hm_unit h, sb_color = hm_color h,
          sb_points = merged_history d (hm_metric h), sb_references = Some (houseReferences (hm_metric h) sp)\<rparr>) HOUSE_METRICS"

definition last_point :: "series_point list \<Rightarrow> series_point option" where
  "last_point ps = (if ps = [] then None else Some (last ps))"

definition latestBandPoint :: "stacked_band list \<Rightarrow> metric \<Rightarrow> series_point option" where
  "latestBandPoint bands m =
     Option.bind (find (\<lambda>b. sb_key b = literal metric_table m) bands) (\<lambda>b. last_point (sb_points b))"

definition summaryReadings :: "detail_inputs \<Rightarrow> stacked_band list \<Rightarrow> summary_readings" where
  "summaryReadings d bands =
     \<lparr>sm_temperature = map_option pt_v (latestBandPoint bands Temperature),
      sm_temperaturePoint = latestBandPoint bands Temperature,
      sm_humidity = map_option pt_v (latestBandPoint bands Humidity),
      sm_co2 = map_option pt_v (latestBandPoint bands Co2),
      sm_vpd = map_option pt_v (last_point (merged_history d Vpd))\<rparr>"

definition detail_dli :: "detail_inputs \<Rightarrow> js_num option" where
  "detail_dli d =
     Option.bind (di_fleet d) (\<lambda>f. Option.bind (find (\<lambda>g. greenhouse_summary.ident g = di_id d) f)
       (\<lambda>g. nullish (greenhouse_climate.dli (greenhouse_summary.climate g))))"

text \<open>\<open>new Map(entries)\<close> keeps the last status of a zone id.\<close>

definition zoneRow :: "detail_inputs \<Rightarrow> zone_status list \<Rightarrow> zone_targets \<Rightarrow> zone_moisture_row" where
  "zoneRow d sts z =
     (let st = map_of (rev (map (\<lambda>s. (zone_status.zoneId s, s)) sts)) (zone_targets.zoneId z);
          isFaulted = (case st of Some s \<Rightarrow> zone_status.faulted s | None \<Rightarrow> False);
          liveLatest = (case map_of (di_live d) (liveSeriesKey SoilMoisture (Some (zone_targets.zoneId z))) of
              Some rs \<Rightarrow> if rs = [] then None else Some (reading.val (last rs))
            | None \<Rightarrow> None)
      in \<lparr>zr_zoneId = zone_targets.zoneId z,
          zr_moistureVwc = (if isFaulted then None else (case liveLatest of Some v \<Rightarrow> Some v | None \<Rightarrow> Option.bind st soilMoistureVwc)),
          zr_lowThreshold = moistureLowThreshold z, zr_highThreshold = moistureHighThreshold z,
          zr_lastWatered = Option.bind st zone_status.lastCycleTs,
          zr_irrigating = (case st of Some s \<Rightarrow> zone_status.irrigating s | None \<Rightarrow> False),
          zr_faulted = isFaulted, zr_schedule = zone_targets.sched z\<rparr>)"

definition zoneRows :: "detail_inputs \<Rightarrow> greenhouse_detail \<Rightarrow> zone_moisture_row list" where
  "zoneRows d g = map (zoneRow d (greenhouse_detail.zoneStatus g)) (setpoints.zones (greenhouse_detail.setpoints g))"

definition DETAIL_ACTIVITY_LIMIT :: nat where "DETAIL_ACTIVITY_LIMIT = 12"

definition optimizerPresent :: "detail_inputs \<Rightarrow> bool" where
  "optimizerPresent d \<longleftrightarrow> map_option optimizer_status.status (di_optimizer d) \<noteq> Some Unavailable"

text \<open>\<open>encodeURIComponent\<close> on the UTF-8 bytes\<close>

definition uri_component :: "string \<Rightarrow> string" where
  "uri_component s = concat (map (\<lambda>c.
     if lower_or_digit c \<or> char_in CHR ''A'' CHR ''Z'' c \<or> c \<in> set ''-_.!~*()'' \<or> c = CHR 0x27 then [c]
     else [CHR ''%'', hex_digit (of_char c div 16), hex_digit (of_char c mod 16)]) s)"

record detail_page =
  dp_badge :: "pill list"
  dp_crop :: "string option"
  dp_speed :: "js_num option"
  dp_range :: "(range_key \<times> string \<times> bool) list"
  dp_editLink :: string
  dp_tiles :: "summary_stat list"
  dp_bands :: "stacked_band list"
  dp_zones :: "zone_moisture_row list"
  dp_optimizer :: bool
  dp_actuators :: "actuator_reading list"
  dp_activityLink :: string
  dp_activity :: "event_list option"

datatype detail_body = DetailLoading | DetailFailed "string option" | DetailPage detail_page

definition GreenhouseDetail ::
    "(js_num \<Rightarrow> string) \<Rightarrow> (date \<Rightarrow> string) \<Rightarrow> (date \<Rightarrow> string) \<Rightarrow> detail_inputs \<Rightarrow> detail_body" where
  "GreenhouseDetail ns date_text time_text d =
     (if qv_isLoading (di_greenhouse d) then DetailLoading
      else case qv_data (di_greenhouse d) of
        None \<Rightarrow> DetailFailed (qv_message (di_greenhouse d))
      | Some g \<Rightarrow>
          let sp = greenhouse_detail.setpoints g;
              bands = climateBands d sp;
              events = data_or_empty (di_events d)
          in DetailPage
               \<lparr>dp_badge = StatusBadge (greenhouse_detail.status g) (greenhouse_detail.drift g),
                dp_crop = (if greenhouse_detail.crop g = Some [] then None else greenhouse_detail.crop g),
                dp_speed = greenhouse_detail.timeScale g, dp_range = RangePicker (di_range d),
                dp_editLink = ''/greenhouses/'' @ di_id d @ ''/setpoints'',
                dp_tiles = GreenhouseSummaryBar ns (greenhouse_detail.status g) (greenhouse_detail.drift g) sp
                  (summaryReadings d bands) (detail_dli d) (activeFaultCount events),
                dp_bands = bands, dp_zones = zoneRows d g, dp_optimizer = optimizerPresent d,
                dp_actuators = latestActuators (map_option telemetry_range.actuators (di_telemetry d)) (di_liveActuators d),
                dp_activityLink = ''/activity?greenhouse_id='' @ uri_component (di_id d),
                dp_activity = (if qv_isLoading (di_events d) then None
                  else Some (EventList date_text time_text False False (take DETAIL_ACTIVITY_LIMIT events)))\<rparr>)"

section \<open>Retiring\<close>

record retire_action =
  ra_operator :: bool
  ra_open :: bool
  ra_pending :: bool
  ra_sent :: "string list"
  ra_toasts :: "toast_input list"
  ra_navigated :: "string option"

datatype retire_event = PressRetire | CloseRetire | ConfirmRetire | Retired | RetireFailed thrown

fun retire_step :: "string \<Rightarrow> string \<Rightarrow> string \<Rightarrow> retire_event \<Rightarrow> retire_action \<Rightarrow> retire_action" where
  "retire_step other i nm PressRetire a = (if ra_operator a then a\<lparr>ra_open := True\<rparr> else a)"
| "retire_step other i nm CloseRetire a = a\<lparr>ra_open := False\<rparr>"
| "retire_step other i nm ConfirmRetire a =
     (if ra_open a \<and> \<not> ra_pending a then a\<lparr>ra_pending := True, ra_sent := ra_sent a @ [i]\<rparr> else a)"
| "retire_step other i nm Retired a =
     (if ra_pending a
      then a\<lparr>ra_pending := False, ra_open := False, ra_navigated := Some ''/'',
        ra_toasts := ra_toasts a @ [toast_of SuccessToast ''Greenhouse retired'' (formatGreenhouseLabel nm)]\<rparr>
      else a)"
| "retire_step other i nm (RetireFailed e) a =
     (if ra_pending a
      then a\<lparr>ra_pending := False,
        ra_toasts := ra_toasts a @ [toast_of WarningToast ''Couldn't retire greenhouse'' (thrown_message other e)]\<rparr>
      else a)"

section \<open>Lemmas\<close>

lemma isRangeKey_text [simp]: "isRangeKey (Some (range_text r)) = Some r"
  by (cases r) (simp_all add: isRangeKey_def RANGE_OPTIONS_def)

lemma isRangeKey_None [simp]: "isRangeKey None = None"
  by (simp add: isRangeKey_def)

lemma detail_tier_raw: "detail_tier r = RawTier"
  by (cases r) (simp_all add: detail_tier_def rangeTierSelection_def no_tier_options_def)

text \<open>
  C30: the chosen range. A pick is what the view shows next, and it touches no other search parameter;
  where the storage works, a view mounted later without the parameter shows it too, in any history of
  picks the last one, while a valid parameter of a shared link always wins. Every range on offer asks for
  raw telemetry: for a greenhouse id the telemetry query is the one that runs, and the aggregated
  history is never fetched.
\<close>

theorem range_choice_persists:
  assumes "(ps', st') = fold (setRange param storageKey) (picks @ [r]) (ps, st)"
  shows "usePersistentRange param storageKey ps' st' = r
     \<and> (k \<noteq> param \<longrightarrow> param_get ps' k = param_get ps k)
     \<and> (st_readable st \<and> st_writable st \<and> isRangeKey (param_get fresh param) = None
       \<longrightarrow> usePersistentRange param storageKey fresh st' = r)
     \<and> (isRangeKey (param_get fresh param) = Some q \<longrightarrow> usePersistentRange param storageKey fresh st' = q)
     \<and> (i \<noteq> [] \<longrightarrow> map q_enabled (detail_queries dp i r) = [True, False])"
proof (intro conjI impI)
  obtain ps1 st1 where 1: "(ps1, st1) = fold (setRange param storageKey) picks (ps, st)" by (metis surj_pair)
  have last: "ps' = search_set param (range_text r) ps1" "st' = writeStored storageKey r st1"
    using assms 1 [symmetric] by (simp_all add: setRange_def)
  have keep: "param_get (fst (fold (setRange param storageKey) picks s)) k = param_get (fst s) k \<and>
      st_readable (snd (fold (setRange param storageKey) picks s)) = st_readable (snd s) \<and>
      st_writable (snd (fold (setRange param storageKey) picks s)) = st_writable (snd s)" if "k \<noteq> param" for k s
    using that by (induction picks arbitrary: s) (simp_all add: setRange_def writeStored_def)
  have flags: "st_readable st1 = st_readable st" "st_writable st1 = st_writable st"
  proof -
    have "param @ ''x'' \<noteq> param" by simp
    from keep [OF this, of "(ps, st)"] show "st_readable st1 = st_readable st" "st_writable st1 = st_writable st"
      using 1 [symmetric] by simp_all
  qed
  show "usePersistentRange param storageKey ps' st' = r" by (simp add: usePersistentRange_def last)
  show "k \<noteq> param \<Longrightarrow> param_get ps' k = param_get ps k"
    using keep [of k "(ps, st)"] 1 [symmetric] by (simp add: last)
  show "st_readable st \<and> st_writable st \<and> isRangeKey (param_get fresh param) = None
       \<Longrightarrow> usePersistentRange param storageKey fresh st' = r"
    by (simp add: usePersistentRange_def readStored_def writeStored_def last flags)
  show "isRangeKey (param_get fresh param) = Some q \<Longrightarrow> usePersistentRange param storageKey fresh st' = q"
    by (simp add: usePersistentRange_def)
  show "i \<noteq> [] \<Longrightarrow> map q_enabled (detail_queries dp i r) = [True, False]"
    by (simp add: detail_queries_def detail_tier_raw useTelemetry_def useAnalytics_def)
qed

theorem range_choice_persists_witness:
  "usePersistentRange ''range'' ''k'' [] (snd (fold (setRange ''range'' ''k'') [R6h, R15m] ([], \<lparr>st_items = Map.empty, st_readable = True, st_writable = True\<rparr>)))
     = R15m"
proof -
  let ?s = "fold (setRange ''range'' ''k'') [R6h, R15m] ([], \<lparr>st_items = Map.empty, st_readable = True, st_writable = True\<rparr>)"
  have "(fst ?s, snd ?s) = fold (setRange ''range'' ''k'') ([R6h] @ [R15m]) ([], \<lparr>st_items = Map.empty, st_readable = True, st_writable = True\<rparr>)"
    by simp
  from range_choice_persists [OF this, of "[]"] show ?thesis by (simp add: param_get_def)
qed

text \<open>The actuator table: per actuator the history keeps the later of two samples.\<close>

definition sample_time :: "actuator_state \<Rightarrow> js_num" where
  "sample_time a = getTime (actuator_state.ts a)"

definition later_sample :: "actuator_state \<Rightarrow> actuator_state option \<Rightarrow> actuator_state option" where
  "later_sample a r = (case r of Some p \<Rightarrow> if num_gt (sample_time a) (sample_time p) then Some a else Some p | None \<Rightarrow> Some a)"

lemma map_of_keep_latest:
  "map_of (fold keep_latest samples m) n
     = fold later_sample (filter (\<lambda>a. actuator_state.actuator a = n) samples) (map_of m n)"
proof (induction samples arbitrary: m)
  case (Cons a samples)
  have "map_of (keep_latest a m) n = (if actuator_state.actuator a = n then later_sample a (map_of m n) else map_of m n)"
    by (auto simp: keep_latest_def later_sample_def sample_time_def update_conv' split: option.split)
  with Cons show ?case by simp
qed simp

lemma fold_later_sample:
  assumes "\<forall>a\<in>set samples. sample_time a \<noteq> NaN" "\<forall>p. r = Some p \<longrightarrow> sample_time p \<noteq> NaN"
  shows "case fold later_sample samples r of
      None \<Rightarrow> samples = [] \<and> r = None
    | Some x \<Rightarrow> (x \<in> set samples \<or> r = Some x) \<and> (\<forall>a\<in>set samples. num_le (sample_time a) (sample_time x))
        \<and> (\<forall>p. r = Some p \<longrightarrow> num_le (sample_time p) (sample_time x))"
  using assms
proof (induction samples arbitrary: r)
  case Nil
  then show ?case by (cases r) auto
next
  case (Cons a samples)
  obtain y where y: "later_sample a r = Some y" "y = a \<or> r = Some y" "sample_time y \<noteq> NaN"
    "num_le (sample_time a) (sample_time y)" "\<forall>p. r = Some p \<longrightarrow> num_le (sample_time p) (sample_time y)"
  proof (cases r)
    case None
    with that [of a] show ?thesis using Cons.prems(1) by (simp add: later_sample_def)
  next
    case (Some p)
    have nn: "sample_time a \<noteq> NaN" "sample_time p \<noteq> NaN" using Cons.prems Some by simp_all
    show ?thesis
    proof (cases "num_gt (sample_time a) (sample_time p)")
      case True
      then have "num_le (sample_time p) (sample_time a)" by (simp add: num_lt_iff)
      with that [of a] show ?thesis using True nn Some by (simp add: later_sample_def)
    next
      case False
      with nn have "num_le (sample_time a) (sample_time p)" by (simp add: num_not_lt)
      with that [of p] show ?thesis using False nn Some by (simp add: later_sample_def)
    qed
  qed
  have "case fold later_sample samples (Some y) of
      None \<Rightarrow> samples = [] \<and> Some y = None
    | Some x \<Rightarrow> (x \<in> set samples \<or> Some y = Some x) \<and> (\<forall>a\<in>set samples. num_le (sample_time a) (sample_time x))
        \<and> (\<forall>p. Some y = Some p \<longrightarrow> num_le (sample_time p) (sample_time x))"
    using Cons.IH [of "Some y"] Cons.prems(1) y(3) by simp
  then show ?case using y(1,2,4,5) by (auto split: option.splits intro: num_le_trans)
qed

lemma fold_update_rows:
  assumes "\<forall>(n, r)\<in>set m. ar_actuator r = n" "\<And>n a. ar_actuator (f n a) = n" "distinct (map fst m)"
  shows "distinct (map fst (fold (\<lambda>(n, a). AList.update n (f n a)) es m))
    \<and> (\<forall>(n, r)\<in>set (fold (\<lambda>(n, a). AList.update n (f n a)) es m). ar_actuator r = n)
    \<and> map_of (fold (\<lambda>(n, a). AList.update n (f n a)) es m)
      = (\<lambda>n. case map_of (rev es) n of Some a \<Rightarrow> Some (f n a) | None \<Rightarrow> map_of m n)"
  using assms(1,3)
proof (induction es arbitrary: m)
  case (Cons e es)
  obtain n a where e: "e = (n, a)" by (cases e)
  have "set (AList.update n (f n a) m) \<subseteq> insert (n, f n a) (set m)" by (induction m) auto
  then have "\<forall>(n, r)\<in>set (AList.update n (f n a) m). ar_actuator r = n" using Cons.prems(1) assms(2) by fast
  moreover have "distinct (map fst (AList.update n (f n a) m))" using Cons.prems(2) by (simp add: distinct_update)
  ultimately show ?case using Cons.IH [of "AList.update n (f n a) m"]
    by (auto simp: e update_conv' map_add_def fun_eq_iff split: option.split)
qed (auto simp: fun_eq_iff)

lemma latestActuators_rows:
  assumes latest_def: "latest = fold keep_latest h []"
  shows "\<exists>m. latestActuators (Some h) l = map snd m \<and> distinct (map fst m) \<and> (\<forall>(n, r)\<in>set m. ar_actuator r = n)
    \<and> map_of m = (\<lambda>n. case map_of (rev l) n of
        Some a \<Rightarrow> Some \<lparr>ar_actuator = n, ar_commanded = lv_commanded a, ar_observed = lv_observed a\<rparr>
      | None \<Rightarrow> (case map_of latest n of
          Some a \<Rightarrow> Some \<lparr>ar_actuator = n, ar_commanded = actuator_state.commanded a, ar_observed = actuator_state.observed a\<rparr>
        | None \<Rightarrow> None))"
proof -
  let ?f = "\<lambda>n a. \<lparr>ar_actuator = n, ar_commanded = actuator_state.commanded a, ar_observed = actuator_state.observed a\<rparr>"
    and ?g = "\<lambda>n a. \<lparr>ar_actuator = n, ar_commanded = lv_commanded a, ar_observed = lv_observed a\<rparr>"
  have "distinct (map fst (fold keep_latest h m))" if "distinct (map fst m)" for m
    using that by (induction h arbitrary: m) (simp_all add: keep_latest_def distinct_update split: option.split)
  then have rl: "map_of (rev latest) = map_of latest" unfolding latest_def by (intro map_of_rev_distinct) simp
  define base where "base = fold (\<lambda>(n, a). AList.update n (?f n a)) latest []"
  have b: "distinct (map fst base)" "\<forall>(n, r)\<in>set base. ar_actuator r = n"
    "map_of base = (\<lambda>n. case map_of latest n of Some a \<Rightarrow> Some (?f n a) | None \<Rightarrow> None)"
    using fold_update_rows [of "[]" ?f latest, unfolded rl map_of.simps] by (simp_all add: base_def)
  have "latestActuators (Some h) l = map snd (fold (\<lambda>(n, a). AList.update n (?g n a)) l base)"
    by (simp add: latestActuators_def base_def latest_def Let_def)
  with fold_update_rows [OF b(2) _ b(1), of ?g l, unfolded b(3)] show ?thesis by auto
qed

lemma map_of_last_entry:
  "map_of (rev (map (\<lambda>s. (f s, s)) xs)) k = find (\<lambda>s. f s = k) (rev xs)"
proof -
  have "map_of (map (\<lambda>s. (f s, s)) ys) k = find (\<lambda>s. f s = k) ys" for ys by (induction ys) auto
  from this [of "rev xs"] show ?thesis by (simp only: rev_map)
qed

lemma soil_key: "liveSeriesKey SoilMoisture (Some i) = (if i = [] then ''soil_moisture'' else ''soil_moisture:'' @ i)"
  by (simp add: liveSeriesKey_def metric_table_def)

lemma zone_row_value:
  "let row = zoneRow d sts z; st = find (\<lambda>s. zone_status.zoneId s = zone_targets.zoneId z) (rev sts);
       live = map_of (di_live d) (if zone_targets.zoneId z = [] then ''soil_moisture'' else ''soil_moisture:'' @ zone_targets.zoneId z)
   in zr_zoneId row = zone_targets.zoneId z \<and> zr_schedule row = zone_targets.sched z
    \<and> zr_lowThreshold row = moistureLowThreshold z \<and> zr_highThreshold row = moistureHighThreshold z
    \<and> (case st of
        None \<Rightarrow> \<not> zr_faulted row \<and> \<not> zr_irrigating row \<and> zr_lastWatered row = None
      | Some s \<Rightarrow> zr_faulted row = zone_status.faulted s \<and> zr_irrigating row = zone_status.irrigating s
          \<and> zr_lastWatered row = zone_status.lastCycleTs s)
    \<and> zr_moistureVwc row =
        (if zr_faulted row then None
         else case live of Some (r # rs) \<Rightarrow> Some (reading.val (last (r # rs)))
           | _ \<Rightarrow> (case st of Some s \<Rightarrow> zone_status.soilMoistureVwc s | None \<Rightarrow> None))
    \<and> (zr_faulted row \<longrightarrow> zm_kind (zoneMoistureStatus (row_inputs row)) = MFault)"
proof -
  have live: "(case (case l of Some rs \<Rightarrow> if rs = [] then None else Some (reading.val (last rs)) | None \<Rightarrow> None) of
        Some v \<Rightarrow> Some v | None \<Rightarrow> b)
      = (case l of Some (r # rs) \<Rightarrow> Some (reading.val (last (r # rs))) | _ \<Rightarrow> b)" for b and l :: "reading list option"
    by (simp split: option.split list.split)
  have bind_case: "Option.bind s f = (case s of Some x \<Rightarrow> f x | None \<Rightarrow> None)" for s :: "zone_status option" and f
    by (cases s) auto
  show ?thesis
    unfolding Let_def zoneRow_def soil_key [symmetric] map_of_last_entry live bind_case
    by (cases "find (\<lambda>s. zone_status.zoneId s = zone_targets.zoneId z) (rev sts)")
      (simp_all add: row_inputs_def zoneMoistureStatus_def)
qed

lemma zone_rows_values:
  "length (zoneRows d g) = length (setpoints.zones (greenhouse_detail.setpoints g))"
  "(\<forall>i<length (setpoints.zones (greenhouse_detail.setpoints g)).
       let z = setpoints.zones (greenhouse_detail.setpoints g) ! i; row = zoneRows d g ! i;
           st = find (\<lambda>s. zone_status.zoneId s = zone_targets.zoneId z) (rev (greenhouse_detail.zoneStatus g));
           live = map_of (di_live d) (if zone_targets.zoneId z = [] then ''soil_moisture'' else ''soil_moisture:'' @ zone_targets.zoneId z)
       in zr_zoneId row = zone_targets.zoneId z \<and> zr_schedule row = zone_targets.sched z
        \<and> zr_lowThreshold row = moistureLowThreshold z \<and> zr_highThreshold row = moistureHighThreshold z
        \<and> (case st of
            None \<Rightarrow> \<not> zr_faulted row \<and> \<not> zr_irrigating row \<and> zr_lastWatered row = None
          | Some s \<Rightarrow> zr_faulted row = zone_status.faulted s \<and> zr_irrigating row = zone_status.irrigating s
              \<and> zr_lastWatered row = zone_status.lastCycleTs s)
        \<and> zr_moistureVwc row =
            (if zr_faulted row then None
             else case live of Some (r # rs) \<Rightarrow> Some (reading.val (last (r # rs)))
               | _ \<Rightarrow> (case st of Some s \<Rightarrow> zone_status.soilMoistureVwc s | None \<Rightarrow> None))
        \<and> (zr_faulted row \<longrightarrow> zm_kind (zoneMoistureStatus (row_inputs row)) = MFault))"
proof -
  show "length (zoneRows d g) = length (setpoints.zones (greenhouse_detail.setpoints g))" by (simp add: zoneRows_def)
  show "(\<forall>i<length (setpoints.zones (greenhouse_detail.setpoints g)).
       let z = setpoints.zones (greenhouse_detail.setpoints g) ! i; row = zoneRows d g ! i;
           st = find (\<lambda>s. zone_status.zoneId s = zone_targets.zoneId z) (rev (greenhouse_detail.zoneStatus g));
           live = map_of (di_live d) (if zone_targets.zoneId z = [] then ''soil_moisture'' else ''soil_moisture:'' @ zone_targets.zoneId z)
       in zr_zoneId row = zone_targets.zoneId z \<and> zr_schedule row = zone_targets.sched z
        \<and> zr_lowThreshold row = moistureLowThreshold z \<and> zr_highThreshold row = moistureHighThreshold z
        \<and> (case st of
            None \<Rightarrow> \<not> zr_faulted row \<and> \<not> zr_irrigating row \<and> zr_lastWatered row = None
          | Some s \<Rightarrow> zr_faulted row = zone_status.faulted s \<and> zr_irrigating row = zone_status.irrigating s
              \<and> zr_lastWatered row = zone_status.lastCycleTs s)
        \<and> zr_moistureVwc row =
            (if zr_faulted row then None
             else case live of Some (r # rs) \<Rightarrow> Some (reading.val (last (r # rs)))
               | _ \<Rightarrow> (case st of Some s \<Rightarrow> zone_status.soilMoistureVwc s | None \<Rightarrow> None))
        \<and> (zr_faulted row \<longrightarrow> zm_kind (zoneMoistureStatus (row_inputs row)) = MFault))"
    (is "\<forall>i<_. ?row i")
  proof (intro allI impI)
    fix i assume "i < length (setpoints.zones (greenhouse_detail.setpoints g))"
    then have row: "zoneRows d g ! i
        = zoneRow d (greenhouse_detail.zoneStatus g) (setpoints.zones (greenhouse_detail.setpoints g) ! i)"
      by (simp add: zoneRows_def)
    show "?row i" unfolding row using zone_row_value unfolding Let_def .
  qed
qed

text \<open>
  C31: what the detail view joins. The actuator table has one row per actuator that was seen, the
  live position if there is one, otherwise the latest sample of the history. The moisture table
  has one row per configured zone, with the zone's thresholds and schedule, and joins it with the
  last status listed for its id, from which it takes the fault, the irrigation and the last
  watering; a zone without a status counts as healthy, idle and never watered. A faulted zone shows
  no value and the status Fault; another shows the newest live soil-moisture reading of that zone
  and, where there is none, the value of the snapshot.
\<close>

theorem detail_view_joins:
  assumes times: "\<forall>a\<in>set h. sample_time a \<noteq> NaN"
  shows "distinct (map ar_actuator (latestActuators (Some h) l))
     \<and> ar_actuator ` set (latestActuators (Some h) l) = actuator_state.actuator ` set h \<union> fst ` set l
     \<and> (\<forall>r\<in>set (latestActuators (Some h) l). case map_of (rev l) (ar_actuator r) of
       Some a \<Rightarrow> ar_commanded r = lv_commanded a \<and> ar_observed r = lv_observed a
     | None \<Rightarrow> \<exists>a\<in>set h. actuator_state.actuator a = ar_actuator r \<and> ar_commanded r = actuator_state.commanded a
         \<and> ar_observed r = actuator_state.observed a
         \<and> (\<forall>b\<in>set h. actuator_state.actuator b = ar_actuator r \<longrightarrow> num_le (sample_time b) (sample_time a)))
     \<and> length (zoneRows d g) = length (setpoints.zones (greenhouse_detail.setpoints g))
     \<and> (\<forall>i<length (setpoints.zones (greenhouse_detail.setpoints g)).
       let z = setpoints.zones (greenhouse_detail.setpoints g) ! i; row = zoneRows d g ! i;
           st = find (\<lambda>s. zone_status.zoneId s = zone_targets.zoneId z) (rev (greenhouse_detail.zoneStatus g));
           live = map_of (di_live d) (if zone_targets.zoneId z = [] then ''soil_moisture'' else ''soil_moisture:'' @ zone_targets.zoneId z)
       in zr_zoneId row = zone_targets.zoneId z \<and> zr_schedule row = zone_targets.sched z
        \<and> zr_lowThreshold row = moistureLowThreshold z \<and> zr_highThreshold row = moistureHighThreshold z
        \<and> (case st of
            None \<Rightarrow> \<not> zr_faulted row \<and> \<not> zr_irrigating row \<and> zr_lastWatered row = None
          | Some s \<Rightarrow> zr_faulted row = zone_status.faulted s \<and> zr_irrigating row = zone_status.irrigating s
              \<and> zr_lastWatered row = zone_status.lastCycleTs s)
        \<and> zr_moistureVwc row =
            (if zr_faulted row then None
             else case live of Some (r # rs) \<Rightarrow> Some (reading.val (last (r # rs)))
               | _ \<Rightarrow> (case st of Some s \<Rightarrow> zone_status.soilMoistureVwc s | None \<Rightarrow> None))
        \<and> (zr_faulted row \<longrightarrow> zm_kind (zoneMoistureStatus (row_inputs row)) = MFault))"
proof (intro conjI)
  define latest where "latest = fold keep_latest h []"
  obtain m where m: "latestActuators (Some h) l = map snd m" "distinct (map fst m)" "\<forall>(n, r)\<in>set m. ar_actuator r = n"
    "map_of m = (\<lambda>n. case map_of (rev l) n of
        Some a \<Rightarrow> Some \<lparr>ar_actuator = n, ar_commanded = lv_commanded a, ar_observed = lv_observed a\<rparr>
      | None \<Rightarrow> (case map_of latest n of
          Some a \<Rightarrow> Some \<lparr>ar_actuator = n, ar_commanded = actuator_state.commanded a, ar_observed = actuator_state.observed a\<rparr>
        | None \<Rightarrow> None))"
    using latestActuators_rows [OF latest_def, of l] by blast
  have hist: "case map_of latest n of
      None \<Rightarrow> n \<notin> actuator_state.actuator ` set h
    | Some x \<Rightarrow> x \<in> set h \<and> actuator_state.actuator x = n
        \<and> (\<forall>a\<in>set h. actuator_state.actuator a = n \<longrightarrow> num_le (sample_time a) (sample_time x))" for n
    using fold_later_sample [of "filter (\<lambda>a. actuator_state.actuator a = n) h" None] times
    by (auto simp: latest_def map_of_keep_latest filter_empty_conv split: option.splits)
  have keys: "map ar_actuator (latestActuators (Some h) l) = map fst m" using m(1,3) by auto
  show "distinct (map ar_actuator (latestActuators (Some h) l))" unfolding keys by (rule m(2))
  have "n \<in> fst ` set m \<longleftrightarrow> n \<in> actuator_state.actuator ` set h \<union> fst ` set l" for n
  proof -
    have "n \<in> fst ` set m \<longleftrightarrow> map_of m n \<noteq> None" by (simp add: map_of_eq_None_iff)
    also have "\<dots> \<longleftrightarrow> map_of (rev l) n \<noteq> None \<or> map_of latest n \<noteq> None" by (auto simp: m(4) split: option.splits)
    also have "map_of (rev l) n \<noteq> None \<longleftrightarrow> n \<in> fst ` set l" by (simp add: map_of_eq_None_iff)
    also have "map_of latest n \<noteq> None \<longleftrightarrow> n \<in> actuator_state.actuator ` set h"
      using hist [of n] by (auto split: option.splits)
    finally show ?thesis by blast
  qed
  then show "ar_actuator ` set (latestActuators (Some h) l) = actuator_state.actuator ` set h \<union> fst ` set l"
    using keys by (metis set_eqI list.set_map)
  show "\<forall>r\<in>set (latestActuators (Some h) l). case map_of (rev l) (ar_actuator r) of
       Some a \<Rightarrow> ar_commanded r = lv_commanded a \<and> ar_observed r = lv_observed a
     | None \<Rightarrow> \<exists>a\<in>set h. actuator_state.actuator a = ar_actuator r \<and> ar_commanded r = actuator_state.commanded a
         \<and> ar_observed r = actuator_state.observed a
         \<and> (\<forall>b\<in>set h. actuator_state.actuator b = ar_actuator r \<longrightarrow> num_le (sample_time b) (sample_time a))"
  proof
    fix r assume "r \<in> set (latestActuators (Some h) l)"
    then have "map_of m (ar_actuator r) = Some r" using m(1-3) by (force intro: map_of_is_SomeI)
    then show "case map_of (rev l) (ar_actuator r) of
       Some a \<Rightarrow> ar_commanded r = lv_commanded a \<and> ar_observed r = lv_observed a
     | None \<Rightarrow> \<exists>a\<in>set h. actuator_state.actuator a = ar_actuator r \<and> ar_commanded r = actuator_state.commanded a
         \<and> ar_observed r = actuator_state.observed a
         \<and> (\<forall>b\<in>set h. actuator_state.actuator b = ar_actuator r \<longrightarrow> num_le (sample_time b) (sample_time a))"
      using hist [of "ar_actuator r"] unfolding m(4)
      by (cases r; cases "map_of (rev l) (ar_actuator r)"; cases "map_of latest (ar_actuator r)") auto
  qed
  show "length (zoneRows d g) = length (setpoints.zones (greenhouse_detail.setpoints g))"
    by (rule zone_rows_values)
  show "(\<forall>i<length (setpoints.zones (greenhouse_detail.setpoints g)).
       let z = setpoints.zones (greenhouse_detail.setpoints g) ! i; row = zoneRows d g ! i;
           st = find (\<lambda>s. zone_status.zoneId s = zone_targets.zoneId z) (rev (greenhouse_detail.zoneStatus g));
           live = map_of (di_live d) (if zone_targets.zoneId z = [] then ''soil_moisture'' else ''soil_moisture:'' @ zone_targets.zoneId z)
       in zr_zoneId row = zone_targets.zoneId z \<and> zr_schedule row = zone_targets.sched z
        \<and> zr_lowThreshold row = moistureLowThreshold z \<and> zr_highThreshold row = moistureHighThreshold z
        \<and> (case st of
            None \<Rightarrow> \<not> zr_faulted row \<and> \<not> zr_irrigating row \<and> zr_lastWatered row = None
          | Some s \<Rightarrow> zr_faulted row = zone_status.faulted s \<and> zr_irrigating row = zone_status.irrigating s
              \<and> zr_lastWatered row = zone_status.lastCycleTs s)
        \<and> zr_moistureVwc row =
            (if zr_faulted row then None
             else case live of Some (r # rs) \<Rightarrow> Some (reading.val (last (r # rs)))
               | _ \<Rightarrow> (case st of Some s \<Rightarrow> zone_status.soilMoistureVwc s | None \<Rightarrow> None))
        \<and> (zr_faulted row \<longrightarrow> zm_kind (zoneMoistureStatus (row_inputs row)) = MFault))"
    by (rule zone_rows_values)
qed

theorem detail_view_joins_witness:
  "ar_actuator ` set (latestActuators (Some [\<lparr>actuator_state.actuator = Heater, zoneId = None, commanded = Fin 40, observed = None, ts = Some 5\<rparr>])
     [(Fans, \<lparr>lv_commanded = Fin 10, lv_observed = None, lv_ts = Some 6\<rparr>)]) = {Fans, Heater}"
proof -
  let ?h = "[\<lparr>actuator_state.actuator = Heater, zoneId = None, commanded = Fin 40, observed = None, ts = Some 5\<rparr>]"
  have "\<forall>a\<in>set ?h. sample_time a \<noteq> NaN" by (simp add: sample_time_def num_of_int_def)
  from detail_view_joins [OF this, of "[(Fans, \<lparr>lv_commanded = Fin 10, lv_observed = None, lv_ts = Some 6\<rparr>)]"]
  show ?thesis by simp
qed

end
