(* ===== verification/Optimizer_View.thy ===== *)
theory Optimizer_View
  imports Ui_Parts Optimizer_Console "HOL-Library.List_Lexorder"
begin

text \<open>
  The views of the optimizer (\<open>features/optimizer\<close>): badges, the operator controls with the pause
  dialog as a state machine, the row of a greenhouse, the console with its filter, and the plan
  panel of the detail view. \<open>localeCompare\<close> is the parameter \<open>lc\<close>.
\<close>

section \<open>Badges\<close>

fun OUTCOME_META :: "optimizer_outcome_status \<Rightarrow> pill" where
  "OUTCOME_META Applied = pill_of ''Applied'' ''var(--color-status-online)'' ''CircleCheck''"
| "OUTCOME_META Unchanged = pill_of ''Unchanged'' ''var(--color-info)'' ''CircleMinus''"
| "OUTCOME_META Held = pill_of ''Held'' ''var(--color-status-degraded)'' ''TriangleAlert''"
| "OUTCOME_META Failed = pill_of ''Failed'' ''var(--color-fault)'' ''TriangleAlert''"

definition PlanOutcomeBadge :: "optimizer_outcome_status \<Rightarrow> pill" where
  "PlanOutcomeBadge st = OUTCOME_META st"

definition MUTED :: string where "MUTED = ''var(--color-status-offline)''"

fun OptimizerStatusPill :: "optimizer_card_state \<Rightarrow> pill" where
  "OptimizerStatusPill (OutcomeCard st r) = PlanOutcomeBadge st"
| "OptimizerStatusPill ReadOnlyCard = pill_of ''Read-only'' MUTED ''Lock''"
| "OptimizerStatusPill DisabledCard = pill_of ''Disabled'' MUTED ''CirclePause''"
| "OptimizerStatusPill NoPlanCard = pill_of ''No plan'' MUTED ''CircleDashed''"

definition ReasonCodeChip :: "reason_code \<Rightarrow> reason_class option \<Rightarrow> pill" where
  "ReasonCodeChip code rclass =
     (let klass = (case rclass of Some k \<Rightarrow> k | None \<Rightarrow> reasonClassForCode code);
          klass_text = literal reason_class_table klass
      in \<lparr>pl_text = spaced (literal reason_code_table code) @ '' '' @ middle_dot @ '' '' @ klass_text,
          pl_color = (if klass = Persistent then ''var(--color-fault)'' else ''var(--color-warning)''),
          pl_icon = ''CircleHelp'', pl_title = Some (snd (REASON_CODES code) @ '' ('' @ klass_text @ '')'')\<rparr>)"

fun HEALTH_META :: "optimizer_service_status \<Rightarrow> pill" where
  "HEALTH_META Healthy = pill_of ''Healthy'' ''var(--color-status-online)'' ''CircleCheck''"
| "HEALTH_META ServiceDegraded = pill_of ''Degraded'' ''var(--color-status-degraded)'' ''TriangleAlert''"
| "HEALTH_META Unavailable = pill_of ''Unavailable'' MUTED ''CloudOff''"

text \<open>The finite durations of the callers are whole seconds; the others go through the same text.\<close>

fun duration_text :: "js_num \<Rightarrow> string" where
  "duration_text (Fin q) = formatDurationSecs \<lfloor>q\<rfloor>"
| "duration_text NegInf = ''-Infinitys''"
| "duration_text PosInf = ''Infinityh''"
| "duration_text NaN = ''NaNh''"

record health_badge =
  hb_pill :: pill
  hb_reason :: "string option"
  hb_age :: string
  hb_flagged :: bool
  hb_cadence :: string
  hb_paused :: "string option"

definition OptimizerHealthBadge :: "optimizer_status \<Rightarrow> date \<Rightarrow> health_badge" where
  "OptimizerHealthBadge s now =
     (let paused = (\<not> optimizer_status.enabled s); a = lastCycleAge s now
      in \<lparr>hb_pill = (if paused then pill_of ''Read-only'' MUTED ''CirclePause'' else HEALTH_META (optimizer_status.status s)),
          hb_reason = (if optimizer_status.status s = ServiceDegraded
            then map_option DEGRADED_REASONS (optimizer_status.degradedReason s) else None),
          hb_age = (case ca_ageSecs a of None \<Rightarrow> ''No successful cycle yet''
            | Some n \<Rightarrow> ''Last cycle '' @ duration_text n @ '' ago'' @ (if ca_stale a then '' '' @ em_dash @ '' overdue'' else [])),
          hb_flagged = ca_stale a,
          hb_cadence = '' '' @ middle_dot @ '' cadence '' @ duration_text (optimizer_status.cadenceSecs s),
          hb_paused = (if paused \<and> optimizer_status.readOnlyReason s \<noteq> Some []
            then map_option (\<lambda>r. ''Paused: '' @ r) (optimizer_status.readOnlyReason s) else None)\<rparr>)"

section \<open>Controls\<close>

definition OptimizerRollupBar :: "(js_num \<Rightarrow> string) \<Rightarrow> fleet_optimizer_rollup \<Rightarrow> summary_stat list" where
  "OptimizerRollupBar ns r =
     (let c = fleet_optimizer_rollup.byOutcome r
      in [SummaryStat ''Applied'' (ns (applied c), None) ''Setpoints published'' ''CircleCheck'' ''var(--color-status-online)'' False,
          SummaryStat ''Unchanged'' (ns (unchanged c), None) ''No change needed'' ''CircleMinus'' ''var(--color-info)'' False,
          SummaryStat ''Held'' (ns (held c), None) ''Existing setpoints kept'' ''TriangleAlert'' ''var(--color-status-degraded)'' False,
          SummaryStat ''Failed'' (ns (failed c), None) ''No valid plan produced'' ''OctagonX'' ''var(--color-fault)'' False])"

record model_selector =
  ms_value :: string
  ms_options :: "string list"
  ms_disabled :: bool
  ms_title :: "string option"
  ms_note :: string

definition ModelSelector :: "model_state \<Rightarrow> bool \<Rightarrow> string option \<Rightarrow> bool \<Rightarrow> model_selector" where
  "ModelSelector m disabled reason waiting =
     \<lparr>ms_value = model_state.model m, ms_options = availableModels m, ms_disabled = (disabled \<or> waiting),
      ms_title = (if disabled then reason else None),
      ms_note = literal optimizer_provider_table (model_state.provider m) @ '' '' @ middle_dot @ '' '' @ model_state.promptVersion m\<rparr>"

text \<open>What choosing an option of the model list asks for.\<close>

definition choose_model :: "model_selector \<Rightarrow> string \<Rightarrow> string option" where
  "choose_model m v = (if ms_disabled m \<or> v \<notin> set (ms_options m) \<or> v = ms_value m then None else Some v)"

record action_button =
  ab_text :: string
  ab_disabled :: bool
  ab_title :: "string option"

datatype toggle_scope = GlobalScope | GreenhouseScope

text \<open>The toggle shows a pause button with its dialog (title, description) or a resume button.\<close>

datatype toggle_view = PauseToggle action_button "(string \<times> string) option" | ResumeToggle action_button

definition pause_dialog :: "toggle_scope \<Rightarrow> string \<times> string" where
  "pause_dialog sc =
     (if sc = GlobalScope then ''Pause the optimizer?'' else ''Pause this greenhouse?'',
      ''Planning stops and no setpoints are written for ''
        @ (if sc = GlobalScope then ''the optimizer service'' else ''this greenhouse'')
        @ '' until it is resumed. Current setpoints stay in force.'')"

definition OptimizerEnableToggle :: "toggle_scope \<Rightarrow> bool \<Rightarrow> bool \<Rightarrow> string option \<Rightarrow> bool \<Rightarrow> bool \<Rightarrow> toggle_view" where
  "OptimizerEnableToggle sc isEnabled disabled reason waiting confirming =
     (if isEnabled
      then PauseToggle \<lparr>ab_text = (if waiting then ''Pausing'' @ ellipsis else ''Pause''), ab_disabled = (disabled \<or> waiting),
          ab_title = (if disabled then reason else None)\<rparr> (if confirming then Some (pause_dialog sc) else None)
      else ResumeToggle \<lparr>ab_text = (if waiting then ''Resuming'' @ ellipsis else ''Resume''), ab_disabled = (disabled \<or> waiting),
          ab_title = (if disabled then reason else None)\<rparr>)"

datatype toggle_event = PressPause | CancelPause | ConfirmPause | PressResume

text \<open>
  A press on a button that is not rendered or is disabled does nothing. The result is whether the
  dialog is up and the value \<open>onChange\<close> is called with.
\<close>

fun toggle_step :: "bool \<Rightarrow> bool \<Rightarrow> bool \<Rightarrow> toggle_event \<Rightarrow> bool \<Rightarrow> bool \<times> bool option" where
  "toggle_step isEnabled disabled waiting PressPause confirming =
     (if isEnabled \<and> \<not> disabled \<and> \<not> waiting then (True, None) else (confirming, None))"
| "toggle_step isEnabled disabled waiting CancelPause confirming =
     (if isEnabled \<and> confirming then (False, None) else (confirming, None))"
| "toggle_step isEnabled disabled waiting ConfirmPause confirming =
     (if isEnabled \<and> confirming then (False, Some False) else (confirming, None))"
| "toggle_step isEnabled disabled waiting PressResume confirming =
     (if \<not> isEnabled \<and> \<not> disabled \<and> \<not> waiting then (confirming, Some True) else (confirming, None))"

definition TriggerCycleAction :: "bool \<Rightarrow> string option \<Rightarrow> bool \<Rightarrow> action_button" where
  "TriggerCycleAction disabled reason waiting =
     \<lparr>ab_text = (if waiting then ''Running'' @ ellipsis else ''Run cycle''), ab_disabled = (disabled \<or> waiting),
      ab_title = (if disabled then reason else None)\<rparr>"

section \<open>The actions on one greenhouse\<close>

text \<open>
  What a render lets the operator do, and the state of the two mutations and the dialog. The
  callbacks of a call close over the name of the render that made it.
\<close>

record action_gates =
  ag_operator :: bool
  ag_globallyPaused :: bool
  ag_offline :: bool
  ag_enabled :: bool
  ag_name :: string

definition trigger_disabled :: "action_gates \<Rightarrow> bool" where
  "trigger_disabled g \<longleftrightarrow> \<not> ag_operator g \<or> ag_globallyPaused g \<or> ag_offline g \<or> \<not> ag_enabled g"

definition toggle_disabled :: "action_gates \<Rightarrow> bool" where
  "toggle_disabled g \<longleftrightarrow> \<not> ag_operator g \<or> ag_globallyPaused g"

definition trigger_reason :: "action_gates \<Rightarrow> string option" where
  "trigger_reason g =
     (if \<not> ag_operator g then operator_only False
      else if ag_offline g then Some ''Greenhouse is offline''
      else if ag_globallyPaused g then Some ''Service is globally paused''
      else Some ''Greenhouse is paused'')"

definition toggle_reason :: "action_gates \<Rightarrow> string option" where
  "toggle_reason g =
     (if \<not> ag_operator g then operator_only False
      else if ag_globallyPaused g then Some ''Service is globally paused'' else None)"

datatype optimizer_call = RunCycle | SetEnabled bool

record action_state =
  at_confirming :: bool
  at_running :: "string option"
  at_toggling :: "(bool \<times> string) option"
  at_sent :: "optimizer_call list"
  at_toasts :: "toast_input list"

datatype action_event =
    PressRun | Toggle toggle_event
  | CycleStarted | CycleFailed thrown | ToggleDone | ToggleFailed thrown

definition toggled_toast :: "bool \<Rightarrow> string \<Rightarrow> toast_input" where
  "toggled_toast b nm = toast_of SuccessToast (if b then ''Greenhouse resumed'' else ''Greenhouse paused'') nm"

text \<open>The callbacks of a call report on the latest call of its mutation.\<close>

fun action_step :: "action_gates \<Rightarrow> action_event \<Rightarrow> action_state \<Rightarrow> action_state" where
  "action_step g PressRun s =
     (if trigger_disabled g \<or> at_running s \<noteq> None then s else s\<lparr>at_running := Some (ag_name g), at_sent := at_sent s @ [RunCycle]\<rparr>)"
| "action_step g (Toggle e) s =
     (case toggle_step (ag_enabled g) (toggle_disabled g) (at_toggling s \<noteq> None) e (at_confirming s) of
        (c, None) \<Rightarrow> s\<lparr>at_confirming := c\<rparr>
      | (c, Some b) \<Rightarrow> s\<lparr>at_confirming := c, at_toggling := Some (b, ag_name g), at_sent := at_sent s @ [SetEnabled b]\<rparr>)"
| "action_step g CycleStarted s =
     (case at_running s of
        Some nm \<Rightarrow> s\<lparr>at_running := None, at_toasts := at_toasts s @
          [toast_of SuccessToast ''Cycle triggered'' (nm @ '' '' @ em_dash @ '' planning now'')]\<rparr>
      | None \<Rightarrow> s)"
| "action_step g (CycleFailed e) s =
     (if at_running s = None then s
      else s\<lparr>at_running := None, at_toasts := at_toasts s @
        [toast_of WarningToast ''Couldn't start cycle'' (optimizerActionError e ''Trigger failed'')]\<rparr>)"
| "action_step g ToggleDone s =
     (case at_toggling s of
        Some (b, nm) \<Rightarrow> s\<lparr>at_toggling := None, at_toasts := at_toasts s @ [toggled_toast b nm]\<rparr>
      | None \<Rightarrow> s)"
| "action_step g (ToggleFailed e) s =
     (if at_toggling s = None then s
      else s\<lparr>at_toggling := None, at_toasts := at_toasts s @
        [toast_of WarningToast ''Couldn't update greenhouse'' (optimizerActionError e ''Update failed'')]\<rparr>)"

definition action_start :: action_state where
  "action_start = \<lparr>at_confirming = False, at_running = None, at_toggling = None, at_sent = [], at_toasts = []\<rparr>"

definition action_run :: "(action_gates \<times> action_event) list \<Rightarrow> action_state" where
  "action_run h = foldl (\<lambda>s (g, e). action_step g e s) action_start h"

definition trigger_button :: "action_gates \<Rightarrow> action_state \<Rightarrow> action_button" where
  "trigger_button g s = TriggerCycleAction (trigger_disabled g) (trigger_reason g) (at_running s \<noteq> None)"

definition toggle_button :: "action_gates \<Rightarrow> action_state \<Rightarrow> toggle_view" where
  "toggle_button g s = OptimizerEnableToggle GreenhouseScope (ag_enabled g) (toggle_disabled g) (toggle_reason g)
     (at_toggling s \<noteq> None) (at_confirming s)"


section \<open>A row of the fleet table\<close>

definition age_secs :: "date \<Rightarrow> js_num \<Rightarrow> js_num" where
  "age_secs d nowMs = math_max (Fin 0) (math_round (num_div (num_sub nowMs (getTime d)) (Fin 1000)))"

fun NODE_META :: "pipeline_node_state \<Rightarrow> string \<times> string \<times> bool \<times> string" where
  "NODE_META NodeDone = (''var(--color-status-online)'', ''CircleCheck'', False, ''done'')"
| "NODE_META NodeActive = (''var(--color-accent)'', ''LoaderCircle'', True, ''running'')"
| "NODE_META NodeFailed = (''var(--color-status-degraded)'', ''TriangleAlert'', False, ''failed here'')"
| "NODE_META NodeHeld = (''var(--color-info)'', ''CircleMinus'', False, ''held here'')"
| "NODE_META NodeUnchanged = (''var(--color-info)'', ''CircleMinus'', False, ''unchanged here'')"
| "NODE_META NodePending = (MUTED, ''CircleDashed'', False, ''pending'')"
| "NODE_META NodeIdle = (MUTED, ''CircleDashed'', False, ''idle'')"

text \<open>A node with the colour of the line that joins it to the one before.\<close>

record tracker_node =
  tn_label :: string
  tn_color :: string
  tn_icon :: string
  tn_spin :: bool
  tn_title :: string
  tn_joint :: "string option"

definition PipelineTracker :: "pipeline_node list \<Rightarrow> tracker_node list" where
  "PipelineTracker nodes =
     map (\<lambda>(i, n). case NODE_META (pn_state n) of (color, icon, spin, word) \<Rightarrow>
        \<lparr>tn_label = pn_label n, tn_color = color, tn_icon = icon, tn_spin = spin,
         tn_title = pn_label n @ '' '' @ em_dash @ '' '' @ word
           @ (case pn_message n of Some m \<Rightarrow> if m = [] then [] else '': '' @ m | None \<Rightarrow> []),
         tn_joint = (if i = 0 then None
           else Some (if pn_state (nodes ! (i - 1)) = NodeDone then ''var(--color-status-online)'' else MUTED))\<rparr>)
       (enumerate 0 nodes)"

record row_props =
  rp_entry :: fleet_optimizer_greenhouse
  rp_displayName :: string
  rp_serviceEnabled :: bool
  rp_offline :: bool
  rp_nowMs :: js_num

definition row_gates :: "bool \<Rightarrow> row_props \<Rightarrow> action_gates" where
  "row_gates isOperator p =
     \<lparr>ag_operator = isOperator, ag_globallyPaused = (\<not> rp_serviceEnabled p), ag_offline = rp_offline p,
      ag_enabled = fleet_optimizer_greenhouse.enabled (rp_entry p), ag_name = rp_displayName p\<rparr>"

definition node_word :: "pipeline_node_state \<Rightarrow> string" where
  "node_word st = (case st of NodeDone \<Rightarrow> ''done'' | NodeActive \<Rightarrow> ''active'' | NodeFailed \<Rightarrow> ''failed'' | NodeHeld \<Rightarrow> ''held''
     | NodeUnchanged \<Rightarrow> ''unchanged'' | NodePending \<Rightarrow> ''pending'' | NodeIdle \<Rightarrow> ''idle'')"

definition outcome_feedback :: "fleet_optimizer_greenhouse \<Rightarrow> pipeline_node list \<Rightarrow> string option" where
  "outcome_feedback g pipeline =
     (case fleet_optimizer_greenhouse.message g of
        None \<Rightarrow> None
      | Some m \<Rightarrow>
          if m = [] then None
          else if fleet_optimizer_greenhouse.status g = Some Applied then Some (''Publish applied: '' @ m)
          else map_option (\<lambda>n. pn_label n @ '' '' @ node_word (pn_state n) @ '': '' @ m)
            (find (\<lambda>n. pn_state n = NodeFailed \<or> pn_state n = NodeHeld \<or> pn_state n = NodeUnchanged) pipeline))"

record fleet_row =
  fr_link :: string
  fr_name :: string
  fr_pills :: "pill list"
  fr_feedback :: "string option"
  fr_lastCycle :: string
  fr_trigger :: action_button
  fr_toggle :: toggle_view
  fr_pipeline :: "tracker_node list option"

definition FleetOptimizerRow :: "bool \<Rightarrow> row_props \<Rightarrow> action_state \<Rightarrow> fleet_row" where
  "FleetOptimizerRow isOperator p s =
     (let g = rp_entry p;
          st = toOptimizerCardState (Some g) (rp_serviceEnabled p);
          nonApplied = (fleet_optimizer_greenhouse.status g \<in> {Some Held, Some Failed});
          pipeline = pipelineStages (Some g) st (fleet_optimizer_greenhouse.message g)
      in \<lparr>fr_link = ''/greenhouses/'' @ fleet_optimizer_greenhouse.greenhouseId g, fr_name = rp_displayName p,
          fr_pills = (if rp_offline p then [pill_of (''Offline '' @ em_dash @ '' not planning'') MUTED ''CloudOff'']
            else OptimizerStatusPill st # (case fleet_optimizer_greenhouse.reasonCode g of
              Some c \<Rightarrow> if nonApplied then [ReasonCodeChip c None] else [] | None \<Rightarrow> [])),
          fr_feedback = (if rp_offline p then None else outcome_feedback g pipeline),
          fr_lastCycle = (case fleet_optimizer_greenhouse.createdAt g of
              Some d \<Rightarrow> duration_text (age_secs d (rp_nowMs p)) @ '' ago'' | None \<Rightarrow> em_dash),
          fr_trigger = trigger_button (row_gates isOperator p) s, fr_toggle = toggle_button (row_gates isOperator p) s,
          fr_pipeline = (if rp_offline p then None else Some (PipelineTracker pipeline))\<rparr>)"

section \<open>The console\<close>

definition STATUS_FILTERS :: "(optimizer_outcome_status option \<times> string) list" where
  "STATUS_FILTERS = [(None, ''All''), (Some Applied, ''Applied''), (Some Unchanged, ''Unchanged''), (Some Held, ''Held''), (Some Failed, ''Failed'')]"

definition isOutcomeStatus :: "string option \<Rightarrow> optimizer_outcome_status option" where
  "isOutcomeStatus v = Option.bind v (map_of optimizer_outcome_status_table)"

definition status_filter :: "search_params \<Rightarrow> optimizer_outcome_status option" where
  "status_filter ps = isOutcomeStatus (param_get ps ''status'')"

definition setStatusFilter :: "optimizer_outcome_status option \<Rightarrow> search_params \<Rightarrow> search_params" where
  "setStatusFilter v ps =
     (case v of
        Some st \<Rightarrow> search_set ''status'' (literal optimizer_outcome_status_table st) ps
      | None \<Rightarrow> param_delete ''status'' ps)"

record console_inputs =
  ci_status :: "optimizer_status query_view"
  ci_fleetOpt :: "fleet_optimizer_summary query_view"
  ci_model :: "model_state option"
  ci_enabled :: "enable_state option"
  ci_fleet :: "greenhouse_summary list option"
  ci_operator :: bool
  ci_params :: search_params
  ci_now :: date

definition service_enabled :: "enable_state option \<Rightarrow> optimizer_status option \<Rightarrow> bool" where
  "service_enabled e st =
     (case e of Some x \<Rightarrow> enable_state.enabled x
      | None \<Rightarrow> (case st of Some x \<Rightarrow> optimizer_status.enabled x | None \<Rightarrow> True))"

definition console_greenhouses :: "console_inputs \<Rightarrow> fleet_optimizer_greenhouse list" where
  "console_greenhouses d = (case qv_data (ci_fleetOpt d) of Some s \<Rightarrow> fleet_optimizer_summary.greenhouses s | None \<Rightarrow> [])"

definition row_matches :: "search_params \<Rightarrow> fleet_optimizer_greenhouse \<Rightarrow> bool" where
  "row_matches ps g \<longleftrightarrow>
     (status_filter ps = None \<or> fleet_optimizer_greenhouse.status g = status_filter ps)
     \<and> (case param_get ps ''greenhouse_id'' of None \<Rightarrow> True
        | Some i \<Rightarrow> i = [] \<or> fleet_optimizer_greenhouse.greenhouseId g = i)"

definition console_rows :: "(string \<Rightarrow> string \<Rightarrow> js_num) \<Rightarrow> console_inputs \<Rightarrow> fleet_optimizer_greenhouse list" where
  "console_rows lc d =
     js_sort (\<lambda>a b. lc (fleet_optimizer_greenhouse.greenhouseId a) (fleet_optimizer_greenhouse.greenhouseId b))
       (filter (row_matches (ci_params d)) (console_greenhouses d))"

definition console_fleet :: "console_inputs \<Rightarrow> greenhouse_summary list" where
  "console_fleet d = (case ci_fleet d of Some gs \<Rightarrow> gs | None \<Rightarrow> [])"

definition name_by_id :: "console_inputs \<Rightarrow> string \<rightharpoonup> string" where
  "name_by_id d = map_of (rev (map (\<lambda>g. (greenhouse_summary.ident g, greenhouse_summary.displayName g)) (console_fleet d)))"

definition offline_by_id :: "console_inputs \<Rightarrow> string \<rightharpoonup> bool" where
  "offline_by_id d = map_of (rev (map (\<lambda>g. (greenhouse_summary.ident g, greenhouse_summary.status g = Offline)) (console_fleet d)))"

definition row_props_of :: "console_inputs \<Rightarrow> fleet_optimizer_greenhouse \<Rightarrow> row_props" where
  "row_props_of d g =
     (let i = fleet_optimizer_greenhouse.greenhouseId g
      in \<lparr>rp_entry = g, rp_displayName = (case name_by_id d i of Some n \<Rightarrow> n | None \<Rightarrow> i),
          rp_serviceEnabled = service_enabled (ci_enabled d) (qv_data (ci_status d)),
          rp_offline = (case offline_by_id d i of Some b \<Rightarrow> b | None \<Rightarrow> False),
          rp_nowMs = getTime (ci_now d)\<rparr>)"


datatype service_health = HealthLoading | HealthShown health_badge | HealthMissing

datatype console_table = TableLoading | TableError | NoGreenhouses | NoMatch | TableRows "row_props list"

record console_view =
  ov_model :: "model_selector option"
  ov_toggle :: "toggle_view option"
  ov_paused :: bool
  ov_health :: service_health
  ov_rollup :: "summary_stat list option"
  ov_filters :: "(string \<times> bool) list"
  ov_table :: console_table

text \<open>
  The service-wide actions: the dialog, the pending calls with the value they were made for, what
  was sent and the toasts.
\<close>

datatype service_call = SetService bool | SetModel string

record console_state =
  cs_confirming :: bool
  cs_service :: "bool option"
  cs_model :: "string option"
  cs_sent :: "service_call list"
  cs_toasts :: "toast_input list"

definition console_enabled :: "console_inputs \<Rightarrow> bool" where
  "console_enabled d = service_enabled (ci_enabled d) (qv_data (ci_status d))"

definition console_table_of :: "(string \<Rightarrow> string \<Rightarrow> js_num) \<Rightarrow> console_inputs \<Rightarrow> console_table" where
  "console_table_of lc d =
     (if qv_isLoading (ci_fleetOpt d) then TableLoading
      else if qv_isError (ci_fleetOpt d) then TableError
      else if console_greenhouses d = [] then NoGreenhouses
      else if console_rows lc d = [] then NoMatch
      else TableRows (map (row_props_of d) (console_rows lc d)))"

definition console_model :: "console_inputs \<Rightarrow> console_state \<Rightarrow> model_selector option" where
  "console_model d s = map_option (\<lambda>m. ModelSelector m (\<not> ci_operator d) (Some ''Operator role required'') (cs_model s \<noteq> None)) (ci_model d)"

definition console_toggle_shown :: "console_inputs \<Rightarrow> bool" where
  "console_toggle_shown d \<longleftrightarrow> ci_enabled d \<noteq> None \<or> qv_data (ci_status d) \<noteq> None"

definition OptimizerConsole :: "(js_num \<Rightarrow> string) \<Rightarrow> (string \<Rightarrow> string \<Rightarrow> js_num) \<Rightarrow> console_inputs \<Rightarrow> console_state \<Rightarrow> console_view" where
  "OptimizerConsole ns lc d s =
     \<lparr>ov_model = console_model d s,
      ov_toggle = (if console_toggle_shown d
        then Some (OptimizerEnableToggle GlobalScope (console_enabled d) (\<not> ci_operator d) (Some ''Operator role required'')
          (cs_service s \<noteq> None) (cs_confirming s))
        else None),
      ov_paused = (\<not> console_enabled d),
      ov_health = (if qv_isLoading (ci_status d) then HealthLoading
        else case qv_data (ci_status d) of Some x \<Rightarrow> HealthShown (OptimizerHealthBadge x (ci_now d)) | None \<Rightarrow> HealthMissing),
      ov_rollup = map_option (\<lambda>f. OptimizerRollupBar ns (fleet_optimizer_summary.rollup f)) (qv_data (ci_fleetOpt d)),
      ov_filters = map (\<lambda>(v, lab). (lab, status_filter (ci_params d) = v)) STATUS_FILTERS,
      ov_table = console_table_of lc d\<rparr>"

definition service_toast :: "bool \<Rightarrow> toast_input" where
  "service_toast b =
     toast_of SuccessToast (if b then ''Optimizer resumed'' else ''Optimizer paused'')
       (if b then ''Planning resumed fleet-wide'' else ''Read-only '' @ em_dash @ '' planning stopped fleet-wide'')"

datatype console_event =
    ServiceToggle toggle_event | PickModel string
  | ServiceSet | ServiceFailed thrown | ModelSet | ModelFailed thrown

fun console_handler :: "console_inputs \<Rightarrow> console_event \<Rightarrow> console_state \<Rightarrow> console_state" where
  "console_handler d (ServiceToggle e) s =
     (if \<not> console_toggle_shown d then s
      else case toggle_step (console_enabled d) (\<not> ci_operator d) (cs_service s \<noteq> None) e (cs_confirming s) of
        (c, None) \<Rightarrow> s\<lparr>cs_confirming := c\<rparr>
      | (c, Some b) \<Rightarrow> s\<lparr>cs_confirming := c, cs_service := Some b, cs_sent := cs_sent s @ [SetService b]\<rparr>)"
| "console_handler d (PickModel v) s =
     (case Option.bind (console_model d s) (\<lambda>m. choose_model m v) of
        Some x \<Rightarrow> s\<lparr>cs_model := Some x, cs_sent := cs_sent s @ [SetModel x]\<rparr>
      | None \<Rightarrow> s)"
| "console_handler d ServiceSet s =
     (case cs_service s of
        Some b \<Rightarrow> s\<lparr>cs_service := None, cs_toasts := cs_toasts s @ [service_toast b]\<rparr>
      | None \<Rightarrow> s)"
| "console_handler d (ServiceFailed e) s =
     (if cs_service s = None then s
      else s\<lparr>cs_service := None, cs_toasts := cs_toasts s @
        [toast_of WarningToast ''Couldn't update the optimizer'' (optimizerActionError e ''Update failed'')]\<rparr>)"
| "console_handler d ModelSet s =
     (case cs_model s of
        Some x \<Rightarrow> s\<lparr>cs_model := None, cs_toasts := cs_toasts s @
          [toast_of SuccessToast ''Model updated'' (x @ '' '' @ em_dash @ '' takes effect next cycle'')]\<rparr>
      | None \<Rightarrow> s)"
| "console_handler d (ModelFailed e) s =
     (if cs_model s = None then s
      else s\<lparr>cs_model := None, cs_toasts := cs_toasts s @
        [toast_of WarningToast ''Couldn't switch model'' (optimizerActionError e ''Model switch failed'')]\<rparr>)"

text \<open>A toggle that is not rendered is unmounted and loses its dialog.\<close>

definition console_step :: "console_inputs \<Rightarrow> console_event \<Rightarrow> console_state \<Rightarrow> console_state" where
  "console_step d e s =
     (let s1 = console_handler d e s in if console_toggle_shown d then s1 else s1\<lparr>cs_confirming := False\<rparr>)"

section \<open>The plan panel\<close>

record panel_inputs =
  pi_id :: string
  pi_displayName :: string
  pi_status :: "optimizer_status query_view"
  pi_service :: "enable_state option"
  pi_greenhouse :: "greenhouse_enable_state option"
  pi_plan :: "optimizer_plan_detail query_view"
  pi_fleet :: "fleet_optimizer_summary option"
  pi_operator :: bool

definition panel_service_enabled :: "panel_inputs \<Rightarrow> bool" where
  "panel_service_enabled d = service_enabled (pi_service d) (qv_data (pi_status d))"

definition greenhouse_enabled :: "panel_inputs \<Rightarrow> bool" where
  "greenhouse_enabled d = (case pi_greenhouse d of Some x \<Rightarrow> greenhouse_enable_state.enabled x | None \<Rightarrow> True)"

definition panel_gates :: "panel_inputs \<Rightarrow> action_gates" where
  "panel_gates d =
     \<lparr>ag_operator = pi_operator d, ag_globallyPaused = (\<not> panel_service_enabled d), ag_offline = False,
      ag_enabled = greenhouse_enabled d, ag_name = pi_displayName d\<rparr>"

definition header_pill :: "panel_inputs \<Rightarrow> pill" where
  "header_pill d =
     (if \<not> panel_service_enabled d then pill_of ''Read-only'' MUTED ''Lock''
      else if \<not> greenhouse_enabled d then pill_of ''Disabled'' MUTED ''CirclePause''
      else pill_of ''Enabled'' ''var(--color-status-online)'' ''Sparkle'')"

definition diff_fmt :: "(js_num \<Rightarrow> string) \<Rightarrow> js_num \<Rightarrow> string" where
  "diff_fmt ns n = ns (num_div (math_round (num_mul n (Fin 100))) (Fin 100))"

fun DIRECTION :: "diff_direction \<Rightarrow> string \<times> string \<times> string" where
  "DIRECTION Up = (''ArrowUp'', ''increase'', ''var(--color-status-online)'')"
| "DIRECTION Down = (''ArrowDown'', ''decrease'', ''var(--color-info)'')"
| "DIRECTION SameDirection = (''Minus'', ''no change'', ''var(--color-fg-subtle)'')"

record diff_line =
  dl_label :: string
  dl_flag :: bool
  dl_current :: string
  dl_proposed :: string
  dl_unit :: string
  dl_direction :: "string \<times> string \<times> string"

text \<open>\<open>None\<close>: the text "No setpoint changes proposed."\<close>

definition SetpointDiffTable :: "(js_num \<Rightarrow> string) \<Rightarrow> setpoint_diff \<Rightarrow> diff_line list option" where
  "SetpointDiffTable ns d =
     (if setpointDiffRows d = [] then None
      else Some (map (\<lambda>r. \<lparr>dl_label = sdr_label r, dl_flag = sdr_nearBound r, dl_current = diff_fmt ns (sdr_current r),
          dl_proposed = diff_fmt ns (sdr_proposed r), dl_unit = sdr_unit r, dl_direction = DIRECTION (sdr_direction r)\<rparr>)
        (setpointDiffRows d)))"

datatype plan_content =
    PlanDetails string string string "diff_line list option option"
  | AppliedWithoutDetails
  | NothingApplied

record plan_view =
  pv_pills :: "pill list"
  pv_message :: "string option"
  pv_content :: plan_content

datatype plan_body = PlanLoading | CycleDone | NeverCycled | PlanShown plan_view

datatype plan_panel = PanelAbsent | PanelLoading | PanelShown pill toggle_view action_button plan_body

definition plan_view_of :: "(js_num \<Rightarrow> string) \<Rightarrow> optimizer_plan_detail \<Rightarrow> plan_view" where
  "plan_view_of ns d =
     (let p = optimizer_plan_detail.plan d; out = optimizer_plan_view.outcome p; b = optimizer_plan_view.backend p; st = optimizer_outcome.status out;
          dot = '' '' @ middle_dot @ '' ''
      in \<lparr>pv_pills = PlanOutcomeBadge st # (case optimizer_outcome.reasonCode out of
            Some c \<Rightarrow> if st = Held \<or> st = Failed then [ReasonCodeChip c None] else [] | None \<Rightarrow> []),
          pv_message = (if optimizer_outcome.message out = Some [] then None else optimizer_outcome.message out),
          pv_content = (case optimizer_plan_view.plan p of
              Some body \<Rightarrow> PlanDetails (optimizer_plan_body.explanation body)
                (''Confidence '' @ ns (math_round (num_mul (optimizer_plan_body.confidence body) (Fin 100))) @ ''%'')
                (literal optimizer_provider_table (optimizer_backend.provider b) @ dot @ optimizer_backend.model b @ dot
                  @ optimizer_backend.promptVersion b @ dot @ literal backend_role_table (optimizer_backend.role b))
                (map_option (SetpointDiffTable ns) (optimizer_plan_detail.diff d))
            | None \<Rightarrow> if st = Applied then AppliedWithoutDetails else NothingApplied)\<rparr>)"

definition completed_cycle :: "panel_inputs \<Rightarrow> bool" where
  "completed_cycle d \<longleftrightarrow>
     (case pi_fleet d of
        None \<Rightarrow> False
      | Some f \<Rightarrow> (case find (\<lambda>g. fleet_optimizer_greenhouse.greenhouseId g = pi_id d) (fleet_optimizer_summary.greenhouses f) of
          Some g \<Rightarrow> fleet_optimizer_greenhouse.createdAt g \<noteq> None | None \<Rightarrow> False))"

definition OptimizerPlanPanel :: "(js_num \<Rightarrow> string) \<Rightarrow> panel_inputs \<Rightarrow> action_state \<Rightarrow> plan_panel" where
  "OptimizerPlanPanel ns d s =
     (if map_option optimizer_status.status (qv_data (pi_status d)) = Some Unavailable then PanelAbsent
      else if qv_isLoading (pi_status d) then PanelLoading
      else PanelShown (header_pill d) (toggle_button (panel_gates d) s) (trigger_button (panel_gates d) s)
        (if qv_isLoading (pi_plan d) then PlanLoading
         else case qv_data (pi_plan d) of
           None \<Rightarrow> if completed_cycle d then CycleDone else NeverCycled
         | Some x \<Rightarrow> PlanShown (plan_view_of ns x)))"

text \<open>Its buttons act only while it is shown; the responses of a call always arrive.\<close>

definition panel_shown :: "panel_inputs \<Rightarrow> bool" where
  "panel_shown d \<longleftrightarrow> map_option optimizer_status.status (qv_data (pi_status d)) \<noteq> Some Unavailable \<and> \<not> qv_isLoading (pi_status d)"

definition plan_panel_step :: "panel_inputs \<Rightarrow> action_event \<Rightarrow> action_state \<Rightarrow> action_state" where
  "plan_panel_step d e s =
     (if panel_shown d then action_step (panel_gates d) e s
      else (if e = PressRun \<or> (\<exists>t. e = Toggle t) then s else action_step (panel_gates d) e s)\<lparr>at_confirming := False\<rparr>)"

section \<open>Lemmas: the actions\<close>

text \<open>The pause dialog was asked for, where it could be, and neither dismissed nor confirmed since.\<close>

definition pause_asked :: "(action_gates \<times> action_event) list \<Rightarrow> bool" where
  "pause_asked h \<longleftrightarrow> (\<exists>h1 g h2. h = h1 @ (g, Toggle PressPause) # h2
     \<and> ag_operator g \<and> \<not> ag_globallyPaused g \<and> ag_enabled g
     \<and> (\<forall>(g', e)\<in>set h2. ag_enabled g' \<longrightarrow> e \<noteq> Toggle CancelPause \<and> e \<noteq> Toggle ConfirmPause))"

lemma action_run_snoc: "action_run (h @ [(g, e)]) = action_step g e (action_run h)"
  by (simp add: action_run_def)

lemma pause_asked_more:
  assumes "pause_asked h" "ag_enabled g \<longrightarrow> e \<noteq> Toggle CancelPause \<and> e \<noteq> Toggle ConfirmPause"
  shows "pause_asked (h @ [(g, e)])"
proof -
  obtain h1 g0 h2 where h: "h = h1 @ (g0, Toggle PressPause) # h2" "ag_operator g0" "\<not> ag_globallyPaused g0" "ag_enabled g0"
    "\<forall>(g', e)\<in>set h2. ag_enabled g' \<longrightarrow> e \<noteq> Toggle CancelPause \<and> e \<noteq> Toggle ConfirmPause"
    using assms(1) unfolding pause_asked_def by blast
  have "h @ [(g, e)] = h1 @ (g0, Toggle PressPause) # (h2 @ [(g, e)])" by (simp add: h(1))
  moreover have "\<forall>(g', e)\<in>set (h2 @ [(g, e)]). ag_enabled g' \<longrightarrow> e \<noteq> Toggle CancelPause \<and> e \<noteq> Toggle ConfirmPause"
    using h(5) assms(2) by auto
  ultimately show ?thesis unfolding pause_asked_def using h(2-4) by blast
qed

lemma confirming_step:
  assumes "at_confirming (action_step g e s)"
  shows "e = Toggle PressPause \<and> ag_operator g \<and> \<not> ag_globallyPaused g \<and> ag_enabled g
    \<or> at_confirming s \<and> (ag_enabled g \<longrightarrow> e \<noteq> Toggle CancelPause \<and> e \<noteq> Toggle ConfirmPause)"
proof (cases e)
  case (Toggle x)
  then show ?thesis using assms by (cases x) (auto simp: toggle_disabled_def split: if_splits)
qed (use assms in \<open>auto split: if_splits option.splits\<close>)

lemma confirming_asked: "at_confirming (action_run h) \<Longrightarrow> pause_asked h"
proof (induction h rule: rev_induct)
  case Nil
  then show ?case by (simp add: action_run_def action_start_def)
next
  case (snoc x h)
  obtain g e where x: "x = (g, e)" by (cases x)
  from confirming_step [of g e "action_run h"] snoc.prems
  consider "e = Toggle PressPause" "ag_operator g" "\<not> ag_globallyPaused g" "ag_enabled g"
    | "at_confirming (action_run h)" "ag_enabled g \<longrightarrow> e \<noteq> Toggle CancelPause \<and> e \<noteq> Toggle ConfirmPause"
    by (auto simp: x action_run_snoc)
  then show ?case
  proof cases
    case 1
    then show ?thesis unfolding pause_asked_def x by (intro exI [of _ h] exI [of _ g] exI [of _ "[]"]) simp
  next
    case 2
    then show ?thesis unfolding x using snoc.IH pause_asked_more by blast
  qed
qed

lemma action_sent:
  "at_sent (action_step g e s) =
     (if e = PressRun \<and> \<not> trigger_disabled g \<and> at_running s = None then at_sent s @ [RunCycle]
      else if e = Toggle PressResume \<and> \<not> toggle_disabled g \<and> \<not> ag_enabled g \<and> at_toggling s = None then at_sent s @ [SetEnabled True]
      else if e = Toggle ConfirmPause \<and> ag_enabled g \<and> at_confirming s then at_sent s @ [SetEnabled False]
      else at_sent s)"
proof (cases e)
  case (Toggle x)
  then show ?thesis by (cases x) auto
qed (auto split: option.split)

text \<open>
  C32: what the operator controls of a greenhouse send. In any history of renders, presses and
  responses, a call is sent one at a time: a cycle only by Run cycle, pressed by an operator while
  the service runs, the greenhouse is online and enabled, and no cycle is pending; a resume only by
  Resume, pressed by an operator on a paused greenhouse of a running service; a pause only by
  confirming a dialog that an operator opened there and that was neither dismissed nor confirmed
  since. But the confirmation itself is not gated: one who lost the operator role while the dialog was
  open still sends the pause. And the dialog outlives the pause: if the greenhouse is
  paused elsewhere while it is open, it comes back by itself once the greenhouse is resumed.
\<close>

theorem optimizer_actions_gated:
  assumes "s = action_run h"
  shows "(at_sent (action_step g e s) \<noteq> at_sent s \<longrightarrow>
       (\<exists>c. at_sent (action_step g e s) = at_sent s @ [c] \<and> (case c of
          RunCycle \<Rightarrow> e = PressRun \<and> ag_operator g \<and> \<not> ag_globallyPaused g \<and> \<not> ag_offline g \<and> ag_enabled g \<and> at_running s = None
        | SetEnabled True \<Rightarrow> e = Toggle PressResume \<and> ag_operator g \<and> \<not> ag_globallyPaused g \<and> \<not> ag_enabled g \<and> at_toggling s = None
        | SetEnabled False \<Rightarrow> e = Toggle ConfirmPause \<and> ag_enabled g \<and> pause_asked h)))
     \<and> (\<exists>h g. \<not> ag_operator g \<and> at_sent (action_run (h @ [(g, Toggle ConfirmPause)])) = at_sent (action_run h) @ [SetEnabled False])
     \<and> (\<exists>h g b. toggle_button g (action_run (h @ [(g\<lparr>ag_enabled := False\<rparr>, Toggle PressResume), (g, ToggleDone)]))
          = PauseToggle b (Some (pause_dialog GreenhouseScope)))"
proof (intro conjI impI)
  assume "at_sent (action_step g e s) \<noteq> at_sent s"
  moreover have "at_confirming s \<Longrightarrow> pause_asked h" using confirming_asked assms by simp
  ultimately show "\<exists>c. at_sent (action_step g e s) = at_sent s @ [c] \<and> (case c of
          RunCycle \<Rightarrow> e = PressRun \<and> ag_operator g \<and> \<not> ag_globallyPaused g \<and> \<not> ag_offline g \<and> ag_enabled g \<and> at_running s = None
        | SetEnabled True \<Rightarrow> e = Toggle PressResume \<and> ag_operator g \<and> \<not> ag_globallyPaused g \<and> \<not> ag_enabled g \<and> at_toggling s = None
        | SetEnabled False \<Rightarrow> e = Toggle ConfirmPause \<and> ag_enabled g \<and> pause_asked h)"
    unfolding action_sent by (auto simp: trigger_disabled_def toggle_disabled_def split: if_splits)
next
  let ?g = "\<lparr>ag_operator = True, ag_globallyPaused = False, ag_offline = False, ag_enabled = True, ag_name = []\<rparr>"
  have "at_sent (action_run ([(?g, Toggle PressPause)] @ [(?g\<lparr>ag_operator := False\<rparr>, Toggle ConfirmPause)]))
      = at_sent (action_run [(?g, Toggle PressPause)]) @ [SetEnabled False]"
    by (simp add: action_run_def action_start_def toggle_disabled_def)
  moreover have "\<not> ag_operator (?g\<lparr>ag_operator := False\<rparr>)" by simp
  ultimately show "\<exists>h g. \<not> ag_operator g \<and> at_sent (action_run (h @ [(g, Toggle ConfirmPause)])) = at_sent (action_run h) @ [SetEnabled False]"
    by blast
  have "toggle_button ?g (action_run ([(?g, Toggle PressPause)] @ [(?g\<lparr>ag_enabled := False\<rparr>, Toggle PressResume), (?g, ToggleDone)]))
      = PauseToggle \<lparr>ab_text = ''Pause'', ab_disabled = False, ab_title = None\<rparr> (Some (pause_dialog GreenhouseScope))"
    by (simp add: action_run_def action_start_def toggle_disabled_def toggle_button_def OptimizerEnableToggle_def)
  then show "\<exists>h g b. toggle_button g (action_run (h @ [(g\<lparr>ag_enabled := False\<rparr>, Toggle PressResume), (g, ToggleDone)]))
      = PauseToggle b (Some (pause_dialog GreenhouseScope))" by blast
qed

theorem optimizer_actions_gated_witness:
  "\<forall>e. at_sent (action_step \<lparr>ag_operator = False, ag_globallyPaused = False, ag_offline = False, ag_enabled = True, ag_name = []\<rparr> e (action_run []))
     = at_sent (action_run [])"
proof
  fix e
  let ?g = "\<lparr>ag_operator = False, ag_globallyPaused = False, ag_offline = False, ag_enabled = True, ag_name = []\<rparr>"
  show "at_sent (action_step ?g e (action_run [])) = at_sent (action_run [])"
  proof (rule ccontr)
    assume "at_sent (action_step ?g e (action_run [])) \<noteq> at_sent (action_run [])"
    with optimizer_actions_gated [OF refl, of ?g e "[]"] obtain c where "case c of
          RunCycle \<Rightarrow> e = PressRun \<and> ag_operator ?g \<and> \<not> ag_globallyPaused ?g \<and> \<not> ag_offline ?g \<and> ag_enabled ?g \<and> at_running (action_run []) = None
        | SetEnabled True \<Rightarrow> e = Toggle PressResume \<and> ag_operator ?g \<and> \<not> ag_globallyPaused ?g \<and> \<not> ag_enabled ?g \<and> at_toggling (action_run []) = None
        | SetEnabled False \<Rightarrow> e = Toggle ConfirmPause \<and> ag_enabled ?g \<and> pause_asked []" by blast
    then show False by (simp add: pause_asked_def split: optimizer_call.splits bool.splits)
  qed
qed

section \<open>Lemmas: the console\<close>

lemma isOutcomeStatus_literal [simp]: "isOutcomeStatus (Some (literal optimizer_outcome_status_table st)) = Some st"
  by (cases st) (simp_all add: isOutcomeStatus_def literal_def optimizer_outcome_status_table_def)

lemma isOutcomeStatus_None [simp]: "isOutcomeStatus None = None"
  by (simp add: isOutcomeStatus_def)

lemma status_filter_set [simp]: "status_filter (setStatusFilter v ps) = v"
  by (cases v) (simp_all add: status_filter_def setStatusFilter_def)

lemma filter_keeps_param [simp]: "k \<noteq> ''status'' \<Longrightarrow> param_get (setStatusFilter v ps) k = param_get ps k"
  by (cases v) (simp_all add: setStatusFilter_def)

lemma console_rows_sorted:
  assumes "\<And>a b. num_lt (Fin 0) (lc a b) \<longleftrightarrow> key b < (key a :: 'k :: linorder)"
  shows "console_rows lc d = sort_key (\<lambda>g. key (fleet_optimizer_greenhouse.greenhouseId g)) (filter (row_matches (ci_params d)) (console_greenhouses d))"
  unfolding console_rows_def by (rule js_sort_sort_key) (rule assms)

lemma paused_row:
  assumes "\<not> rp_serviceEnabled p"
  shows "ab_disabled (fr_trigger (FleetOptimizerRow isOperator p s))"
    "case fr_toggle (FleetOptimizerRow isOperator p s) of PauseToggle b dl \<Rightarrow> ab_disabled b | ResumeToggle b \<Rightarrow> ab_disabled b"
    "rp_offline p \<or> hd (fr_pills (FleetOptimizerRow isOperator p s)) = pill_of ''Read-only'' MUTED ''Lock''"
  using assms
  by (simp_all add: FleetOptimizerRow_def Let_def trigger_button_def toggle_button_def TriggerCycleAction_def OptimizerEnableToggle_def
      row_gates_def trigger_disabled_def toggle_disabled_def toOptimizerCardState_def)

text \<open>The filter of the address bar, spelt out.\<close>

lemma status_filter_value:
  "status_filter ps = (if map_of ps ''status'' = Some ''applied'' then Some Applied
     else if map_of ps ''status'' = Some ''unchanged'' then Some Unchanged
     else if map_of ps ''status'' = Some ''held'' then Some Held
     else if map_of ps ''status'' = Some ''failed'' then Some Failed else None)"
  by (cases "map_of ps ''status''") (simp_all add: status_filter_def param_get_def isOutcomeStatus_def optimizer_outcome_status_table_def)

lemma row_matches_iff:
  "row_matches ps g \<longleftrightarrow> (status_filter ps = None \<or> fleet_optimizer_greenhouse.status g = status_filter ps)
     \<and> (case map_of ps ''greenhouse_id'' of Some (c # cs) \<Rightarrow> fleet_optimizer_greenhouse.greenhouseId g = c # cs | _ \<Rightarrow> True)"
  by (auto simp: row_matches_def param_get_def split: option.split list.split)

lemma status_param_set:
  "map_of (setStatusFilter v ps) k = (if k \<noteq> ''status'' then map_of ps k
     else map_option (\<lambda>st. case st of Applied \<Rightarrow> ''applied'' | Unchanged \<Rightarrow> ''unchanged'' | Held \<Rightarrow> ''held'' | Failed \<Rightarrow> ''failed'') v)"
proof -
  have "literal optimizer_outcome_status_table =
      (\<lambda>st. case st of Applied \<Rightarrow> ''applied'' | Unchanged \<Rightarrow> ''unchanged'' | Held \<Rightarrow> ''held'' | Failed \<Rightarrow> ''failed'')"
  proof
    fix st show "literal optimizer_outcome_status_table st =
      (case st of Applied \<Rightarrow> ''applied'' | Unchanged \<Rightarrow> ''unchanged'' | Held \<Rightarrow> ''held'' | Failed \<Rightarrow> ''failed'')"
      by (cases st) (simp_all add: literal_def optimizer_outcome_status_table_def)
  qed
  moreover have "param_get (setStatusFilter v ps) ''status'' = map_option (literal optimizer_outcome_status_table) v"
    by (cases v) (simp_all add: setStatusFilter_def)
  ultimately show ?thesis using filter_keeps_param [of k v ps] by (simp add: param_get_def)
qed

text \<open>
  C33: the fleet table of the console. Where it shows rows, they are the fetched greenhouses whose
  outcome is the one the address bar names (applied, unchanged, held or failed; any other or no
  \<open>status\<close> restricts nothing) and whose id is its \<open>greenhouse_id\<close>, if it has a non-empty one; each
  once, in the order of the collation of their ids (\<open>localeCompare\<close>, which compares by a collation
  key). Choosing an outcome writes just that parameter and \<open>All\<close> deletes it, so a greenhouse in the
  address stays. While the service is paused every control of every row is disabled and every row
  that is not offline reads Read-only.
\<close>

theorem console_rows_shown:
  assumes "\<And>a b. num_lt (Fin 0) (lc a b) \<longleftrightarrow> key b < (key a :: 'k :: linorder)"
    and "console_table_of lc d = TableRows rows"
  shows "(let outcome = (if map_of (ci_params d) ''status'' = Some ''applied'' then Some Applied
             else if map_of (ci_params d) ''status'' = Some ''unchanged'' then Some Unchanged
             else if map_of (ci_params d) ''status'' = Some ''held'' then Some Held
             else if map_of (ci_params d) ''status'' = Some ''failed'' then Some Failed else None)
      in map rp_entry rows = sort_key (\<lambda>g. key (fleet_optimizer_greenhouse.greenhouseId g)) (filter (\<lambda>g.
             (outcome = None \<or> fleet_optimizer_greenhouse.status g = outcome)
             \<and> (case map_of (ci_params d) ''greenhouse_id'' of Some (c # cs) \<Rightarrow> fleet_optimizer_greenhouse.greenhouseId g = c # cs | _ \<Rightarrow> True))
           (case qv_data (ci_fleetOpt d) of Some s \<Rightarrow> fleet_optimizer_summary.greenhouses s | None \<Rightarrow> [])))
     \<and> (\<forall>k. map_of (setStatusFilter v (ci_params d)) k =
         (if k \<noteq> ''status'' then map_of (ci_params d) k
          else map_option (\<lambda>st. case st of Applied \<Rightarrow> ''applied'' | Unchanged \<Rightarrow> ''unchanged'' | Held \<Rightarrow> ''held'' | Failed \<Rightarrow> ''failed'') v))
     \<and> ((case ci_enabled d of Some e \<Rightarrow> \<not> enable_state.enabled e
          | None \<Rightarrow> (case qv_data (ci_status d) of Some s \<Rightarrow> \<not> optimizer_status.enabled s | None \<Rightarrow> False))
        \<longrightarrow> (\<forall>p\<in>set rows. \<forall>st. let r = FleetOptimizerRow (ci_operator d) p st in
            ab_disabled (fr_trigger r) \<and> (case fr_toggle r of PauseToggle b dl \<Rightarrow> ab_disabled b | ResumeToggle b \<Rightarrow> ab_disabled b)
            \<and> (rp_offline p \<or> pl_text (hd (fr_pills r)) = ''Read-only'')))"
proof (intro conjI impI)
  have rows: "rows = map (row_props_of d) (console_rows lc d)" using assms(2) by (simp add: console_table_of_def split: if_splits)
  moreover have "rp_entry (row_props_of d g) = g" for g by (simp add: row_props_of_def Let_def)
  ultimately have entries: "map rp_entry rows = console_rows lc d" by (simp add: comp_def)
  show "let outcome = (if map_of (ci_params d) ''status'' = Some ''applied'' then Some Applied
             else if map_of (ci_params d) ''status'' = Some ''unchanged'' then Some Unchanged
             else if map_of (ci_params d) ''status'' = Some ''held'' then Some Held
             else if map_of (ci_params d) ''status'' = Some ''failed'' then Some Failed else None)
      in map rp_entry rows = sort_key (\<lambda>g. key (fleet_optimizer_greenhouse.greenhouseId g)) (filter (\<lambda>g.
             (outcome = None \<or> fleet_optimizer_greenhouse.status g = outcome)
             \<and> (case map_of (ci_params d) ''greenhouse_id'' of Some (c # cs) \<Rightarrow> fleet_optimizer_greenhouse.greenhouseId g = c # cs | _ \<Rightarrow> True))
           (case qv_data (ci_fleetOpt d) of Some s \<Rightarrow> fleet_optimizer_summary.greenhouses s | None \<Rightarrow> []))"
    unfolding Let_def status_filter_value [symmetric] row_matches_iff [symmetric] entries console_greenhouses_def [symmetric]
    by (rule console_rows_sorted [OF assms(1)])
  show "(\<forall>k. map_of (setStatusFilter v (ci_params d)) k =
         (if k \<noteq> ''status'' then map_of (ci_params d) k
          else map_option (\<lambda>st. case st of Applied \<Rightarrow> ''applied'' | Unchanged \<Rightarrow> ''unchanged'' | Held \<Rightarrow> ''held'' | Failed \<Rightarrow> ''failed'') v))"
    by (intro allI status_param_set)
  assume "(case ci_enabled d of Some e \<Rightarrow> \<not> enable_state.enabled e
          | None \<Rightarrow> (case qv_data (ci_status d) of Some s \<Rightarrow> \<not> optimizer_status.enabled s | None \<Rightarrow> False))"
  then have "\<not> rp_serviceEnabled p" if "p \<in> set rows" for p
    using that by (auto simp: rows row_props_of_def Let_def service_enabled_def split: option.splits)
  note paused = paused_row [OF this]
  show "(\<forall>p\<in>set rows. \<forall>st. let r = FleetOptimizerRow (ci_operator d) p st in
            ab_disabled (fr_trigger r) \<and> (case fr_toggle r of PauseToggle b dl \<Rightarrow> ab_disabled b | ResumeToggle b \<Rightarrow> ab_disabled b)
            \<and> (rp_offline p \<or> pl_text (hd (fr_pills r)) = ''Read-only''))"
    unfolding Let_def
  proof (intro ballI allI conjI)
    fix p st assume p: "p \<in> set rows"
    let ?r = "FleetOptimizerRow (ci_operator d) p st"
    show "ab_disabled (fr_trigger ?r)" "case fr_toggle ?r of PauseToggle b dl \<Rightarrow> ab_disabled b | ResumeToggle b \<Rightarrow> ab_disabled b"
      by (rule paused(1,2) [OF p])+
    show "rp_offline p \<or> pl_text (hd (fr_pills ?r)) = ''Read-only''"
      using paused(3) [OF p, of "ci_operator d" st] by (auto simp: pill_of_def)
  qed
qed

definition example_greenhouse :: "string \<Rightarrow> optimizer_outcome_status \<Rightarrow> fleet_optimizer_greenhouse" where
  "example_greenhouse i st = \<lparr>fleet_optimizer_greenhouse.greenhouseId = i, status = Some st, reasonCode = None, message = None, enabled = True,
     createdAt = None, inFlight = False, currentStage = None\<rparr>"

definition example_console :: console_inputs where
  "example_console =
     \<lparr>ci_status = \<lparr>qv_data = None, qv_isLoading = False, qv_isError = False, qv_message = None\<rparr>,
      ci_fleetOpt = \<lparr>qv_data = Some \<lparr>fleet_optimizer_summary.greenhouses = [example_greenhouse ''b'' Held, example_greenhouse ''a'' Held,
          example_greenhouse ''c'' Applied],
        rollup = \<lparr>backlog = Fin 0, byOutcome = \<lparr>applied = Fin 1, unchanged = Fin 0, held = Fin 2, failed = Fin 0\<rparr>, oldestOpenAgeSecs = None\<rparr>\<rparr>,
        qv_isLoading = False, qv_isError = False, qv_message = None\<rparr>,
      ci_model = None, ci_enabled = None, ci_fleet = None, ci_operator = True, ci_params = [(''status'', ''held'')], ci_now = Some 0\<rparr>"

text \<open>A collation: by the codes of the characters.\<close>

definition by_codes :: "string \<Rightarrow> string \<Rightarrow> js_num" where
  "by_codes a b = (if map of_char b < (map of_char a :: nat list) then Fin 1 else if a = b then Fin 0 else Fin (- 1))"

theorem console_rows_shown_witness:
  "\<exists>rows. console_table_of by_codes example_console = TableRows rows
     \<and> map rp_entry rows = [example_greenhouse ''a'' Held, example_greenhouse ''b'' Held]"
proof -
  have key: "num_lt (Fin 0) (by_codes a b) \<longleftrightarrow> map of_char b < (map of_char a :: nat list)" for a b
    by (simp add: by_codes_def)
  have f: "filter (row_matches (ci_params example_console)) (console_greenhouses example_console)
      = [example_greenhouse ''b'' Held, example_greenhouse ''a'' Held]"
    by (simp add: row_matches_def status_filter_def isOutcomeStatus_def example_console_def console_greenhouses_def param_get_def
        optimizer_outcome_status_table_def example_greenhouse_def)
  then have "console_rows by_codes example_console \<noteq> []" "console_greenhouses example_console \<noteq> []"
    by (simp_all add: console_rows_sorted [OF key] example_console_def console_greenhouses_def)
  moreover have "\<not> qv_isLoading (ci_fleetOpt example_console)" "\<not> qv_isError (ci_fleetOpt example_console)"
    by (simp_all add: example_console_def)
  ultimately obtain rows where rows: "console_table_of by_codes example_console = TableRows rows"
    unfolding console_table_of_def by simp
  have "map of_char ''a'' < (map of_char ''b'' :: nat list)" by simp
  then have "sort_key (\<lambda>g. (map of_char (fleet_optimizer_greenhouse.greenhouseId g) :: nat list)) [example_greenhouse ''b'' Held, example_greenhouse ''a'' Held]
      = [example_greenhouse ''a'' Held, example_greenhouse ''b'' Held]" by (simp add: example_greenhouse_def)
  moreover note console_rows_shown [where key = "map of_char :: string \<Rightarrow> nat list", OF key rows, THEN conjunct1,
      unfolded Let_def status_filter_value [symmetric] row_matches_iff [symmetric] console_greenhouses_def [symmetric]]
  ultimately have "map rp_entry rows = [example_greenhouse ''a'' Held, example_greenhouse ''b'' Held]" by (simp only: f)
  with rows show ?thesis by (intro exI [of _ rows] conjI)
qed

end
