(* ===== verification/Fleet_View.thy ===== *)
theory Fleet_View
  imports Optimizer_View Detail_View Query_Mutations Machines "HOL-Library.Sublist"
begin

text \<open>
  The site-wide views: the fleet overview with its cards (\<open>features/fleet\<close>), the registration dialog
  as a state machine, the activity feed (\<open>features/activity\<close>) and the frame of the setpoint view
  (\<open>features/greenhouse/SetpointsView.tsx\<close>). What the hooks of a card return is a function of its id.
\<close>

section \<open>Cards\<close>

definition indexFleetHistory :: "fleet_sparklines option \<Rightarrow> (string \<times> reading list) list" where
  "indexFleetHistory d =
     (case d of
        None \<Rightarrow> []
      | Some s \<Rightarrow> fold (\<lambda>x. AList.update (fleet_sparkline_series.greenhouseId x) (fleet_sparkline_series.readings x)) (fleet_sparklines.series s) [])"

definition historyFor :: "(string \<times> reading list) list \<Rightarrow> string \<Rightarrow> reading list" where
  "historyFor index i = (case map_of index i of Some rs \<Rightarrow> rs | None \<Rightarrow> [])"

definition accentColor :: "connectivity \<Rightarrow> bool \<Rightarrow> string" where
  "accentColor st drifted =
     (if st = Offline then ''var(--color-status-offline)''
      else if st = Degraded then ''var(--color-status-degraded)''
      else if drifted then ''var(--color-status-drift)''
      else ''var(--color-status-online)'')"

datatype card_chart = CardSeries chart_series | CardText string

record greenhouse_card =
  gc_link :: string
  gc_accent :: string
  gc_name :: string
  gc_speed :: "pill option"
  gc_profile :: string
  gc_optimizer :: "pill option"
  gc_badge :: "pill list"
  gc_tiles :: "metric_tile list"
  gc_chart :: card_chart
  gc_muted :: bool

text \<open>What the hooks of a card return: the live series, the assignment and its profile.\<close>

record card_data =
  cd_live :: series_map
  cd_assignment :: "assignment option"
  cd_profile :: "crop_profile option"

definition profile_label :: "card_data \<Rightarrow> string" where
  "profile_label c =
     (case cd_assignment c of
        None \<Rightarrow> ''No profile assigned''
      | Some a \<Rightarrow> (case cd_profile c of Some p \<Rightarrow> crop_profile.name p | None \<Rightarrow> assignment.profileId a))"

definition card_points :: "card_data \<Rightarrow> reading list \<Rightarrow> js_num \<Rightarrow> series_point list" where
  "card_points c history windowMs =
     mergeReadings history (case map_of (cd_live c) (liveSeriesKey Temperature None) of Some rs \<Rightarrow> rs | None \<Rightarrow> []) (Some windowMs)"

definition GreenhouseCard ::
    "(js_num \<Rightarrow> string) \<Rightarrow> card_data \<Rightarrow> greenhouse_summary \<Rightarrow> reading list \<Rightarrow> js_num \<Rightarrow> optimizer_card_state option \<Rightarrow> greenhouse_card" where
  "GreenhouseCard ns c g history windowMs opt =
     (let off = (greenhouse_summary.status g = Offline);
          cl = greenhouse_summary.climate g;
          points = card_points c history windowMs;
          tile = (\<lambda>label v un. MetricTile ns label v un InBand off)
      in \<lparr>gc_link = ''/greenhouses/'' @ greenhouse_summary.ident g,
          gc_accent = accentColor (greenhouse_summary.status g) (greenhouse_summary.drift g),
          gc_name = formatGreenhouseLabel (greenhouse_summary.displayName g),
          gc_speed = (case greenhouse_summary.timeScale g of
              Some s \<Rightarrow> if s \<noteq> Fin 1 then Some (TimeScaleIndicator ns s) else None | None \<Rightarrow> None),
          gc_profile = profile_label c, gc_optimizer = map_option OptimizerStatusPill opt,
          gc_badge = StatusBadge (greenhouse_summary.status g) (greenhouse_summary.drift g),
          gc_tiles = [tile ''Temperature'' (nullish (greenhouse_climate.temperature cl)) deg_c,
            tile ''Humidity'' (nullish (greenhouse_climate.humidity cl)) ''%'',
            tile (''CO'' @ sub_two) (nullish (greenhouse_climate.co2 cl)) ''ppm'',
            tile ''DLI'' (nullish (greenhouse_climate.dli cl))
              (''mol'' @ middle_dot @ ''m'' @ super_minus [CHR 0xC2, CHR 0xB2] @ middle_dot @ ''d'' @ super_minus [CHR 0xC2, CHR 0xB9])],
          gc_chart = (if points \<noteq> [] then CardSeries \<lparr>cs_label = ''Temperature'', cs_color = ''var(--chart-temperature)'', cs_points = points\<rparr>
            else CardText (if off then ''offline '' @ em_dash @ '' no live data'' else ''awaiting telemetry'' @ ellipsis)),
          gc_muted = off\<rparr>)"

section \<open>The overview\<close>

definition FleetSummaryBar :: "status_rollup \<Rightarrow> summary_stat list" where
  "FleetSummaryBar r =
     [SummaryStat ''Total Greenhouses'' (nat_string (sr_total r), None) ''All sites'' ''Activity'' ''var(--chart-temperature)'' False,
      SummaryStat ''Healthy'' (nat_string (sr_online r), None) ''Reporting normally'' ''CircleCheck'' ''var(--chart-temperature)'' False,
      SummaryStat ''Attention Needed'' (nat_string (sr_degraded r), None) ''Degraded'' ''TriangleAlert'' ''var(--color-status-degraded)'' True,
      SummaryStat ''Offline'' (nat_string (sr_offline r), None) ''No data'' ''Ban'' ''var(--color-status-offline)'' False,
      SummaryStat ''Drift Detected'' (nat_string (sr_drift r), None) ''Setpoints mismatched'' ''Target'' ''var(--color-status-drift)'' True]"

record fleet_inputs =
  fi_fleet :: "greenhouse_summary list query_view"
  fi_operator :: bool
  fi_window :: range_key
  fi_sparklines :: "fleet_sparklines query_view"
  fi_connection :: ws_connection_state
  fi_optimizer :: "fleet_optimizer_summary option"
  fi_enabled :: "enable_state option"
  fi_card :: "string \<Rightarrow> card_data"

definition optimizer_entry :: "fleet_optimizer_summary \<Rightarrow> string \<Rightarrow> fleet_optimizer_greenhouse option" where
  "optimizer_entry s = map_of (rev (map (\<lambda>g. (fleet_optimizer_greenhouse.greenhouseId g, g)) (fleet_optimizer_summary.greenhouses s)))"

definition optimizer_state :: "fleet_inputs \<Rightarrow> greenhouse_summary \<Rightarrow> optimizer_card_state option" where
  "optimizer_state d g =
     map_option (\<lambda>s. toOptimizerCardState (optimizer_entry s (greenhouse_summary.ident g))
       (case fi_enabled d of Some e \<Rightarrow> enable_state.enabled e | None \<Rightarrow> True)) (fi_optimizer d)"

definition any_sim :: "greenhouse_summary list \<Rightarrow> bool" where
  "any_sim gs \<longleftrightarrow> (\<exists>g\<in>set gs. greenhouse_summary.timeScale g \<noteq> None)"

definition live_scales :: "greenhouse_summary list \<Rightarrow> js_num list" where
  "live_scales gs = set_from (map the (filter (\<lambda>s. s \<noteq> None)
     (map greenhouse_summary.timeScale (filter (\<lambda>g. greenhouse_summary.status g \<noteq> Offline) gs))))"

definition commonScale :: "greenhouse_summary list \<Rightarrow> js_num option" where
  "commonScale gs = (if length (live_scales gs) = 1 then Some (hd (live_scales gs)) else None)"

datatype fleet_body =
    FleetLoading
  | FleetFailed "string option"
  | FleetEmpty
  | FleetGrid "string option" "summary_stat list" "greenhouse_card list"

record fleet_view =
  fv_speed :: "scale_button list option"
  fv_window :: "(range_key \<times> string \<times> bool) list option"
  fv_register_disabled :: bool
  fv_register_title :: "string option"
  fv_body :: fleet_body

definition fleet_card :: "(js_num \<Rightarrow> string) \<Rightarrow> fleet_inputs \<Rightarrow> greenhouse_summary \<Rightarrow> greenhouse_card" where
  "fleet_card ns d g =
     GreenhouseCard ns (fi_card d (greenhouse_summary.ident g)) g
       (historyFor (indexFleetHistory (qv_data (fi_sparklines d))) (greenhouse_summary.ident g))
       (rangeMs (fi_window d)) (optimizer_state d g)"

text \<open>\<open>waiting\<close>: the speed mutation is pending.\<close>

definition FleetOverview :: "(js_num \<Rightarrow> string) \<Rightarrow> bool \<Rightarrow> fleet_inputs \<Rightarrow> fleet_view" where
  "FleetOverview ns waiting d =
     (let gs = data_or_empty (fi_fleet d)
      in \<lparr>fv_speed = (if any_sim gs then Some (TimeScaleControl ns (commonScale gs) waiting (\<not> fi_operator d)) else None),
          fv_window = (if gs \<noteq> [] then Some (RangePicker (fi_window d)) else None),
          fv_register_disabled = (\<not> fi_operator d), fv_register_title = operator_only (fi_operator d),
          fv_body = (if qv_isLoading (fi_fleet d) then FleetLoading
            else if qv_isError (fi_fleet d) then FleetFailed (qv_message (fi_fleet d))
            else if gs = [] then FleetEmpty
            else FleetGrid (fleetStaleNotice (isStreamDegraded (fi_connection d)) (qv_isError (fi_sparklines d)))
              (FleetSummaryBar (statusRollup gs)) (map (fleet_card ns d) gs))\<rparr>)"

section \<open>Registration\<close>

datatype register_path = IdField | NameField | CropField | RestUrlField | TopicRootField

record register_values =
  rv_id :: string
  rv_displayName :: string
  rv_crop :: string
  rv_restBaseUrl :: string
  rv_mqttTopicRoot :: string

definition register_defaults :: register_values where
  "register_defaults = \<lparr>rv_id = [], rv_displayName = [], rv_crop = [], rv_restBaseUrl = [], rv_mqttTopicRoot = []\<rparr>"

text \<open>\<open>is_url\<close> is the check of \<open>.url()\<close>, as in the wire schema.\<close>

definition register_issues :: "(string \<Rightarrow> bool) \<Rightarrow> register_values \<Rightarrow> (register_path \<times> string) list" where
  "register_issues is_url v =
     (if is_slug (rv_id v) then [] else [(IdField, ''Lowercase kebab slug, e.g. gh-a'')])
     @ (if rv_displayName v \<noteq> [] then [] else [(NameField, ''Required'')])
     @ (if is_url (rv_restBaseUrl v) then [] else [(RestUrlField, ''Must be a URL, e.g. http://gh-a:8080'')])
     @ (if rv_mqttTopicRoot v \<noteq> [] then [] else [(TopicRootField, ''Required'')])"

definition register_input :: "register_values \<Rightarrow> greenhouse_registration_input" where
  "register_input v =
     \<lparr>greenhouse_registration_input.ident = rv_id v, displayName = rv_displayName v,
      crop = (if trim (rv_crop v) \<noteq> [] then Given (trim (rv_crop v)) else Null),
      controller = \<lparr>restBaseUrl = rv_restBaseUrl v, mqttTopicRoot = rv_mqttTopicRoot v\<rparr>\<rparr>"

definition REGISTER_FIELD_MAP :: "string \<rightharpoonup> register_path" where
  "REGISTER_FIELD_MAP = map_of
     [(''id'', IdField), (''display_name'', NameField), (''crop'', CropField),
      (''controller.rest_base_url'', RestUrlField), (''controller.mqtt_topic_root'', TopicRootField)]"

record register_dialog =
  rd_open :: bool
  rd_values :: register_values
  rd_submitting :: bool
  rd_pending :: bool
  rd_field_error :: "(register_path \<times> string) option"
  rd_sent :: "greenhouse_registration_input list"
  rd_toasts :: "toast_input list"

text \<open>\<open>reset()\<close> restores the whole form state; a request already sent goes on.\<close>

definition reset_form :: "register_dialog \<Rightarrow> register_dialog" where
  "reset_form s = s\<lparr>rd_values := register_defaults, rd_submitting := False, rd_field_error := None\<rparr>"

definition register_failed :: "string \<Rightarrow> thrown \<Rightarrow> register_dialog \<Rightarrow> register_dialog" where
  "register_failed other e s =
     (let toast = (\<lambda>t m. s\<lparr>rd_toasts := rd_toasts s @ [toast_of WarningToast t m]\<rparr>)
      in case e of
        OtherThrown \<Rightarrow> toast ''Registration failed'' other
      | ApiError x \<Rightarrow>
          (case (ae_kind x, ae_validation x) of
             (ValidationErr, Some d) \<Rightarrow>
               (case REGISTER_FIELD_MAP (vd_field d) of
                  Some p \<Rightarrow> s\<lparr>rd_field_error := Some (p, ae_message x)\<rparr>
                | None \<Rightarrow> toast ''Registration rejected'' (ae_message x))
           | _ \<Rightarrow> toast ''Registration failed'' (ae_message x)))"

datatype register_event =
    OpenRegister bool | TypeValues register_values | SubmitRegister | CancelRegister | DismissRegister
  | Registered string | RegisterFailed thrown

text \<open>
  \<open>DismissRegister\<close> is Escape, the backdrop or the close button of the dialog, which no pending
  request disables; \<open>Registered\<close> carries the display name of the created greenhouse.
\<close>

fun register_step :: "(string \<Rightarrow> bool) \<Rightarrow> string \<Rightarrow> register_event \<Rightarrow> register_dialog \<Rightarrow> register_dialog" where
  "register_step is_url other (OpenRegister isOperator) s = (if isOperator then s\<lparr>rd_open := True\<rparr> else s)"
| "register_step is_url other (TypeValues v) s = (if rd_open s then s\<lparr>rd_values := v\<rparr> else s)"
| "register_step is_url other SubmitRegister s =
     (if \<not> rd_open s \<or> rd_submitting s then s
      else if register_issues is_url (rd_values s) \<noteq> [] then s\<lparr>rd_field_error := None\<rparr>
      else s\<lparr>rd_submitting := True, rd_pending := True, rd_field_error := None,
        rd_sent := rd_sent s @ [register_input (rd_values s)]\<rparr>)"
| "register_step is_url other CancelRegister s =
     (if rd_open s \<and> \<not> rd_submitting s then (reset_form s)\<lparr>rd_open := False\<rparr> else s)"
| "register_step is_url other DismissRegister s = (if rd_open s then (reset_form s)\<lparr>rd_open := False\<rparr> else s)"
| "register_step is_url other (Registered nm) s =
     (if rd_pending s
      then (reset_form s)\<lparr>rd_open := False, rd_pending := False,
        rd_toasts := rd_toasts s @ [toast_of SuccessToast ''Greenhouse registered'' (formatGreenhouseLabel nm)]\<rparr>
      else s)"
| "register_step is_url other (RegisterFailed e) s =
     (if rd_pending s then (register_failed other e s)\<lparr>rd_pending := False, rd_submitting := False\<rparr> else s)"

definition register_start :: register_dialog where
  "register_start = \<lparr>rd_open = False, rd_values = register_defaults, rd_submitting = False, rd_pending = False,
     rd_field_error = None, rd_sent = [], rd_toasts = []\<rparr>"

definition register_run :: "(string \<Rightarrow> bool) \<Rightarrow> string \<Rightarrow> register_event list \<Rightarrow> register_dialog" where
  "register_run is_url other es = fold (register_step is_url other) es register_start"

section \<open>Activity\<close>

definition KIND_OPTIONS :: "event_kind list" where
  "KIND_OPTIONS = [FaultKind, InterlockKind, ProfileApplied, SetpointEdit, DriftKind, OptimizerPlanApplied, OptimizerPlanEscalated,
     OptimizerPlanHeld, OptimizerResolved, OptimizerRunFailed]"

definition SEVERITY_OPTIONS :: "event_severity list" where
  "SEVERITY_OPTIONS = [Info, Warning, Critical]"

definition setGreenhouseId :: "string \<Rightarrow> search_params \<Rightarrow> search_params" where
  "setGreenhouseId i ps = (if i \<noteq> [] then search_set ''greenhouse_id'' i ps else param_delete ''greenhouse_id'' ps)"

record activity_inputs =
  ac_kind :: "event_kind option"
  ac_severity :: "event_severity option"
  ac_params :: search_params
  ac_fleet :: "greenhouse_summary list query_view"
  ac_events :: "event_entry list query_view"
  ac_alerts :: "active_alert list query_view"

definition activity_greenhouse :: "activity_inputs \<Rightarrow> string option" where
  "activity_greenhouse d = (case param_get (ac_params d) ''greenhouse_id'' of Some i \<Rightarrow> if i = [] then None else Some i | None \<Rightarrow> None)"

definition activity_scope :: "activity_inputs \<Rightarrow> event_scope" where
  "activity_scope d = \<lparr>sc_greenhouseId = activity_greenhouse d, sc_kind = ac_kind d, sc_severity = ac_severity d\<rparr>"

definition activity_queries :: "date_parser \<Rightarrow> activity_inputs \<Rightarrow> query_opts list" where
  "activity_queries dp d = [useEvents dp (activity_scope d), useActiveAlerts dp (activity_scope d)]"

definition scoped_ids :: "activity_inputs \<Rightarrow> string list" where
  "scoped_ids d = (case activity_greenhouse d of Some i \<Rightarrow> [i] | None \<Rightarrow> map greenhouse_summary.ident (data_or_empty (ac_fleet d)))"

definition alert_rollup :: "activity_inputs \<Rightarrow> active_alert_rollup" where
  "alert_rollup d = activeAlertRollup (data_or_empty (ac_alerts d)) (scoped_ids d)"

definition ActivityAlertSummaryBar :: "active_alert_rollup \<Rightarrow> summary_stat list" where
  "ActivityAlertSummaryBar r =
     [SummaryStat ''Active Alarms'' (nat_string (ar_alarms r), None) ''Critical controller faults'' ''BellRing'' ''var(--color-fault)'' (ar_alarms r > 0),
      SummaryStat ''Active Warnings'' (nat_string (ar_warnings r), None) ''Degraded but operating'' ''TriangleAlert'' ''var(--color-warning)'' (ar_warnings r > 0),
      SummaryStat ''Affected Greenhouses'' (nat_string (ar_affected r), None) ''With matching active alerts'' ''Waves'' ''var(--color-status-degraded)'' (ar_affected r > 0),
      SummaryStat ''Clear Greenhouses'' (int_string (ar_clear r), None) ''No matching active alerts'' ''CircleCheck'' ''var(--color-status-online)'' False]"

datatype activity_body = ActivityLoading | ActivityFailed "string option" | NoActivity | ActivityShown event_list

record activity_view =
  vw_greenhouses :: "(string \<times> string) list"
  vw_kinds :: "(string \<times> string) list"
  vw_severities :: "(string \<times> string) list"
  vw_alerts :: "summary_stat list option"
  vw_body :: activity_body

definition ActivityFeed :: "(date \<Rightarrow> string) \<Rightarrow> (date \<Rightarrow> string) \<Rightarrow> activity_inputs \<Rightarrow> activity_view" where
  "ActivityFeed date_text time_text d =
     (let events = data_or_empty (ac_events d); kind_text = literal event_kind_table; severity_text = literal event_severity_table
      in \<lparr>vw_greenhouses = ([], ''All greenhouses'')
            # map (\<lambda>g. (greenhouse_summary.ident g, formatGreenhouseLabel (greenhouse_summary.displayName g))) (data_or_empty (ac_fleet d)),
          vw_kinds = ([], ''All kinds'') # map (\<lambda>k. (kind_text k, spaced (kind_text k))) KIND_OPTIONS,
          vw_severities = ([], ''All severities'') # map (\<lambda>v. (severity_text v, severity_text v)) SEVERITY_OPTIONS,
          vw_alerts = (if qv_isLoading (ac_alerts d) \<or> qv_isLoading (ac_fleet d) then None
            else Some (ActivityAlertSummaryBar (alert_rollup d))),
          vw_body = (if qv_isLoading (ac_events d) then ActivityLoading
            else if qv_isError (ac_events d) then ActivityFailed (qv_message (ac_events d))
            else if events = [] then NoActivity
            else ActivityShown (EventList date_text time_text True True events))\<rparr>)"

section \<open>The setpoint view\<close>

datatype setpoints_page =
    SetpointsLoading
  | SetpointsFailed "string option"
  | SetpointsForm string string setpoints bool

definition SetpointsView :: "string \<Rightarrow> greenhouse_detail query_view \<Rightarrow> setpoints_page" where
  "SetpointsView i q =
     (if qv_isLoading q then SetpointsLoading
      else case qv_data q of
        None \<Rightarrow> SetpointsFailed (qv_message q)
      | Some g \<Rightarrow> SetpointsForm (''/greenhouses/'' @ i) (''Back to '' @ formatGreenhouseLabel (greenhouse_detail.displayName g))
          (greenhouse_detail.setpoints g) (greenhouse_detail.status g = Offline))"

section \<open>Lemmas: the overview\<close>

lemma statusRollup_counts:
  "sr_total (statusRollup gs) = length gs"
  "sr_online (statusRollup gs) = length (filter (\<lambda>g. greenhouse_summary.status g = Online) gs)"
  "sr_degraded (statusRollup gs) = length (filter (\<lambda>g. greenhouse_summary.status g = Degraded) gs)"
  "sr_offline (statusRollup gs) = length (filter (\<lambda>g. greenhouse_summary.status g = Offline) gs)"
  "sr_drift (statusRollup gs) = length (filter greenhouse_summary.drift gs)"
proof -
  have "sr_total (statusRollup gs) = length gs
     \<and> sr_online (statusRollup gs) = length (filter (\<lambda>g. greenhouse_summary.status g = Online) gs)
     \<and> sr_degraded (statusRollup gs) = length (filter (\<lambda>g. greenhouse_summary.status g = Degraded) gs)
     \<and> sr_offline (statusRollup gs) = length (filter (\<lambda>g. greenhouse_summary.status g = Offline) gs)
     \<and> sr_drift (statusRollup gs) = length (filter greenhouse_summary.drift gs)"
  proof (induction gs rule: rev_induct)
    case Nil
    then show ?case by (simp add: statusRollup_def)
  next
    case (snoc g gs)
    have step: "statusRollup (gs @ [g]) =
       (let r = statusRollup gs; r1 = bump_status (greenhouse_summary.status g) (r\<lparr>sr_total := sr_total r + 1\<rparr>)
        in if greenhouse_summary.drift g then r1\<lparr>sr_drift := sr_drift r1 + 1\<rparr> else r1)"
      by (simp add: statusRollup_def Let_def)
    show ?case unfolding step Let_def using snoc by (cases "greenhouse_summary.status g"; simp)
  qed
  then show "sr_total (statusRollup gs) = length gs"
    "sr_online (statusRollup gs) = length (filter (\<lambda>g. greenhouse_summary.status g = Online) gs)"
    "sr_degraded (statusRollup gs) = length (filter (\<lambda>g. greenhouse_summary.status g = Degraded) gs)"
    "sr_offline (statusRollup gs) = length (filter (\<lambda>g. greenhouse_summary.status g = Offline) gs)"
    "sr_drift (statusRollup gs) = length (filter greenhouse_summary.drift gs)" by blast+
qed

lemma connectivity_partition:
  "length (filter (\<lambda>g. greenhouse_summary.status g = Online) gs) + length (filter (\<lambda>g. greenhouse_summary.status g = Degraded) gs)
     + length (filter (\<lambda>g. greenhouse_summary.status g = Offline) gs) = length gs"
proof (induction gs)
  case (Cons g gs)
  then show ?case by (cases "greenhouse_summary.status g") auto
qed simp

lemma singleton_list: "distinct xs \<Longrightarrow> (length xs = 1 \<and> hd xs = x) \<longleftrightarrow> set xs = {x}"
proof -
  assume d: "distinct xs"
  have "length xs = 1" if "set xs = {x}" using distinct_card [OF d] that by simp
  moreover have "set xs = {hd xs}" if "length xs = 1" using that by (auto simp: length_Suc_conv)
  ultimately show ?thesis by auto
qed

lemma commonScale_iff:
  "commonScale gs = Some x \<longleftrightarrow>
     (\<exists>g\<in>set gs. greenhouse_summary.status g \<noteq> Offline \<and> greenhouse_summary.timeScale g = Some x)
     \<and> (\<forall>g\<in>set gs. greenhouse_summary.status g \<noteq> Offline \<longrightarrow> greenhouse_summary.timeScale g \<in> {None, Some x})"
proof -
  have s: "set (live_scales gs) = {v. \<exists>g\<in>set gs. greenhouse_summary.status g \<noteq> Offline \<and> greenhouse_summary.timeScale g = Some v}"
    unfolding live_scales_def set_set_from by force
  have "commonScale gs = Some x \<longleftrightarrow> set (live_scales gs) = {x}"
    using singleton_list [of "live_scales gs" x] by (auto simp: commonScale_def live_scales_def)
  also have "\<dots> \<longleftrightarrow> x \<in> set (live_scales gs) \<and> (\<forall>v\<in>set (live_scales gs). v = x)" by auto
  finally have "commonScale gs = Some x \<longleftrightarrow> x \<in> set (live_scales gs) \<and> (\<forall>v\<in>set (live_scales gs). v = x)" .
  moreover have "t \<in> {None, Some x} \<longleftrightarrow> (\<forall>v. t = Some v \<longrightarrow> v = x)" for t :: "js_num option" by (cases t) auto
  ultimately show ?thesis unfolding s by auto
qed

text \<open>
  C34: the fleet overview. Where it shows the grid, there is one card per greenhouse in the fetched
  order, linking to it; the tiles count all, the online, the degraded, the offline and the drifting
  greenhouses, of which online, degraded and offline make up the total. The speed control is there
  exactly when some greenhouse reports a time scale, offers a half, one, two, four and eight, is
  disabled for a viewer and while a change is pending, and highlights a scale exactly when it is the
  one scale of the greenhouses that can be reached, the offline ones left out. A card has an
  optimizer pill exactly when the optimizer's summary was fetched; and the warning above the cards
  shows exactly when the charts failed to refresh or the stream is down.
\<close>

theorem fleet_overview_faithful:
  assumes "fv_body (FleetOverview ns waiting d) = FleetGrid notice tiles cards"
    and "gs = (case qv_data (fi_fleet d) of Some xs \<Rightarrow> xs | None \<Rightarrow> [])"
  shows "map gc_link cards = map (\<lambda>g. ''/greenhouses/'' @ greenhouse_summary.ident g) gs
     \<and> map (\<lambda>t. (ss_label t, ss_value t)) tiles =
         [(''Total Greenhouses'', nat_string (length gs)),
          (''Healthy'', nat_string (length (filter (\<lambda>g. greenhouse_summary.status g = Online) gs))),
          (''Attention Needed'', nat_string (length (filter (\<lambda>g. greenhouse_summary.status g = Degraded) gs))),
          (''Offline'', nat_string (length (filter (\<lambda>g. greenhouse_summary.status g = Offline) gs))),
          (''Drift Detected'', nat_string (length (filter greenhouse_summary.drift gs)))]
     \<and> length (filter (\<lambda>g. greenhouse_summary.status g = Online) gs) + length (filter (\<lambda>g. greenhouse_summary.status g = Degraded) gs)
         + length (filter (\<lambda>g. greenhouse_summary.status g = Offline) gs) = length gs
     \<and> (fv_speed (FleetOverview ns waiting d) = None \<longleftrightarrow> (\<forall>g\<in>set gs. greenhouse_summary.timeScale g = None))
     \<and> (\<forall>buttons. fv_speed (FleetOverview ns waiting d) = Some buttons \<longrightarrow>
           map sb_scale buttons = [Fin (1/2), Fin 1, Fin 2, Fin 4, Fin 8]
         \<and> (\<forall>b\<in>set buttons. (sb_disabled b \<longleftrightarrow> waiting \<or> \<not> fi_operator d)
            \<and> (sb_checked b \<longleftrightarrow>
              (\<exists>g\<in>set gs. greenhouse_summary.status g \<noteq> Offline \<and> greenhouse_summary.timeScale g = Some (sb_scale b))
              \<and> (\<forall>g\<in>set gs. greenhouse_summary.status g \<noteq> Offline \<longrightarrow> greenhouse_summary.timeScale g \<in> {None, Some (sb_scale b)}))))
     \<and> (\<forall>c\<in>set cards. gc_optimizer c = None \<longleftrightarrow> fi_optimizer d = None)
     \<and> (notice = None \<longleftrightarrow> \<not> qv_isError (fi_sparklines d) \<and> fi_connection d \<noteq> WsReconnecting \<and> fi_connection d \<noteq> WsClosed)"
proof (intro conjI)
  have gs: "gs = data_or_empty (fi_fleet d)" using assms(2) by (simp add: data_or_empty_def split: option.splits)
  have body: "cards = map (fleet_card ns d) gs" "tiles = FleetSummaryBar (statusRollup gs)"
    "notice = fleetStaleNotice (isStreamDegraded (fi_connection d)) (qv_isError (fi_sparklines d))"
    using assms(1) by (simp_all add: FleetOverview_def Let_def gs split: if_splits)
  have speed: "fv_speed (FleetOverview ns waiting d)
      = (if any_sim gs then Some (TimeScaleControl ns (commonScale gs) waiting (\<not> fi_operator d)) else None)"
    by (simp add: FleetOverview_def Let_def gs)
  show "map gc_link cards = map (\<lambda>g. ''/greenhouses/'' @ greenhouse_summary.ident g) gs"
    by (simp add: body fleet_card_def GreenhouseCard_def Let_def)
  show "map (\<lambda>t. (ss_label t, ss_value t)) tiles =
         [(''Total Greenhouses'', nat_string (length gs)),
          (''Healthy'', nat_string (length (filter (\<lambda>g. greenhouse_summary.status g = Online) gs))),
          (''Attention Needed'', nat_string (length (filter (\<lambda>g. greenhouse_summary.status g = Degraded) gs))),
          (''Offline'', nat_string (length (filter (\<lambda>g. greenhouse_summary.status g = Offline) gs))),
          (''Drift Detected'', nat_string (length (filter greenhouse_summary.drift gs)))]"
    by (simp add: body FleetSummaryBar_def SummaryStat_def statusRollup_counts)
  show "fv_speed (FleetOverview ns waiting d) = None \<longleftrightarrow> (\<forall>g\<in>set gs. greenhouse_summary.timeScale g = None)"
    by (simp add: speed any_sim_def)
  show "\<forall>buttons. fv_speed (FleetOverview ns waiting d) = Some buttons \<longrightarrow>
           map sb_scale buttons = [Fin (1/2), Fin 1, Fin 2, Fin 4, Fin 8]
         \<and> (\<forall>b\<in>set buttons. (sb_disabled b \<longleftrightarrow> waiting \<or> \<not> fi_operator d)
            \<and> (sb_checked b \<longleftrightarrow>
              (\<exists>g\<in>set gs. greenhouse_summary.status g \<noteq> Offline \<and> greenhouse_summary.timeScale g = Some (sb_scale b))
              \<and> (\<forall>g\<in>set gs. greenhouse_summary.status g \<noteq> Offline \<longrightarrow> greenhouse_summary.timeScale g \<in> {None, Some (sb_scale b)})))"
    unfolding speed commonScale_iff [symmetric] by (auto simp: TimeScaleControl_def OPTIONS_def)
  show "\<forall>c\<in>set cards. gc_optimizer c = None \<longleftrightarrow> fi_optimizer d = None"
    by (simp add: body fleet_card_def GreenhouseCard_def Let_def optimizer_state_def)
  show "notice = None \<longleftrightarrow> \<not> qv_isError (fi_sparklines d) \<and> fi_connection d \<noteq> WsReconnecting \<and> fi_connection d \<noteq> WsClosed"
    by (simp add: body fleetStaleNotice_def isStreamDegraded_def)
qed (rule connectivity_partition)

text \<open>A refetch that fails hides the cards it had: the failure is checked before the cached data.\<close>

lemma failed_refetch_hides_cards:
  assumes "qv_isError (fi_fleet d)" "\<not> qv_isLoading (fi_fleet d)"
  shows "fv_body (FleetOverview ns waiting d) = FleetFailed (qv_message (fi_fleet d))"
  using assms by (simp add: FleetOverview_def Let_def)

section \<open>Lemmas: registration\<close>

lemma conforms_registration:
  "conforms (wireGreenhouseRegistration is_url) (json_registration (toWireRegistration (register_input v))) \<longleftrightarrow>
     is_slug (rv_id v) \<and> rv_displayName v \<noteq> [] \<and> is_url (rv_restBaseUrl v)"
  by (auto simp: wireGreenhouseRegistration_def json_registration_def toWireRegistration_def register_input_def json_crop_def
      slug_def)

lemma register_issues_iff:
  "register_issues is_url v = [] \<longleftrightarrow>
     conforms (wireGreenhouseRegistration is_url) (json_registration (toWireRegistration (register_input v))) \<and> rv_mqttTopicRoot v \<noteq> []"
  by (auto simp: register_issues_def conforms_registration)

definition registrations_sent :: "(string \<Rightarrow> bool) \<Rightarrow> register_event \<Rightarrow> register_dialog \<Rightarrow> greenhouse_registration_input list" where
  "registrations_sent is_url e s =
     (if e = SubmitRegister \<and> rd_open s \<and> \<not> rd_submitting s \<and> register_issues is_url (rd_values s) = []
      then [register_input (rd_values s)] else [])"

lemma register_sent: "rd_sent (register_step is_url other e s) = rd_sent s @ registrations_sent is_url e s"
  by (cases e) (auto simp: registrations_sent_def reset_form_def register_failed_def Let_def
      split: thrown.split api_error_kind.split option.split)

interpretation register_machine: sending_machine "register_step is_url other" rd_sent "registrations_sent is_url" for is_url other
  by unfold_locales (rule register_sent)

text \<open>
  C35: registering a greenhouse. Whatever happens to the dialog, every registration sent conforms to
  the contract of the request and names a topic root, and only a submit of the open dialog sends
  one, none while another is being submitted; the form's own checks accept exactly such values. A
  request that outlives the dialog still resets and closes it, though: there is a history in which
  the answer to an earlier registration discards what was typed into the reopened form.
\<close>

theorem registrations_conform:
  "(\<forall>x\<in>set (rd_sent (register_run is_url other es)).
        conforms (wireGreenhouseRegistration is_url) (json_registration (toWireRegistration x))
        \<and> mqttTopicRoot (greenhouse_registration_input.controller x) \<noteq> [])
   \<and> (rd_sent (register_step is_url other e s) \<noteq> rd_sent s \<longrightarrow> e = SubmitRegister \<and> rd_open s \<and> \<not> rd_submitting s
        \<and> rd_sent (register_step is_url other e s) = rd_sent s @ [register_input (rd_values s)])
   \<and> (register_issues is_url v = [] \<longleftrightarrow>
        conforms (wireGreenhouseRegistration is_url) (json_registration (toWireRegistration (register_input v)))
        \<and> mqttTopicRoot (greenhouse_registration_input.controller (register_input v)) \<noteq> [])
   \<and> (is_url u \<longrightarrow> (\<exists>es nm. let s = register_run is_url other es; s' = register_step is_url other (Registered nm) s
        in rd_open s \<and> \<not> rd_submitting s \<and> rd_values s \<noteq> register_defaults \<and> \<not> rd_open s' \<and> rd_values s' = register_defaults))"
proof (rule conjI; (rule conjI)?; (rule conjI)?)
  have root: "mqttTopicRoot (greenhouse_registration_input.controller (register_input v)) = rv_mqttTopicRoot v" for v
    by (simp add: register_input_def)
  show "\<forall>x\<in>set (rd_sent (register_run is_url other es)).
        conforms (wireGreenhouseRegistration is_url) (json_registration (toWireRegistration x))
        \<and> mqttTopicRoot (greenhouse_registration_input.controller x) \<noteq> []"
    unfolding register_run_def
    by (rule register_machine.sent_all) (simp_all add: registrations_sent_def register_issues_iff root register_start_def)
  show "rd_sent (register_step is_url other e s) \<noteq> rd_sent s \<longrightarrow> e = SubmitRegister \<and> rd_open s \<and> \<not> rd_submitting s
        \<and> rd_sent (register_step is_url other e s) = rd_sent s @ [register_input (rd_values s)]"
    by (simp add: register_sent registrations_sent_def)
  show "register_issues is_url v = [] \<longleftrightarrow>
        conforms (wireGreenhouseRegistration is_url) (json_registration (toWireRegistration (register_input v)))
        \<and> mqttTopicRoot (greenhouse_registration_input.controller (register_input v)) \<noteq> []"
    by (simp add: register_issues_iff root)
  show "is_url u \<longrightarrow> (\<exists>es nm. let s = register_run is_url other es; s' = register_step is_url other (Registered nm) s
        in rd_open s \<and> \<not> rd_submitting s \<and> rd_values s \<noteq> register_defaults \<and> \<not> rd_open s' \<and> rd_values s' = register_defaults)"
  proof
    assume u: "is_url u"
    define v where "v = \<lparr>rv_id = ''a'', rv_displayName = ''A'', rv_crop = [], rv_restBaseUrl = u, rv_mqttTopicRoot = ''a''\<rparr>"
    let ?es = "[OpenRegister True, TypeValues v, SubmitRegister, DismissRegister, OpenRegister True, TypeValues v]"
    have ok: "register_issues is_url v = []" using u by (simp add: register_issues_def v_def is_slug_def lower_or_digit_def char_in_def)
    have ne: "v \<noteq> register_defaults" by (simp add: v_def register_defaults_def)
    have s: "rd_open (register_run is_url other ?es)" "\<not> rd_submitting (register_run is_url other ?es)"
      "rd_values (register_run is_url other ?es) = v" "rd_pending (register_run is_url other ?es)"
      using ok by (simp_all add: register_run_def register_start_def reset_form_def)
    have "\<not> rd_open (register_step is_url other (Registered []) (register_run is_url other ?es))"
      "rd_values (register_step is_url other (Registered []) (register_run is_url other ?es)) = register_defaults"
      using s(4) by (simp_all add: reset_form_def)
    with s ne show "\<exists>es nm. let s = register_run is_url other es; s' = register_step is_url other (Registered nm) s
        in rd_open s \<and> \<not> rd_submitting s \<and> rd_values s \<noteq> register_defaults \<and> \<not> rd_open s' \<and> rd_values s' = register_defaults"
      unfolding Let_def by (intro exI [of _ ?es] exI [of _ "[]"]) simp
  qed
qed

theorem registrations_conform_witness:
  "(\<exists>es nm. let s = register_run (\<lambda>u. u = ''http://gh-a:8080'') [] es; s' = register_step (\<lambda>u. u = ''http://gh-a:8080'') [] (Registered nm) s
     in rd_open s \<and> \<not> rd_submitting s \<and> rd_values s \<noteq> register_defaults \<and> \<not> rd_open s' \<and> rd_values s' = register_defaults)"
  using registrations_conform [of "\<lambda>u. u = ''http://gh-a:8080''" "[]" _ _ _ _ "''http://gh-a:8080''"] by blast

section \<open>Lemmas: activity\<close>

text \<open>Alerts that could not be fetched read as none: every greenhouse in scope is counted clear.\<close>

lemma failed_alerts_read_clear:
  assumes "qv_isError (ac_alerts d)" "qv_data (ac_alerts d) = None" "\<not> qv_isLoading (ac_alerts d)" "\<not> qv_isLoading (ac_fleet d)"
  shows "vw_alerts (ActivityFeed dt tt d) = Some (ActivityAlertSummaryBar (alert_rollup d))
    \<and> ar_alarms (alert_rollup d) = 0 \<and> ar_warnings (alert_rollup d) = 0
    \<and> ar_clear (alert_rollup d) = int (length (scoped_ids d))"
  using assms by (simp add: ActivityFeed_def Let_def alert_rollup_def activeAlertRollup_def data_or_empty_def set_from_def)

lemma grouped_rows:
  assumes "EventList dt tt True g events = GroupedEvents groups"
  shows "concat (map (snd \<circ> snd) groups) = concat (map (\<lambda>sev. map (EventRow dt tt g) (severity_group events sev)) SEVERITY_ORDER)"
    "map (fst \<circ> snd) groups = map SEVERITY_COLOR (filter (\<lambda>sev. severity_group events sev \<noteq> []) SEVERITY_ORDER)"
proof -
  have groups: "groups = concat (map (\<lambda>sev. let g' = severity_group events sev
        in if g' = [] then []
           else [(literal event_severity_table sev @ '' ('' @ nat_string (length g') @ '')'', SEVERITY_COLOR sev, map (EventRow dt tt g) g')]) SEVERITY_ORDER)"
    using assms by (simp add: EventList_def split: if_splits)
  show "concat (map (snd \<circ> snd) groups) = concat (map (\<lambda>sev. map (EventRow dt tt g) (severity_group events sev)) SEVERITY_ORDER)"
    unfolding groups SEVERITY_ORDER_def by (simp add: Let_def)
  show "map (fst \<circ> snd) groups = map SEVERITY_COLOR (filter (\<lambda>sev. severity_group events sev \<noteq> []) SEVERITY_ORDER)"
    unfolding groups SEVERITY_ORDER_def by (simp add: Let_def)
qed

text \<open>
  C36: the activity feed. Choosing a greenhouse puts it in the address and into the scope of both
  queries, and leaves every other parameter alone. Where events are shown, every fetched event is
  shown exactly once, in the group of its severity, critical before warning before info, and in the
  fetched order inside a group. When the alerts are of the greenhouses in scope, affected and clear add up to them.
\<close>

theorem activity_feed_complete:
  assumes "vw_body (ActivityFeed dt tt d) = ActivityShown (GroupedEvents groups)"
    and "distinct (scoped_ids d)" and "active_alert.greenhouseId ` set (data_or_empty (ac_alerts d)) \<subseteq> set (scoped_ids d)"
  shows "mset (concat (map (snd \<circ> snd) groups)) = mset (map (EventRow dt tt True) (data_or_empty (ac_events d)))
     \<and> (\<exists>sevs. subseq sevs [Critical, Warning, Info] \<and> map (fst \<circ> snd) groups = map SEVERITY_COLOR sevs
          \<and> concat (map (snd \<circ> snd) groups)
              = concat (map (\<lambda>sev. map (EventRow dt tt True) (filter (\<lambda>e. event_entry.severity e = sev) (data_or_empty (ac_events d)))) sevs))
     \<and> int (ar_affected (alert_rollup d)) + ar_clear (alert_rollup d) = int (length (scoped_ids d))
     \<and> activity_greenhouse (d\<lparr>ac_params := setGreenhouseId i (ac_params d)\<rparr>) = (if i = [] then None else Some i)
     \<and> (k \<noteq> ''greenhouse_id'' \<longrightarrow> param_get (setGreenhouseId i (ac_params d)) k = param_get (ac_params d) k)"
proof (intro conjI impI)
  let ?evs = "data_or_empty (ac_events d)"
  have g: "EventList dt tt True True ?evs = GroupedEvents groups"
    using assms(1) by (simp add: ActivityFeed_def Let_def split: if_splits)
  have "concat (map (snd \<circ> snd) groups) = map (EventRow dt tt True) (concat (map (severity_group ?evs) SEVERITY_ORDER))"
    unfolding grouped_rows(1) [OF g] by (simp add: map_concat comp_def)
  then show "mset (concat (map (snd \<circ> snd) groups)) = mset (map (EventRow dt tt True) ?evs)"
    using severity_groups_partition [of ?evs] by (metis mset_map)
  let ?sevs = "filter (\<lambda>sev. severity_group ?evs sev \<noteq> []) SEVERITY_ORDER"
  have "concat (map (\<lambda>sev. map (EventRow dt tt True) (severity_group ?evs sev)) ss)
      = concat (map (\<lambda>sev. map (EventRow dt tt True) (severity_group ?evs sev)) (filter (\<lambda>sev. severity_group ?evs sev \<noteq> []) ss))" for ss
    by (induction ss) auto
  then show "\<exists>sevs. subseq sevs [Critical, Warning, Info] \<and> map (fst \<circ> snd) groups = map SEVERITY_COLOR sevs
      \<and> concat (map (snd \<circ> snd) groups)
          = concat (map (\<lambda>sev. map (EventRow dt tt True) (filter (\<lambda>e. event_entry.severity e = sev) ?evs)) sevs)"
    using grouped_rows [OF g] by (intro exI [of _ ?sevs]) (simp add: severity_group_def SEVERITY_ORDER_def [symmetric])
  have "length (set_from (map active_alert.greenhouseId (data_or_empty (ac_alerts d))))
      = card (active_alert.greenhouseId ` set (data_or_empty (ac_alerts d)))"
    by (simp add: distinct_card [symmetric])
  moreover have "\<dots> \<le> length (scoped_ids d)"
    using card_mono [OF _ assms(3)] distinct_card [OF assms(2)] by simp
  ultimately show "int (ar_affected (alert_rollup d)) + ar_clear (alert_rollup d) = int (length (scoped_ids d))"
    by (simp add: alert_rollup_def activeAlertRollup_def Let_def)
  show "activity_greenhouse (d\<lparr>ac_params := setGreenhouseId i (ac_params d)\<rparr>) = (if i = [] then None else Some i)"
    by (simp add: activity_greenhouse_def setGreenhouseId_def)
  show "k \<noteq> ''greenhouse_id'' \<Longrightarrow> param_get (setGreenhouseId i (ac_params d)) k = param_get (ac_params d) k"
    by (simp add: setGreenhouseId_def)
qed

definition example_event :: "event_severity \<Rightarrow> event_entry" where
  "example_event sev = \<lparr>event_entry.greenhouseId = ''a'', ts = Some 0, kind = FaultKind, severity = sev, message = ''m'', source = None\<rparr>"

definition example_activity :: activity_inputs where
  "example_activity =
     (let loaded = (\<lambda>x. \<lparr>qv_data = Some x, qv_isLoading = False, qv_isError = False, qv_message = None\<rparr>)
      in \<lparr>ac_kind = None, ac_severity = None, ac_params = [(''greenhouse_id'', ''a'')], ac_fleet = \<lparr>qv_data = None, qv_isLoading = False, qv_isError = False, qv_message = None\<rparr>,
          ac_events = loaded [example_event Info, example_event Critical], ac_alerts = \<lparr>qv_data = None, qv_isLoading = False, qv_isError = False, qv_message = None\<rparr>\<rparr>)"

theorem activity_feed_complete_witness:
  "\<exists>groups. vw_body (ActivityFeed (\<lambda>_. []) (\<lambda>_. []) example_activity) = ActivityShown (GroupedEvents groups)
     \<and> length (concat (map (snd \<circ> snd) groups)) = 2"
proof -
  have evs: "data_or_empty (ac_events example_activity) = [example_event Info, example_event Critical]"
    by (simp add: example_activity_def data_or_empty_def Let_def)
  have flags: "\<not> qv_isLoading (ac_events example_activity)" "\<not> qv_isError (ac_events example_activity)"
    "data_or_empty (ac_alerts example_activity) = []" "scoped_ids example_activity = [''a'']"
    by (simp_all add: example_activity_def Let_def data_or_empty_def scoped_ids_def activity_greenhouse_def param_get_def)
  obtain groups where g: "vw_body (ActivityFeed (\<lambda>_. []) (\<lambda>_. []) example_activity) = ActivityShown (GroupedEvents groups)"
    unfolding ActivityFeed_def Let_def activity_view.simps evs using flags(1,2) by (simp add: EventList_def)
  have "mset (concat (map (snd \<circ> snd) groups)) = mset (map (EventRow (\<lambda>_. []) (\<lambda>_. []) True) [example_event Info, example_event Critical])"
    using activity_feed_complete [OF g] flags evs by simp
  then have "length (concat (map (snd \<circ> snd) groups)) = length (map (EventRow (\<lambda>_. []) (\<lambda>_. []) True) [example_event Info, example_event Critical])"
    by (rule mset_eq_length)
  with g show ?thesis by (intro exI [of _ groups]) simp
qed

definition example_fleet :: fleet_inputs where
  "example_fleet =
     \<lparr>fi_fleet = \<lparr>qv_data = Some [\<lparr>greenhouse_summary.ident = ''a'', displayName = ''A'', crop = None, status = Online, drift = False, timeScale = Some (Fin 2),
          climate = \<lparr>temperature = Undefined, humidity = Undefined, co2 = Undefined, dli = Undefined\<rparr>\<rparr>], qv_isLoading = False, qv_isError = False, qv_message = None\<rparr>,
      fi_operator = True, fi_window = R1h, fi_sparklines = \<lparr>qv_data = None, qv_isLoading = False, qv_isError = False, qv_message = None\<rparr>,
      fi_connection = WsOpen, fi_optimizer = None, fi_enabled = None, fi_card = (\<lambda>_. \<lparr>cd_live = [], cd_assignment = None, cd_profile = None\<rparr>)\<rparr>"

theorem fleet_overview_faithful_witness:
  "\<exists>notice tiles cards. fv_body (FleetOverview (\<lambda>_. []) False example_fleet) = FleetGrid notice tiles cards
     \<and> map gc_link cards = [''/greenhouses/a''] \<and> map ss_value tiles = [''1'', ''1'', ''0'', ''0'', ''0'']"
proof -
  have ok: "\<not> qv_isLoading (fi_fleet example_fleet)" "\<not> qv_isError (fi_fleet example_fleet)"
    by (simp_all add: example_fleet_def)
  obtain g where g: "(case qv_data (fi_fleet example_fleet) of Some xs \<Rightarrow> xs | None \<Rightarrow> []) = [g]"
    "greenhouse_summary.ident g = ''a''" "greenhouse_summary.status g = Online" "\<not> greenhouse_summary.drift g"
    by (simp add: example_fleet_def)
  then have "data_or_empty (fi_fleet example_fleet) = [g]" by (simp add: data_or_empty_def split: option.splits)
  then obtain notice tiles cards where v: "fv_body (FleetOverview (\<lambda>_. []) False example_fleet) = FleetGrid notice tiles cards"
    unfolding FleetOverview_def Let_def fleet_view.simps using ok by simp
  note f = fleet_overview_faithful [OF v g(1) [symmetric]]
  have links: "map gc_link cards = [''/greenhouses/a'']" using f [THEN conjunct1] by (simp add: g)
  have "nat_string 0 = ''0''" "nat_string 1 = ''1''" by code_simp+
  then have "map snd (map (\<lambda>t. (ss_label t, ss_value t)) tiles) = [''1'', ''1'', ''0'', ''0'', ''0'']"
    unfolding f [THEN conjunct2, THEN conjunct1] by (simp add: g)
  then have "map ss_value tiles = [''1'', ''1'', ''0'', ''0'', ''0'']" by (simp add: comp_def)
  with links v show ?thesis by (intro exI [of _ notice] exI [of _ tiles] exI [of _ cards] conjI)
qed

end
