(* ===== verification/Shell.thy ===== *)
theory Shell
  imports Session Ui_Parts Stream_Provider Machines
begin

text \<open>
  The console around the views: the theme and the page it is stored in (\<open>hooks/theme.ts\<close>,
  \<open>hooks/ThemeProvider.tsx\<close>, the script of \<open>index.html\<close>), the error boundary, the modal dialog with its
  focus trap, the top bar and the navigation, and the small parts of \<open>components\<close>.
\<close>

section \<open>The theme\<close>

datatype theme_name = Dark | Light

fun theme_text :: "theme_name \<Rightarrow> string" where
  "theme_text Dark = ''dark''"
| "theme_text Light = ''light''"

text \<open>
  What the page keeps: the attribute \<open>data-theme\<close>, the icon's address where the page has the
  element, and the stored choice; \<open>None\<close> for the storage is a browser that refuses it.
\<close>

record document =
  dc_theme :: "string option"
  dc_favicon :: "string option"
  dc_storage :: "string option option"

definition favicon_of :: "string \<Rightarrow> string" where
  "favicon_of t = (if t = ''light'' then ''/favicon-light.svg'' else ''/favicon-dark.svg'')"

text \<open>The script that runs before the first paint.\<close>

definition prepaint :: "bool \<Rightarrow> document \<Rightarrow> document" where
  "prepaint prefersLight d =
     (case dc_storage d of
        None \<Rightarrow> d\<lparr>dc_theme := Some ''dark''\<rparr>
      | Some saved \<Rightarrow>
          (let t = (if truthy_text saved then the saved else if prefersLight then ''light'' else ''dark'')
           in case dc_favicon d of
                None \<Rightarrow> d\<lparr>dc_theme := Some ''dark''\<rparr>
              | Some _ \<Rightarrow> d\<lparr>dc_theme := Some t, dc_favicon := Some (favicon_of t)\<rparr>))"

definition applyTheme :: "theme_name \<Rightarrow> document \<Rightarrow> document" where
  "applyTheme t d =
     d\<lparr>dc_theme := Some (theme_text t),
       dc_favicon := map_option (\<lambda>_. favicon_of (theme_text t)) (dc_favicon d),
       dc_storage := map_option (\<lambda>_. Some (theme_text t)) (dc_storage d)\<rparr>"

definition readInitialTheme :: "document \<Rightarrow> theme_name" where
  "readInitialTheme d = (if dc_theme d = Some ''light'' then Light else Dark)"

record theme_app =
  ta_theme :: theme_name
  ta_doc :: document

definition mountTheme :: "document \<Rightarrow> theme_app" where
  "mountTheme d = \<lparr>ta_theme = readInitialTheme d, ta_doc = d\<rparr>"

definition setTheme :: "theme_name \<Rightarrow> theme_app \<Rightarrow> theme_app" where
  "setTheme t s = s\<lparr>ta_theme := t, ta_doc := applyTheme t (ta_doc s)\<rparr>"

definition toggleTheme :: "theme_app \<Rightarrow> theme_app" where
  "toggleTheme s = (let next = (if ta_theme s = Dark then Light else Dark) in s\<lparr>ta_theme := next, ta_doc := applyTheme next (ta_doc s)\<rparr>)"

text \<open>A visit: the page as served, with the storage the browser kept, then the toggles pressed.\<close>

definition served_page :: "string option option \<Rightarrow> document" where
  "served_page st = \<lparr>dc_theme = None, dc_favicon = Some ''/favicon-dark.svg'', dc_storage = st\<rparr>"

definition visit :: "bool \<Rightarrow> string option option \<Rightarrow> nat \<Rightarrow> theme_app" where
  "visit prefersLight st presses = (toggleTheme ^^ presses) (mountTheme (prepaint prefersLight (served_page st)))"

text \<open>The button: its label and its icon.\<close>

definition ThemeToggle :: "theme_name \<Rightarrow> string \<times> string" where
  "ThemeToggle t = (if t = Dark then (''Switch to light theme'', ''Sun'') else (''Switch to dark theme'', ''Moon''))"

section \<open>Navigation and the top bar\<close>

record nav_item =
  ni_to :: string
  ni_label :: string
  ni_end :: bool
  ni_icon :: string

definition NAV_ITEMS :: "nav_item list" where
  "NAV_ITEMS =
     [\<lparr>ni_to = ''/'', ni_label = ''Fleet'', ni_end = True, ni_icon = ''LayoutGrid''\<rparr>,
      \<lparr>ni_to = ''/profiles'', ni_label = ''Profiles'', ni_end = False, ni_icon = ''Sprout''\<rparr>,
      \<lparr>ni_to = ''/activity'', ni_label = ''Activity'', ni_end = False, ni_icon = ''Activity''\<rparr>,
      \<lparr>ni_to = ''/optimizer'', ni_label = ''Optimizer'', ni_end = False, ni_icon = ''Sparkle''\<rparr>]"

text \<open>The brand icon and, per entry, the link with whether the router calls it active.\<close>

definition SideNav :: "(string \<Rightarrow> bool \<Rightarrow> bool) \<Rightarrow> theme_name \<Rightarrow> string \<times> (nav_item \<times> bool) list" where
  "SideNav isActive t =
     (if t = Dark then ''/favicon-dark.svg'' else ''/favicon-light.svg'',
      map (\<lambda>item. (item, isActive (ni_to item) (ni_end item))) NAV_ITEMS)"

datatype route =
  FleetRoute | DetailRoute | SetpointsRoute | ProfilesRoute | ActivityRoute | OptimizerRoute | CallbackRoute | NotFoundRoute

definition AppRoutes :: "(string \<times> route) list" where
  "AppRoutes =
     [(''/'', FleetRoute), (''/greenhouses/:id'', DetailRoute), (''/greenhouses/:id/setpoints'', SetpointsRoute),
      (''/profiles'', ProfilesRoute), (''/activity'', ActivityRoute), (''/optimizer'', OptimizerRoute),
      (CALLBACK_PATH, CallbackRoute), (''*'', NotFoundRoute)]"

record topbar_inputs =
  tb_greenhouse :: "greenhouse_detail option"
  tb_assignment :: "assignment option"
  tb_profile :: "crop_profile option"

text \<open>
  \<open>useMatch\<close> is the router's: the id a pattern matches the address with, the empty text where it
  has none. The title, the profile beside it and the line below.
\<close>

definition topbar_id :: "(string \<Rightarrow> string option) \<Rightarrow> string" where
  "topbar_id useMatch =
     (case first_given (useMatch ''/greenhouses/:id'') (useMatch ''/greenhouses/:id/setpoints'') of Some i \<Rightarrow> i | None \<Rightarrow> [])"

definition topbar_title :: "(string \<Rightarrow> string option) \<Rightarrow> topbar_inputs \<Rightarrow> string \<times> string" where
  "topbar_title useMatch d =
     (let i = topbar_id useMatch
      in if i \<noteq> []
         then (case tb_greenhouse d of
                 Some g \<Rightarrow> if greenhouse_detail.displayName g \<noteq> [] then formatGreenhouseLabel (greenhouse_detail.displayName g) else ''Greenhouse '' @ i
               | None \<Rightarrow> ''Greenhouse '' @ i,
               if useMatch ''/greenhouses/:id/setpoints'' \<noteq> None then ''Edit setpoints''
               else (case Option.bind (tb_greenhouse d) greenhouse_detail.crop of Some c \<Rightarrow> c | None \<Rightarrow> ''Greenhouse detail''))
         else if useMatch ''/activity'' \<noteq> None then (''Activity'', ''Faults, interlocks & operator writes'')
         else if useMatch ''/profiles'' \<noteq> None then (''Crop Profiles'', ''Setpoint templates for greenhouse assignments'')
         else if useMatch ''/optimizer'' \<noteq> None then (''Verdant Force | Optimizer'', ''Autonomous setpoint tuning across the fleet'')
         else (''Fleet Overview'', ''Fleet operations console''))"

definition topbar_profile :: "topbar_inputs \<Rightarrow> string option" where
  "topbar_profile d =
     map_option (\<lambda>a. case tb_profile d of Some p \<Rightarrow> crop_profile.name p | None \<Rightarrow> assignment.profileId a) (tb_assignment d)"

fun STATE_META :: "connection_state \<Rightarrow> string \<times> string \<times> string" where
  "STATE_META LiveConn = (''Live'', ''var(--color-status-online)'', ''Wifi'')"
| "STATE_META ReconnectingConn = (''Reconnecting'', ''var(--color-status-degraded)'', ''RefreshCw'')"
| "STATE_META PollingConn = (''Polling'', ''var(--color-warning)'', ''Radio'')"
| "STATE_META OfflineConn = (''Offline'', ''var(--color-status-offline)'', ''WifiOff'')"

definition ConnectionStatus :: "connection_state \<Rightarrow> pill" where
  "ConnectionStatus st = (case STATE_META st of (label, color, icon) \<Rightarrow> pill_of label color icon)"

record top_bar =
  tp_title :: string
  tp_profile :: "string option"
  tp_subtitle :: string
  tp_drift :: "(string \<times> string option) option"
  tp_connection :: pill

definition TopBar :: "(string \<Rightarrow> string option) \<Rightarrow> ws_connection_state \<Rightarrow> schema_drift \<Rightarrow> topbar_inputs \<Rightarrow> top_bar" where
  "TopBar useMatch ws dr d =
     \<lparr>tp_title = fst (topbar_title useMatch d),
      tp_profile = (if truthy_text (topbar_profile d) then topbar_profile d else None),
      tp_subtitle = snd (topbar_title useMatch d),
      tp_drift = map_option (\<lambda>label. (label, dr_lastIssue dr)) (schemaDriftBadge dr),
      tp_connection = ConnectionStatus (connectionStateFromWs ws)\<rparr>"

section \<open>The error boundary\<close>

text \<open>
  The boundary holds the error of the views below it; the routes are inside, the frame outside.
  \<open>view\<close> says for each address what its view renders, or the message it throws.
\<close>

record 'r boundary =
  bd_route :: 'r
  bd_error :: "string option"

datatype 'r boundary_event = GoTo 'r | RenderAgain | TryAgain

datatype 'v canvas = ViewShown 'v | ErrorCard string

definition getDerivedStateFromError :: "string \<Rightarrow> 'r boundary \<Rightarrow> 'r boundary" where
  "getDerivedStateFromError e s = s\<lparr>bd_error := Some e\<rparr>"

text \<open>A render: the children only where no error is held; what they throw is held.\<close>

definition render_boundary :: "('r \<Rightarrow> string + 'v) \<Rightarrow> 'r boundary \<Rightarrow> 'r boundary" where
  "render_boundary view s =
     (if bd_error s \<noteq> None then s
      else case view (bd_route s) of Inl e \<Rightarrow> getDerivedStateFromError e s | Inr _ \<Rightarrow> s)"

fun boundary_step :: "('r \<Rightarrow> string + 'v) \<Rightarrow> 'r boundary_event \<Rightarrow> 'r boundary \<Rightarrow> 'r boundary" where
  "boundary_step view (GoTo r) s = render_boundary view (s\<lparr>bd_route := r\<rparr>)"
| "boundary_step view RenderAgain s = render_boundary view s"
| "boundary_step view TryAgain s = render_boundary view (s\<lparr>bd_error := None\<rparr>)"

definition App :: "('r \<Rightarrow> string + 'v) \<Rightarrow> 'r boundary \<Rightarrow> 'v canvas" where
  "App view s =
     (case bd_error s of
        Some e \<Rightarrow> ErrorCard e
      | None \<Rightarrow> (case view (bd_route s) of Inr v \<Rightarrow> ViewShown v | Inl e \<Rightarrow> ErrorCard e))"

definition open_app :: "('r \<Rightarrow> string + 'v) \<Rightarrow> 'r \<Rightarrow> 'r boundary" where
  "open_app view r = render_boundary view \<lparr>bd_route = r, bd_error = None\<rparr>"

definition run_app :: "('r \<Rightarrow> string + 'v) \<Rightarrow> 'r boundary_event list \<Rightarrow> 'r boundary \<Rightarrow> 'r boundary" where
  "run_app view es s = fold (boundary_step view) es s"

section \<open>Small parts\<close>

record error_state =
  es_title :: string
  es_message :: "string option"
  es_retry :: bool

definition shown_text :: "string option \<Rightarrow> string option" where
  "shown_text s = (if truthy_text s then s else None)"

definition ErrorState :: "string option \<Rightarrow> string option \<Rightarrow> bool \<Rightarrow> error_state" where
  "ErrorState title msg onRetry =
     \<lparr>es_title = (case title of Some t \<Rightarrow> t | None \<Rightarrow> ''Something went wrong''), es_message = shown_text msg, es_retry = onRetry\<rparr>"

definition EmptyState :: "string \<Rightarrow> string option \<Rightarrow> string \<times> string option" where
  "EmptyState title msg = (title, shown_text msg)"

record text_field =
  tf_id :: "string option"
  tf_label :: string
  tf_invalid :: bool
  tf_describedBy :: "string option"
  tf_hint :: "string option"
  tf_error :: "string option"

definition TextField :: "string \<Rightarrow> string option \<Rightarrow> string option \<Rightarrow> string option \<Rightarrow> string option \<Rightarrow> text_field" where
  "TextField label err hint i nm =
     (let inputId = first_given i nm; key = (case inputId of Some k \<Rightarrow> k | None \<Rightarrow> ''undefined'')
      in \<lparr>tf_id = inputId, tf_label = label, tf_invalid = truthy_text err,
          tf_describedBy = (if truthy_text err then Some (key @ ''-error'') else if truthy_text hint then Some (key @ ''-hint'') else None),
          tf_hint = (if truthy_text hint \<and> \<not> truthy_text err then hint else None),
          tf_error = shown_text err\<rparr>)"

text \<open>Color, icon, and whether the toast is announced at once.\<close>

fun VARIANT_META :: "toast_variant \<Rightarrow> string \<times> string \<times> bool" where
  "VARIANT_META InfoToast = (''var(--color-info)'', ''Info'', False)"
| "VARIANT_META SuccessToast = (''var(--color-status-online)'', ''CheckCircle2'', False)"
| "VARIANT_META WarningToast = (''var(--color-warning)'', ''AlertTriangle'', False)"
| "VARIANT_META CriticalToast = (''var(--color-fault)'', ''XCircle'', True)"

record toast_card =
  tc_key :: string
  tc_color :: string
  tc_icon :: string
  tc_role :: string
  tc_live :: string
  tc_title :: string
  tc_message :: "string option"

definition toast_card_of :: "toast_record \<Rightarrow> toast_card" where
  "toast_card_of t =
     (case VARIANT_META (tr_variant t) of (color, icon, assertive) \<Rightarrow>
       \<lparr>tc_key = tr_id t, tc_color = color, tc_icon = icon, tc_role = (if assertive then ''alert'' else ''status''),
        tc_live = (if assertive then ''assertive'' else ''polite''), tc_title = tr_title t, tc_message = shown_text (tr_message t)\<rparr>)"

definition ToastHost :: "toast_state \<Rightarrow> toast_card list" where
  "ToastHost s = map toast_card_of (toasts s)"

section \<open>Lemmas: the theme survives a reload\<close>

definition theme_shown :: "theme_app \<Rightarrow> bool" where
  "theme_shown s \<longleftrightarrow>
     dc_theme (ta_doc s) = Some (theme_text (ta_theme s)) \<and> dc_favicon (ta_doc s) = Some (favicon_of (theme_text (ta_theme s)))"

lemma readInitialTheme_text [simp]: "dc_theme d = Some (theme_text t) \<Longrightarrow> readInitialTheme d = t"
  by (cases t) (simp_all add: readInitialTheme_def)

lemma truthy_theme [simp]: "truthy_text (Some (theme_text t))"
  by (cases t) (simp_all add: truthy_text_def)

lemma toggle_shown:
  assumes "dc_favicon (ta_doc s) \<noteq> None"
  shows "theme_shown (toggleTheme s)" "dc_favicon (ta_doc (toggleTheme s)) \<noteq> None"
    "dc_storage (ta_doc (toggleTheme s)) = map_option (\<lambda>_. Some (theme_text (ta_theme (toggleTheme s)))) (dc_storage (ta_doc s))"
  using assms by (auto simp: theme_shown_def toggleTheme_def applyTheme_def Let_def)

lemma prepaint_page:
  "dc_favicon (prepaint w (served_page st)) \<noteq> None" "dc_storage (prepaint w (served_page st)) = st"
  by (auto simp: prepaint_def served_page_def Let_def split: option.splits)

lemma visit_page: "dc_favicon (ta_doc (visit w st n)) \<noteq> None"
  by (induction n) (simp_all add: visit_def mountTheme_def prepaint_page toggle_shown(2))

lemma visit_kept:
  "dc_storage (ta_doc (visit w st n)) = (if n = 0 then st else map_option (\<lambda>_. Some (theme_text (ta_theme (visit w st n)))) st)"
proof (induction n)
  case 0
  then show ?case by (simp add: visit_def mountTheme_def prepaint_page)
next
  case (Suc n)
  have "visit w st (Suc n) = toggleTheme (visit w st n)" by (simp add: visit_def)
  then show ?case using toggle_shown(3) [OF visit_page, of w st n] Suc by (simp add: option.map_comp comp_def)
qed

lemma fresh_visit:
  "visit w (Some (Some (theme_text t))) 0 = \<lparr>ta_theme = t,
     ta_doc = \<lparr>dc_theme = Some (theme_text t), dc_favicon = Some (favicon_of (theme_text t)), dc_storage = Some (Some (theme_text t))\<rparr>\<rparr>"
  by (simp add: visit_def mountTheme_def prepaint_def served_page_def Let_def readInitialTheme_def; cases t; simp)

text \<open>
  The theme. After the toggle was pressed, the attribute of the page and its icon are those of
  the theme the button and the side bar draw; where the browser keeps the storage, the next visit
  starts in exactly that theme, whatever the system prefers; where it does not, the next visit is
  dark. Two presses are none, and a page nobody toggled leaves the storage alone.
\<close>

theorem theme_survives_reload:
  assumes "0 < presses"
  shows "dc_theme (ta_doc (visit w st presses)) = Some (theme_text (ta_theme (visit w st presses)))
     \<and> dc_favicon (ta_doc (visit w st presses)) = Some (fst (SideNav active (ta_theme (visit w st presses))))
     \<and> (st \<noteq> None \<longrightarrow> ta_theme (visit w' (dc_storage (ta_doc (visit w st presses))) 0) = ta_theme (visit w st presses)
          \<and> fst (SideNav active (ta_theme (visit w' (dc_storage (ta_doc (visit w st presses))) 0))) = fst (SideNav active (ta_theme (visit w st presses))))
     \<and> (st = None \<longrightarrow> ta_theme (visit w' (dc_storage (ta_doc (visit w st presses))) 0) = Dark)
     \<and> ta_theme (visit w st (presses + 2)) = ta_theme (visit w st presses)
     \<and> dc_storage (ta_doc (visit w st 0)) = st"
proof (intro conjI impI)
  obtain n where n: "presses = Suc n" using assms by (cases presses) auto
  have shown: "theme_shown (visit w st presses)"
    using toggle_shown(1) [OF visit_page, of w st n] by (simp add: n visit_def)
  then show "dc_theme (ta_doc (visit w st presses)) = Some (theme_text (ta_theme (visit w st presses)))"
    by (simp add: theme_shown_def)
  show "dc_favicon (ta_doc (visit w st presses)) = Some (fst (SideNav active (ta_theme (visit w st presses))))"
    using shown by (cases "ta_theme (visit w st presses)") (simp_all add: theme_shown_def SideNav_def favicon_of_def)
  show again: "ta_theme (visit w' (dc_storage (ta_doc (visit w st presses))) 0) = ta_theme (visit w st presses)" if "st \<noteq> None"
    using that fresh_visit [of _ "ta_theme (visit w st presses)"] by (auto simp: visit_kept n)
  show "fst (SideNav active (ta_theme (visit w' (dc_storage (ta_doc (visit w st presses))) 0))) = fst (SideNav active (ta_theme (visit w st presses)))"
    if "st \<noteq> None" using again [OF that] by simp
  show "ta_theme (visit w' (dc_storage (ta_doc (visit w st presses))) 0) = Dark" if "st = None"
    using that by (simp add: visit_kept n) (simp add: visit_def mountTheme_def prepaint_def served_page_def readInitialTheme_def)
  show "ta_theme (visit w st (presses + 2)) = ta_theme (visit w st presses)"
    by (cases "ta_theme (visit w st presses)") (simp_all add: visit_def toggleTheme_def Let_def)
  show "dc_storage (ta_doc (visit w st 0)) = st" by (simp add: visit_kept)
qed

theorem theme_survives_reload_witness:
  "ta_theme (visit False (dc_storage (ta_doc (visit True (Some None) 1))) 0) = ta_theme (visit True (Some None) 1)"
  using theme_survives_reload [of 1 True "Some None" "\<lambda>_ _. False" False] by simp

section \<open>Lemmas: a failing view\<close>

lemma error_stays:
  "bd_error s = Some e \<Longrightarrow> TryAgain \<notin> set es \<Longrightarrow> bd_error (run_app view es s) = Some e"
proof (induction es arbitrary: s)
  case (Cons a es)
  then show ?case by (cases a) (simp_all add: run_app_def render_boundary_def)
qed (simp add: run_app_def)

text \<open>Without a held error, the view of the address has rendered.\<close>

definition rendered :: "('r \<Rightarrow> string + 'v) \<Rightarrow> 'r boundary \<Rightarrow> bool" where
  "rendered view s \<longleftrightarrow> (bd_error s = None \<longrightarrow> (\<exists>v. view (bd_route s) = Inr v))"

lemma rendered_boundary: "rendered view (render_boundary view s)"
  by (auto simp: rendered_def render_boundary_def getDerivedStateFromError_def split: sum.splits)

lemma rendered_step: "rendered view (boundary_step view a s)"
  by (cases a) (simp_all add: rendered_boundary)

interpretation boundary_machine: event_machine "boundary_step view" "rendered view" for view
  by unfold_locales (rule rendered_step)

lemma rendered_run: "rendered view s \<Longrightarrow> rendered view (run_app view es s)"
  unfolding run_app_def by (rule boundary_machine.run_holds)

text \<open>
  C37: a view that throws is contained: whatever was navigated before, the canvas is either the
  view of the current address or a card with the message of a view that threw. But the card stays:
  while it is shown, every other address shows it too, also those whose view would render,
  until the retry button is pressed; and a retry shows the current address exactly where its view renders.
\<close>

theorem view_error_contained:
  assumes s_def: "s = run_app view es (open_app view r)"
  shows "(\<forall>v. App view s = ViewShown v \<longrightarrow> view (bd_route s) = Inr v)
     \<and> (\<forall>e. App view s = ErrorCard e \<longrightarrow> bd_error s = Some e \<and> (\<exists>r'. view r' = Inl e))
     \<and> (App view s = ErrorCard e \<longrightarrow> TryAgain \<notin> set es' \<longrightarrow> App view (run_app view es' s) = ErrorCard e)
     \<and> (App view (boundary_step view TryAgain s) = ViewShown v \<longleftrightarrow> view (bd_route s) = Inr v)"
proof (intro conjI allI impI)
  have cons: "rendered view s" unfolding s_def by (rule rendered_run) (simp add: open_app_def rendered_boundary)
  show "view (bd_route s) = Inr v" if "App view s = ViewShown v" for v
    using that by (auto simp: App_def split: option.splits sum.splits)
  show held: "bd_error s = Some e" if "App view s = ErrorCard e" for e
    using that cons by (auto simp: App_def rendered_def split: option.splits sum.splits)
  have src: "bd_error (run_app view es (open_app view r)) = Some e \<Longrightarrow> \<exists>r'. view r' = Inl e" for e
  proof (induction es rule: rev_induct)
    case Nil
    then show ?case by (auto simp: run_app_def open_app_def render_boundary_def getDerivedStateFromError_def split: sum.splits)
  next
    case (snoc a es)
    then show ?case
      by (cases a) (auto simp: run_app_def render_boundary_def getDerivedStateFromError_def split: sum.splits if_splits)
  qed
  show "\<exists>r'. view r' = Inl e" if "App view s = ErrorCard e" for e
    using src held [OF that] unfolding s_def by blast
  show "App view (run_app view es' s) = ErrorCard e" if "App view s = ErrorCard e" "TryAgain \<notin> set es'"
    using error_stays [OF held [OF that(1)] that(2), of view] by (simp add: App_def)
  show "App view (boundary_step view TryAgain s) = ViewShown v \<longleftrightarrow> view (bd_route s) = Inr v"
    by (auto simp: App_def render_boundary_def getDerivedStateFromError_def split: sum.splits)
qed

theorem view_error_contained_witness:
  "App (\<lambda>r. if r = DetailRoute then Inl ''crashed'' else Inr r) (run_app (\<lambda>r. if r = DetailRoute then Inl ''crashed'' else Inr r) [GoTo FleetRoute]
      (run_app (\<lambda>r. if r = DetailRoute then Inl ''crashed'' else Inr r) [] (open_app (\<lambda>r. if r = DetailRoute then Inl ''crashed'' else Inr r) DetailRoute)))
   = ErrorCard ''crashed''"
proof -
  let ?view = "\<lambda>r. if r = DetailRoute then Inl ''crashed'' else Inr r"
  have "App ?view (run_app ?view [] (open_app ?view DetailRoute)) = ErrorCard ''crashed''"
    by (simp add: App_def run_app_def open_app_def render_boundary_def getDerivedStateFromError_def)
  then show ?thesis using view_error_contained [OF refl, of ?view "[]" DetailRoute "''crashed''" "[GoTo FleetRoute]"] by simp
qed

end
