(* ===== verification/Dialog_Focus.thy ===== *)
theory Dialog_Focus
  imports View_Base
begin

text \<open>
  The modal dialog of \<open>components/ui/Dialog.tsx\<close> as a state machine: opening, the key handler that
  traps the focus, and closing. Elements are of any type \<open>'e\<close>; \<open>panel\<close> is the dialog itself and
  \<open>items\<close> what the selector of focusable elements finds in it. Where the browser moves the focus by
  itself on Tab (\<open>True\<close>: with Shift) is the parameter \<open>browser\<close>. The code looks the items up again at
  every key; here they are the same throughout one opening, and calling \<open>focus()\<close> on one succeeds.
\<close>

record 'e dialog =
  dg_open :: bool
  dg_focus :: 'e
  dg_opener :: 'e
  dg_closes :: nat

text \<open>The effect of opening: remember who had the focus, then focus the first item or the panel.\<close>

definition show_dialog :: "'e \<Rightarrow> 'e list \<Rightarrow> 'e dialog \<Rightarrow> 'e dialog" where
  "show_dialog panel items s =
     s\<lparr>dg_open := True, dg_opener := dg_focus s, dg_focus := (case items of i # is \<Rightarrow> i | [] \<Rightarrow> panel)\<rparr>"

text \<open>\<open>onKeyDown\<close> for Tab: the focus it sets, or \<open>None\<close> where it leaves the key to the browser.\<close>

definition trap_tab :: "'e list \<Rightarrow> bool \<Rightarrow> 'e \<Rightarrow> 'e option" where
  "trap_tab items shift f =
     (if items = [] then Some f
      else if shift \<and> f = hd items then Some (last items)
      else if \<not> shift \<and> f = last items then Some (hd items)
      else None)"

definition press_tab :: "(bool \<Rightarrow> 'e \<Rightarrow> 'e) \<Rightarrow> 'e list \<Rightarrow> bool \<Rightarrow> 'e \<Rightarrow> 'e" where
  "press_tab browser items shift f = (case trap_tab items shift f of Some f' \<Rightarrow> f' | None \<Rightarrow> browser shift f)"

text \<open>
  Escape, the backdrop and the close button call \<open>onClose\<close>; whether the dialog then closes is its
  owner's. A render with a new \<open>onClose\<close> runs no effect. \<open>FocusOn\<close>: the pointer or a script.
\<close>

datatype 'e dialog_event =
  ShowDialog | HideDialog | DialogRender | TabKey bool | EscapeKey | BackdropClick | FocusOn 'e

fun dialog_step :: "(bool \<Rightarrow> 'e \<Rightarrow> 'e) \<Rightarrow> 'e \<Rightarrow> 'e list \<Rightarrow> 'e dialog_event \<Rightarrow> 'e dialog \<Rightarrow> 'e dialog" where
  "dialog_step browser panel items ShowDialog s = (if dg_open s then s else show_dialog panel items s)"
| "dialog_step browser panel items HideDialog s =
     (if dg_open s then s\<lparr>dg_open := False, dg_focus := dg_opener s\<rparr> else s)"
| "dialog_step browser panel items DialogRender s = s"
| "dialog_step browser panel items (TabKey shift) s =
     s\<lparr>dg_focus := (if dg_open s then press_tab browser items shift (dg_focus s) else browser shift (dg_focus s))\<rparr>"
| "dialog_step browser panel items EscapeKey s = (if dg_open s then s\<lparr>dg_closes := dg_closes s + 1\<rparr> else s)"
| "dialog_step browser panel items BackdropClick s = (if dg_open s then s\<lparr>dg_closes := dg_closes s + 1\<rparr> else s)"
| "dialog_step browser panel items (FocusOn e) s = s\<lparr>dg_focus := e\<rparr>"

definition run_dialog :: "(bool \<Rightarrow> 'e \<Rightarrow> 'e) \<Rightarrow> 'e \<Rightarrow> 'e list \<Rightarrow> 'e dialog_event list \<Rightarrow> 'e dialog \<Rightarrow> 'e dialog" where
  "run_dialog browser panel items es s = fold (dialog_step browser panel items) es s"

section \<open>Lemmas\<close>

text \<open>
  Sequential navigation: between two of the dialog's items the browser moves by one item. Nothing
  is said of where it goes from the ends, nor from the panel, which is not in the sequence.
\<close>

definition moves_in_order :: "(bool \<Rightarrow> 'e \<Rightarrow> 'e) \<Rightarrow> 'e list \<Rightarrow> bool" where
  "moves_in_order browser items \<longleftrightarrow>
     distinct items
     \<and> (\<forall>i. Suc i < length items \<longrightarrow> browser False (items ! i) = items ! Suc i \<and> browser True (items ! Suc i) = items ! i)"

lemma press_tab_forward:
  assumes "moves_in_order browser items" "i < length items"
  shows "press_tab browser items False (items ! i) = items ! (Suc i mod length items)"
proof -
  have d: "distinct items" using assms(1) by (simp add: moves_in_order_def)
  have ne: "items \<noteq> []" using assms(2) by (cases items) simp_all
  have l: "items ! i = last items \<longleftrightarrow> Suc i = length items"
    using assms(2) ne d by (auto simp: last_conv_nth nth_eq_iff_index_eq)
  show ?thesis
  proof (cases "Suc i = length items")
    case True
    then show ?thesis using l ne by (simp add: press_tab_def trap_tab_def hd_conv_nth)
  next
    case False
    then have lt: "Suc i < length items" using assms(2) by simp
    have "items ! i \<noteq> last items" using l False by simp
    then show ?thesis using assms(1) lt ne by (simp add: press_tab_def trap_tab_def moves_in_order_def)
  qed
qed

lemma press_tab_backward:
  assumes "moves_in_order browser items" "i < length items"
  shows "press_tab browser items True (items ! i) = items ! ((i + length items - 1) mod length items)"
proof -
  have d: "distinct items" using assms(1) by (simp add: moves_in_order_def)
  have ne: "items \<noteq> []" using assms(2) by (cases items) simp_all
  have h: "items ! i = hd items \<longleftrightarrow> i = 0"
    using assms(2) ne d by (simp add: hd_conv_nth nth_eq_iff_index_eq)
  show ?thesis
  proof (cases i)
    case 0
    then show ?thesis using h ne by (simp add: press_tab_def trap_tab_def last_conv_nth)
  next
    case (Suc j)
    then have "(i + length items - 1) mod length items = j" using assms(2) by simp
    then show ?thesis using assms Suc h ne by (simp add: press_tab_def trap_tab_def moves_in_order_def)
  qed
qed

lemma press_tab_item:
  assumes "moves_in_order browser items" "f \<in> set items"
  shows "press_tab browser items shift f \<in> set items"
proof -
  obtain i where i: "i < length items" "f = items ! i" using assms(2) by (auto simp: in_set_conv_nth)
  have "0 < length items" by (rule le_less_trans [OF _ i(1)]) simp
  then show ?thesis unfolding i(2)
    by (cases shift) (simp_all only: press_tab_forward [OF assms(1) i(1)] press_tab_backward [OF assms(1) i(1)] nth_mem mod_less_divisor)
qed

lemma tabs_forward:
  "moves_in_order browser items \<Longrightarrow> i < length items \<Longrightarrow>
   dg_open s \<Longrightarrow> dg_focus s = items ! i \<Longrightarrow>
   dg_focus (run_dialog browser panel items (replicate n (TabKey False)) s) = items ! ((i + n) mod length items)"
proof (induction n arbitrary: i s)
  case (Suc n)
  have "Suc i mod length items < length items" by (rule mod_less_divisor, rule le_less_trans [OF _ Suc.prems(2)]) simp
  with Suc.IH [OF Suc.prems(1) this] Suc.prems show ?case
    by (simp add: run_dialog_def press_tab_forward mod_add_left_eq [of "Suc i" _ n, symmetric] flip: add_Suc)
qed (simp add: run_dialog_def)

definition keyboard_only :: "'e dialog_event \<Rightarrow> bool" where
  "keyboard_only e \<longleftrightarrow> (\<forall>x. e \<noteq> FocusOn x) \<and> e \<noteq> HideDialog"

lemma keyboard_trapped:
  assumes "moves_in_order browser items"
  shows "\<forall>e\<in>set es. keyboard_only e \<Longrightarrow> dg_open s \<Longrightarrow> dg_focus s \<in> set items \<Longrightarrow>
    dg_open (run_dialog browser panel items es s) \<and> dg_focus (run_dialog browser panel items es s) \<in> set items"
proof (induction es arbitrary: s)
  case (Cons e es)
  let ?t = "dialog_step browser panel items e s"
  have "dg_open ?t \<and> dg_focus ?t \<in> set items"
    using Cons.prems press_tab_item [OF assms Cons.prems(3)] by (cases e) (auto simp: keyboard_only_def)
  with Cons show ?case by (simp add: run_dialog_def)
qed (simp add: run_dialog_def)

lemma opener_kept:
  "HideDialog \<notin> set es \<Longrightarrow> dg_open s \<Longrightarrow>
   dg_open (run_dialog browser panel items es s) \<and> dg_opener (run_dialog browser panel items es s) = dg_opener s"
proof (induction es arbitrary: s)
  case (Cons e es)
  then show ?case by (cases e) (simp_all add: run_dialog_def)
qed (simp add: run_dialog_def)

text \<open>
  C38: the focus trap. Opening a dialog focuses its first item; from there, whatever the keyboard
  does, the focus stays among the dialog's items, and as many tabs as there are items come back to
  the first; a render while it is open moves nothing; and whatever happened in between, closing it
  gives the focus back to the element that had it. Where the focus is on the panel itself, as after
  a click on its text, the handler leaves every key to the browser.
\<close>

theorem dialog_focus_trapped:
  assumes "moves_in_order browser items" and "items \<noteq> []" and "\<not> dg_open s"
    and "t = dialog_step browser panel items ShowDialog s"
  shows "dg_focus t = hd items
     \<and> ((\<forall>e\<in>set es. keyboard_only e) \<longrightarrow> dg_focus (run_dialog browser panel items es t) \<in> set items)
     \<and> dg_focus (run_dialog browser panel items (replicate (length items) (TabKey False)) t) = hd items
     \<and> dialog_step browser panel items DialogRender t = t
     \<and> (HideDialog \<notin> set es' \<longrightarrow> dg_focus (run_dialog browser panel items (es' @ [HideDialog]) t) = dg_focus s)
     \<and> (panel \<notin> set items \<longrightarrow> press_tab browser items shift panel = browser shift panel)"
proof (intro conjI impI)
  have t: "dg_open t" "dg_focus t = hd items" "dg_opener t = dg_focus s"
    using assms by (simp_all add: show_dialog_def split: list.splits)
  show "dg_focus t = hd items" by (fact t)
  have "dg_focus t \<in> set items" using t assms(2) by simp
  then show "dg_focus (run_dialog browser panel items es t) \<in> set items" if "\<forall>e\<in>set es. keyboard_only e"
    using keyboard_trapped [OF assms(1) that t(1)] by blast
  have "dg_focus t = items ! 0" using t assms(2) by (simp add: hd_conv_nth)
  then show "dg_focus (run_dialog browser panel items (replicate (length items) (TabKey False)) t) = hd items"
    using tabs_forward [OF assms(1) _ t(1), of 0 panel "length items"] assms(2) by (simp add: hd_conv_nth)
  show "dialog_step browser panel items DialogRender t = t" by simp
  show "dg_focus (run_dialog browser panel items (es' @ [HideDialog]) t) = dg_focus s" if "HideDialog \<notin> set es'"
    using opener_kept [OF that t(1)] t(3) by (simp add: run_dialog_def)
  show "press_tab browser items shift panel = browser shift panel" if "panel \<notin> set items"
    using that assms(2) by (auto simp: press_tab_def trap_tab_def)
qed

text \<open>A page of numbered elements: the dialog's panel is 10, its items 11 to 13, and the browser goes up and down.\<close>

definition number_browser :: "bool \<Rightarrow> nat \<Rightarrow> nat" where
  "number_browser shift f = (if shift then f - 1 else f + 1)"

theorem dialog_focus_trapped_witness:
  "dg_focus (run_dialog number_browser 10 [11, 12, 13] [TabKey False, EscapeKey, FocusOn 12, HideDialog]
      (dialog_step number_browser 10 [11, 12, 13] ShowDialog \<lparr>dg_open = False, dg_focus = 5, dg_opener = 0, dg_closes = 0\<rparr>)) = 5
   \<and> press_tab number_browser [11, 12, 13] True 10 = 9"
proof -
  have order: "moves_in_order number_browser [11, 12, 13]"
    by (auto simp: moves_in_order_def number_browser_def nth_Cons split: nat.splits)
  have "press_tab number_browser [11, 12, 13] True 10 = number_browser True 10"
    using dialog_focus_trapped [OF order, of "\<lparr>dg_open = False, dg_focus = 5, dg_opener = 0, dg_closes = 0\<rparr>" _ 10 "[]" "[]" True] by simp
  moreover have "dg_focus (run_dialog number_browser 10 [11, 12, 13] ([TabKey False, EscapeKey, FocusOn 12] @ [HideDialog])
      (dialog_step number_browser 10 [11, 12, 13] ShowDialog \<lparr>dg_open = False, dg_focus = 5, dg_opener = 0, dg_closes = 0\<rparr>)) = 5"
    using dialog_focus_trapped [OF order, of "\<lparr>dg_open = False, dg_focus = 5, dg_opener = 0, dg_closes = 0\<rparr>" _ 10 "[]" "[TabKey False, EscapeKey, FocusOn 12]" True] by simp
  ultimately show ?thesis by (simp add: number_browser_def)
qed

end
