(* ===== verification/App_Stream.thy ===== *)
theory App_Stream
  imports Stream_Client Session Detail_View
begin

text \<open>
  How the live stream and the session meet (\<open>app/providers.tsx\<close>, \<open>app/StreamProvider.tsx\<close>,
  \<open>features/auth/AuthProvider.tsx\<close>, \<open>api/ws.ts\<close>): the address a socket is opened with, which carries the token
  of that moment, and the order of the effects when the application mounts, where those of a child
  run before those of its parents.
\<close>

section \<open>The address of a socket\<close>

record deployment =
  dp_apiBase :: "string option"
  dp_protocol :: string
  dp_host :: string

text \<open>\<open>base.replace(/^http/, "ws")\<close>\<close>

definition ws_base :: "string \<Rightarrow> string" where
  "ws_base base = (if starts_with base ''http'' then ''ws'' @ drop 4 base else base)"

definition defaultStreamUrl :: "deployment \<Rightarrow> string option \<Rightarrow> string" where
  "defaultStreamUrl env token =
     (let streamUrl = (if truthy_text (dp_apiBase env) then ws_base (the (dp_apiBase env)) @ ''/api/stream''
            else (if dp_protocol env = ''https:'' then ''wss:'' else ''ws:'') @ ''//'' @ dp_host env @ ''/api/stream'')
      in if truthy_text token then streamUrl @ ''?access_token='' @ uri_component (the token) else streamUrl)"

section \<open>Opening the socket\<close>

text \<open>
  The application's stream client beside the token holder, and the addresses the socket factory
  was called with, in order: what the platform sees of the connects.
\<close>

record app_stream =
  as_stream :: stream_sys
  as_auth :: auth_module
  as_opened :: "string list"

text \<open>\<open>socketFactory(urlResolver())\<close>: the resolver runs at every call and reads the token held then.\<close>

definition open_stream :: "deployment \<Rightarrow> app_stream \<Rightarrow> app_stream" where
  "open_stream env x =
     x\<lparr>as_stream := open_socket (as_stream x), as_opened := as_opened x @ [defaultStreamUrl env (getAccessToken (as_auth x))]\<rparr>"

definition connect_stream :: "deployment \<Rightarrow> app_stream \<Rightarrow> app_stream" where
  "connect_stream env x =
     (let s = (as_stream x)\<lparr>stopped := False\<rparr>
      in if socket s \<noteq> None then x\<lparr>as_stream := s\<rparr> else open_stream env (x\<lparr>as_stream := setState WsConnecting s\<rparr>))"

definition timer_stream :: "deployment \<Rightarrow> nat \<Rightarrow> app_stream \<Rightarrow> app_stream" where
  "timer_stream env t x =
     (let s = (as_stream x)\<lparr>timers := (timers (as_stream x))(t := None), reconnectTimer := None\<rparr>
      in if stopped s then x\<lparr>as_stream := s\<rparr> else open_stream env (x\<lparr>as_stream := s\<rparr>))"

text \<open>What the browser may do; only the timer of a reconnect opens a socket.\<close>

inductive app_step :: "(payload \<Rightarrow> stream_msg) \<Rightarrow> deployment \<Rightarrow> app_stream \<Rightarrow> app_stream \<Rightarrow> bool" for h env where
  opened: "sockets (as_stream x) i = Some SockConnecting \<Longrightarrow> app_step h env x (x\<lparr>as_stream := on_open i (as_stream x)\<rparr>)"
| closed: "sockets (as_stream x) i = Some p \<Longrightarrow> p \<noteq> SockClosed \<Longrightarrow> app_step h env x (x\<lparr>as_stream := on_close i (as_stream x)\<rparr>)"
| message: "sockets (as_stream x) i = Some SockOpen \<Longrightarrow> app_step h env x (x\<lparr>as_stream := on_message h data (as_stream x)\<rparr>)"
| timer: "timers (as_stream x) t = Some d \<Longrightarrow> app_step h env x (timer_stream env t x)"

section \<open>Providers\<close>

definition no_auth :: auth_module where
  "no_auth = \<lparr>accessToken = None, unauthorizedHandler = False, unauthorizedCalls = 0\<rparr>"

definition session_changes :: "oidc_session \<Rightarrow> app_stream \<Rightarrow> app_stream" where
  "session_changes a x = x\<lparr>as_auth := bridge_effects a (as_auth x)\<rparr>"

text \<open>Mounting: the stream provider, below the bridge, connects before the bridge hands over the token.\<close>

definition Providers :: "stream_options \<Rightarrow> deployment \<Rightarrow> oidc_session \<Rightarrow> app_stream" where
  "Providers opts env a =
     session_changes a (connect_stream env \<lparr>as_stream = new_client opts, as_auth = no_auth, as_opened = []\<rparr>)"

definition leave_page :: "app_stream \<Rightarrow> app_stream" where
  "leave_page x = x\<lparr>as_stream := close_client (as_stream x), as_auth := bridge_unmount (as_auth x)\<rparr>"

text \<open>The histories of the application, with the sessions the bridge was rendered with so far.\<close>

inductive app_run :: "(payload \<Rightarrow> stream_msg) \<Rightarrow> stream_options \<Rightarrow> deployment \<Rightarrow> oidc_session list \<Rightarrow> app_stream \<Rightarrow> bool"
  for h opts env where
  start: "app_run h opts env [a] (Providers opts env a)"
| session: "app_run h opts env sessions x \<Longrightarrow> app_run h opts env (sessions @ [a]) (session_changes a x)"
| network: "app_run h opts env sessions x \<Longrightarrow> app_step h env x y \<Longrightarrow> app_run h opts env sessions y"
| leave: "app_run h opts env sessions x \<Longrightarrow> app_run h opts env sessions (leave_page x)"

section \<open>Lemmas\<close>

lemma session_changes_parts [simp]:
  "as_stream (session_changes a x) = as_stream x" "as_opened (session_changes a x) = as_opened x"
  "accessToken (as_auth (session_changes a x)) = session_token a"
  by (simp_all add: session_changes_def bridge_effects_def setAccessToken_def setUnauthorizedHandler_def)

lemma leave_page_parts [simp]:
  "as_stream (leave_page x) = close_client (as_stream x)" "as_opened (leave_page x) = as_opened x"
  "accessToken (as_auth (leave_page x)) = accessToken (as_auth x)"
  by (simp_all add: leave_page_def bridge_unmount_def setUnauthorizedHandler_def)

text \<open>The stream part of every operation is the operation of the stream client.\<close>

lemma connect_stream_parts:
  "as_stream (connect_stream env x) = connect (as_stream x)"
  "as_auth (connect_stream env x) = as_auth x"
  by (simp_all add: connect_stream_def open_stream_def connect_def Let_def)

lemma timer_stream_parts:
  "as_stream (timer_stream env t x) = on_timer t (as_stream x)"
  "as_auth (timer_stream env t x) = as_auth x"
  by (simp_all add: timer_stream_def open_stream_def on_timer_def Let_def)

lemma app_step_browser: "app_step h env x y \<Longrightarrow> browser_step h (as_stream x) (as_stream y)"
  by (induction rule: app_step.induct) (auto simp: timer_stream_parts intro: browser_step.intros)

lemma app_step_auth: "app_step h env x y \<Longrightarrow> as_auth y = as_auth x"
  by (induction rule: app_step.induct) (auto simp: timer_stream_parts)

lemma app_mounted: "app_run h opts env sessions x \<Longrightarrow> mounted h opts (as_stream x)"
  by (induction rule: app_run.induct)
    (auto simp: Providers_def connect_stream_parts dest: app_step_browser intro: mounted.intros)

text \<open>An address is logged exactly where a socket is created.\<close>

lemma app_step_opened:
  assumes "app_step h env x y" "fresh_ids (as_stream x)"
  shows "as_opened y = as_opened x @ (if dom (sockets (as_stream y)) = dom (sockets (as_stream x)) then []
     else [defaultStreamUrl env (accessToken (as_auth x))])"
  using assms
proof cases
  case (timer t d)
  have "next_id (as_stream x) \<notin> dom (sockets (as_stream x))" using assms(2) by (auto simp: fresh_ids_def)
  then show ?thesis
    by (auto simp: timer(1) timer_stream_def open_stream_def open_socket_def Let_def getAccessToken_def)
qed (auto simp: on_open_def on_close_def on_message_def scheduleReconnect_def setState_def Let_def insert_absorb dom_def)

lemma mounted_fresh: "mounted h opts s \<Longrightarrow> fresh_ids s"
  using mounted_inv by (auto simp: stream_inv_def)

text \<open>The address, spelt out.\<close>

lemma starts_with_take: "starts_with s t \<longleftrightarrow> take (length t) s = t"
  by (induction s t rule: starts_with.induct) auto

text \<open>The history of addresses: the first is anonymous, the others follow the sessions.\<close>

lemma app_history:
  assumes "app_run h opts env sessions x"
  shows "sessions \<noteq> [] \<and> accessToken (as_auth x) = session_token (last sessions)
     \<and> (\<exists>is. sorted is \<and> (\<forall>i\<in>set is. i < length sessions)
       \<and> as_opened x = defaultStreamUrl env None # map (\<lambda>i. defaultStreamUrl env (session_token (sessions ! i))) is)"
  using assms
proof (induction rule: app_run.induct)
  case (start a)
  have "as_opened (Providers opts env a) = [defaultStreamUrl env None]"
    by (simp add: Providers_def connect_stream_def open_stream_def new_client_def no_auth_def getAccessToken_def Let_def)
  then show ?case by (intro conjI exI [of _ "[]"]) (simp_all add: Providers_def)
next
  case (session sessions x a)
  then obtain "is" where "sorted is" "\<forall>i\<in>set is. i < length sessions"
    "as_opened x = defaultStreamUrl env None # map (\<lambda>i. defaultStreamUrl env (session_token (sessions ! i))) is" by blast
  then show ?case by (intro conjI exI [of _ "is"]) (auto simp: nth_append)
next
  case (network sessions x y)
  then obtain "is" where "is": "sorted is" "\<forall>i\<in>set is. i < length sessions"
    "as_opened x = defaultStreamUrl env None # map (\<lambda>i. defaultStreamUrl env (session_token (sessions ! i))) is" by blast
  let ?k = "length sessions - 1"
  have tok: "session_token (sessions ! ?k) = accessToken (as_auth x)" using network.IH by (simp add: last_conv_nth)
  have more: "sorted (is @ [?k])" "\<forall>i\<in>set (is @ [?k]). i < length sessions"
    using "is"(1,2) network.IH by (auto simp: sorted_append)
  have y: "as_opened y = as_opened x \<or> as_opened y = as_opened x @ [defaultStreamUrl env (session_token (sessions ! ?k))]"
    unfolding tok using app_step_opened [OF network.hyps(2) mounted_fresh [OF app_mounted [OF network.hyps(1)]]] by simp
  have "\<exists>is. sorted is \<and> (\<forall>i\<in>set is. i < length sessions)
       \<and> as_opened y = defaultStreamUrl env None # map (\<lambda>i. defaultStreamUrl env (session_token (sessions ! i))) is"
    using y
  proof
    assume "as_opened y = as_opened x"
    then show ?thesis using "is" by (intro exI [of _ "is"]) simp
  next
    assume "as_opened y = as_opened x @ [defaultStreamUrl env (session_token (sessions ! ?k))]"
    then show ?thesis using more "is"(3) by (intro exI [of _ "is @ [?k]"]) simp
  qed
  then show ?case using network.IH app_step_auth [OF network.hyps(2)] by simp
qed simp

text \<open>A signed-in user whose session was there at the start: the first socket, and its successor.\<close>

lemma signed_in_anonymous:
  assumes "os_user (a :: oidc_session) = Some u"
  shows "\<exists>y. app_run h opts env [a] y \<and> state (as_stream y) = WsOpen \<and> socket (as_stream y) = Some 0
     \<and> accessToken (as_auth y) = Some (ou_access_token u) \<and> as_opened y = [defaultStreamUrl env None]"
proof -
  let ?p = "Providers opts env a"
  let ?y = "?p\<lparr>as_stream := on_open 0 (as_stream ?p)\<rparr>"
  have p: "as_stream ?p = connect (new_client opts)" "accessToken (as_auth ?p) = Some (ou_access_token u)"
      "as_opened ?p = [defaultStreamUrl env None]"
    using assms by (simp_all add: Providers_def connect_stream_parts session_token_def)
      (simp add: connect_stream_def open_stream_def new_client_def no_auth_def getAccessToken_def Let_def)
  have "app_step h env ?p ?y" by (rule app_step.opened) (simp add: p op_defs)
  with app_run.start have "app_run h opts env [a] ?y" by (rule app_run.network)
  then show ?thesis using p by (intro exI [of _ ?y]) (simp add: op_defs)
qed

lemma reconnect_carries_token:
  assumes "os_user (a :: oidc_session) = Some u"
  shows "\<exists>y. app_run h opts env [a] y \<and> socket (as_stream y) \<noteq> None
     \<and> as_opened y = [defaultStreamUrl env None, defaultStreamUrl env (Some (ou_access_token u))]"
proof -
  let ?p = "Providers opts env a"
  let ?y = "?p\<lparr>as_stream := on_close 0 (as_stream ?p)\<rparr>"
  have p: "as_stream ?p = connect (new_client opts)" "accessToken (as_auth ?p) = Some (ou_access_token u)"
      "as_opened ?p = [defaultStreamUrl env None]"
    using assms by (simp_all add: Providers_def connect_stream_parts session_token_def)
      (simp add: connect_stream_def open_stream_def new_client_def no_auth_def getAccessToken_def Let_def)
  have "app_step h env ?p ?y" by (rule app_step.closed [where p = SockConnecting]) (simp_all add: p op_defs)
  with app_run.start have run: "app_run h opts env [a] ?y" by (rule app_run.network)
  have "timers (as_stream ?y) 1 \<noteq> None" by (simp add: p op_defs)
  then obtain d where "timers (as_stream ?y) 1 = Some d" by blast
  then have "app_step h env ?y (timer_stream env 1 ?y)" by (rule app_step.timer)
  with run have "app_run h opts env [a] (timer_stream env 1 ?y)" by (rule app_run.network)
  moreover have "as_opened (timer_stream env 1 ?y) = [defaultStreamUrl env None, defaultStreamUrl env (Some (ou_access_token u))]"
    by (simp add: timer_stream_def open_stream_def p getAccessToken_def op_defs)
  moreover have "socket (as_stream (timer_stream env 1 ?y)) \<noteq> None"
    by (simp add: timer_stream_parts p op_defs)
  ultimately show ?thesis by blast
qed

lemma stream_address:
  assumes base: "base = (case dp_apiBase env of
       Some (c # cs) \<Rightarrow> (if take 4 (c # cs) = ''http'' then ''ws'' @ drop 4 (c # cs) else c # cs)
     | _ \<Rightarrow> (if dp_protocol env = ''https:'' then ''wss:'' else ''ws:'') @ ''//'' @ dp_host env) @ ''/api/stream''"
  shows "defaultStreamUrl env tok = (case tok of Some (c # cs) \<Rightarrow> base @ ''?access_token='' @ uri_component (c # cs) | _ \<Rightarrow> base)"
proof -
  have anon: "defaultStreamUrl env None = base"
    unfolding base by (auto simp: defaultStreamUrl_def Let_def truthy_text_def ws_base_def starts_with_take numeral_3_eq_3 split: option.splits list.splits)
  show ?thesis
    unfolding anon [symmetric] by (simp add: defaultStreamUrl_def Let_def truthy_text_def split: option.splits list.splits)
qed

text \<open>
  C39: the live socket and the session. The application's stream is the mounted stream client. An
  address is the configured base with \<open>ws\<close> for \<open>http\<close>, or the page's host, with the path of the stream,
  and for a non-empty token \<open>?access_token=\<close> and the encoded token. In any history the first socket is
  opened without a token, because that connect precedes the hand-over; every later one with the
  token of a session the application has seen, never one older than that of the socket before: a
  step that opens a socket uses the token of the latest session, so a reconnect picks up a renewed
  one, and no other step opens any. A change of the session opens and closes nothing. So with a user
  signed in from the start the stream can be open, the token held, and the socket anonymous, until
  a lost connection brings one with the token.
\<close>

theorem socket_token_per_connect:
  assumes "app_run h opts env sessions x"
  shows "let base = (case dp_apiBase env of
            Some (c # cs) \<Rightarrow> (if take 4 (c # cs) = ''http'' then ''ws'' @ drop 4 (c # cs) else c # cs)
          | _ \<Rightarrow> (if dp_protocol env = ''https:'' then ''wss:'' else ''ws:'') @ ''//'' @ dp_host env) @ ''/api/stream'';
       address = (\<lambda>s. case map_option ou_access_token (os_user s) of
            Some (c # cs) \<Rightarrow> base @ ''?access_token='' @ uri_component (c # cs) | _ \<Rightarrow> base)
     in mounted h opts (as_stream x)
     \<and> (\<exists>is. sorted is \<and> (\<forall>i\<in>set is. i < length sessions) \<and> as_opened x = base # map (\<lambda>i. address (sessions ! i)) is)
     \<and> (\<forall>y. app_step h env x y \<longrightarrow> as_opened y = as_opened x
          @ (if dom (sockets (as_stream y)) = dom (sockets (as_stream x)) then [] else [address (last sessions)]))
     \<and> as_stream (session_changes a x) = as_stream x \<and> as_opened (session_changes a x) = as_opened x
     \<and> (os_user a = Some u \<and> ou_access_token u \<noteq> [] \<longrightarrow>
          (\<exists>y. app_run h opts env [a] y \<and> state (as_stream y) = WsOpen \<and> socket (as_stream y) = Some 0
             \<and> accessToken (as_auth y) = Some (ou_access_token u) \<and> as_opened y = [base])
        \<and> (\<exists>y. app_run h opts env [a] y \<and> socket (as_stream y) \<noteq> None
             \<and> as_opened y = [base, base @ ''?access_token='' @ uri_component (ou_access_token u)]))"
proof -
  define base where "base = (case dp_apiBase env of
       Some (c # cs) \<Rightarrow> (if take 4 (c # cs) = ''http'' then ''ws'' @ drop 4 (c # cs) else c # cs)
     | _ \<Rightarrow> (if dp_protocol env = ''https:'' then ''wss:'' else ''ws:'') @ ''//'' @ dp_host env) @ ''/api/stream''"
  note url = stream_address [OF base_def]
  have tok: "(case map_option ou_access_token (os_user s) of
      Some (c # cs) \<Rightarrow> base @ ''?access_token='' @ uri_component (c # cs) | _ \<Rightarrow> base) = defaultStreamUrl env (session_token s)" for s
    by (simp add: url session_token_def)
  have anon: "base = defaultStreamUrl env None" by (simp add: url)
  have carried: "base @ ''?access_token='' @ uri_component (ou_access_token u) = defaultStreamUrl env (Some (ou_access_token u))"
    if "ou_access_token u \<noteq> []" using that by (simp add: url split: list.split)
  note hist = app_history [OF assms]
  have step: "as_opened y = as_opened x @ (if dom (sockets (as_stream y)) = dom (sockets (as_stream x)) then []
      else [defaultStreamUrl env (session_token (last sessions))])" if "app_step h env x y" for y
    using app_step_opened [OF that mounted_fresh [OF app_mounted [OF assms]]] hist by simp
  show ?thesis
    unfolding Let_def base_def [symmetric] tok
  proof (intro conjI allI impI)
    show "mounted h opts (as_stream x)" by (rule app_mounted) (rule assms)
    show "\<exists>is. sorted is \<and> (\<forall>i\<in>set is. i < length sessions)
        \<and> as_opened x = base # map (\<lambda>i. defaultStreamUrl env (session_token (sessions ! i))) is"
      using hist unfolding anon by blast
    assume u: "os_user a = Some u \<and> ou_access_token u \<noteq> []"
    show "\<exists>y. app_run h opts env [a] y \<and> state (as_stream y) = WsOpen \<and> socket (as_stream y) = Some 0
        \<and> accessToken (as_auth y) = Some (ou_access_token u) \<and> as_opened y = [base]"
      unfolding anon by (rule signed_in_anonymous) (use u in blast)
    show "\<exists>y. app_run h opts env [a] y \<and> socket (as_stream y) \<noteq> None
        \<and> as_opened y = [base, base @ ''?access_token='' @ uri_component (ou_access_token u)]"
      unfolding carried [OF conjunct2 [OF u]] unfolding anon by (rule reconnect_carries_token) (use u in blast)
  qed (simp_all add: step)
qed

definition example_user :: oidc_session where
  "example_user = \<lparr>os_isAuthenticated = True, os_isLoading = False,
     os_user = Some \<lparr>ou_access_token = ''t'', ou_preferred_username = None, ou_name = None, ou_returnTo = None\<rparr>, os_error = None\<rparr>"

theorem socket_token_per_connect_witness:
  "\<exists>y. app_run no_messages default_stream \<lparr>dp_apiBase = None, dp_protocol = ''https:'', dp_host = ''h''\<rparr> [example_user] y
     \<and> as_opened y = [''wss://h/api/stream'', ''wss://h/api/stream?access_token=t'']"
proof -
  let ?env = "\<lparr>dp_apiBase = None, dp_protocol = ''https:'', dp_host = ''h''\<rparr>"
  have "os_user example_user = Some \<lparr>ou_access_token = ''t'', ou_preferred_username = None, ou_name = None, ou_returnTo = None\<rparr>"
    by (simp add: example_user_def)
  moreover have "uri_component ''t'' = ''t''" by code_simp
  ultimately show ?thesis
    using socket_token_per_connect [OF app_run.start [of no_messages default_stream ?env example_user], of example_user
        "\<lparr>ou_access_token = ''t'', ou_preferred_username = None, ou_name = None, ou_returnTo = None\<rparr>"]
    by (auto simp: Let_def)
qed

end
