(* ===== verification/Contract_Check.thy ===== *)
theory Contract_Check
  imports View_Base
begin

text \<open>
  The contract harness \<open>scripts/validate-contracts.mjs\<close>: it registers the schemas of every contract,
  checks every example against the schema its name or the case list gives, lints the OpenAPI
  documents and sets the exit code. Paths are relative to the repository and written with \<open>/\<close>. The
  disk, the schema validator and the linter are the parameters \<open>env\<close>. A step that throws is \<open>None\<close>;
  nothing catches it, so the process ends with exit code 1.
\<close>

section \<open>Paths\<close>

definition path_segment :: "string list \<Rightarrow> string \<Rightarrow> string list" where
  "path_segment acc seg =
     (if seg = [] \<or> seg = ''.'' then acc
      else if seg = ''..'' \<and> acc \<noteq> [] \<and> last acc \<noteq> ''..'' then butlast acc
      else acc @ [seg])"

text \<open>\<open>path.join\<close>\<close>

definition join_path :: "string list \<Rightarrow> string" where
  "join_path parts = join_with ''/'' (foldl path_segment [] (concat (map (split_on CHR ''/'') parts)))"

definition basename :: "string \<Rightarrow> string" where
  "basename p = last (split_on CHR ''/'' p)"

definition ends_with :: "string \<Rightarrow> string \<Rightarrow> bool" where
  "ends_with s t = starts_with (rev s) (rev t)"

definition ID_BASE :: string where
  "ID_BASE = ''https://greenhouse.local/''"

definition idFor :: "string \<Rightarrow> string" where
  "idFor p = ID_BASE @ join_with ''/'' (concat (map (split_on CHR ''/'') (split_on CHR 0x5C p)))"

section \<open>The world\<close>

text \<open>A validator of the package: whether the data is valid, and its messages with their places.\<close>

type_synonym validator = "jsval \<Rightarrow> bool \<times> (string \<times> string) list"

type_synonym registry = "(string \<times> jsval) list"

text \<open>
  \<open>hw_json\<close> reads and parses a file, \<open>hw_readdir\<close> lists a directory in the order of the system.
  \<open>hw_schema\<close> is \<open>ajv.getSchema\<close> over what was registered, \<open>hw_adds\<close> whether \<open>ajv.addSchema\<close> accepts. The
  linter is the status of its process, if it ended by itself, and what it printed.
\<close>

record harness_world =
  hw_exists :: "string \<Rightarrow> bool"
  hw_readdir :: "string \<Rightarrow> string list option"
  hw_json :: "string \<Rightarrow> jsval option"
  hw_schema :: "registry \<Rightarrow> string \<Rightarrow> validator option option"
  hw_adds :: "registry \<Rightarrow> string \<Rightarrow> jsval \<Rightarrow> bool"
  hw_linter :: bool
  hw_lint :: "string list \<Rightarrow> nat option \<times> string"

definition listJson :: "harness_world \<Rightarrow> string \<Rightarrow> string list option" where
  "listJson env d =
     (if hw_exists env d
      then map_option (\<lambda>fs. map (\<lambda>f. join_path [d, f]) (filter (\<lambda>f. ends_with f ''.json'') fs)) (hw_readdir env d)
      else Some [])"

text \<open>An embedded \<open>$id\<close> that is no string is refused by the package.\<close>

definition schema_id :: "string \<Rightarrow> jsval \<Rightarrow> string option" where
  "schema_id p schema =
     (case schema of
        JObj ps \<Rightarrow> (case jprop schema ''$id'' of JStr s \<Rightarrow> Some s | JUndef \<Rightarrow> Some (idFor p) | JNull \<Rightarrow> Some (idFor p) | _ \<Rightarrow> None)
      | _ \<Rightarrow> None)"

definition with_id :: "string \<Rightarrow> jsval \<Rightarrow> jsval" where
  "with_id i schema = (case schema of JObj ps \<Rightarrow> JObj (AList.update ''$id'' (JStr i) ps) | v \<Rightarrow> v)"

definition registerSchema :: "harness_world \<Rightarrow> string \<Rightarrow> registry \<Rightarrow> registry option" where
  "registerSchema env p reg =
     Option.bind (hw_json env p) (\<lambda>schema.
     Option.bind (schema_id p schema) (\<lambda>i.
     Option.bind (hw_schema env reg i) (\<lambda>found.
       if found \<noteq> None then Some reg
       else if hw_adds env reg i (with_id i schema) then Some (reg @ [(i, with_id i schema)])
       else None)))"

fun register_all :: "harness_world \<Rightarrow> string list \<Rightarrow> registry \<Rightarrow> registry option" where
  "register_all env [] reg = Some reg"
| "register_all env (p # ps) reg = Option.bind (registerSchema env p reg) (register_all env ps)"

section \<open>Contracts and results\<close>

datatype contract_kind = JsonSchema | OpenApi

record contract =
  ct_dir :: string
  ct_kind :: contract_kind

definition CONTRACTS :: "contract list" where
  "CONTRACTS = map (\<lambda>(d, k). \<lparr>ct_dir = ''contracts/'' @ d, ct_kind = k\<rparr>)
     [(''controller-platform-telemetry-mqtt'', JsonSchema), (''platform-dashboard-live-ws'', JsonSchema),
      (''optimizer-internal-plan-schema'', JsonSchema), (''platform-controller-control-rest'', OpenApi),
      (''platform-dashboard-rest'', OpenApi), (''optimizer-platform-setpoints-rest'', OpenApi),
      (''platform-optimizer-planning-rest'', OpenApi)]"

record check_result =
  cr_contract :: string
  cr_name :: string
  cr_ok :: bool
  cr_detail :: string

definition result_of :: "string \<Rightarrow> string \<Rightarrow> bool \<Rightarrow> string \<Rightarrow> check_result" where
  "result_of c nm good why = \<lparr>cr_contract = c, cr_name = nm, cr_ok = good, cr_detail = why\<rparr>"

definition error_text :: "string \<times> string \<Rightarrow> string" where
  "error_text e = (if fst e = [] then ''/'' else fst e) @ '' '' @ snd e"

definition checkFixture :: "harness_world \<Rightarrow> registry \<Rightarrow> string \<Rightarrow> string \<Rightarrow> string \<Rightarrow> bool \<Rightarrow> string \<Rightarrow> check_result option" where
  "checkFixture env reg c fixture ref expectPass label =
     Option.bind (hw_schema env reg ref) (\<lambda>found.
       case found of
         None \<Rightarrow> Some (result_of c label False (''schema not found: '' @ ref))
       | Some validate \<Rightarrow>
           map_option (\<lambda>d.
             if fst (validate d) = expectPass
             then result_of c label True (if expectPass then ''valid'' else ''rejected as expected'')
             else if expectPass
             then result_of c label False (''expected valid but failed: '' @ join_with ''; '' (map error_text (snd (validate d))))
             else result_of c label False ''expected to fail but validated'') (hw_json env fixture))"

section \<open>JSON Schema contracts\<close>

definition is_bad :: "string \<Rightarrow> bool" where
  "is_bad f = has_text f ''.bad-''"

definition frame_ref :: "string \<Rightarrow> string \<Rightarrow> string" where
  "frame_ref d f = idFor (join_path [d, hd (split_on CHR ''.'' f) @ ''.schema.json''])"

definition union_path :: "string \<Rightarrow> string" where
  "union_path d = join_path [d, ''message.schema.json'']"

definition frame_checks :: "harness_world \<Rightarrow> registry \<Rightarrow> string \<Rightarrow> string \<Rightarrow> check_result list option" where
  "frame_checks env reg d fixture =
     (let f = basename fixture
      in Option.bind (checkFixture env reg d fixture (frame_ref d f) (\<not> is_bad f) f) (\<lambda>r.
           if \<not> is_bad f \<and> hw_exists env (union_path d)
           then map_option (\<lambda>u. [r, u]) (checkFixture env reg d fixture (idFor (union_path d)) True (f @ '' (union)''))
           else Some [r]))"

text \<open>\<open>Some (concat ...)\<close> where no step throws.\<close>

fun each :: "('a \<Rightarrow> 'b list option) \<Rightarrow> 'a list \<Rightarrow> 'b list option" where
  "each f [] = Some []"
| "each f (x # xs) = Option.bind (f x) (\<lambda>rs. map_option (\<lambda>rest. rs @ rest) (each f xs))"

definition runJsonSchemaContract :: "harness_world \<Rightarrow> contract \<Rightarrow> registry \<Rightarrow> (registry \<times> check_result list) option" where
  "runJsonSchemaContract env c reg =
     Option.bind (listJson env (ct_dir c)) (\<lambda>files.
     Option.bind (register_all env (filter (\<lambda>p. ends_with p ''.schema.json'') files) reg) (\<lambda>reg'.
     Option.bind (listJson env (join_path [ct_dir c, ''examples''])) (\<lambda>fixtures.
       map_option (Pair reg') (each (frame_checks env reg' (ct_dir c)) fixtures))))"

section \<open>OpenAPI contracts\<close>

text \<open>An entry of the case list: the fixture's path, the schema, and whether it should pass.\<close>

definition case_of :: "string \<Rightarrow> jsval \<Rightarrow> (string \<times> string \<times> bool) option" where
  "case_of d v =
     (case (jprop v ''schema'', jprop v ''fixture'') of
        (JStr s, JStr f) \<Rightarrow>
          (let parts = split_on CHR ''#'' s; pointer = (if length parts < 2 then ''undefined'' else parts ! 1)
           in Some (join_path [d, ''examples'', f],
                idFor (join_path [d, ''components'', ''schemas'', hd parts]) @ ''#'' @ pointer, jprop v ''expect'' = JStr ''pass''))
      | _ \<Rightarrow> None)"

definition case_check :: "harness_world \<Rightarrow> registry \<Rightarrow> string \<Rightarrow> jsval \<Rightarrow> check_result list option" where
  "case_check env reg d v =
     Option.bind (case_of d v) (\<lambda>(fixture, ref, expectPass).
       map_option (\<lambda>r. [r]) (checkFixture env reg d fixture ref expectPass (basename fixture)))"

definition cases_of :: "jsval \<Rightarrow> jsval list option" where
  "cases_of v = (case jprop v ''cases'' of JArr vs \<Rightarrow> Some vs | _ \<Rightarrow> None)"

text \<open>The colors of the output: an escape, a bracket, digits or semicolons, an \<open>m\<close>.\<close>

fun ansi_rest :: "string \<Rightarrow> string option" where
  "ansi_rest [] = None"
| "ansi_rest (c # cs) =
     (if c = CHR ''m'' then Some cs else if c = CHR '';'' \<or> char_in CHR ''0'' CHR ''9'' c then ansi_rest cs else None)"

lemma ansi_rest_shorter: "ansi_rest cs = Some rest \<Longrightarrow> length rest < length cs"
  by (induction cs rule: ansi_rest.induct) (auto split: if_splits)

function strip_ansi :: "string \<Rightarrow> string" where
  "strip_ansi [] = []"
| "strip_ansi (c # cs) =
     (case cs of
        b # ds \<Rightarrow>
          if c = CHR 0x1B \<and> b = CHR ''[''
          then (case ansi_rest ds of Some rest \<Rightarrow> strip_ansi rest | None \<Rightarrow> c # strip_ansi cs)
          else c # strip_ansi cs
      | [] \<Rightarrow> [c])"
  by pat_completeness auto
termination by (relation "measure length") (auto dest: ansi_rest_shorter)

text \<open>\<open>/Assertion failed:[^\n]*async\.c/i\<close>: on one line, the one after the other.\<close>

fun text_after :: "string \<Rightarrow> string \<Rightarrow> string \<Rightarrow> bool" where
  "text_after [] s t = (s = [] \<and> t = [])"
| "text_after (c # cs) s t = (starts_with (c # cs) s \<and> has_text (drop (length s) (c # cs)) t \<or> text_after cs s t)"

definition teardown_crash :: "string \<Rightarrow> bool" where
  "teardown_crash out = list_ex (\<lambda>l. text_after l ''assertion failed:'' ''async.c'') (split_on CHR 0x0A (to_lower out))"

definition last_lines :: "nat \<Rightarrow> string \<Rightarrow> string" where
  "last_lines n s = (let ls = split_on CHR 0x0A (trim s) in join_with [CHR 0x0A] (drop (length ls - n) ls))"

definition lint_passes :: "nat option \<times> string \<Rightarrow> bool" where
  "lint_passes res =
     (let out = strip_ansi (snd res)
      in fst res = Some 0 \<or> has_text (to_lower out) ''api description is valid'' \<and> teardown_crash out)"

definition lintOpenApi :: "harness_world \<Rightarrow> string \<Rightarrow> check_result" where
  "lintOpenApi env d =
     (if \<not> hw_linter env
      then result_of d ''redocly lint'' False (''@redocly/cli not installed '' @ em_dash @ '' run `npm install`'')
      else (let res = hw_lint env [join_path [d, ''redocly.yaml''], join_path [d, ''openapi.json'']];
                tail = last_lines 12 (strip_ansi (snd res))
            in if lint_passes res then result_of d ''redocly lint'' True ''openapi.json''
               else result_of d ''redocly lint'' False
                 (if tail \<noteq> [] then tail else ''exit '' @ (case fst res of Some n \<Rightarrow> nat_string n | None \<Rightarrow> ''null''))))"

definition cases_path :: "string \<Rightarrow> string" where
  "cases_path d = join_path [d, ''examples'', ''cases.json'']"

definition case_checks :: "harness_world \<Rightarrow> registry \<Rightarrow> string \<Rightarrow> check_result list option" where
  "case_checks env reg d =
     (if \<not> hw_exists env (cases_path d) then Some [result_of d ''cases.json'' False ''missing fixture manifest'']
      else Option.bind (Option.bind (hw_json env (cases_path d)) cases_of) (each (case_check env reg d)))"

definition runOpenApiContract :: "harness_world \<Rightarrow> contract \<Rightarrow> registry \<Rightarrow> (registry \<times> check_result list) option" where
  "runOpenApiContract env c reg =
     Option.bind (listJson env (join_path [ct_dir c, ''components'', ''schemas''])) (\<lambda>files.
     Option.bind (register_all env files reg) (\<lambda>reg'.
       map_option (\<lambda>rs. (reg', rs @ [lintOpenApi env (ct_dir c)])) (case_checks env reg' (ct_dir c))))"

section \<open>The run\<close>

definition run_contract :: "harness_world \<Rightarrow> contract \<Rightarrow> registry \<Rightarrow> (registry \<times> check_result list) option" where
  "run_contract env c reg = (if ct_kind c = JsonSchema then runJsonSchemaContract env c reg else runOpenApiContract env c reg)"

fun run_contracts :: "harness_world \<Rightarrow> contract list \<Rightarrow> registry \<Rightarrow> check_result list option" where
  "run_contracts env [] reg = Some []"
| "run_contracts env (c # cs) reg =
     Option.bind (run_contract env c reg) (\<lambda>(reg', rs). map_option (\<lambda>rest. rs @ rest) (run_contracts env cs reg'))"

text \<open>The report: a heading where the contract changes, one line per result, the tally.\<close>

definition result_line :: "check_result \<Rightarrow> string" where
  "result_line r =
     ''  '' @ (if cr_ok r then [CHR 0xE2, CHR 0x9C, CHR 0x93] else [CHR 0xE2, CHR 0x9C, CHR 0x97]) @ '' '' @ cr_name r
     @ (if cr_detail r \<noteq> [] then '' '' @ em_dash @ '' '' @ cr_detail r else [])"

fun result_lines :: "string \<Rightarrow> check_result list \<Rightarrow> string list" where
  "result_lines lastContract [] = []"
| "result_lines lastContract (r # rs) =
     (if cr_contract r \<noteq> lastContract then [CHR 0x0A # cr_contract r] else [])
     @ result_line r # result_lines (cr_contract r) rs"

definition failures :: "check_result list \<Rightarrow> check_result list" where
  "failures rs = filter (\<lambda>r. \<not> cr_ok r) rs"

definition report :: "check_result list \<Rightarrow> string list" where
  "report rs =
     result_lines [] rs
     @ (CHR 0x0A # nat_string (length rs - length (failures rs)) @ ''/'' @ nat_string (length rs) @ '' checks passed.'')
     # (if failures rs \<noteq> [] then [nat_string (length (failures rs)) @ '' check(s) failed.''] else [])"

definition exit_code :: "harness_world \<Rightarrow> nat" where
  "exit_code env = (case run_contracts env CONTRACTS [] of None \<Rightarrow> 1 | Some rs \<Rightarrow> if failures rs \<noteq> [] then 1 else 0)"

section \<open>What the harness promises\<close>

text \<open>The fixture parses, its schema is found, and the validator says what is expected.\<close>

definition fixture_holds :: "harness_world \<Rightarrow> registry \<Rightarrow> string \<Rightarrow> string \<Rightarrow> bool \<Rightarrow> bool" where
  "fixture_holds env reg fixture ref expectPass =
     (case (hw_schema env reg ref, hw_json env fixture) of
        (Some (Some v), Some d) \<Rightarrow> fst (v d) = expectPass
      | _ \<Rightarrow> False)"

definition frame_holds :: "harness_world \<Rightarrow> registry \<Rightarrow> string \<Rightarrow> string \<Rightarrow> bool" where
  "frame_holds env reg d p \<longleftrightarrow>
     fixture_holds env reg p (frame_ref d (basename p)) (\<not> is_bad (basename p))
     \<and> (\<not> is_bad (basename p) \<and> hw_exists env (union_path d) \<longrightarrow> fixture_holds env reg p (idFor (union_path d)) True)"

definition case_holds :: "harness_world \<Rightarrow> registry \<Rightarrow> string \<Rightarrow> jsval \<Rightarrow> bool" where
  "case_holds env reg d v = (case case_of d v of Some (f, ref, e) \<Rightarrow> fixture_holds env reg f ref e | None \<Rightarrow> False)"

definition example_files :: "harness_world \<Rightarrow> contract \<Rightarrow> string list" where
  "example_files env c = (case listJson env (join_path [ct_dir c, ''examples'']) of Some fs \<Rightarrow> fs | None \<Rightarrow> [])"

definition listed_cases :: "harness_world \<Rightarrow> contract \<Rightarrow> jsval list" where
  "listed_cases env c = (case Option.bind (hw_json env (cases_path (ct_dir c))) cases_of of Some vs \<Rightarrow> vs | None \<Rightarrow> [])"

definition lint_holds :: "harness_world \<Rightarrow> string \<Rightarrow> bool" where
  "lint_holds env d \<longleftrightarrow> hw_linter env \<and> lint_passes (hw_lint env [join_path [d, ''redocly.yaml''], join_path [d, ''openapi.json'']])"

fun contract_holds :: "harness_world \<Rightarrow> registry \<Rightarrow> contract \<Rightarrow> bool" where
  "contract_holds env reg c =
     (case ct_kind c of
        JsonSchema \<Rightarrow> (\<forall>p\<in>set (example_files env c). frame_holds env reg (ct_dir c) p)
      | OpenApi \<Rightarrow> hw_exists env (cases_path (ct_dir c)) \<and> (\<forall>v\<in>set (listed_cases env c). case_holds env reg (ct_dir c) v)
          \<and> lint_holds env (ct_dir c))"

text \<open>The schemas a contract is checked against: its own and those of the contracts before it.\<close>

definition contract_registry :: "harness_world \<Rightarrow> contract \<Rightarrow> registry \<Rightarrow> registry option" where
  "contract_registry env c reg =
     (case ct_kind c of
        JsonSchema \<Rightarrow> Option.bind (listJson env (ct_dir c)) (\<lambda>fs. register_all env (filter (\<lambda>p. ends_with p ''.schema.json'') fs) reg)
      | OpenApi \<Rightarrow> Option.bind (listJson env (join_path [ct_dir c, ''components'', ''schemas''])) (\<lambda>fs. register_all env fs reg))"

fun registered :: "harness_world \<Rightarrow> contract list \<Rightarrow> registry \<Rightarrow> (contract \<times> registry) list" where
  "registered env [] reg = []"
| "registered env (c # cs) reg =
     (case contract_registry env c reg of Some reg' \<Rightarrow> (c, reg') # registered env cs reg' | None \<Rightarrow> [])"

section \<open>Lemmas\<close>

lemma bind_Some_iff: "Option.bind m f = Some y \<longleftrightarrow> (\<exists>x. m = Some x \<and> f x = Some y)"
  by (cases m) auto

lemma result_of_ok [simp]: "cr_ok (result_of c nm good why) = good"
  by (simp add: result_of_def)

lemma checkFixture_ok:
  "checkFixture env reg c fixture ref e label = Some r \<Longrightarrow> cr_ok r = fixture_holds env reg fixture ref e"
  unfolding checkFixture_def fixture_holds_def
  by (cases "hw_schema env reg ref"; cases "the (hw_schema env reg ref)"; cases "hw_json env fixture")
    (auto split: if_splits)

lemma frame_checks_ok:
  "frame_checks env reg d p = Some rs \<Longrightarrow> (\<forall>r\<in>set rs. cr_ok r) = frame_holds env reg d p"
  by (auto simp: frame_checks_def frame_holds_def Let_def bind_Some_iff dest!: checkFixture_ok split: if_splits)

lemma case_check_ok:
  "case_check env reg d v = Some rs \<Longrightarrow> (\<forall>r\<in>set rs. cr_ok r) = case_holds env reg d v"
  by (auto simp: case_check_def case_holds_def bind_Some_iff dest!: checkFixture_ok)

lemma each_ok:
  assumes "\<And>x rs. f x = Some rs \<Longrightarrow> (\<forall>r\<in>set rs. cr_ok r) = Q x"
  shows "each f xs = Some rs \<Longrightarrow> (\<forall>r\<in>set rs. cr_ok r) = (\<forall>x\<in>set xs. Q x)"
proof (induction xs arbitrary: rs)
  case (Cons x xs)
  then obtain here rest where parts: "f x = Some here" "each f xs = Some rest" "rs = here @ rest"
    by (auto simp: bind_Some_iff)
  then show ?case using assms [OF parts(1)] Cons.IH [OF parts(2)] by auto
qed simp

lemma lint_ok: "cr_ok (lintOpenApi env d) = lint_holds env d"
  by (simp add: lintOpenApi_def lint_holds_def Let_def)

lemma case_checks_ok:
  assumes "case_checks env reg (ct_dir c) = Some rs"
  shows "(\<forall>r\<in>set rs. cr_ok r) =
    (hw_exists env (cases_path (ct_dir c)) \<and> (\<forall>v\<in>set (listed_cases env c). case_holds env reg (ct_dir c) v))"
proof (cases "hw_exists env (cases_path (ct_dir c))")
  case True
  then obtain vs where vs: "Option.bind (hw_json env (cases_path (ct_dir c))) cases_of = Some vs"
      "each (case_check env reg (ct_dir c)) vs = Some rs"
    using assms unfolding case_checks_def by (metis (no_types) bind_Some_iff)
  show ?thesis using True each_ok [OF case_check_ok vs(2)] by (simp add: listed_cases_def vs(1))
next
  case False
  then show ?thesis using assms by (auto simp: case_checks_def)
qed

lemma run_contract_ok:
  assumes "run_contract env c reg = Some (reg', rs)"
  shows "contract_registry env c reg = Some reg' \<and> (\<forall>r\<in>set rs. cr_ok r) = contract_holds env reg' c"
proof (cases "ct_kind c")
  case JsonSchema
  then obtain files fixtures where parts: "listJson env (ct_dir c) = Some files"
      "register_all env (filter (\<lambda>p. ends_with p ''.schema.json'') files) reg = Some reg'"
      "listJson env (join_path [ct_dir c, ''examples'']) = Some fixtures"
      "each (frame_checks env reg' (ct_dir c)) fixtures = Some rs"
    using assms by (auto simp: run_contract_def runJsonSchemaContract_def bind_Some_iff)
  show ?thesis using JsonSchema parts each_ok [OF frame_checks_ok parts(4)]
    by (simp add: contract_registry_def example_files_def)
next
  case OpenApi
  then obtain files cs where parts: "listJson env (join_path [ct_dir c, ''components'', ''schemas'']) = Some files"
      "register_all env files reg = Some reg'" "case_checks env reg' (ct_dir c) = Some cs" "rs = cs @ [lintOpenApi env (ct_dir c)]"
    using assms by (auto simp: run_contract_def runOpenApiContract_def bind_Some_iff)
  show ?thesis using OpenApi parts(1,2,4) case_checks_ok [OF parts(3)] lint_ok by (auto simp: contract_registry_def)
qed

lemma run_contracts_ok:
  "run_contracts env cs reg = Some rs \<Longrightarrow>
   map fst (registered env cs reg) = cs \<and> (\<forall>r\<in>set rs. cr_ok r) = (\<forall>(c, reg')\<in>set (registered env cs reg). contract_holds env reg' c)"
proof (induction cs arbitrary: reg rs)
  case (Cons c cs)
  then obtain reg' here rest where parts: "run_contract env c reg = Some (reg', here)" "run_contracts env cs reg' = Some rest" "rs = here @ rest"
    by (auto simp: bind_Some_iff)
  show ?case using run_contract_ok [OF parts(1)] Cons.IH [OF parts(2)] unfolding parts(3)
    by (simp add: ball_Un del: contract_holds.simps)
qed simp

text \<open>
  C40: the gate. When no step of the harness throws, it checks all seven contracts and exits with 0
  exactly when each holds: every example of a JSON Schema contract is accepted by the schema of its
  name, and by the union where there is one, or rejected if it is named bad; every listed case of
  an OpenAPI contract goes as expected and the document passes the linter. A step that throws makes
  it exit with 1. But nothing asks for examples: a JSON Schema contract without them holds, and an
  OpenAPI example that no case lists is not looked at, whatever the validators say of it.
\<close>

theorem contract_gate:
  "(run_contracts env CONTRACTS [] = None \<longrightarrow> exit_code env = 1)
   \<and> (run_contracts env CONTRACTS [] \<noteq> None \<longrightarrow>
        map fst (registered env CONTRACTS []) = CONTRACTS
        \<and> (exit_code env = 0 \<longleftrightarrow> (\<forall>(c, reg)\<in>set (registered env CONTRACTS []). contract_holds env reg c)))
   \<and> (ct_kind c = JsonSchema \<longrightarrow> \<not> hw_exists env (join_path [ct_dir c, ''examples'']) \<longrightarrow> contract_holds env reg c)
   \<and> (ct_kind c = OpenApi \<longrightarrow> listed_cases env c = [] \<longrightarrow> hw_exists env (cases_path (ct_dir c)) \<longrightarrow> lint_holds env (ct_dir c)
        \<longrightarrow> contract_holds env reg c)"
proof (intro conjI impI)
  show "exit_code env = 1" if "run_contracts env CONTRACTS [] = None" using that by (simp add: exit_code_def)
  show "map fst (registered env CONTRACTS []) = CONTRACTS" if "run_contracts env CONTRACTS [] \<noteq> None"
    using that run_contracts_ok by blast
  show "exit_code env = 0 \<longleftrightarrow> (\<forall>(c, reg)\<in>set (registered env CONTRACTS []). contract_holds env reg c)"
    if "run_contracts env CONTRACTS [] \<noteq> None"
  proof -
    have "run_contracts env CONTRACTS [] \<noteq> None" by (fact that)
    then obtain rs where rs: "run_contracts env CONTRACTS [] = Some rs" by auto
    have "exit_code env = 0 \<longleftrightarrow> (\<forall>r\<in>set rs. cr_ok r)" by (simp add: exit_code_def rs failures_def filter_empty_conv)
    then show ?thesis using run_contracts_ok [OF rs] by simp
  qed
qed (simp_all add: example_files_def listJson_def)

text \<open>A repository with one JSON Schema contract on disk and a linter that accepts everything.\<close>

definition example_world :: "bool \<Rightarrow> harness_world" where
  "example_world accepts =
     \<lparr>hw_exists = (\<lambda>p. p \<in> {''contracts/platform-dashboard-live-ws'', ''contracts/platform-dashboard-live-ws/examples''} \<or> basename p = ''cases.json''),
      hw_readdir = (\<lambda>p. Some (if basename p = ''examples'' then [''drift.json''] else [''drift.schema.json''])),
      hw_json = (\<lambda>p. Some (if basename p = ''cases.json'' then JObj [(''cases'', JArr [])] else JObj [])),
      hw_schema = (\<lambda>reg i. Some (map_option (\<lambda>_ _. (accepts, [])) (map_of reg i))),
      hw_adds = (\<lambda>_ _ _. True), hw_linter = True, hw_lint = (\<lambda>_. (Some 0, []))\<rparr>"

lemma example_runs:
  "run_contracts (example_world accepts) CONTRACTS [] \<noteq> None" "exit_code (example_world True) = 0" "exit_code (example_world False) = 1"
  by code_simp+

theorem contract_gate_witness:
  "list_all (\<lambda>(c, reg). contract_holds (example_world True) reg c) (registered (example_world True) CONTRACTS [])
   \<and> \<not> (\<forall>(c, reg)\<in>set (registered (example_world False) CONTRACTS []). contract_holds (example_world False) reg c)"
  using contract_gate [of "example_world True"] contract_gate [of "example_world False"] example_runs by (simp add: list_all_iff)

end
