(* ===== verification/Spec2Isabelle.thy ===== *)
theory Spec2Isabelle
  imports Stream_Provider Derivations Optimizer_Console Query_Mutations Setpoint_Form
    Session Profile_Library Detail_View Optimizer_View Fleet_View Shell Dialog_Focus App_Stream Contract_Check
begin

text \<open>
  A verification of the logic of the greenhouse operator's front end, the TypeScript program
  under \<open>climate-frontend/src\<close>. It shows a fleet of greenhouses live, keeps what it fetched in a
  query cache, patches that cache from one WebSocket stream, and relays edits to the platform.

  \<^bold>\<open>Foundations.\<close> \<open>Prelude\<close> holds the result type, the shared lemmas and the simplifier
  collections. \<open>Js_Number\<close> is the binary64 arithmetic of the program: a finite double is the
  rational it denotes and every operation rounds its exact result to nearest, ties to even.
  \<open>Js_Value\<close> and \<open>Js_Library\<close> are the dynamic values and the library functions the code calls
  (stable sort, insertion-ordered maps, string functions, UTC getters).

  \<^bold>\<open>The wire\<close> (\<open>api/schemas.ts\<close>). \<open>Zod\<close> is the language of schemas with what it means to conform;
  the package itself is the parameter \<open>safe_parse\<close> with the laws of the locale \<open>zod_package\<close>,
  interpreted by a reference parser. \<open>Wire_Schemas\<close> transcribes every schema, \<open>Wire_Types\<close> the wire
  and view types, \<open>Adapters\<close>, \<open>Profile_Codec\<close> and \<open>Optimizer_Wire\<close> the functions between them,
  \<open>Rest_Readers\<close> reads a conforming value as its type and \<open>Rest_Bodies\<close> writes the request bodies.
  The lemmas show that a conforming value is always readable and that what is written is read
  back unchanged.

  \<^bold>\<open>The stream\<close> (\<open>api/ws.ts\<close>, \<open>app/StreamProvider.tsx\<close>, \<open>hooks/useLiveSeries.ts\<close>). \<open>Frames\<close> reads the
  frames. \<open>Stream_Client\<close> is the class: its fields, the sockets and timers of the browser, one
  definition per method and callback, and the browser as a step relation. A mounted client has
  one connection or one pending reconnect at any time, is never stuck and stays closed once
  closed; only validated frames are delivered. \<open>Stream_Provider\<close> routes the messages into the
  cache, the telemetry buffers (\<open>Live_Series\<close>), the toasts (\<open>Toasts\<close>) and the drift tally.

  \<^bold>\<open>Cached data.\<close> \<open>Query_Cache\<close> states the query client as the locale \<open>query_cache\<close>, interpreted by
  a reference client; it also has the query keys (\<open>api/queries/keys.ts\<close>) and which type each key
  owns. \<open>Live_Patch\<close> (\<open>lib/livePatch.ts\<close>) applies frames to it: each frame changes exactly what it
  speaks of, and every cached value keeps the type of its key. \<open>Derivations\<close>
  (\<open>lib/derivations.ts\<close>) has the view-model functions over the cached data.

  \<^bold>\<open>Requests\<close> (\<open>api/client.ts\<close>, \<open>api/retryPolicy.ts\<close>, \<open>api/queries\<close>). \<open>Api_Client\<close> sends a request over
  the parameter \<open>fetch\<close> and classifies every outcome. \<open>Query_Hooks\<close> has every query with its key,
  path, schema, reader and polling; \<open>Query_Mutations\<close> every mutation with its body and its cache
  effects. They show that every answer is typed by its key, that one key means one request, and
  that a mutation touches exactly the queries it names.

  \<^bold>\<open>Operators\<close>. \<open>Profile_Form\<close> (\<open>features/profiles/ProfileEditForm.tsx\<close>) and \<open>Setpoint_Form\<close>
  (\<open>features/greenhouse/SetpointEditForm.tsx\<close>) are the two edit forms as state machines over the
  events of their inputs, buttons and mutations: what they send was checked and reviewed, the
  form schema is the wire contract, and a failure is reported once. \<open>Optimizer_Console\<close>
  (\<open>features/optimizer\<close>) has the triage, the pipeline tracker and the labels of the optimizer.

  \<^bold>\<open>Charts\<close> (\<open>lib/stackedChart.ts\<close>, \<open>lib/chartScale.ts\<close>, \<open>components/ui/TimeSeriesChart.tsx\<close>,
  \<open>StackedTimeSeriesChart.tsx\<close>). \<open>Chart_Scale\<close> has the bands and the search for a tick step, which
  ends for the values of a greenhouse and need not for numbers beyond the integers of a double;
  \<open>Time_Charts\<close> the rows and options of the plots, their readouts, and the life of a plot as a state
  machine over renders, resizes and unmounts: one plot is alive, and it shows the last render.

  \<^bold>\<open>The session\<close> (\<open>features/auth\<close>, \<open>hooks/useRole.ts\<close>). \<open>Session\<close> decodes the access token down to its
  bytes and derives the role; \<open>App_Stream\<close> composes it with the stream client in the order the
  effects of \<open>app/providers.tsx\<close> run, as a step relation that refines the mounted client.

  \<^bold>\<open>Views.\<close> A view is modelled by what it shows, a record, and by what its controls do, a state
  machine. \<open>View_Base\<close> and \<open>Ui_Parts\<close> have what the views share, \<open>Profile_Library\<close> the profile
  library and the assignment panel, \<open>Detail_View\<close> the greenhouse page with its persistent range and
  its joins of stored and live data, \<open>Optimizer_View\<close> the console and its gated actions,
  \<open>Fleet_View\<close> the overview, the registration dialog and the activity feed, \<open>Shell\<close> the theme, the top
  bar and the error boundary, \<open>Dialog_Focus\<close> the focus trap. The lemmas show that what is listed is
  what was fetched, that what is sent was allowed and checked, and where the code falls short of
  that. \<open>Machines\<close> states the contracts these event-driven components share, as locales each of them
  interprets: what every handler keeps, and which event caused what was sent.

  \<^bold>\<open>Contracts.\<close> \<open>Contract_Check\<close> is the harness \<open>scripts/validate-contracts.mjs\<close>, with the disk, the
  schema validator and the linter as parameters; its exit code is shown to say that every contract
  holds for its examples.

  \<^bold>\<open>Parameters and bounds.\<close> Code outside the repository is an argument with named laws: the
  schema package, the query client, \<open>fetch\<close>, the parser of dates (\<open>dp\<close>), of JSON text (\<open>jp\<close>) and of
  addresses (\<open>is_url\<close>), the decimal functions of a chart (\<open>decimal_math\<close>), the conversions \<open>String(n)\<close>
  (\<open>ns\<close>) and \<open>Number(x)\<close> (\<open>number\<close>), the colors of the style sheet (\<open>css\<close>), the collation of names
  (\<open>lc\<close>) and the texts of dates and times where only their value is passed on; the router's matches
  and the browser's own focus navigation likewise. Histories are arbitrary lists of events or
  reachable states of a step relation, so no bound is put on their length. Loops are recursions
  over their data and always end, but for the search of a tick step: it returns an option, and a
  theorem says when it returns. Time enters as events (a timer fires, a response arrives), never
  as a clock.

  \<^bold>\<open>Not modelled.\<close> Markup and styling, with the components that are nothing else; the router, the
  canvas and the plotting package; react-hook-form and React itself, whose rendering and effects
  appear as the order of events; the OIDC package behind sign-in. The controller (Rust), the
  platform (Go) and the optimizer (Python) are other programs: the front end meets them only
  through the wire contract.
\<close>

end
